(* ===== verification/Prelude.thy ===== *)
theory Prelude
  imports Main "HOL-Library.Word" "HOL-Library.State_Monad"
begin

section \<open>Shared types, arithmetic, tables and the effect monad\<close>

text \<open>
  What every component of the development uses: identifiers and instants, Go's 64-bit
  integer arithmetic, sums over tables (SQL \<open>SUM\<close>/\<open>COUNT\<close>), rows addressed by a key,
  and the rules for invariants of stateful programs written in the state monad.
\<close>

named_theorems keeps_intros \<open>introduction rules for programs that keep an invariant\<close>
named_theorems table_simps \<open>effect of table statements on lookups and sums\<close>

subsection \<open>Identifiers, instants, machine integers\<close>

text \<open>
  A \<open>uuid.UUID\<close> is an array of 16 bytes. An instant (\<open>time.Time\<close>, \<open>TIMESTAMPTZ\<close>) is
  a number of nanoseconds; a \<open>time.Duration\<close> is a signed 64-bit number of nanoseconds.
  Go's \<open>int\<close> is 64 bits wide: values are integers and every arithmetic operation of the
  source that could leave the range is wrapped by \<open>wrap64\<close>.
\<close>

type_synonym uuid = "128 word"
type_synonym instant = int
type_synonym byte = "8 word"

definition wrap64 :: "int \<Rightarrow> int" where
  "wrap64 x = (x + 2 ^ 63) mod 2 ^ 64 - 2 ^ 63"

definition int64 :: "int \<Rightarrow> bool" where
  "int64 x \<longleftrightarrow> - (2 ^ 63) \<le> x \<and> x < 2 ^ 63"

definition int32 :: "int \<Rightarrow> bool" where
  "int32 x \<longleftrightarrow> - (2 ^ 31) \<le> x \<and> x < 2 ^ 31"

definition time_Hour :: int where "time_Hour = 3600 * 1000000000"
definition time_Minute :: int where "time_Minute = 60 * 1000000000"

lemma wrap64_id: "int64 x \<Longrightarrow> wrap64 x = x"
  by (simp add: wrap64_def int64_def)

lemma wrap64_range: "int64 (wrap64 x)"
proof -
  have "0 \<le> (x + 2 ^ 63) mod 2 ^ 64" "(x + 2 ^ 63) mod 2 ^ 64 < 2 ^ 64"
    by simp_all
  then show ?thesis by (simp add: wrap64_def int64_def)
qed

lemma int64_bounded: "0 \<le> x \<Longrightarrow> x < 2 ^ 63 \<Longrightarrow> int64 x"
  by (simp add: int64_def)

lemma wrap64_nonneg: "0 \<le> x \<Longrightarrow> x < 2 ^ 63 \<Longrightarrow> wrap64 x = x"
  by (simp add: int64_bounded wrap64_id)

subsection \<open>Aggregates over tables\<close>

text \<open>\<open>SELECT COALESCE(SUM(f), 0) FROM rows WHERE c\<close>.\<close>

definition sum_where :: "('r \<Rightarrow> bool) \<Rightarrow> ('r \<Rightarrow> int) \<Rightarrow> 'r list \<Rightarrow> int" where
  "sum_where c f rs = sum_list (map f (filter c rs))"

lemma sum_where_Nil [simp]: "sum_where c f [] = 0"
  by (simp add: sum_where_def)

lemma sum_where_Cons [simp]: "sum_where c f (r # rs) = (if c r then f r else 0) + sum_where c f rs"
  by (simp add: sum_where_def)

lemma sum_where_append [simp]: "sum_where c f (xs @ ys) = sum_where c f xs + sum_where c f ys"
  by (simp add: sum_where_def)

lemma sum_where_nonneg: "(\<And>r. r \<in> set rs \<Longrightarrow> c r \<Longrightarrow> 0 \<le> f r) \<Longrightarrow> 0 \<le> sum_where c f rs"
  by (induction rs) auto

lemma sum_where_cong:
  "(\<And>r. r \<in> set rs \<Longrightarrow> c r = c' r) \<Longrightarrow> (\<And>r. r \<in> set rs \<Longrightarrow> c r \<Longrightarrow> f r = f' r)
    \<Longrightarrow> sum_where c f rs = sum_where c' f' rs"
  by (induction rs) auto

lemma sum_where_map: "sum_where c f (map g rs) = sum_where (\<lambda>r. c (g r)) (\<lambda>r. f (g r)) rs"
  by (induction rs) auto

lemma sum_where_none: "(\<And>r. r \<in> set rs \<Longrightarrow> \<not> c r) \<Longrightarrow> sum_where c f rs = 0"
  by (induction rs) auto

lemma sum_where_filter: "sum_where c f (filter d rs) = sum_where (\<lambda>r. c r \<and> d r) f rs"
  by (induction rs) auto

lemma sum_where_mono_cond:
  "(\<And>r. r \<in> set rs \<Longrightarrow> c r \<Longrightarrow> c' r) \<Longrightarrow> (\<And>r. r \<in> set rs \<Longrightarrow> c' r \<Longrightarrow> 0 \<le> f r)
    \<Longrightarrow> sum_where c f rs \<le> sum_where c' f rs"
  by (induction rs) (auto intro: add_increasing)

lemma sum_where_member:
  "r \<in> set rs \<Longrightarrow> c r \<Longrightarrow> (\<And>x. x \<in> set rs \<Longrightarrow> c x \<Longrightarrow> 0 \<le> f x) \<Longrightarrow> f r \<le> sum_where c f rs"
  by (induction rs) (auto intro: add_increasing add_increasing2 sum_where_nonneg)

subsection \<open>Rows addressed by a key\<close>

text \<open>
  A table is the list of its rows in insertion order. \<open>row_at\<close> is \<open>SELECT .. WHERE key
  = k\<close>, \<open>upd\<close> is \<open>UPDATE .. SET f WHERE c\<close>.
\<close>

definition row_at :: "('r \<Rightarrow> 'k) \<Rightarrow> 'r list \<Rightarrow> 'k \<Rightarrow> 'r option" where
  "row_at key rs k = find (\<lambda>r. key r = k) rs"

definition upd :: "('r \<Rightarrow> bool) \<Rightarrow> ('r \<Rightarrow> 'r) \<Rightarrow> 'r list \<Rightarrow> 'r list" where
  "upd c f rs = map (\<lambda>r. if c r then f r else r) rs"

definition keyed :: "('r \<Rightarrow> 'k) \<Rightarrow> 'r list \<Rightarrow> bool" where
  "keyed key rs \<longleftrightarrow> distinct (map key rs)"

lemma row_at_Nil [simp]: "row_at key [] k = None"
  by (simp add: row_at_def)

lemma row_at_Cons [simp]:
  "row_at key (r # rs) k = (if key r = k then Some r else row_at key rs k)"
  by (simp add: row_at_def)

lemma row_at_Some: "row_at key rs k = Some r \<Longrightarrow> r \<in> set rs \<and> key r = k"
  by (induction rs) (auto split: if_splits)

lemma row_at_mem: "keyed key rs \<Longrightarrow> r \<in> set rs \<Longrightarrow> row_at key rs (key r) = Some r"
  by (induction rs) (force simp: keyed_def)+

lemma row_at_None: "row_at key rs k = None \<longleftrightarrow> (\<forall>r \<in> set rs. key r \<noteq> k)"
  by (induction rs) auto

lemma row_at_append:
  "row_at key (xs @ ys) k = (case row_at key xs k of None \<Rightarrow> row_at key ys k | Some r \<Rightarrow> Some r)"
  by (induction xs) auto

lemma keyed_unique: "keyed key rs \<Longrightarrow> r \<in> set rs \<Longrightarrow> s \<in> set rs \<Longrightarrow> key r = key s \<Longrightarrow> r = s"
  by (metis option.inject row_at_mem)

lemma keyed_append:
  "keyed key (xs @ [r]) \<longleftrightarrow> keyed key xs \<and> (\<forall>x \<in> set xs. key x \<noteq> key r)"
  by (auto simp: keyed_def) (metis imageI)

lemma keyed_filter: "keyed key rs \<Longrightarrow> keyed key (filter c rs)"
  by (simp add: keyed_def distinct_map_filter)

lemma set_upd: "set (upd c f rs) = (\<lambda>r. if c r then f r else r) ` set rs"
  by (auto simp: upd_def)

lemma upd_Nil [simp]: "upd c f [] = []"
  by (simp add: upd_def)

lemma upd_Cons [simp]: "upd c f (r # rs) = (if c r then f r else r) # upd c f rs"
  by (simp add: upd_def)

lemma upd_mem: "r \<in> set (upd c f rs) \<Longrightarrow> \<exists>r0 \<in> set rs. r = (if c r0 then f r0 else r0)"
  by (auto simp: set_upd)

lemma map_upd: "(\<And>r. g (f r) = g r) \<Longrightarrow> map g (upd c f rs) = map g rs"
  by (simp add: upd_def)

lemma keyed_upd: "(\<And>r. key (f r) = key r) \<Longrightarrow> keyed key (upd c f rs) = keyed key rs"
  by (simp add: keyed_def map_upd)

lemma row_at_upd:
  "(\<And>r. key (f r) = key r)
    \<Longrightarrow> row_at key (upd c f rs) k = map_option (\<lambda>r. if c r then f r else r) (row_at key rs k)"
  by (induction rs) auto

lemma upd_none: "(\<And>r. r \<in> set rs \<Longrightarrow> \<not> c r) \<Longrightarrow> upd c f rs = rs"
  by (induction rs) auto

lemma list_ex_upd: "(\<And>r. q (f r) = q r) \<Longrightarrow> list_ex q (upd c f rs) = list_ex q rs"
  by (induction rs) auto

lemma sum_where_upd: "sum_where d g (upd c f rs) = sum_where (\<lambda>r. d (if c r then f r else r)) (\<lambda>r. g (if c r then f r else r)) rs"
  by (simp add: upd_def sum_where_map)

lemma sum_where_upd_same:
  "(\<And>r. r \<in> set rs \<Longrightarrow> c r \<Longrightarrow> d (f r) = d r) \<Longrightarrow> (\<And>r. r \<in> set rs \<Longrightarrow> c r \<Longrightarrow> d r \<Longrightarrow> g (f r) = g r)
    \<Longrightarrow> sum_where d g (upd c f rs) = sum_where d g rs"
  by (induction rs) auto

text \<open>Updating the one row with key \<open>k\<close> changes a sum by that row's difference.\<close>

lemma sum_where_upd_key:
  assumes "keyed key rs" and "r \<in> set rs" and "key r = k"
  shows "sum_where d g (upd (\<lambda>x. key x = k) f rs)
    = sum_where d g rs - (if d r then g r else 0) + (if d (f r) then g (f r) else 0)"
  using assms
proof (induction rs)
  case Nil
  then show ?case by simp
next
  case (Cons x xs)
  show ?case
  proof (cases "x = r")
    case True
    with Cons.prems have "upd (\<lambda>x. key x = k) f xs = xs"
      by (intro upd_none) (metis keyed_def distinct.simps(2) image_eqI list.simps(9) set_map)
    with True Cons.prems show ?thesis by simp
  next
    case False
    with Cons.prems have "r \<in> set xs" "key x \<noteq> k" "keyed key xs"
      by (auto simp: keyed_def image_iff)
    with Cons.IH Cons.prems show ?thesis by simp
  qed
qed

subsection \<open>Programs that keep an invariant\<close>

text \<open>
  A program with effects is a \<open>('w, 'a) state\<close>. \<open>keeps I m\<close>: every run of \<open>m\<close> from a
  world with \<open>I\<close> ends in one with \<open>I\<close>. \<open>ends P m Q\<close> is the Hoare triple with the result.
\<close>

definition keeps :: "('w \<Rightarrow> bool) \<Rightarrow> ('w, 'a) state \<Rightarrow> bool" where
  "keeps I m \<longleftrightarrow> (\<forall>w. I w \<longrightarrow> I (snd (run_state m w)))"

definition ends :: "('w \<Rightarrow> bool) \<Rightarrow> ('w, 'a) state \<Rightarrow> ('a \<Rightarrow> 'w \<Rightarrow> bool) \<Rightarrow> bool" where
  "ends P m Q \<longleftrightarrow> (\<forall>w. P w \<longrightarrow> (case run_state m w of (a, w') \<Rightarrow> Q a w'))"

lemma keepsD: "keeps I m \<Longrightarrow> I w \<Longrightarrow> run_state m w = (a, w') \<Longrightarrow> I w'"
  by (metis keeps_def snd_conv)

lemma keepsI: "(\<And>w a w'. I w \<Longrightarrow> run_state m w = (a, w') \<Longrightarrow> I w') \<Longrightarrow> keeps I m"
  by (simp add: keeps_def) (metis prod.collapse)

lemma keeps_ends: "keeps I m \<longleftrightarrow> ends I m (\<lambda>_. I)"
  by (simp add: keeps_def ends_def case_prod_beta)

lemma endsI: "(\<And>w a w'. P w \<Longrightarrow> run_state m w = (a, w') \<Longrightarrow> Q a w') \<Longrightarrow> ends P m Q"
  by (simp add: ends_def case_prod_beta)

lemma endsD: "ends P m Q \<Longrightarrow> P w \<Longrightarrow> run_state m w = (a, w') \<Longrightarrow> Q a w'"
  by (force simp: ends_def)

lemma keeps_return [keeps_intros]: "keeps I (State_Monad.return x)"
  by (simp add: keeps_def)

lemma keeps_bind [keeps_intros]:
  "keeps I m \<Longrightarrow> (\<And>x. keeps I (f x)) \<Longrightarrow> keeps I (State_Monad.bind m f)"
  by (simp add: keeps_def case_prod_beta)

lemma keeps_get [keeps_intros]: "keeps I State_Monad.get"
  by (simp add: keeps_def)

lemma keeps_if [keeps_intros]: "(b \<Longrightarrow> keeps I m) \<Longrightarrow> (\<not> b \<Longrightarrow> keeps I n) \<Longrightarrow> keeps I (if b then m else n)"
  by simp

lemma keeps_case_sum [keeps_intros]:
  "(\<And>e. s = Inl e \<Longrightarrow> keeps I (f e)) \<Longrightarrow> (\<And>x. s = Inr x \<Longrightarrow> keeps I (g x))
    \<Longrightarrow> keeps I (case s of Inl e \<Rightarrow> f e | Inr x \<Rightarrow> g x)"
  by (cases s) auto

lemma keeps_case_option [keeps_intros]:
  "(s = None \<Longrightarrow> keeps I m) \<Longrightarrow> (\<And>x. s = Some x \<Longrightarrow> keeps I (f x))
    \<Longrightarrow> keeps I (case s of None \<Rightarrow> m | Some x \<Rightarrow> f x)"
  by (cases s) auto

lemma keeps_case_prod [keeps_intros]:
  "(\<And>a b. p = (a, b) \<Longrightarrow> keeps I (f a b)) \<Longrightarrow> keeps I (case p of (a, b) \<Rightarrow> f a b)"
  by (cases p) auto

lemma keeps_Let [keeps_intros]: "keeps I (f x) \<Longrightarrow> keeps I (Let x f)"
  by simp

lemma ends_return: "(\<And>w. P w \<Longrightarrow> Q x w) \<Longrightarrow> ends P (State_Monad.return x) Q"
  by (simp add: ends_def)

lemma ends_bind: "ends P m R \<Longrightarrow> (\<And>x. ends (R x) (f x) Q) \<Longrightarrow> ends P (State_Monad.bind m f) Q"
  unfolding ends_def by (auto simp: case_prod_beta)

lemma ends_weaken: "ends P m Q \<Longrightarrow> (\<And>w. P' w \<Longrightarrow> P w) \<Longrightarrow> (\<And>a w. Q a w \<Longrightarrow> Q' a w) \<Longrightarrow> ends P' m Q'"
  unfolding ends_def by (auto simp: case_prod_beta)

end
