(* ===== verification/Schema.thy ===== *)
theory Schema
  imports Prelude
begin

section \<open>The data model and the effects of a request\<close>

text \<open>
  The Go structs of \<^verbatim>\<open>internal/store\<close> as records, the tables of the migrations as lists
  of these records, and the world a request runs in: the database, the two clocks, the
  supply of random values, the task queue, the mailbox, and the outcomes of the external
  calls still to come (\<open>faults\<close>). SQL statements are functions on the world that enforce
  the schema's constraints; \<open>exec\<close> runs one and may fail; \<open>in_tx\<close> is a transaction.
\<close>

subsection \<open>Errors\<close>

text \<open>What PostgreSQL and pgx report, and the sentinel errors of \<^verbatim>\<open>internal/store/store.go\<close>.\<close>

datatype pg_error = NoRows | UniqueViolation | CheckViolation | ForeignKeyViolation | OutOfRange | ConnFailed

datatype store_error =
    ErrConflict
  | ErrNotFound
  | ErrWrongEvent
  | ErrEventStarted
  | ErrTicketCancelled
  | ErrAlreadyCancelled
  | ErrAlreadyCheckedIn
  | ErrEventNotPublished
  | ErrInsufficientRemaining
  | ErrExceedsMaxPerPurchase
  | ErrCancellationNotAllowed
  | ErrOutsideCancellationWindow
  | ErrPg pg_error

definition materialChangeGracePeriod :: int where
  "materialChangeGracePeriod = time_Hour * 72"

subsection \<open>Rows\<close>

datatype role = RoleOrganizer | RoleAttendee
datatype event_status = Draft | Published | EvSoldOut | EvCancelled | Ended
datatype tier_status = Available | SoldOut
datatype purchase_status = Confirmed | PuCancelled | Refunded
datatype ticket_status = Unused | Used | TkCancelled
datatype waitlist_status = Waiting | Notified | Purchased | Expired

record User =
  u_ID :: uuid
  u_Name :: string
  u_Email :: string
  u_PasswordHash :: "string option"
  u_EmailVerified :: bool
  u_Image :: "string option"
  u_Role :: role
  u_CreatedAt :: instant
  u_UpdatedAt :: instant

record Session =
  s_ID :: uuid
  s_UserID :: uuid
  s_TokenHash :: string
  s_IPAddress :: "string option"
  s_UserAgent :: "string option"
  s_ExpiresAt :: instant
  s_CreatedAt :: instant
  s_UpdatedAt :: instant

record Event =
  e_ID :: uuid
  e_OrganizerID :: uuid
  e_Name :: string
  e_Description :: "string option"
  e_Location :: string
  e_Status :: event_status
  e_StartsAt :: instant
  e_EndsAt :: instant
  e_Capacity :: "int option"
  e_CancellationAllowed :: bool
  e_CancellationHoursBefore :: int
  e_MaxTicketsPerPurchase :: int
  e_MaterialChangedAt :: "instant option"
  e_CreatedAt :: instant
  e_UpdatedAt :: instant

record Tier =
  t_ID :: uuid
  t_EventID :: uuid
  t_Name :: string
  t_Price :: int
  t_Quantity :: int
  t_Remaining :: int
  t_Status :: tier_status
  t_CreatedAt :: instant
  t_UpdatedAt :: instant

record Purchase =
  p_ID :: uuid
  p_UserID :: uuid
  p_TierID :: uuid
  p_Quantity :: int
  p_Total :: int
  p_Status :: purchase_status
  p_CreatedAt :: instant
  p_UpdatedAt :: instant

record Ticket =
  k_ID :: uuid
  k_PurchaseID :: uuid
  k_TierID :: uuid
  k_QRToken :: string
  k_Status :: ticket_status
  k_CheckedInAt :: "instant option"
  k_CreatedAt :: instant
  k_UpdatedAt :: instant

record WaitlistEntry =
  w_ID :: uuid
  w_UserID :: uuid
  w_TierID :: uuid
  w_Status :: waitlist_status
  w_NotifiedAt :: "instant option"
  w_ExpiresAt :: "instant option"
  w_CreatedAt :: instant
  w_UpdatedAt :: instant

text \<open>The tables \<open>verifications\<close> and \<open>oauth_accounts\<close>.\<close>

record Verifications =
  v_ID :: uuid
  v_Identifier :: string
  v_Value :: string
  v_ExpiresAt :: instant
  v_CreatedAt :: instant
  v_UpdatedAt :: instant

record OAuthAccount =
  oa_ID :: uuid
  oa_UserID :: uuid
  oa_Provider :: string
  oa_ProviderAccountID :: string
  oa_Scope :: string
  oa_CreatedAt :: instant
  oa_UpdatedAt :: instant

record database =
  users :: "User list"
  sessions :: "Session list"
  verifications :: "Verifications list"
  oauth_accounts :: "OAuthAccount list"
  events :: "Event list"
  ticket_tiers :: "Tier list"
  purchases :: "Purchase list"
  tickets :: "Ticket list"
  waitlist_entries :: "WaitlistEntry list"

definition empty_db :: database where
  "empty_db = \<lparr>users = [], sessions = [], verifications = [], oauth_accounts = [], events = [], ticket_tiers = [], purchases = [],
     tickets = [], waitlist_entries = []\<rparr>"

subsection \<open>Constraints of the schema\<close>

text \<open>The \<open>CHECK\<close> constraints and the range of \<open>INTEGER\<close> columns.\<close>

definition event_check :: "Event \<Rightarrow> bool" where
  "event_check e \<longleftrightarrow> e_StartsAt e < e_EndsAt e
     \<and> (case e_Capacity e of None \<Rightarrow> True | Some c \<Rightarrow> 0 < c \<and> int32 c)
     \<and> 0 < e_MaxTicketsPerPurchase e \<and> int32 (e_MaxTicketsPerPurchase e)
     \<and> 0 \<le> e_CancellationHoursBefore e \<and> int32 (e_CancellationHoursBefore e)"

definition tier_check :: "Tier \<Rightarrow> bool" where
  "tier_check t \<longleftrightarrow> 0 < t_Quantity t \<and> int32 (t_Quantity t)
     \<and> 0 \<le> t_Remaining t \<and> t_Remaining t \<le> t_Quantity t
     \<and> 0 \<le> t_Price t \<and> int32 (t_Price t)"

definition purchase_check :: "Purchase \<Rightarrow> bool" where
  "purchase_check p \<longleftrightarrow> 0 < p_Quantity p \<and> int32 (p_Quantity p) \<and> 0 \<le> p_Total p \<and> int32 (p_Total p)"

subsection \<open>The world\<close>

text \<open>
  The tasks of \<^verbatim>\<open>internal/worker/tasks.go\<close> with their payloads, and the mails of the
  \<open>Mailer\<close> interface. Changed fields are a map from names to texts, as an association list in
  the order in which the program fills it.
\<close>

datatype task =
    SendVerificationEmail "string list" string string
  | SendPasswordResetEmail "string list" string string
  | NotifyWaitlistEntry uuid
  | NotifyBuyersUpdated uuid string "(string \<times> string) list" instant
  | NotifyBuyersCancelled uuid string instant "(string \<times> string \<times> uuid) list"
  | EndExpiredEvents
  | ExpireWaitlistReservations

datatype email =
    VerificationEmail "string list" string string
  | PasswordResetEmail "string list" string string
  | WaitlistNotification "string list" string string string instant
  | EventUpdatedNotification "string list" string string "(string \<times> string) list" instant
  | EventCancelledNotification "string list" string string instant

record world =
  db :: database
  db_now :: instant
  go_now :: instant
  faults :: "bool list"
  new_uuid :: "nat \<Rightarrow> uuid"
  rand_bytes :: "nat \<Rightarrow> nat \<Rightarrow> byte"
  drawn :: nat
  tasks :: "task list"
  outbox :: "email list"

type_synonym 'a io = "(world, 'a) state"
type_synonym 'a stmt = "world \<Rightarrow> (pg_error + 'a) \<times> world"

text \<open>
  \<open>exec\<close> is one external call: the next outcome in \<open>faults\<close> says whether it fails (no more
  outcomes: it succeeds). A failing call has no effect.
\<close>

definition exec :: "'a stmt \<Rightarrow> (pg_error + 'a) io" where
  "exec q = State (\<lambda>w. case faults w of
      [] \<Rightarrow> q w
    | f # fs \<Rightarrow> if f then (Inl ConnFailed, w\<lparr>faults := fs\<rparr>) else q (w\<lparr>faults := fs\<rparr>))"

text \<open>
  The common \<open>if err != nil { return .. }\<close>: \<open>exec_or f q k\<close> runs \<open>q\<close>, maps its error to the
  error of the method by \<open>f\<close> (\<open>no_rows_as\<close>, \<open>unique_as\<close>: the tests for \<open>pgx.ErrNoRows\<close> and
  for SQLSTATE 23505), and goes on with \<open>k\<close> otherwise. \<open>exec_then\<close> only wraps the error.
\<close>

definition no_rows_as :: "store_error \<Rightarrow> pg_error \<Rightarrow> store_error" where
  "no_rows_as s e = (if e = NoRows then s else ErrPg e)"

definition unique_as :: "store_error \<Rightarrow> pg_error \<Rightarrow> store_error" where
  "unique_as s e = (if e = UniqueViolation then s else ErrPg e)"

definition exec_or :: "(pg_error \<Rightarrow> store_error) \<Rightarrow> 'a stmt \<Rightarrow> ('a \<Rightarrow> (store_error + 'b) io) \<Rightarrow> (store_error + 'b) io" where
  "exec_or f q k = do {
     r \<leftarrow> exec q;
     case r of Inl e \<Rightarrow> State_Monad.return (Inl (f e)) | Inr x \<Rightarrow> k x }"

abbreviation exec_then :: "'a stmt \<Rightarrow> ('a \<Rightarrow> (store_error + 'b) io) \<Rightarrow> (store_error + 'b) io" where
  "exec_then \<equiv> exec_or ErrPg"

abbreviation answer :: "'a \<Rightarrow> (store_error + 'a) io" where
  "answer x \<equiv> State_Monad.return (Inr x)"

abbreviation refuse :: "store_error \<Rightarrow> (store_error + 'a) io" where
  "refuse e \<equiv> State_Monad.return (Inl e)"

definition time_Now :: "instant io" where
  "time_Now = State (\<lambda>w. (go_now w, w))"

definition uuid_New :: "uuid io" where
  "uuid_New = State (\<lambda>w. (new_uuid w (drawn w), w\<lparr>drawn := Suc (drawn w)\<rparr>))"

text \<open>\<open>rand.Read\<close> of \<open>n\<close> bytes.\<close>

definition rand_Read :: "nat \<Rightarrow> (byte list) stmt" where
  "rand_Read n w = (Inr (map (rand_bytes w (drawn w)) [0..<n]), w\<lparr>drawn := Suc (drawn w)\<rparr>)"

text \<open>\<open>asynq.Client.Enqueue\<close> and a call of the mailer: they may fail like any external call.\<close>

definition Enqueue :: "task \<Rightarrow> (pg_error + unit) io" where
  "Enqueue t = exec (\<lambda>w. (Inr (), w\<lparr>tasks := tasks w @ [t]\<rparr>))"

definition send_mail :: "email \<Rightarrow> (pg_error + unit) io" where
  "send_mail m = exec (\<lambda>w. (Inr (), w\<lparr>outbox := outbox w @ [m]\<rparr>))"

text \<open>
  A transaction: \<open>BEGIN\<close>, the body, and \<open>COMMIT\<close> when the body ended without an error;
  otherwise the deferred \<open>tx.Rollback\<close> puts the database back.
\<close>

definition in_tx :: "(store_error + 'a) io \<Rightarrow> (store_error + 'a) io" where
  "in_tx body = exec_then (\<lambda>w. (Inr (), w)) (\<lambda>_. do {
     w0 \<leftarrow> State_Monad.get;
     r \<leftarrow> body;
     case r of
       Inl e \<Rightarrow> do {
         w1 \<leftarrow> State_Monad.get;
         State_Monad.set (w1\<lparr>db := db w0\<rparr>);
         State_Monad.return (Inl e) }
     | Inr x \<Rightarrow> do {
         c \<leftarrow> exec (\<lambda>w. (Inr (), w));
         case c of
           Inl e \<Rightarrow> do {
             w1 \<leftarrow> State_Monad.get;
             State_Monad.set (w1\<lparr>db := db w0\<rparr>);
             State_Monad.return (Inl (ErrPg e)) }
         | Inr _ \<Rightarrow> State_Monad.return (Inr x) } })"

subsection \<open>SQL statements\<close>

text \<open>\<open>SELECT\<close>: a function of the database; \<open>None\<close> is pgx's \<open>ErrNoRows\<close>.\<close>

definition select_one :: "(database \<Rightarrow> 'a option) \<Rightarrow> 'a stmt" where
  "select_one q w = (case q (db w) of None \<Rightarrow> (Inl NoRows, w) | Some r \<Rightarrow> (Inr r, w))"

definition select_all :: "(database \<Rightarrow> 'a) \<Rightarrow> 'a stmt" where
  "select_all q w = (Inr (q (db w)), w)"

text \<open>
  \<open>UPDATE .. SET f WHERE c RETURNING ..\<close> on the table \<open>rows\<close>/\<open>put\<close>: fails when an updated
  row violates \<open>chk\<close>; answers the updated rows.
\<close>

definition update_stmt ::
  "(database \<Rightarrow> 'r list) \<Rightarrow> ('r list \<Rightarrow> database \<Rightarrow> database) \<Rightarrow> ('r \<Rightarrow> bool) \<Rightarrow> ('r \<Rightarrow> bool)
    \<Rightarrow> ('r \<Rightarrow> 'r) \<Rightarrow> ('r list) stmt" where
  "update_stmt rows put chk c f w =
     (if list_all (\<lambda>r. c r \<longrightarrow> chk (f r)) (rows (db w))
      then (Inr (map f (filter c (rows (db w)))), w\<lparr>db := put (upd c f (rows (db w))) (db w)\<rparr>)
      else (Inl CheckViolation, w))"

text \<open>\<open>INSERT .. RETURNING ..\<close>: \<open>clash\<close> holds of an existing row with the same unique key.\<close>

definition insert_stmt ::
  "(database \<Rightarrow> 'r list) \<Rightarrow> ('r list \<Rightarrow> database \<Rightarrow> database) \<Rightarrow> ('r \<Rightarrow> bool) \<Rightarrow> ('r \<Rightarrow> 'r \<Rightarrow> bool)
    \<Rightarrow> ('r \<Rightarrow> database \<Rightarrow> bool) \<Rightarrow> 'r \<Rightarrow> 'r stmt" where
  "insert_stmt rows put chk clash fk r w =
     (if \<not> chk r then (Inl CheckViolation, w)
      else if list_ex (clash r) (rows (db w)) then (Inl UniqueViolation, w)
      else if \<not> fk r (db w) then (Inl ForeignKeyViolation, w)
      else (Inr r, w\<lparr>db := put (rows (db w) @ [r]) (db w)\<rparr>))"

text \<open>\<open>RETURNING\<close> one row, read by \<open>QueryRow\<close>.\<close>

definition returning_one :: "('r list) stmt \<Rightarrow> 'r stmt" where
  "returning_one q w = (case q w of
      (Inl e, w') \<Rightarrow> (Inl e, w')
    | (Inr [], w') \<Rightarrow> (Inl NoRows, w')
    | (Inr (r # _), w') \<Rightarrow> (Inr r, w'))"

text \<open>A column default \<open>gen_random_uuid()\<close>.\<close>

definition with_uuid :: "(uuid \<Rightarrow> 'a stmt) \<Rightarrow> 'a stmt" where
  "with_uuid k w = k (new_uuid w (drawn w)) (w\<lparr>drawn := Suc (drawn w)\<rparr>)"

text \<open>\<open>DELETE FROM ticket_tiers WHERE c\<close> with the \<open>ON DELETE CASCADE\<close> of the tables below it.\<close>

definition drop_tiers :: "(Tier \<Rightarrow> bool) \<Rightarrow> database \<Rightarrow> database" where
  "drop_tiers c d =
     (let gone = map t_ID (filter c (ticket_tiers d));
          gone_p = map p_ID (filter (\<lambda>p. p_TierID p \<in> set gone) (purchases d))
      in d\<lparr>ticket_tiers := filter (\<lambda>t. \<not> c t) (ticket_tiers d),
           purchases := filter (\<lambda>p. p_TierID p \<notin> set gone) (purchases d),
           tickets := filter (\<lambda>k. k_TierID k \<notin> set gone \<and> k_PurchaseID k \<notin> set gone_p) (tickets d),
           waitlist_entries := filter (\<lambda>w. w_TierID w \<notin> set gone) (waitlist_entries d)\<rparr>)"

abbreviation put_users :: "User list \<Rightarrow> database \<Rightarrow> database" where
  "put_users rs d \<equiv> d\<lparr>users := rs\<rparr>"
abbreviation put_sessions :: "Session list \<Rightarrow> database \<Rightarrow> database" where
  "put_sessions rs d \<equiv> d\<lparr>sessions := rs\<rparr>"
abbreviation put_verifications :: "Verifications list \<Rightarrow> database \<Rightarrow> database" where
  "put_verifications rs d \<equiv> d\<lparr>verifications := rs\<rparr>"
abbreviation put_oauth :: "OAuthAccount list \<Rightarrow> database \<Rightarrow> database" where
  "put_oauth rs d \<equiv> d\<lparr>oauth_accounts := rs\<rparr>"
abbreviation put_events :: "Event list \<Rightarrow> database \<Rightarrow> database" where
  "put_events rs d \<equiv> d\<lparr>events := rs\<rparr>"
abbreviation put_tiers :: "Tier list \<Rightarrow> database \<Rightarrow> database" where
  "put_tiers rs d \<equiv> d\<lparr>ticket_tiers := rs\<rparr>"
abbreviation put_purchases :: "Purchase list \<Rightarrow> database \<Rightarrow> database" where
  "put_purchases rs d \<equiv> d\<lparr>purchases := rs\<rparr>"
abbreviation put_tickets :: "Ticket list \<Rightarrow> database \<Rightarrow> database" where
  "put_tickets rs d \<equiv> d\<lparr>tickets := rs\<rparr>"
abbreviation put_waitlist :: "WaitlistEntry list \<Rightarrow> database \<Rightarrow> database" where
  "put_waitlist rs d \<equiv> d\<lparr>waitlist_entries := rs\<rparr>"

end
