(* ===== verification/Events_Store.thy ===== *)
theory Events_Store
  imports Schema "HOL-Library.Product_Lexorder"
begin

section \<open>The events table: \<^verbatim>\<open>internal/store/events.go\<close>\<close>

text \<open>
  One definition per method of \<open>EventsStore\<close>. Every \<open>UPDATE\<close> runs the trigger that sets
  \<open>updated_at\<close>. \<open>GetAllPublished\<close> compares \<open>(starts_at, id)\<close> as row values, which is the
  lexicographic order.
\<close>

definition event_clash :: "Event \<Rightarrow> Event \<Rightarrow> bool" where
  "event_clash e x \<longleftrightarrow> e_ID x = e_ID e"

definition event_fk :: "Event \<Rightarrow> database \<Rightarrow> bool" where
  "event_fk e d \<longleftrightarrow> list_ex (\<lambda>u. u_ID u = e_OrganizerID e) (users d)"

definition update_events :: "(Event \<Rightarrow> bool) \<Rightarrow> (Event \<Rightarrow> Event) \<Rightarrow> (Event list) stmt" where
  "update_events c f w =
     update_stmt events put_events event_check c (\<lambda>e. (f e)\<lparr>e_UpdatedAt := db_now w\<rparr>) w"

definition Events_Create :: "Event \<Rightarrow> (store_error + Event) io" where
  "Events_Create event = exec_then
     (with_uuid (\<lambda>i w. insert_stmt events put_events event_check event_clash event_fk
        (event\<lparr>e_ID := i, e_Status := Draft, e_MaterialChangedAt := None,
          e_CreatedAt := db_now w, e_UpdatedAt := db_now w\<rparr>) w))
     answer"

definition Events_Update :: "Event \<Rightarrow> (store_error + Event) io" where
  "Events_Update event = exec_then
     (returning_one (update_events (\<lambda>e. e_ID e = e_ID event)
        (\<lambda>e. e\<lparr>e_Name := e_Name event, e_Description := e_Description event,
              e_Location := e_Location event, e_StartsAt := e_StartsAt event,
              e_EndsAt := e_EndsAt event, e_Capacity := e_Capacity event,
              e_CancellationAllowed := e_CancellationAllowed event,
              e_CancellationHoursBefore := e_CancellationHoursBefore event,
              e_MaxTicketsPerPurchase := e_MaxTicketsPerPurchase event,
              e_MaterialChangedAt := (case e_MaterialChangedAt event of
                 None \<Rightarrow> e_MaterialChangedAt e | Some t \<Rightarrow> Some t)\<rparr>)))
     answer"

definition delete_events :: "uuid \<Rightarrow> nat stmt" where
  "delete_events i w =
     (Inr (length (filter (\<lambda>e. e_ID e = i) (events (db w)))),
      w\<lparr>db := drop_tiers (\<lambda>t. t_EventID t = i) (put_events (filter (\<lambda>e. e_ID e \<noteq> i) (events (db w))) (db w))\<rparr>)"

definition Events_Delete :: "uuid \<Rightarrow> (store_error + unit) io" where
  "Events_Delete i = exec_then (delete_events i)
     (\<lambda>n. if n = 0 then refuse ErrNotFound else answer ())"

text \<open>\<open>ErrNoRows\<close> of the guarded \<open>UPDATE\<close> becomes \<open>ErrConflict\<close>.\<close>

definition flip_event :: "uuid \<Rightarrow> event_status list \<Rightarrow> event_status \<Rightarrow> (store_error + Event) io" where
  "flip_event i from to = exec_or (no_rows_as ErrConflict)
     (returning_one (update_events (\<lambda>e. e_ID e = i \<and> e_Status e \<in> set from) (\<lambda>e. e\<lparr>e_Status := to\<rparr>)))
     answer"

definition Events_Publish :: "uuid \<Rightarrow> (store_error + Event) io" where
  "Events_Publish i = flip_event i [Draft] Published"

definition Events_Cancel :: "uuid \<Rightarrow> (store_error + Event) io" where
  "Events_Cancel i = flip_event i [Draft, Published, EvSoldOut] EvCancelled"

definition Events_SetStatus :: "uuid \<Rightarrow> event_status \<Rightarrow> event_status \<Rightarrow> (store_error + unit) io" where
  "Events_SetStatus i from to = exec_then
     (update_events (\<lambda>e. e_ID e = i \<and> e_Status e = from) (\<lambda>e. e\<lparr>e_Status := to\<rparr>))
     (\<lambda>_. answer ())"

definition Events_GetByID :: "uuid \<Rightarrow> (store_error + Event) io" where
  "Events_GetByID i = exec_or (no_rows_as ErrNotFound)
     (select_one (\<lambda>d. row_at e_ID (events d) i)) answer"

type_synonym cursor = "instant \<times> uuid"

abbreviation event_key :: "Event \<Rightarrow> cursor" where
  "event_key e \<equiv> (e_StartsAt e, e_ID e)"

definition published_after :: "cursor option \<Rightarrow> database \<Rightarrow> Event list" where
  "published_after cur d =
     sort_key event_key (filter (\<lambda>e. e_Status e = Published
        \<and> (case cur of None \<Rightarrow> True | Some c \<Rightarrow> c < event_key e)) (events d))"

definition Events_GetAllPublished :: "cursor option \<Rightarrow> int \<Rightarrow> (store_error + Event list) io" where
  "Events_GetAllPublished cur limit = exec_then
     (select_all (\<lambda>d. take (nat limit) (published_after cur d)))
     answer"

definition Events_EndAllExpired :: "(store_error + Event list) io" where
  "Events_EndAllExpired = exec_then
     (\<lambda>w. update_events (\<lambda>e. e_Status e \<in> {Published, EvSoldOut} \<and> e_EndsAt e < db_now w)
        (\<lambda>e. e\<lparr>e_Status := Ended\<rparr>) w)
     answer"

end
