(* ===== verification/Tiers_Store.thy ===== *)
theory Tiers_Store
  imports Schema
begin

section \<open>The ticket tiers: \<^verbatim>\<open>internal/store/tiers.go\<close>\<close>

text \<open>One definition per method of \<open>TiersStore\<close>.\<close>

definition tier_clash :: "Tier \<Rightarrow> Tier \<Rightarrow> bool" where
  "tier_clash t x \<longleftrightarrow> t_ID x = t_ID t"

definition tier_fk :: "Tier \<Rightarrow> database \<Rightarrow> bool" where
  "tier_fk t d \<longleftrightarrow> list_ex (\<lambda>e. e_ID e = t_EventID t) (events d)"

definition update_tiers :: "(Tier \<Rightarrow> bool) \<Rightarrow> (Tier \<Rightarrow> Tier) \<Rightarrow> (Tier list) stmt" where
  "update_tiers c f w =
     update_stmt ticket_tiers put_tiers tier_check c (\<lambda>t. (f t)\<lparr>t_UpdatedAt := db_now w\<rparr>) w"

definition Tiers_Create :: "Tier \<Rightarrow> (store_error + Tier) io" where
  "Tiers_Create tier = exec_then
     (with_uuid (\<lambda>i w. insert_stmt ticket_tiers put_tiers tier_check tier_clash tier_fk
        (tier\<lparr>t_ID := i, t_Status := Available, t_CreatedAt := db_now w, t_UpdatedAt := db_now w\<rparr>) w))
     answer"

definition delete_tiers :: "uuid \<Rightarrow> uuid \<Rightarrow> nat stmt" where
  "delete_tiers i ev w =
     (let c = (\<lambda>t. t_ID t = i \<and> t_EventID t = ev)
      in (Inr (length (filter c (ticket_tiers (db w)))), w\<lparr>db := drop_tiers c (db w)\<rparr>))"

definition Tiers_Delete :: "uuid \<Rightarrow> uuid \<Rightarrow> (store_error + unit) io" where
  "Tiers_Delete i ev = exec_then (delete_tiers i ev)
     (\<lambda>n. if n = 0 then refuse ErrNotFound else answer ())"

definition Tiers_CountByEvent :: "uuid \<Rightarrow> (store_error + int) io" where
  "Tiers_CountByEvent ev = exec_then
     (select_all (\<lambda>d. int (length (filter (\<lambda>t. t_EventID t = ev) (ticket_tiers d)))))
     answer"

definition Tiers_GetByID :: "uuid \<Rightarrow> (store_error + Tier) io" where
  "Tiers_GetByID i = exec_or (no_rows_as ErrNotFound)
     (select_one (\<lambda>d. row_at t_ID (ticket_tiers d) i)) answer"

definition Tiers_Update :: "Tier \<Rightarrow> (store_error + Tier) io" where
  "Tiers_Update tier = exec_then
     (returning_one (update_tiers (\<lambda>t. t_ID t = t_ID tier)
        (\<lambda>t. t\<lparr>t_Name := t_Name tier, t_Price := t_Price tier, t_Quantity := t_Quantity tier,
              t_Remaining := t_Remaining tier, t_Status := t_Status tier\<rparr>)))
     answer"

definition tiers_of :: "uuid \<Rightarrow> database \<Rightarrow> Tier list" where
  "tiers_of ev d = filter (\<lambda>t. t_EventID t = ev) (ticket_tiers d)"

definition Tiers_ListByEvent :: "uuid \<Rightarrow> (store_error + Tier list) io" where
  "Tiers_ListByEvent ev = exec_then
     (select_all (\<lambda>d. sort_key t_CreatedAt (tiers_of ev d)))
     answer"

definition Tiers_SumQuantityByEvent :: "uuid \<Rightarrow> (store_error + int) io" where
  "Tiers_SumQuantityByEvent ev = exec_then
     (select_all (\<lambda>d. sum_where (\<lambda>t. t_EventID t = ev) t_Quantity (ticket_tiers d)))
     answer"

end
