(* ===== verification/Purchases_Store.thy ===== *)
theory Purchases_Store
  imports Events_Store Tiers_Store "HOL-Library.List_Lexorder" "HOL-Library.Char_ord"
begin

section \<open>Purchases: \<^verbatim>\<open>internal/store/purchases.go\<close>\<close>

text \<open>
  One definition per method of \<open>PurchasesStore\<close>. \<open>Create\<close>, \<open>Cancel\<close> and \<open>CancelByEvent\<close> are
  transactions; the \<open>SELECT .. FOR UPDATE\<close> of \<open>Create\<close> and \<open>Cancel\<close> serialises them on the
  locked row, so here they run one after the other.
\<close>

subsection \<open>Statements\<close>

definition update_purchases :: "(Purchase \<Rightarrow> bool) \<Rightarrow> (Purchase \<Rightarrow> Purchase) \<Rightarrow> (Purchase list) stmt" where
  "update_purchases c f w =
     update_stmt purchases put_purchases purchase_check c (\<lambda>p. (f p)\<lparr>p_UpdatedAt := db_now w\<rparr>) w"

definition update_tickets :: "(Ticket \<Rightarrow> bool) \<Rightarrow> (Ticket \<Rightarrow> Ticket) \<Rightarrow> (Ticket list) stmt" where
  "update_tickets c f w =
     update_stmt tickets put_tickets (\<lambda>_. True) c (\<lambda>k. (f k)\<lparr>k_UpdatedAt := db_now w\<rparr>) w"

definition purchase_clash :: "Purchase \<Rightarrow> Purchase \<Rightarrow> bool" where
  "purchase_clash p x \<longleftrightarrow> p_ID x = p_ID p"

definition purchase_fk :: "Purchase \<Rightarrow> database \<Rightarrow> bool" where
  "purchase_fk p d \<longleftrightarrow> list_ex (\<lambda>u. u_ID u = p_UserID p) (users d)
     \<and> list_ex (\<lambda>t. t_ID t = p_TierID p) (ticket_tiers d)"

definition insert_purchase :: "Purchase \<Rightarrow> Purchase stmt" where
  "insert_purchase p w = insert_stmt purchases put_purchases purchase_check purchase_clash purchase_fk
     (p\<lparr>p_Status := Confirmed, p_CreatedAt := db_now w, p_UpdatedAt := db_now w\<rparr>) w"

definition ticket_clash :: "Ticket \<Rightarrow> Ticket \<Rightarrow> bool" where
  "ticket_clash k x \<longleftrightarrow> k_ID x = k_ID k \<or> k_QRToken x = k_QRToken k"

definition ticket_fk :: "Ticket \<Rightarrow> database \<Rightarrow> bool" where
  "ticket_fk k d \<longleftrightarrow> list_ex (\<lambda>p. p_ID p = k_PurchaseID k) (purchases d)
     \<and> list_ex (\<lambda>t. t_ID t = k_TierID k) (ticket_tiers d)"

definition insert_ticket :: "Purchase \<Rightarrow> Ticket \<Rightarrow> Ticket stmt" where
  "insert_ticket p k w = insert_stmt tickets put_tickets (\<lambda>_. True) ticket_clash ticket_fk
     \<lparr>k_ID = k_ID k, k_PurchaseID = p_ID p, k_TierID = p_TierID p, k_QRToken = k_QRToken k,
      k_Status = Unused, k_CheckedInAt = None, k_CreatedAt = db_now w, k_UpdatedAt = db_now w\<rparr> w"

text \<open>
  The batch of ticket inserts: one round trip, stopped by the first error; each \<open>RETURNING\<close>
  fills in the status and the times of the handler's ticket.
\<close>

fun insert_batch :: "Purchase \<Rightarrow> Ticket list \<Rightarrow> (Ticket list) stmt" where
  "insert_batch p [] w = (Inr [], w)"
| "insert_batch p (k # ks) w =
     (case insert_ticket p k w of
        (Inl e, w') \<Rightarrow> (Inl e, w')
      | (Inr r, w') \<Rightarrow>
          (case insert_batch p ks w' of
             (Inl e, w'') \<Rightarrow> (Inl e, w'')
           | (Inr rs, w'') \<Rightarrow>
               (Inr (k\<lparr>k_Status := k_Status r, k_CreatedAt := k_CreatedAt r, k_UpdatedAt := k_UpdatedAt r\<rparr> # rs), w'')))"

subsection \<open>Create\<close>

definition Purchases_Create :: "Purchase \<Rightarrow> Ticket list \<Rightarrow> (store_error + (Purchase \<times> Ticket list)) io" where
  "Purchases_Create purchase ts = in_tx (
     exec_or (no_rows_as ErrNotFound)
       (select_one (\<lambda>d. map_option (\<lambda>t. (t_Price t, t_Remaining t, t_Status t, t_EventID t))
          (row_at t_ID (ticket_tiers d) (p_TierID purchase))))
     (\<lambda>(price, remaining, tierStatus, eventID).
     exec_then
       (select_one (\<lambda>d. map_option (\<lambda>e. (e_Status e, e_MaxTicketsPerPurchase e)) (row_at e_ID (events d) eventID)))
     (\<lambda>(eventStatus, maxTicketsPerPurchase).
     if eventStatus \<noteq> Published then refuse ErrEventNotPublished
     else if p_Quantity purchase > maxTicketsPerPurchase then refuse ErrExceedsMaxPerPurchase
     else if tierStatus \<noteq> Available \<or> remaining < p_Quantity purchase then refuse ErrInsufficientRemaining
     else
     exec_then
       (update_tiers (\<lambda>t. t_ID t = p_TierID purchase)
          (\<lambda>t. t\<lparr>t_Remaining := t_Remaining t - p_Quantity purchase,
                t_Status := (if t_Remaining t - p_Quantity purchase = 0 then SoldOut else Available)\<rparr>))
     (\<lambda>_.
     exec_then
       (insert_purchase (purchase\<lparr>p_Total := wrap64 (price * p_Quantity purchase)\<rparr>))
     (\<lambda>purchase'.
     exec_then
       (insert_batch purchase' ts)
     (\<lambda>ts'.
     exec_then
       (select_all (\<lambda>d. list_ex (\<lambda>t. t_EventID t = eventID \<and> t_Remaining t > 0) (ticket_tiers d)))
     (\<lambda>anyAvailable.
     if \<not> anyAvailable then
       exec_then
         (update_events (\<lambda>e. e_ID e = eventID \<and> e_Status e = Published) (\<lambda>e. e\<lparr>e_Status := EvSoldOut\<rparr>))
       (\<lambda>_. answer (purchase', ts'))
     else answer (purchase', ts'))))))))"

subsection \<open>Cancel\<close>

text \<open>
  The cancellation window. \<open>-time.Duration(h) * time.Hour\<close> is 64-bit arithmetic on
  nanoseconds; \<open>startsAt.Add\<close> and the comparisons of instants are exact.
\<close>

definition windowClosed :: "instant \<Rightarrow> instant \<Rightarrow> int \<Rightarrow> bool" where
  "windowClosed now startsAt cancellationHoursBefore \<longleftrightarrow>
     now > startsAt + wrap64 (wrap64 (- cancellationHoursBefore) * time_Hour)"

definition graceOpen :: "instant \<Rightarrow> instant option \<Rightarrow> bool" where
  "graceOpen now materialChangedAt \<longleftrightarrow>
     (case materialChangedAt of None \<Rightarrow> False | Some m \<Rightarrow> now < m + materialChangeGracePeriod)"

definition Purchases_Cancel :: "uuid \<Rightarrow> uuid \<Rightarrow> (store_error + (Purchase \<times> bool)) io" where
  "Purchases_Cancel i userID = in_tx (
     exec_or (no_rows_as ErrNotFound)
       (select_one (\<lambda>d. find (\<lambda>p. p_ID p = i \<and> p_UserID p = userID) (purchases d)))
     (\<lambda>purchase.
     if p_Status purchase \<noteq> Confirmed then refuse ErrAlreadyCancelled
     else
     exec_then
       (select_one (\<lambda>d. case row_at t_ID (ticket_tiers d) (p_TierID purchase) of
            None \<Rightarrow> None
          | Some t \<Rightarrow> map_option (\<lambda>e. (t, e)) (row_at e_ID (events d) (t_EventID t))))
     (\<lambda>(t, e). do {
     now \<leftarrow> time_Now;
     let wasSoldOut = (t_Status t = SoldOut);
     if \<not> now < e_StartsAt e then refuse ErrEventStarted
     else if \<not> e_CancellationAllowed e then refuse ErrCancellationNotAllowed
     else if windowClosed now (e_StartsAt e) (e_CancellationHoursBefore e)
             \<and> \<not> graceOpen now (e_MaterialChangedAt e) then refuse ErrOutsideCancellationWindow
     else
     exec_then
       (returning_one (update_purchases (\<lambda>p. p_ID p = p_ID purchase) (\<lambda>p. p\<lparr>p_Status := PuCancelled\<rparr>)))
     (\<lambda>row.
     exec_then
       (update_tickets (\<lambda>k. k_PurchaseID k = p_ID purchase) (\<lambda>k. k\<lparr>k_Status := TkCancelled\<rparr>))
     (\<lambda>_.
     exec_then
       (update_tiers (\<lambda>x. t_ID x = p_TierID purchase)
          (\<lambda>x. x\<lparr>t_Remaining := t_Remaining x + p_Quantity purchase, t_Status := Available\<rparr>))
     (\<lambda>_.
     exec_then
       (update_events (\<lambda>x. e_ID x = t_EventID t \<and> e_Status x = EvSoldOut) (\<lambda>x. x\<lparr>e_Status := Published\<rparr>))
     (\<lambda>_. answer (purchase\<lparr>p_Status := p_Status row, p_UpdatedAt := p_UpdatedAt row\<rparr>, wasSoldOut)))))
     })))"

subsection \<open>Cancelling all purchases of an event\<close>

definition of_event :: "database \<Rightarrow> uuid \<Rightarrow> uuid \<Rightarrow> bool" where
  "of_event d ev tier \<longleftrightarrow> list_ex (\<lambda>t. t_ID t = tier \<and> t_EventID t = ev) (ticket_tiers d)"

definition Purchases_CancelByEvent :: "uuid \<Rightarrow> (store_error + unit) io" where
  "Purchases_CancelByEvent ev = in_tx (
     exec_then
       (\<lambda>w. update_purchases (\<lambda>p. of_event (db w) ev (p_TierID p) \<and> p_Status p = Confirmed)
          (\<lambda>p. p\<lparr>p_Status := PuCancelled\<rparr>) w)
     (\<lambda>_.
     exec_then
       (\<lambda>w. update_tickets
          (\<lambda>k. list_ex (\<lambda>p. p_ID p = k_PurchaseID k \<and> of_event (db w) ev (p_TierID p)) (purchases (db w))
             \<and> k_Status k \<noteq> TkCancelled)
          (\<lambda>k. k\<lparr>k_Status := TkCancelled\<rparr>) w)
     (\<lambda>_. answer ())))"

subsection \<open>Queries\<close>

record PurchaseSummary =
  ps_ID :: uuid
  ps_Quantity :: int
  ps_Total :: int
  ps_Status :: purchase_status
  ps_Event :: "uuid \<times> string \<times> instant"
  ps_Tier :: "uuid \<times> string \<times> int"
  ps_CreatedAt :: instant

definition summary_of :: "database \<Rightarrow> Purchase \<Rightarrow> PurchaseSummary option" where
  "summary_of d p =
     (case row_at t_ID (ticket_tiers d) (p_TierID p) of
        None \<Rightarrow> None
      | Some t \<Rightarrow>
          (case row_at e_ID (events d) (t_EventID t) of
             None \<Rightarrow> None
           | Some e \<Rightarrow> Some \<lparr>ps_ID = p_ID p, ps_Quantity = p_Quantity p, ps_Total = p_Total p,
                            ps_Status = p_Status p, ps_Event = (e_ID e, e_Name e, e_StartsAt e),
                            ps_Tier = (t_ID t, t_Name t, t_Price t), ps_CreatedAt = p_CreatedAt p\<rparr>))"

definition purchases_of :: "uuid \<Rightarrow> database \<Rightarrow> Purchase list" where
  "purchases_of userID d =
     rev (sort_key (\<lambda>p. (p_CreatedAt p, p_ID p)) (filter (\<lambda>p. p_UserID p = userID) (purchases d)))"

text \<open>PostgreSQL refuses a negative \<open>OFFSET\<close>.\<close>

definition Purchases_ListByUser :: "uuid \<Rightarrow> int \<Rightarrow> int \<Rightarrow> (store_error + PurchaseSummary list) io" where
  "Purchases_ListByUser userID limit offset = exec_then
     (\<lambda>w. if limit < 0 \<or> offset < 0 then (Inl OutOfRange, w)
          else (Inr (take (nat limit) (drop (nat offset)
                  (List.map_filter (summary_of (db w)) (purchases_of userID (db w))))), w))
     answer"

definition Purchases_CountByUser :: "uuid \<Rightarrow> (store_error + int) io" where
  "Purchases_CountByUser userID = exec_then
     (select_all (\<lambda>d. int (length (filter (\<lambda>p. p_UserID p = userID) (purchases d))))) answer"

definition confirmed_buyers :: "uuid \<Rightarrow> database \<Rightarrow> User list" where
  "confirmed_buyers ev d =
     sort_key u_Email (filter (\<lambda>u. list_ex (\<lambda>p. p_UserID p = u_ID u \<and> of_event d ev (p_TierID p)
        \<and> p_Status p = Confirmed) (purchases d)) (users d))"

definition Purchases_ListConfirmedBuyersByEvent :: "uuid \<Rightarrow> (store_error + User list) io" where
  "Purchases_ListConfirmedBuyersByEvent ev = exec_then (select_all (confirmed_buyers ev)) answer"

definition confirmed_quantity :: "uuid \<Rightarrow> database \<Rightarrow> int" where
  "confirmed_quantity ev d =
     sum_where (\<lambda>p. of_event d ev (p_TierID p) \<and> p_Status p = Confirmed) p_Quantity (purchases d)"

definition Purchases_SumConfirmedQuantityByEvent :: "uuid \<Rightarrow> (store_error + int) io" where
  "Purchases_SumConfirmedQuantityByEvent ev = exec_then (select_all (confirmed_quantity ev)) answer"

definition Purchases_GetByID :: "uuid \<Rightarrow> uuid \<Rightarrow> (store_error + Purchase) io" where
  "Purchases_GetByID i userID = exec_or (no_rows_as ErrNotFound)
     (select_one (\<lambda>d. find (\<lambda>p. p_ID p = i \<and> p_UserID p = userID) (purchases d))) answer"

definition Purchases_ListTicketsByPurchase :: "uuid \<Rightarrow> (store_error + Ticket list) io" where
  "Purchases_ListTicketsByPurchase i = exec_then
     (select_all (\<lambda>d. sort_key k_CreatedAt (filter (\<lambda>k. k_PurchaseID k = i) (tickets d)))) answer"

definition Purchases_HasConfirmedPurchase :: "uuid \<Rightarrow> uuid \<Rightarrow> (store_error + bool) io" where
  "Purchases_HasConfirmedPurchase userID tierID = exec_then
     (select_all (\<lambda>d. list_ex (\<lambda>p. p_UserID p = userID \<and> p_TierID p = tierID \<and> p_Status p = Confirmed)
        (purchases d))) answer"

end
