(* ===== verification/Tickets_Store.thy ===== *)
theory Tickets_Store
  imports Purchases_Store
begin

section \<open>Check-in: \<^verbatim>\<open>internal/store/tickets.go\<close>\<close>

text \<open>
  \<open>TicketsStore.CheckIn\<close>: one transaction that locks the ticket, looks at its status and at
  the event of its tier, and marks it used.
\<close>

record TicketCheckIn =
  tc_Ticket :: Ticket
  tc_TierName :: string
  tc_AttendeeName :: string
  tc_AttendeeEmail :: string

text \<open>The joined row: the ticket, its tier, and the user of its purchase.\<close>

definition ticket_row :: "uuid \<Rightarrow> database \<Rightarrow> (Ticket \<times> Tier \<times> User) option" where
  "ticket_row i d =
     (case row_at k_ID (tickets d) i of
        None \<Rightarrow> None
      | Some k \<Rightarrow>
          (case row_at t_ID (ticket_tiers d) (k_TierID k) of
             None \<Rightarrow> None
           | Some t \<Rightarrow>
               (case row_at p_ID (purchases d) (k_PurchaseID k) of
                  None \<Rightarrow> None
                | Some p \<Rightarrow> map_option (\<lambda>u. (k, t, u)) (row_at u_ID (users d) (p_UserID p)))))"

definition Tickets_CheckIn :: "uuid \<Rightarrow> uuid \<Rightarrow> (store_error + TicketCheckIn) io" where
  "Tickets_CheckIn ticketID eventID = in_tx (
     exec_or (no_rows_as ErrNotFound) (select_one (ticket_row ticketID))
     (\<lambda>(k, t, u).
     if k_Status k = Used then refuse ErrAlreadyCheckedIn
     else if k_Status k = TkCancelled then refuse ErrTicketCancelled
     else if t_EventID t \<noteq> eventID then refuse ErrWrongEvent
     else
     exec_then
       (\<lambda>w. returning_one (update_tickets (\<lambda>x. k_ID x = k_ID k)
          (\<lambda>x. x\<lparr>k_Status := Used, k_CheckedInAt := Some (db_now w)\<rparr>)) w)
     (\<lambda>row. answer \<lparr>tc_Ticket = k\<lparr>k_Status := k_Status row, k_CreatedAt := k_CreatedAt row,
                        k_UpdatedAt := k_UpdatedAt row, k_CheckedInAt := k_CheckedInAt row\<rparr>,
                     tc_TierName = t_Name t, tc_AttendeeName = u_Name u, tc_AttendeeEmail = u_Email u\<rparr>)))"

end
