(* ===== verification/Waitlist_Store.thy ===== *)
theory Waitlist_Store
  imports Tickets_Store
begin

section \<open>The waitlist: \<^verbatim>\<open>internal/store/waitlist.go\<close>\<close>

text \<open>
  One definition per method of \<open>WaitlistStore\<close>. Among entries with the same \<open>created_at\<close>
  the database may pick any; the model picks the one inserted first.
\<close>

definition waitlist_clash :: "WaitlistEntry \<Rightarrow> WaitlistEntry \<Rightarrow> bool" where
  "waitlist_clash e x \<longleftrightarrow> w_ID x = w_ID e \<or> w_UserID x = w_UserID e \<and> w_TierID x = w_TierID e"

definition waitlist_fk :: "WaitlistEntry \<Rightarrow> database \<Rightarrow> bool" where
  "waitlist_fk e d \<longleftrightarrow> list_ex (\<lambda>u. u_ID u = w_UserID e) (users d)
     \<and> list_ex (\<lambda>t. t_ID t = w_TierID e) (ticket_tiers d)"

definition update_waitlist ::
  "(WaitlistEntry \<Rightarrow> bool) \<Rightarrow> (WaitlistEntry \<Rightarrow> WaitlistEntry) \<Rightarrow> (WaitlistEntry list) stmt" where
  "update_waitlist c f w =
     update_stmt waitlist_entries put_waitlist (\<lambda>_. True) c (\<lambda>e. (f e)\<lparr>w_UpdatedAt := db_now w\<rparr>) w"

definition Waitlist_Create :: "WaitlistEntry \<Rightarrow> (store_error + WaitlistEntry) io" where
  "Waitlist_Create entry = exec_or (unique_as ErrConflict)
     (with_uuid (\<lambda>i w. insert_stmt waitlist_entries put_waitlist (\<lambda>_. True) waitlist_clash waitlist_fk
        \<lparr>w_ID = i, w_UserID = w_UserID entry, w_TierID = w_TierID entry, w_Status = Waiting,
         w_NotifiedAt = None, w_ExpiresAt = None, w_CreatedAt = db_now w, w_UpdatedAt = db_now w\<rparr> w))
     answer"

definition delete_waitlist :: "(database \<Rightarrow> WaitlistEntry \<Rightarrow> bool) \<Rightarrow> nat stmt" where
  "delete_waitlist c w =
     (Inr (length (filter (c (db w)) (waitlist_entries (db w)))),
      w\<lparr>db := put_waitlist (filter (\<lambda>e. \<not> c (db w) e) (waitlist_entries (db w))) (db w)\<rparr>)"

definition Waitlist_DeleteByUserAndTier :: "uuid \<Rightarrow> uuid \<Rightarrow> (store_error + unit) io" where
  "Waitlist_DeleteByUserAndTier userID tierID = exec_then
     (delete_waitlist (\<lambda>_ e. w_UserID e = userID \<and> w_TierID e = tierID))
     (\<lambda>n. if n = 0 then refuse ErrNotFound else answer ())"

record WaitlistSummary =
  ws_ID :: uuid
  ws_Status :: waitlist_status
  ws_NotifiedAt :: "instant option"
  ws_ExpiresAt :: "instant option"
  ws_User :: "uuid \<times> string \<times> string"
  ws_Tier :: "uuid \<times> string"
  ws_CreatedAt :: instant

definition waitlist_summary_of :: "uuid \<Rightarrow> database \<Rightarrow> WaitlistEntry \<Rightarrow> WaitlistSummary option" where
  "waitlist_summary_of ev d e =
     (case row_at u_ID (users d) (w_UserID e) of
        None \<Rightarrow> None
      | Some u \<Rightarrow>
          (case row_at t_ID (ticket_tiers d) (w_TierID e) of
             None \<Rightarrow> None
           | Some t \<Rightarrow>
               if t_EventID t = ev
               then Some \<lparr>ws_ID = w_ID e, ws_Status = w_Status e, ws_NotifiedAt = w_NotifiedAt e,
                          ws_ExpiresAt = w_ExpiresAt e, ws_User = (u_ID u, u_Name u, u_Email u),
                          ws_Tier = (t_ID t, t_Name t), ws_CreatedAt = w_CreatedAt e\<rparr>
               else None))"

definition Waitlist_ListByEvent :: "uuid \<Rightarrow> (store_error + WaitlistSummary list) io" where
  "Waitlist_ListByEvent ev = exec_then
     (select_all (\<lambda>d. List.map_filter (waitlist_summary_of ev d) (sort_key w_CreatedAt (waitlist_entries d))))
     answer"

definition Waitlist_ExpireReservations :: "(store_error + WaitlistEntry list) io" where
  "Waitlist_ExpireReservations = exec_then
     (\<lambda>w. update_waitlist
        (\<lambda>e. w_Status e = Notified \<and> (case w_ExpiresAt e of None \<Rightarrow> False | Some t \<Rightarrow> t < db_now w))
        (\<lambda>e. e\<lparr>w_Status := Expired\<rparr>) w)
     answer"

text \<open>The waiting entries of a tier, oldest first, and the row the promotion picks.\<close>

definition waiting_for :: "uuid \<Rightarrow> database \<Rightarrow> WaitlistEntry list" where
  "waiting_for tier d =
     sort_key w_CreatedAt (filter (\<lambda>e. w_TierID e = tier \<and> w_Status e = Waiting) (waitlist_entries d))"

definition waiting_row :: "database \<Rightarrow> WaitlistEntry \<Rightarrow> (WaitlistEntry \<times> User \<times> string \<times> string) option" where
  "waiting_row d e =
     (case row_at u_ID (users d) (w_UserID e) of
        None \<Rightarrow> None
      | Some u \<Rightarrow>
          (case row_at t_ID (ticket_tiers d) (w_TierID e) of
             None \<Rightarrow> None
           | Some t \<Rightarrow> map_option (\<lambda>ev. (e, u, t_Name t, e_Name ev)) (row_at e_ID (events d) (t_EventID t))))"

definition next_waiting :: "uuid \<Rightarrow> database \<Rightarrow> (WaitlistEntry \<times> User \<times> string \<times> string) option" where
  "next_waiting tier d =
     (case List.map_filter (waiting_row d) (waiting_for tier d) of [] \<Rightarrow> None | r # _ \<Rightarrow> Some r)"

definition Waitlist_NotifyNextWaiting ::
  "uuid \<Rightarrow> (store_error + (WaitlistEntry \<times> User \<times> string \<times> string)) io" where
  "Waitlist_NotifyNextWaiting tierID = in_tx (
     exec_or (no_rows_as ErrNotFound) (select_one (next_waiting tierID))
     (\<lambda>(entry, user, tierName, eventName). do {
     notifiedAt \<leftarrow> time_Now;
     let expiresAt = notifiedAt + 24 * time_Hour;
     exec_or (no_rows_as ErrNotFound)
       (returning_one (update_waitlist (\<lambda>e. w_ID e = w_ID entry \<and> w_Status e = Waiting)
          (\<lambda>e. e\<lparr>w_Status := Notified, w_NotifiedAt := Some notifiedAt, w_ExpiresAt := Some expiresAt\<rparr>)))
     (\<lambda>row. answer (entry\<lparr>w_Status := w_Status row, w_NotifiedAt := w_NotifiedAt row,
                      w_ExpiresAt := w_ExpiresAt row, w_UpdatedAt := w_UpdatedAt row\<rparr>,
                    user, tierName, eventName)) }))"

definition Waitlist_DeleteByEvent :: "uuid \<Rightarrow> (store_error + unit) io" where
  "Waitlist_DeleteByEvent ev = exec_then
     (delete_waitlist (\<lambda>d e. of_event d ev (w_TierID e)))
     (\<lambda>_. answer ())"

end
