(* ===== verification/Accounts_Store.thy ===== *)
theory Accounts_Store
  imports Schema
begin

section \<open>Accounts: users, sessions, verifications, OAuth accounts\<close>

text \<open>
  One definition per method of \<open>UserStore\<close>, \<open>SessionStore\<close>, \<open>VerificationStore\<close> and
  \<open>OAuthStore\<close> (\<^verbatim>\<open>users.go\<close>, \<^verbatim>\<open>sessions.go\<close>, \<^verbatim>\<open>verifications.go\<close>, \<^verbatim>\<open>oauth.go\<close> of
  \<^verbatim>\<open>internal/store\<close>).
\<close>

subsection \<open>Users\<close>

definition user_clash :: "User \<Rightarrow> User \<Rightarrow> bool" where
  "user_clash u x \<longleftrightarrow> u_ID x = u_ID u \<or> u_Email x = u_Email u"

definition update_users :: "(User \<Rightarrow> bool) \<Rightarrow> (User \<Rightarrow> User) \<Rightarrow> (User list) stmt" where
  "update_users c f w =
     update_stmt users put_users (\<lambda>_. True) c (\<lambda>u. (f u)\<lparr>u_UpdatedAt := db_now w\<rparr>) w"

definition Users_Create :: "User \<Rightarrow> (store_error + User) io" where
  "Users_Create user = exec_or (unique_as ErrConflict)
     (with_uuid (\<lambda>i w. insert_stmt users put_users (\<lambda>_. True) user_clash (\<lambda>_ _. True)
        (user\<lparr>u_ID := i, u_Role := RoleAttendee, u_CreatedAt := db_now w, u_UpdatedAt := db_now w\<rparr>) w))
     answer"

definition Users_GetByID :: "uuid \<Rightarrow> (store_error + User) io" where
  "Users_GetByID i = exec_or (no_rows_as ErrNotFound) (select_one (\<lambda>d. row_at u_ID (users d) i)) answer"

definition Users_GetByEmail :: "string \<Rightarrow> (store_error + User) io" where
  "Users_GetByEmail email =
     exec_or (no_rows_as ErrNotFound) (select_one (\<lambda>d. row_at u_Email (users d) email)) answer"

definition Users_MarkVerified :: "string \<Rightarrow> (store_error + unit) io" where
  "Users_MarkVerified email = exec_then
     (update_users (\<lambda>u. u_Email u = email) (\<lambda>u. u\<lparr>u_EmailVerified := True\<rparr>))
     (\<lambda>rs. if length rs = 0 then refuse ErrNotFound else answer ())"

definition Users_ResetPassword :: "string \<Rightarrow> string \<Rightarrow> (store_error + unit) io" where
  "Users_ResetPassword email hashedPassword = exec_then
     (update_users (\<lambda>u. u_Email u = email) (\<lambda>u. u\<lparr>u_PasswordHash := Some hashedPassword\<rparr>))
     (\<lambda>rs. if length rs = 0 then refuse ErrNotFound else answer ())"

definition Users_BecomeOrganizer :: "uuid \<Rightarrow> (store_error + User) io" where
  "Users_BecomeOrganizer userID = exec_or (no_rows_as ErrNotFound)
     (returning_one (update_users (\<lambda>u. u_ID u = userID) (\<lambda>u. u\<lparr>u_Role := RoleOrganizer\<rparr>)))
     answer"

subsection \<open>Sessions\<close>

definition session_clash :: "Session \<Rightarrow> Session \<Rightarrow> bool" where
  "session_clash s x \<longleftrightarrow> s_ID x = s_ID s \<or> s_TokenHash x = s_TokenHash s"

definition session_fk :: "Session \<Rightarrow> database \<Rightarrow> bool" where
  "session_fk s d \<longleftrightarrow> list_ex (\<lambda>u. u_ID u = s_UserID s) (users d)"

definition Sessions_Create :: "Session \<Rightarrow> (store_error + Session) io" where
  "Sessions_Create session = exec_or (unique_as ErrConflict)
     (with_uuid (\<lambda>i w. insert_stmt sessions put_sessions (\<lambda>_. True) session_clash session_fk
        (session\<lparr>s_ID := i, s_CreatedAt := db_now w, s_UpdatedAt := db_now w\<rparr>) w))
     answer"

definition Sessions_Get :: "string \<Rightarrow> (store_error + Session) io" where
  "Sessions_Get hashedToken = do {
     now \<leftarrow> time_Now;
     exec_or (no_rows_as ErrNotFound)
       (select_one (\<lambda>d. find (\<lambda>s. s_TokenHash s = hashedToken \<and> s_ExpiresAt s > now) (sessions d)))
       answer }"

definition delete_sessions :: "(Session \<Rightarrow> bool) \<Rightarrow> unit stmt" where
  "delete_sessions c w = (Inr (), w\<lparr>db := put_sessions (filter (\<lambda>s. \<not> c s) (sessions (db w))) (db w)\<rparr>)"

definition Sessions_Delete :: "uuid \<Rightarrow> (store_error + unit) io" where
  "Sessions_Delete i = exec_then (delete_sessions (\<lambda>s. s_ID s = i)) answer"

definition Sessions_DeleteAll :: "uuid \<Rightarrow> (store_error + unit) io" where
  "Sessions_DeleteAll userID = exec_then (delete_sessions (\<lambda>s. s_UserID s = userID)) answer"

subsection \<open>Verifications\<close>

text \<open>Tokens have no unique key; among rows with the same value or time the database may pick any.\<close>

definition verification_clash :: "Verifications \<Rightarrow> Verifications \<Rightarrow> bool" where
  "verification_clash v x \<longleftrightarrow> v_ID x = v_ID v"

definition Verifications_Create :: "string \<Rightarrow> string \<Rightarrow> instant \<Rightarrow> (store_error + unit) io" where
  "Verifications_Create identifier hashedToken expiresAt = exec_then
     (with_uuid (\<lambda>i w. insert_stmt verifications put_verifications (\<lambda>_. True) verification_clash (\<lambda>_ _. True)
        \<lparr>v_ID = i, v_Identifier = identifier, v_Value = hashedToken, v_ExpiresAt = expiresAt,
         v_CreatedAt = db_now w, v_UpdatedAt = db_now w\<rparr> w))
     (\<lambda>_. answer ())"

definition Verifications_Get :: "string \<Rightarrow> (store_error + Verifications) io" where
  "Verifications_Get hashedToken =
     exec_or (no_rows_as ErrNotFound) (select_one (\<lambda>d. row_at v_Value (verifications d) hashedToken)) answer"

text \<open>The newest verification of an identifier.\<close>

definition latest_verification :: "string \<Rightarrow> database \<Rightarrow> Verifications option" where
  "latest_verification identifier d =
     (case rev (sort_key v_CreatedAt (filter (\<lambda>v. v_Identifier v = identifier) (verifications d))) of
        [] \<Rightarrow> None
      | v # _ \<Rightarrow> Some v)"

definition Verifications_GetLatest :: "string \<Rightarrow> (store_error + Verifications) io" where
  "Verifications_GetLatest identifier =
     exec_or (no_rows_as ErrNotFound) (select_one (latest_verification identifier)) answer"

definition Verifications_CountSince :: "string \<Rightarrow> int \<Rightarrow> (store_error + int) io" where
  "Verifications_CountSince identifier since = do {
     now \<leftarrow> time_Now;
     exec_then
       (select_all (\<lambda>d. int (length (filter (\<lambda>v. v_Identifier v = identifier \<and> v_CreatedAt v > now - since)
          (verifications d)))))
       answer }"

definition delete_verifications :: "(Verifications \<Rightarrow> bool) \<Rightarrow> unit stmt" where
  "delete_verifications c w =
     (Inr (), w\<lparr>db := put_verifications (filter (\<lambda>v. \<not> c v) (verifications (db w))) (db w)\<rparr>)"

definition Verifications_Delete :: "uuid \<Rightarrow> (store_error + unit) io" where
  "Verifications_Delete i = exec_then (delete_verifications (\<lambda>v. v_ID v = i)) answer"

definition Verifications_DeleteByIdentifier :: "string \<Rightarrow> (store_error + unit) io" where
  "Verifications_DeleteByIdentifier identifier =
     exec_then (delete_verifications (\<lambda>v. v_Identifier v = identifier)) answer"

subsection \<open>OAuth accounts\<close>

definition oauth_clash :: "OAuthAccount \<Rightarrow> OAuthAccount \<Rightarrow> bool" where
  "oauth_clash a x \<longleftrightarrow> oa_ID x = oa_ID a
     \<or> oa_Provider x = oa_Provider a \<and> oa_ProviderAccountID x = oa_ProviderAccountID a"

definition oauth_fk :: "OAuthAccount \<Rightarrow> database \<Rightarrow> bool" where
  "oauth_fk a d \<longleftrightarrow> list_ex (\<lambda>u. u_ID u = oa_UserID a) (users d)"

definition OAuth_GetByProviderAndAccountID :: "string \<Rightarrow> string \<Rightarrow> (store_error + OAuthAccount) io" where
  "OAuth_GetByProviderAndAccountID provider accountID = exec_or (no_rows_as ErrNotFound)
     (select_one (\<lambda>d. find (\<lambda>a. oa_Provider a = provider \<and> oa_ProviderAccountID a = accountID) (oauth_accounts d)))
     answer"

definition OAuth_Create :: "OAuthAccount \<Rightarrow> (store_error + OAuthAccount) io" where
  "OAuth_Create account = exec_or (unique_as ErrConflict)
     (with_uuid (\<lambda>i w. insert_stmt oauth_accounts put_oauth (\<lambda>_. True) oauth_clash oauth_fk
        (account\<lparr>oa_ID := i, oa_CreatedAt := db_now w, oa_UpdatedAt := db_now w\<rparr>) w))
     answer"

end
