(* ===== verification/Effects.thy ===== *)
theory Effects
  imports Waitlist_Store Accounts_Store
begin

section \<open>What statements, transactions and store methods do to the database\<close>

text \<open>
  Inversion rules for \<open>exec\<close>, \<open>exec_or\<close> and \<open>in_tx\<close>, and for the statements: a run that
  answers determines every intermediate world; a run that fails leaves the database alone.
\<close>

subsection \<open>External calls\<close>

definition pop :: "world \<Rightarrow> world" where
  "pop w = w\<lparr>faults := tl (faults w)\<rparr>"

definition ok_next :: "world \<Rightarrow> bool" where
  "ok_next w \<longleftrightarrow> faults w = [] \<or> \<not> hd (faults w)"

lemma pop_fields [simp]:
  "db (pop w) = db w" "db_now (pop w) = db_now w" "go_now (pop w) = go_now w"
  "new_uuid (pop w) = new_uuid w" "rand_bytes (pop w) = rand_bytes w" "drawn (pop w) = drawn w"
  "tasks (pop w) = tasks w" "outbox (pop w) = outbox w" "faults (pop w) = tl (faults w)"
  by (simp_all add: pop_def)

lemma pop_no_faults [simp]: "faults w = [] \<Longrightarrow> pop w = w"
  by (simp add: pop_def)

lemma ok_next_no_faults [simp]: "faults w = [] \<Longrightarrow> ok_next w"
  by (simp add: ok_next_def)

lemma run_exec: "run_state (exec q) w = (if ok_next w then q (pop w) else (Inl ConnFailed, pop w))"
proof (cases "faults w")
  case Nil
  then show ?thesis by (simp add: exec_def)
next
  case (Cons f fs)
  then show ?thesis by (simp add: exec_def ok_next_def pop_def)
qed

lemma run_exec_or:
  "run_state (exec_or f q k) w =
     (case run_state (exec q) w of (Inl e, w') \<Rightarrow> (Inl (f e), w') | (Inr x, w') \<Rightarrow> run_state (k x) w')"
  by (simp add: exec_or_def split: prod.splits sum.splits)

lemma exec_or_InrE:
  assumes "run_state (exec_or f q k) w = (Inr y, w')"
  obtains x w1 where "q (pop w) = (Inr x, w1)" "run_state (k x) w1 = (Inr y, w')"
  using assms by (auto simp: run_exec_or run_exec split: prod.splits sum.splits if_splits)

lemma exec_or_cases:
  assumes "run_state (exec_or f q k) w = (r, w')"
  obtains (fault) "r = Inl (f ConnFailed)" "w' = pop w"
  | (error) e where "q (pop w) = (Inl e, w')" "r = Inl (f e)"
  | (ok) x w1 where "q (pop w) = (Inr x, w1)" "run_state (k x) w1 = (r, w')"
  using assms by (auto simp: run_exec_or run_exec split: prod.splits sum.splits if_splits)

lemma run_unless [simp]:
  "run_state (if c then refuse e else m) w = (Inr x, w') \<longleftrightarrow> \<not> c \<and> run_state m w = (Inr x, w')"
  by simp

lemma run_time_Now [simp]: "run_state time_Now w = (go_now w, w)"
  by (simp add: time_Now_def)

lemma run_uuid_New [simp]: "run_state uuid_New w = (new_uuid w (drawn w), w\<lparr>drawn := Suc (drawn w)\<rparr>)"
  by (simp add: uuid_New_def)

subsection \<open>Transactions\<close>

lemma in_tx_InrE:
  assumes "run_state (in_tx body) w = (Inr x, w')"
  obtains w1 where "run_state body (pop w) = (Inr x, w1)" "w' = pop w1"
  using assms unfolding in_tx_def
  by (elim exec_or_InrE) (auto simp: run_exec split: prod.splits sum.splits if_splits)

lemma in_tx_Inl:
  assumes "run_state (in_tx body) w = (Inl e, w')"
  shows "db w' = db w"
  using assms unfolding in_tx_def
  by (elim exec_or_cases) (auto simp: run_exec split: prod.splits sum.splits if_splits)

lemma in_tx_InlE:
  assumes "run_state (in_tx body) w = (Inl e, w')"
  obtains (technical) x where "e = ErrPg x" | (body) w1 where "run_state body (pop w) = (Inl e, w1)"
  using assms unfolding in_tx_def
  by (elim exec_or_cases) (auto simp: run_exec split: prod.splits sum.splits if_splits)

lemma exec_or_InlE:
  assumes "run_state (exec_or f q k) w = (Inl e, w')"
  obtains (failed) x where "e = f x" "x = ConnFailed \<or> (\<exists>w1. q (pop w) = (Inl x, w1))"
    | (later) x w1 where "q (pop w) = (Inr x, w1)" "run_state (k x) w1 = (Inl e, w')"
  using assms by (elim exec_or_cases) auto

subsection \<open>Statements\<close>

lemma select_one_Inr [simp]: "select_one q w = (Inr x, w') \<longleftrightarrow> q (db w) = Some x \<and> w' = w"
  by (auto simp: select_one_def split: option.splits)

lemma select_all_Inr [simp]: "select_all q w = (Inr x, w') \<longleftrightarrow> x = q (db w) \<and> w' = w"
  by (auto simp: select_all_def)

lemma update_stmt_Inr [simp]:
  "update_stmt rows put chk c f w = (Inr rs, w') \<longleftrightarrow>
     (\<forall>r \<in> set (rows (db w)). c r \<longrightarrow> chk (f r)) \<and> rs = map f (filter c (rows (db w)))
     \<and> w' = w\<lparr>db := put (upd c f (rows (db w))) (db w)\<rparr>"
  by (auto simp: update_stmt_def list_all_iff)

lemma insert_stmt_Inr [simp]:
  "insert_stmt rows put chk clash fk r w = (Inr x, w') \<longleftrightarrow>
     chk r \<and> (\<forall>y \<in> set (rows (db w)). \<not> clash r y) \<and> fk r (db w) \<and> x = r
     \<and> w' = w\<lparr>db := put (rows (db w) @ [r]) (db w)\<rparr>"
  by (auto simp: insert_stmt_def list_ex_iff)

lemma returning_one_Inr:
  "returning_one q w = (Inr x, w') \<longleftrightarrow> (\<exists>rs. q w = (Inr (x # rs), w'))"
  by (auto simp: returning_one_def split: prod.splits sum.splits list.splits)

lemma returning_update_InrE:
  assumes "returning_one (update_stmt rows put chk c f) w = (Inr x, w')"
  obtains r where "r \<in> set (rows (db w))" "c r" "x = f r" "chk (f r)"
    "\<forall>r \<in> set (rows (db w)). c r \<longrightarrow> chk (f r)"
    "w' = w\<lparr>db := put (upd c f (rows (db w))) (db w)\<rparr>"
proof -
  from assms obtain rs where rs: "map f (filter c (rows (db w))) = x # rs"
    and chk: "\<forall>r \<in> set (rows (db w)). c r \<longrightarrow> chk (f r)"
    and w': "w' = w\<lparr>db := put (upd c f (rows (db w))) (db w)\<rparr>"
    by (auto simp: returning_one_Inr)
  then have "x \<in> set (map f (filter c (rows (db w))))" by simp
  then obtain r where "r \<in> set (rows (db w))" "c r" "x = f r" by auto
  with that chk w' show thesis by blast
qed

text \<open>Statements that fail have no effect on the database.\<close>

definition clean :: "'a stmt \<Rightarrow> bool" where
  "clean q \<longleftrightarrow> (\<forall>w e w'. q w = (Inl e, w') \<longrightarrow> db w' = db w)"

definition reads :: "'a stmt \<Rightarrow> bool" where
  "reads q \<longleftrightarrow> (\<forall>w r w'. q w = (r, w') \<longrightarrow> db w' = db w)"

named_theorems clean_intros \<open>statements without effect on failure\<close>

lemma reads_select [clean_intros]: "reads (select_one q)" "reads (select_all f)"
  by (auto simp: reads_def select_one_def select_all_def split: option.splits)

lemma reads_clean: "reads q \<Longrightarrow> clean q"
  by (auto simp: reads_def clean_def)

lemma clean_update [clean_intros]: "clean (update_stmt rows put chk c f)"
  by (auto simp: clean_def update_stmt_def split: if_splits)

subsection \<open>The interface of a table\<close>

text \<open>
  A table is reached in the database by \<open>rows\<close> and \<open>put\<close>; these laws are what the statements
  need of it. An \<open>UPDATE .. RETURNING\<close> that finds no row changes nothing.
\<close>

locale table =
  fixes rows :: "database \<Rightarrow> 'r list" and put :: "'r list \<Rightarrow> database \<Rightarrow> database"
  assumes rows_put: "rows (put rs d) = rs"
    and put_rows: "put (rows d) d = d"
    and put_put: "put rs (put rs' d) = put rs d"
begin

lemma put_upd_none: "filter c (rows d) = [] \<Longrightarrow> put (upd c f (rows d)) d = d"
  by (metis filter_empty_conv put_rows upd_none)

lemma clean_returning: "clean (returning_one (update_stmt rows put chk c f))"
  unfolding clean_def returning_one_def update_stmt_def
  by (auto simp: put_upd_none split: if_splits list.splits)

lemma rows_after_update:
  "update_stmt rows put chk c f w = (Inr rs, w') \<Longrightarrow> rows (db w') = upd c f (rows (db w))"
  by (simp add: rows_put)

lemma rows_after_insert:
  "insert_stmt rows put chk clash fk r w = (Inr x, w') \<Longrightarrow> rows (db w') = rows (db w) @ [r]"
  by (simp add: rows_put)

end

interpretation users_table: table users "\<lambda>rs d. d\<lparr>users := rs\<rparr>"
  by unfold_locales simp_all
interpretation sessions_table: table sessions "\<lambda>rs d. d\<lparr>sessions := rs\<rparr>"
  by unfold_locales simp_all
interpretation verifications_table: table verifications "\<lambda>rs d. d\<lparr>verifications := rs\<rparr>"
  by unfold_locales simp_all
interpretation oauth_table: table oauth_accounts "\<lambda>rs d. d\<lparr>oauth_accounts := rs\<rparr>"
  by unfold_locales simp_all
interpretation events_table: table events "\<lambda>rs d. d\<lparr>events := rs\<rparr>"
  by unfold_locales simp_all
interpretation tiers_table: table ticket_tiers "\<lambda>rs d. d\<lparr>ticket_tiers := rs\<rparr>"
  by unfold_locales simp_all
interpretation purchases_table: table purchases "\<lambda>rs d. d\<lparr>purchases := rs\<rparr>"
  by unfold_locales simp_all
interpretation tickets_table: table tickets "\<lambda>rs d. d\<lparr>tickets := rs\<rparr>"
  by unfold_locales simp_all
interpretation waitlist_table: table waitlist_entries "\<lambda>rs d. d\<lparr>waitlist_entries := rs\<rparr>"
  by unfold_locales simp_all

lemma clean_insert [clean_intros]: "clean (insert_stmt rows put chk clash fk r)"
  by (auto simp: clean_def insert_stmt_def split: if_splits)

end
