(* ===== verification/Abstract.thy ===== *)
theory Abstract
  imports Waitlist_Store Accounts_Store
begin

section \<open>The abstract specification: the transitions of the database\<close>

text \<open>
  What the back end promises to do, without statements, transactions, faults or requests: one
  rule per kind of change, with the condition under which the program makes it. The
  simulation shows that every handler and every task is a sequence of these steps; the
  invariants are proved about the steps.
\<close>

subsection \<open>The larger changes as functions\<close>

definition sold_row :: "int \<Rightarrow> instant \<Rightarrow> Tier \<Rightarrow> Tier" where
  "sold_row q now t = t\<lparr>t_Remaining := t_Remaining t - q,
     t_Status := (if t_Remaining t - q = 0 then SoldOut else Available), t_UpdatedAt := now\<rparr>"

definition returned_row :: "int \<Rightarrow> instant \<Rightarrow> Tier \<Rightarrow> Tier" where
  "returned_row q now t = t\<lparr>t_Remaining := t_Remaining t + q, t_Status := Available, t_UpdatedAt := now\<rparr>"

definition ticket_of :: "Purchase \<Rightarrow> instant \<Rightarrow> Ticket \<Rightarrow> Ticket" where
  "ticket_of p now k = \<lparr>k_ID = k_ID k, k_PurchaseID = p_ID p, k_TierID = p_TierID p,
     k_QRToken = k_QRToken k, k_Status = Unused, k_CheckedInAt = None, k_CreatedAt = now, k_UpdatedAt = now\<rparr>"

definition in_stock :: "uuid \<Rightarrow> database \<Rightarrow> bool" where
  "in_stock ev d \<longleftrightarrow> list_ex (\<lambda>t. t_EventID t = ev \<and> t_Remaining t > 0) (ticket_tiers d)"

definition flip_status :: "event_status list \<Rightarrow> event_status \<Rightarrow> uuid \<Rightarrow> instant \<Rightarrow> database \<Rightarrow> database" where
  "flip_status from to ev now d =
     put_events (upd (\<lambda>e. e_ID e = ev \<and> e_Status e \<in> set from)
       (\<lambda>e. e\<lparr>e_Status := to, e_UpdatedAt := now\<rparr>) (events d)) d"

text \<open>A sale of purchase row \<open>p\<close> of event \<open>ev\<close> with the tickets \<open>ks\<close>.\<close>

definition sell :: "Purchase \<Rightarrow> Ticket list \<Rightarrow> uuid \<Rightarrow> instant \<Rightarrow> database \<Rightarrow> database" where
  "sell p ks ev now d =
     (let d1 = d\<lparr>ticket_tiers := upd (\<lambda>t. t_ID t = p_TierID p) (sold_row (p_Quantity p) now) (ticket_tiers d),
                 purchases := purchases d @ [p],
                 tickets := tickets d @ map (ticket_of p now) ks\<rparr>
      in if in_stock ev d1 then d1 else flip_status [Published] EvSoldOut ev now d1)"

text \<open>Taking a purchase back.\<close>

definition cancel_purchase_rows :: "(Purchase \<Rightarrow> bool) \<Rightarrow> instant \<Rightarrow> Purchase list \<Rightarrow> Purchase list" where
  "cancel_purchase_rows c now ps = upd c (\<lambda>p. p\<lparr>p_Status := PuCancelled, p_UpdatedAt := now\<rparr>) ps"

definition cancel_ticket_rows :: "(Ticket \<Rightarrow> bool) \<Rightarrow> instant \<Rightarrow> Ticket list \<Rightarrow> Ticket list" where
  "cancel_ticket_rows c now ks = upd c (\<lambda>k. k\<lparr>k_Status := TkCancelled, k_UpdatedAt := now\<rparr>) ks"

definition take_back :: "Purchase \<Rightarrow> uuid \<Rightarrow> instant \<Rightarrow> database \<Rightarrow> database" where
  "take_back p ev now d =
     flip_status [EvSoldOut] Published ev now
       (d\<lparr>ticket_tiers := upd (\<lambda>t. t_ID t = p_TierID p) (returned_row (p_Quantity p) now) (ticket_tiers d),
          purchases := cancel_purchase_rows (\<lambda>x. p_ID x = p_ID p) now (purchases d),
          tickets := cancel_ticket_rows (\<lambda>k. k_PurchaseID k = p_ID p) now (tickets d)\<rparr>)"

definition cancel_all :: "uuid \<Rightarrow> instant \<Rightarrow> database \<Rightarrow> database" where
  "cancel_all ev now d =
     d\<lparr>purchases := cancel_purchase_rows (\<lambda>p. of_event d ev (p_TierID p) \<and> p_Status p = Confirmed) now (purchases d),
       tickets := cancel_ticket_rows
         (\<lambda>k. list_ex (\<lambda>p. p_ID p = k_PurchaseID k \<and> of_event d ev (p_TierID p)) (purchases d)
            \<and> k_Status k \<noteq> TkCancelled) now (tickets d)\<rparr>"

definition admit :: "uuid \<Rightarrow> instant \<Rightarrow> database \<Rightarrow> database" where
  "admit i now d = d\<lparr>tickets := upd (\<lambda>k. k_ID k = i)
     (\<lambda>k. k\<lparr>k_Status := Used, k_CheckedInAt := Some now, k_UpdatedAt := now\<rparr>) (tickets d)\<rparr>"

definition drop_event :: "uuid \<Rightarrow> database \<Rightarrow> database" where
  "drop_event i d = drop_tiers (\<lambda>t. t_EventID t = i) (put_events (filter (\<lambda>e. e_ID e \<noteq> i) (events d)) d)"

definition end_expired :: "instant \<Rightarrow> database \<Rightarrow> database" where
  "end_expired now d = put_events (upd (\<lambda>e. e_Status e \<in> {Published, EvSoldOut} \<and> e_EndsAt e < now)
     (\<lambda>e. e\<lparr>e_Status := Ended, e_UpdatedAt := now\<rparr>) (events d)) d"

definition notify_entry :: "uuid \<Rightarrow> instant \<Rightarrow> instant \<Rightarrow> database \<Rightarrow> database" where
  "notify_entry i at now d = put_waitlist (upd (\<lambda>x. w_ID x = i \<and> w_Status x = Waiting)
     (\<lambda>x. x\<lparr>w_Status := Notified, w_NotifiedAt := Some at, w_ExpiresAt := Some (at + 24 * time_Hour),
           w_UpdatedAt := now\<rparr>) (waitlist_entries d)) d"

definition expire_entries :: "instant \<Rightarrow> database \<Rightarrow> database" where
  "expire_entries now d = put_waitlist (upd
     (\<lambda>e. w_Status e = Notified \<and> (case w_ExpiresAt e of None \<Rightarrow> False | Some t \<Rightarrow> t < now))
     (\<lambda>e. e\<lparr>w_Status := Expired, w_UpdatedAt := now\<rparr>) (waitlist_entries d)) d"

subsection \<open>The step relation\<close>

text \<open>What an edit of an event keeps, and what a resize of a tier keeps.\<close>

definition same_event :: "Event \<Rightarrow> Event \<Rightarrow> bool" where
  "same_event e e' \<longleftrightarrow> e_ID e' = e_ID e \<and> e_OrganizerID e' = e_OrganizerID e
     \<and> e_Status e' = e_Status e \<and> e_CreatedAt e' = e_CreatedAt e"

definition same_sales :: "Tier \<Rightarrow> Tier \<Rightarrow> bool" where
  "same_sales t t' \<longleftrightarrow> t_ID t' = t_ID t \<and> t_EventID t' = t_EventID t
     \<and> t_Quantity t' - t_Remaining t' = t_Quantity t - t_Remaining t
     \<and> (t_Quantity t' \<noteq> t_Quantity t \<or> t_Status t' \<noteq> t_Status t \<longrightarrow> (t_Status t' = SoldOut \<longleftrightarrow> t_Remaining t' = 0))"

inductive db_step :: "database \<Rightarrow> database \<Rightarrow> bool" where
  user_added: "\<forall>x \<in> set (users d). \<not> user_clash u x \<Longrightarrow> db_step d (put_users (users d @ [u]) d)"
| users_changed: "(\<And>u. u_ID (f u) = u_ID u) \<Longrightarrow> (\<And>u. u_Email (f u) = u_Email u)
    \<Longrightarrow> db_step d (put_users (upd c f (users d)) d)"
| session_added: "\<forall>x \<in> set (sessions d). \<not> session_clash s x \<Longrightarrow> session_fk s d
    \<Longrightarrow> db_step d (put_sessions (sessions d @ [s]) d)"
| verification_added: "\<forall>x \<in> set (verifications d). \<not> verification_clash v x
    \<Longrightarrow> db_step d (put_verifications (verifications d @ [v]) d)"
| verifications_dropped: "db_step d (put_verifications (filter cv (verifications d)) d)"
| account_linked: "\<forall>x \<in> set (oauth_accounts d). \<not> oauth_clash oa x \<Longrightarrow> oauth_fk oa d
    \<Longrightarrow> db_step d (put_oauth (oauth_accounts d @ [oa]) d)"
| sessions_dropped: "db_step d (put_sessions (filter c (sessions d)) d)"
| event_added: "event_check e \<Longrightarrow> \<forall>x \<in> set (events d). \<not> event_clash e x \<Longrightarrow> event_fk e d
    \<Longrightarrow> e_Status e = Draft \<Longrightarrow> db_step d (put_events (events d @ [e]) d)"
| event_edited: "\<forall>e \<in> set (events d). e_ID e = i \<longrightarrow> same_event e (f e) \<and> event_check (f e)
    \<Longrightarrow> db_step d (put_events (upd (\<lambda>e. e_ID e = i) f (events d)) d)"
| event_published: "db_step d (flip_status [Draft] Published i now d)"
| event_cancelled: "db_step d (flip_status [Draft, Published, EvSoldOut] EvCancelled i now d)"
| event_reopened: "in_stock i d \<Longrightarrow> db_step d (flip_status [EvSoldOut] Published i now d)"
| events_ended: "db_step d (end_expired now d)"
| event_dropped: "\<forall>e \<in> set (events d). e_ID e = i \<longrightarrow> e_Status e = Draft
    \<Longrightarrow> db_step d (drop_event i d)"
| tier_added: "tier_check t \<Longrightarrow> \<forall>x \<in> set (ticket_tiers d). \<not> tier_clash t x
    \<Longrightarrow> e \<in> set (events d) \<Longrightarrow> e_ID e = t_EventID t \<Longrightarrow> e_Status e = Draft
    \<Longrightarrow> t_Remaining t = t_Quantity t \<Longrightarrow> t_Status t = Available
    \<Longrightarrow> db_step d (put_tiers (ticket_tiers d @ [t]) d)"
| tier_edited: "e \<in> set (events d) \<Longrightarrow> e_Status e \<noteq> EvCancelled \<Longrightarrow> e_Status e \<noteq> Ended
    \<Longrightarrow> \<forall>t \<in> set (ticket_tiers d). t_ID t = i \<longrightarrow> t_EventID t = e_ID e
    \<Longrightarrow> \<forall>t \<in> set (ticket_tiers d). t_ID t = i \<longrightarrow> same_sales t (f t) \<and> tier_check (f t)
    \<Longrightarrow> db_step d (put_tiers (upd (\<lambda>t. t_ID t = i) f (ticket_tiers d)) d)"
| tier_dropped: "\<forall>e \<in> set (events d). e_ID e = ev \<longrightarrow> e_Status e = Draft
    \<Longrightarrow> db_step d (drop_tiers (\<lambda>t. t_ID t = i \<and> t_EventID t = ev) d)"
| sold: "t \<in> set (ticket_tiers d) \<Longrightarrow> t_ID t = p_TierID p \<Longrightarrow> t_EventID t = ev \<Longrightarrow> e \<in> set (events d)
    \<Longrightarrow> e_ID e = ev \<Longrightarrow> e_Status e = Published \<Longrightarrow> p_Quantity p \<le> e_MaxTicketsPerPurchase e
    \<Longrightarrow> t_Status t = Available \<Longrightarrow> p_Quantity p \<le> t_Remaining t
    \<Longrightarrow> \<forall>x \<in> set (ticket_tiers d). t_ID x = t_ID t \<longrightarrow> tier_check (sold_row (p_Quantity p) now x)
    \<Longrightarrow> purchase_check p \<Longrightarrow> p_Total p = wrap64 (t_Price t * p_Quantity p) \<Longrightarrow> p_Status p = Confirmed
    \<Longrightarrow> \<forall>x \<in> set (purchases d). \<not> purchase_clash p x \<Longrightarrow> u \<in> set (users d) \<Longrightarrow> u_ID u = p_UserID p
    \<Longrightarrow> int (length ks) = p_Quantity p
    \<Longrightarrow> distinct (map k_ID ks) \<Longrightarrow> \<forall>k \<in> set ks. \<forall>x \<in> set (tickets d). \<not> ticket_clash k x
    \<Longrightarrow> distinct (map k_QRToken ks)
    \<Longrightarrow> db_step d (sell p ks ev now d)"
| taken_back: "p \<in> set (purchases d) \<Longrightarrow> p_Status p = Confirmed
    \<Longrightarrow> t \<in> set (ticket_tiers d) \<Longrightarrow> t_ID t = p_TierID p \<Longrightarrow> t_EventID t = ev
    \<Longrightarrow> \<forall>x \<in> set (ticket_tiers d). t_ID x = t_ID t \<longrightarrow> tier_check (returned_row (p_Quantity p) now x)
    \<Longrightarrow> db_step d (take_back p ev now d)"
| all_cancelled: "\<forall>e \<in> set (events d). e_ID e = ev \<longrightarrow> e_Status e = EvCancelled
    \<Longrightarrow> db_step d (cancel_all ev now d)"
| admitted: "\<forall>k \<in> set (tickets d). k_ID k = i \<longrightarrow> k_Status k = Unused \<Longrightarrow> db_step d (admit i now d)"
| joined: "\<forall>x \<in> set (waitlist_entries d). \<not> waitlist_clash e x \<Longrightarrow> waitlist_fk e d \<Longrightarrow> w_Status e = Waiting
    \<Longrightarrow> \<forall>t \<in> set (ticket_tiers d). t_ID t = w_TierID e \<longrightarrow> t_Status t = SoldOut
    \<Longrightarrow> \<forall>p \<in> set (purchases d). p_UserID p = w_UserID e \<and> p_TierID p = w_TierID e \<longrightarrow> p_Status p \<noteq> Confirmed
    \<Longrightarrow> db_step d (put_waitlist (waitlist_entries d @ [e]) d)"
| left: "db_step d (put_waitlist (filter c (waitlist_entries d)) d)"
| notified: "db_step d (notify_entry i at now d)"
| expired: "db_step d (expire_entries now d)"

definition db_run :: "database \<Rightarrow> database \<Rightarrow> bool" where
  "db_run = db_step\<^sup>*\<^sup>*"

lemma db_run_refl [simp]: "db_run d d"
  by (simp add: db_run_def)

lemma db_run_step: "db_step d d' \<Longrightarrow> db_run d d'"
  by (simp add: db_run_def)

lemma db_run_trans: "db_run a b \<Longrightarrow> db_run b c \<Longrightarrow> db_run a c"
  by (auto simp: db_run_def)

end
