(* ===== verification/Sales.thy ===== *)
theory Sales
  imports Effects Abstract
begin

section \<open>What a sale, a cancellation and a check-in do\<close>

text \<open>
  A run of \<open>Purchases_Create\<close>, \<open>Purchases_Cancel\<close>, \<open>Purchases_CancelByEvent\<close> or
  \<open>Tickets_CheckIn\<close> that answers determines the whole change of the database and the
  conditions that held; and without faults the outcome is a function of the database,
  errors included.
\<close>

subsection \<open>The batch of tickets\<close>

definition batch_ok :: "Ticket list \<Rightarrow> database \<Rightarrow> bool" where
  "batch_ok ks d \<longleftrightarrow> distinct (map k_ID ks) \<and> distinct (map k_QRToken ks)
     \<and> list_all (\<lambda>k. \<not> list_ex (ticket_clash k) (tickets d)) ks"

definition minted :: "instant \<Rightarrow> Ticket \<Rightarrow> Ticket" where
  "minted now k = k\<lparr>k_Status := Unused, k_CreatedAt := now, k_UpdatedAt := now\<rparr>"

lemma insert_ticket_Inr:
  "insert_ticket p k w = (Inr r, w') \<longleftrightarrow> r = ticket_of p (db_now w) k
     \<and> (\<forall>x \<in> set (tickets (db w)). \<not> ticket_clash k x)
     \<and> ticket_fk r (db w) \<and> w' = w\<lparr>db := put_tickets (tickets (db w) @ [r]) (db w)\<rparr>"
  by (auto simp: insert_ticket_def ticket_of_def ticket_clash_def)

lemma ticket_clash_of: "ticket_clash k (ticket_of p now k') \<longleftrightarrow> k_ID k' = k_ID k \<or> k_QRToken k' = k_QRToken k"
  by (simp add: ticket_clash_def ticket_of_def)

lemma insert_batch_Inr:
  "insert_batch p ks w = (Inr rs, w') \<Longrightarrow>
     rs = map (minted (db_now w)) ks \<and> batch_ok ks (db w)
     \<and> w' = w\<lparr>db := put_tickets (tickets (db w) @ map (ticket_of p (db_now w)) ks) (db w)\<rparr>"
proof (induction ks arbitrary: w rs)
  case Nil
  then show ?case by (simp add: batch_ok_def)
next
  case (Cons k ks)
  from Cons.prems obtain r w1 rs1 where 1: "insert_ticket p k w = (Inr r, w1)"
    and 2: "insert_batch p ks w1 = (Inr rs1, w')"
    and rs: "rs = k\<lparr>k_Status := k_Status r, k_CreatedAt := k_CreatedAt r, k_UpdatedAt := k_UpdatedAt r\<rparr> # rs1"
    by (auto split: prod.splits sum.splits)
  from 1 have r: "r = ticket_of p (db_now w) k" "\<forall>x \<in> set (tickets (db w)). \<not> ticket_clash k x"
    and w1: "w1 = w\<lparr>db := put_tickets (tickets (db w) @ [r]) (db w)\<rparr>"
    by (simp_all add: insert_ticket_Inr)
  from Cons.IH [OF 2] r(2) show ?case
    by (auto simp: rs r(1) w1 batch_ok_def minted_def ticket_of_def ticket_clash_def list_all_iff list_ex_iff)
qed

text \<open>Conversely the batch succeeds when its keys are new and its purchase exists.\<close>

lemma insert_batch_ok:
  assumes "batch_ok ks (db w)" and "\<exists>x \<in> set (purchases (db w)). p_ID x = p_ID p"
    and "\<exists>t \<in> set (ticket_tiers (db w)). t_ID t = p_TierID p"
  shows "insert_batch p ks w = (Inr (map (minted (db_now w)) ks),
    w\<lparr>db := put_tickets (tickets (db w) @ map (ticket_of p (db_now w)) ks) (db w)\<rparr>)"
  using assms
proof (induction ks arbitrary: w)
  case Nil
  then show ?case by simp
next
  case (Cons k ks)
  let ?r = "ticket_of p (db_now w) k"
  let ?w1 = "w\<lparr>db := put_tickets (tickets (db w) @ [?r]) (db w)\<rparr>"
  have 1: "insert_ticket p k w = (Inr ?r, ?w1)"
    using Cons.prems
    by (simp add: insert_ticket_Inr batch_ok_def list_ex_iff ticket_fk_def) (auto simp: ticket_of_def)
  have "batch_ok ks (db ?w1)"
    using Cons.prems(1) by (auto simp: batch_ok_def list_all_iff list_ex_iff ticket_clash_def ticket_of_def)
  with Cons.IH [of ?w1] Cons.prems 1 show ?case
    by (simp add: minted_def ticket_of_def)
qed

subsection \<open>Create\<close>

lemma sell_alt:
  "sell p ks ev now d =
     (let ts = upd (\<lambda>t. t_ID t = p_TierID p) (sold_row (p_Quantity p) now) (ticket_tiers d)
      in d\<lparr>ticket_tiers := ts, purchases := purchases d @ [p], tickets := tickets d @ map (ticket_of p now) ks,
           events := (if list_ex (\<lambda>t. t_EventID t = ev \<and> t_Remaining t > 0) ts then events d
             else upd (\<lambda>e. e_ID e = ev \<and> e_Status e = Published)
               (\<lambda>e. e\<lparr>e_Status := EvSoldOut, e_UpdatedAt := now\<rparr>) (events d))\<rparr>)"
  by (simp add: sell_def flip_status_def in_stock_def Let_def)

lemma run_unless_exec:
  "run_state (if \<not> c then exec_or f q (\<lambda>_. answer y) else answer y) w = (Inr x, w')
    \<Longrightarrow> x = y \<and> (if c then w' = w else \<exists>r. q (pop w) = (Inr r, w'))"
  by (auto elim!: exec_or_InrE split: if_splits)


text \<open>The purchase row that a sale writes.\<close>

definition purchase_row :: "Purchase \<Rightarrow> int \<Rightarrow> instant \<Rightarrow> Purchase" where
  "purchase_row p price now = p\<lparr>p_Total := wrap64 (price * p_Quantity p), p_Status := Confirmed,
     p_CreatedAt := now, p_UpdatedAt := now\<rparr>"

text \<open>The conditions under which \<open>Create\<close> refuses, in the order of the code.\<close>

definition create_refuses :: "Purchase \<Rightarrow> Tier \<Rightarrow> Event \<Rightarrow> store_error option" where
  "create_refuses p t e =
     (if e_Status e \<noteq> Published then Some ErrEventNotPublished
      else if p_Quantity p > e_MaxTicketsPerPurchase e then Some ErrExceedsMaxPerPurchase
      else if t_Status t \<noteq> Available \<or> t_Remaining t < p_Quantity p then Some ErrInsufficientRemaining
      else None)"

lemma update_tiers_sold:
  "update_tiers (\<lambda>t. t_ID t = i) (\<lambda>t. t\<lparr>t_Remaining := t_Remaining t - q,
       t_Status := (if t_Remaining t = q then SoldOut else Available)\<rparr>) w
   = update_stmt ticket_tiers put_tiers tier_check (\<lambda>t. t_ID t = i) (sold_row q (db_now w)) w"
proof -
  have "sold_row q (db_now w) = (\<lambda>t. t\<lparr>t_Remaining := t_Remaining t - q,
       t_Status := (if t_Remaining t = q then SoldOut else Available), t_UpdatedAt := db_now w\<rparr>)"
    by (rule ext) (simp add: sold_row_def)
  then show ?thesis by (simp only: update_tiers_def)
qed

lemma Purchases_Create_InrE:
  assumes "run_state (Purchases_Create p ts) w = (Inr (p', ts'), w')"
  obtains t e where "row_at t_ID (ticket_tiers (db w)) (p_TierID p) = Some t"
    and "row_at e_ID (events (db w)) (t_EventID t) = Some e"
    and "create_refuses p t e = None"
    and "\<forall>x \<in> set (ticket_tiers (db w)). t_ID x = p_TierID p \<longrightarrow> tier_check (sold_row (p_Quantity p) (db_now w) x)"
    and "p' = purchase_row p (t_Price t) (db_now w)" and "purchase_check p'"
    and "\<forall>x \<in> set (purchases (db w)). \<not> purchase_clash p x"
    and "\<exists>u \<in> set (users (db w)). u_ID u = p_UserID p"
    and "batch_ok ts (db w)" and "ts' = map (minted (db_now w)) ts"
    and "db w' = sell p' ts (t_EventID t) (db_now w) (db w)"
proof -
  from assms show thesis
    unfolding Purchases_Create_def
  apply (elim in_tx_InrE exec_or_InrE)
  apply (clarsimp simp: update_tiers_sold insert_purchase_def)
  apply (elim exec_or_InrE)
  apply (clarsimp simp: update_tiers_sold insert_purchase_def)
  apply (elim exec_or_InrE)
  apply (clarsimp simp: update_tiers_sold insert_purchase_def dest!: insert_batch_Inr)
  apply (drule run_unless_exec)
  apply (clarsimp simp: update_events_def)
  apply (rule that, assumption, assumption)
  subgoal by (simp add: create_refuses_def)
  subgoal by simp
  subgoal by (simp add: purchase_row_def)
  subgoal by (simp add: purchase_row_def)
  subgoal by (simp add: purchase_clash_def)
  subgoal by (simp add: purchase_fk_def list_ex_iff)
  subgoal by (simp add: batch_ok_def)
  subgoal by simp
  subgoal by (simp only: split: if_splits; clarsimp simp: update_events_def sell_alt purchase_row_def Let_def)
  done
qed

subsection \<open>Cancel\<close>

text \<open>The conditions under which \<open>Cancel\<close> refuses a confirmed purchase, in the order of the code.\<close>

definition cancel_refuses :: "instant \<Rightarrow> Event \<Rightarrow> store_error option" where
  "cancel_refuses now e =
     (if \<not> now < e_StartsAt e then Some ErrEventStarted
      else if \<not> e_CancellationAllowed e then Some ErrCancellationNotAllowed
      else if windowClosed now (e_StartsAt e) (e_CancellationHoursBefore e)
              \<and> \<not> graceOpen now (e_MaterialChangedAt e) then Some ErrOutsideCancellationWindow
      else None)"

abbreviation own_purchase :: "uuid \<Rightarrow> uuid \<Rightarrow> database \<Rightarrow> Purchase option" where
  "own_purchase i user d \<equiv> find (\<lambda>p. p_ID p = i \<and> p_UserID p = user) (purchases d)"

lemma update_tiers_returned:
  "update_tiers (\<lambda>t. t_ID t = i) (\<lambda>t. t\<lparr>t_Remaining := t_Remaining t + q, t_Status := Available\<rparr>) w
   = update_stmt ticket_tiers put_tiers tier_check (\<lambda>t. t_ID t = i) (returned_row q (db_now w)) w"
proof -
  have "returned_row q (db_now w)
      = (\<lambda>t. t\<lparr>t_Remaining := t_Remaining t + q, t_Status := Available, t_UpdatedAt := db_now w\<rparr>)"
    by (rule ext) (simp add: returned_row_def)
  then show ?thesis by (simp only: update_tiers_def)
qed

lemma update_purchases_stmt:
  "update_purchases c f w = update_stmt purchases put_purchases purchase_check c (\<lambda>p. (f p)\<lparr>p_UpdatedAt := db_now w\<rparr>) w"
  by (simp add: update_purchases_def)

lemma returning_purchase:
  "returning_one (update_purchases c (\<lambda>p. p\<lparr>p_Status := s\<rparr>)) w = (Inr row, w') \<Longrightarrow>
     p_Status row = s \<and> p_UpdatedAt row = db_now w \<and>
     w' = w\<lparr>db := put_purchases (upd c (\<lambda>p. p\<lparr>p_Status := s, p_UpdatedAt := db_now w\<rparr>) (purchases (db w))) (db w)\<rparr>"
proof -
  assume "returning_one (update_purchases c (\<lambda>p. p\<lparr>p_Status := s\<rparr>)) w = (Inr row, w')"
  then have "returning_one (update_stmt purchases put_purchases purchase_check c
      (\<lambda>p. p\<lparr>p_Status := s, p_UpdatedAt := db_now w\<rparr>)) w = (Inr row, w')"
    by (simp add: returning_one_def update_purchases_def)
  then show ?thesis by (elim returning_update_InrE) simp
qed

lemma Purchases_Cancel_InrE:
  assumes "run_state (Purchases_Cancel i user) w = (Inr (p', sold_out), w')"
  obtains p t e where "own_purchase i user (db w) = Some p" and "p_Status p = Confirmed"
    and "row_at t_ID (ticket_tiers (db w)) (p_TierID p) = Some t"
    and "row_at e_ID (events (db w)) (t_EventID t) = Some e"
    and "cancel_refuses (go_now w) e = None"
    and "\<forall>x \<in> set (ticket_tiers (db w)). t_ID x = p_TierID p \<longrightarrow> tier_check (returned_row (p_Quantity p) (db_now w) x)"
    and "p' = p\<lparr>p_Status := PuCancelled, p_UpdatedAt := db_now w\<rparr>"
    and "sold_out \<longleftrightarrow> t_Status t = SoldOut"
    and "db w' = take_back p (t_EventID t) (db_now w) (db w)"
proof -
  from assms show thesis
    unfolding Purchases_Cancel_def
  apply (elim in_tx_InrE exec_or_InrE)
  apply (clarsimp simp: update_tiers_returned Let_def update_tickets_def update_events_def split: option.splits)
  apply (elim exec_or_InrE)
  apply (clarsimp simp: update_tiers_returned Let_def update_tickets_def update_events_def split: option.splits dest!: returning_purchase)
  apply (elim exec_or_InrE)
  apply (clarsimp simp: update_tiers_returned Let_def update_tickets_def update_events_def split: option.splits dest!: returning_purchase)
  apply (rule that, assumption, assumption, assumption, assumption)
  by (auto simp: cancel_refuses_def take_back_def flip_status_def cancel_purchase_rows_def cancel_ticket_rows_def)
qed

lemma Purchases_CancelByEvent_Inr:
  assumes "run_state (Purchases_CancelByEvent ev) w = (Inr x, w')"
  shows "db w' = cancel_all ev (db_now w) (db w)"
  using assms unfolding Purchases_CancelByEvent_def
  apply (elim in_tx_InrE exec_or_InrE)
  apply (clarsimp simp: update_purchases_def update_tickets_def)
  apply (simp add: cancel_all_def cancel_purchase_rows_def cancel_ticket_rows_def of_event_def list_ex_upd)
  done

subsection \<open>Check-in\<close>

definition check_in_refuses :: "Ticket \<Rightarrow> Tier \<Rightarrow> uuid \<Rightarrow> store_error option" where
  "check_in_refuses k t ev =
     (if k_Status k = Used then Some ErrAlreadyCheckedIn
      else if k_Status k = TkCancelled then Some ErrTicketCancelled
      else if t_EventID t \<noteq> ev then Some ErrWrongEvent
      else None)"

lemma returning_ticket:
  "returning_one (update_tickets c (\<lambda>k. k\<lparr>k_Status := s, k_CheckedInAt := at\<rparr>)) w = (Inr row, w') \<Longrightarrow>
     k_Status row = s \<and> k_CheckedInAt row = at \<and> k_UpdatedAt row = db_now w \<and>
     w' = w\<lparr>db := put_tickets (upd c (\<lambda>k. k\<lparr>k_Status := s, k_CheckedInAt := at, k_UpdatedAt := db_now w\<rparr>)
       (tickets (db w))) (db w)\<rparr>"
proof -
  assume "returning_one (update_tickets c (\<lambda>k. k\<lparr>k_Status := s, k_CheckedInAt := at\<rparr>)) w = (Inr row, w')"
  then have "returning_one (update_stmt tickets put_tickets (\<lambda>_. True) c
      (\<lambda>k. k\<lparr>k_Status := s, k_CheckedInAt := at, k_UpdatedAt := db_now w\<rparr>)) w = (Inr row, w')"
    by (simp add: returning_one_def update_tickets_def)
  then show ?thesis by (elim returning_update_InrE) simp
qed

lemma Tickets_CheckIn_InrE:
  assumes "run_state (Tickets_CheckIn i ev) w = (Inr tc, w')"
  obtains k t u where "ticket_row i (db w) = Some (k, t, u)" and "check_in_refuses k t ev = None"
    and "tc_TierName tc = t_Name t" and "tc_AttendeeName tc = u_Name u" and "tc_AttendeeEmail tc = u_Email u"
    and "k_ID (tc_Ticket tc) = k_ID k" and "k_CheckedInAt (tc_Ticket tc) = Some (db_now w)"
    and "db w' = admit (k_ID k) (db_now w) (db w)"
proof -
  from assms show thesis
    unfolding Tickets_CheckIn_def
  apply (elim in_tx_InrE exec_or_InrE)
  apply (clarsimp dest!: returning_ticket)
  apply (elim exec_or_InrE)
  apply (clarsimp dest!: returning_ticket)
  apply (rule that, assumption)
  by (auto simp: check_in_refuses_def admit_def)
qed

lemma ticket_row_Some:
  "ticket_row i d = Some (k, t, u) \<Longrightarrow> k \<in> set (tickets d) \<and> k_ID k = i \<and> row_at k_ID (tickets d) i = Some k
     \<and> row_at t_ID (ticket_tiers d) (k_TierID k) = Some t"
  by (auto simp: ticket_row_def dest: row_at_Some split: option.splits)

end
