(* ===== verification/Invariants.thy ===== *)
theory Invariants
  imports Abstract
begin

section \<open>Invariants of the abstract steps: the schema\<close>

text \<open>
  The interface \<open>db_invariant\<close>: a property of the empty database that every step keeps holds of
  every database the back end can reach. \<open>db_invariant_with\<close> is an invariant proved with the
  help of another one. The first instance is the schema: keys are unique, the \<open>CHECK\<close>
  constraints hold, and foreign keys refer to rows.
\<close>

subsection \<open>The interface\<close>

locale db_invariant =
  fixes I :: "database \<Rightarrow> bool"
  assumes init: "I empty_db"
    and step: "I d \<Longrightarrow> db_step d d' \<Longrightarrow> I d'"
begin

lemma run: "db_run d d' \<Longrightarrow> I d \<Longrightarrow> I d'"
  unfolding db_run_def by (induction rule: rtranclp_induct) (auto intro: step)

lemma reachable: "db_run empty_db d \<Longrightarrow> I d"
  using run init by blast

end

locale db_invariant_with = base: db_invariant J for J :: "database \<Rightarrow> bool" +
  fixes I :: "database \<Rightarrow> bool"
  assumes init_with: "I empty_db"
    and step_with: "J d \<Longrightarrow> I d \<Longrightarrow> db_step d d' \<Longrightarrow> I d'"

sublocale db_invariant_with \<subseteq> both: db_invariant "\<lambda>d. J d \<and> I d"
  by unfold_locales (use base.init init_with base.step step_with in blast)+

subsection \<open>The effect of a step on each table\<close>

lemmas change_defs = flip_status_def end_expired_def drop_event_def drop_tiers_def take_back_def
  cancel_all_def cancel_purchase_rows_def cancel_ticket_rows_def admit_def notify_entry_def expire_entries_def
  Let_def

lemma sell_rows:
  "users (sell p ks ev now d) = users d" "sessions (sell p ks ev now d) = sessions d"
  "verifications (sell p ks ev now d) = verifications d" "oauth_accounts (sell p ks ev now d) = oauth_accounts d"
  "ticket_tiers (sell p ks ev now d) = upd (\<lambda>t. t_ID t = p_TierID p) (sold_row (p_Quantity p) now) (ticket_tiers d)"
  "purchases (sell p ks ev now d) = purchases d @ [p]"
  "tickets (sell p ks ev now d) = tickets d @ map (ticket_of p now) ks"
  "waitlist_entries (sell p ks ev now d) = waitlist_entries d"
  by (simp_all add: sell_def flip_status_def Let_def)

lemma sell_events:
  "\<exists>c. events (sell p ks ev now d) = upd (\<lambda>e. c \<and> e_ID e = ev \<and> e_Status e = Published)
     (\<lambda>e. e\<lparr>e_Status := EvSoldOut, e_UpdatedAt := now\<rparr>) (events d)"
proof -
  have "events (sell p ks ev now d) = events d
      \<or> events (sell p ks ev now d) = upd (\<lambda>e. e_ID e = ev \<and> e_Status e = Published)
          (\<lambda>e. e\<lparr>e_Status := EvSoldOut, e_UpdatedAt := now\<rparr>) (events d)"
    by (simp add: sell_def flip_status_def Let_def)
  then show ?thesis
  proof
    assume "events (sell p ks ev now d) = events d"
    then show ?thesis by (intro exI [of _ False]) (simp add: upd_none)
  qed (intro exI [of _ True], simp)
qed

lemma image_upd:
  "(\<And>r. r \<in> set rs \<Longrightarrow> c r \<Longrightarrow> key (f r) = key r) \<Longrightarrow> key ` set (upd c f rs) = key ` set rs"
  unfolding set_upd image_image by (rule image_cong) auto

lemma sell_event_images:
  assumes "\<And>e. g (e\<lparr>e_Status := EvSoldOut, e_UpdatedAt := now\<rparr>) = g e"
  shows "g ` set (events (sell p ks ev now d)) = g ` set (events d)"
proof -
  obtain c where "events (sell p ks ev now d) = upd (\<lambda>e. c \<and> e_ID e = ev \<and> e_Status e = Published)
     (\<lambda>e. e\<lparr>e_Status := EvSoldOut, e_UpdatedAt := now\<rparr>) (events d)"
    using sell_events by blast
  then show ?thesis by (simp add: image_upd assms)
qed

lemma sold_row_fields [simp]:
  "t_ID (sold_row q now t) = t_ID t" "t_EventID (sold_row q now t) = t_EventID t"
  "t_Quantity (sold_row q now t) = t_Quantity t" "t_Remaining (sold_row q now t) = t_Remaining t - q"
  "t_Status (sold_row q now t) = (if t_Remaining t = q then SoldOut else Available)"
  by (auto simp: sold_row_def)

lemma returned_row_fields [simp]:
  "t_ID (returned_row q now t) = t_ID t" "t_EventID (returned_row q now t) = t_EventID t"
  "t_Quantity (returned_row q now t) = t_Quantity t" "t_Remaining (returned_row q now t) = t_Remaining t + q"
  "t_Status (returned_row q now t) = Available"
  by (simp_all add: returned_row_def)

lemma ticket_of_fields [simp]:
  "k_ID (ticket_of p now k) = k_ID k" "k_QRToken (ticket_of p now k) = k_QRToken k"
  "k_PurchaseID (ticket_of p now k) = p_ID p" "k_TierID (ticket_of p now k) = p_TierID p"
  "k_Status (ticket_of p now k) = Unused"
  by (simp_all add: ticket_of_def)

subsection \<open>Keys\<close>

definition keys_ok :: "database \<Rightarrow> bool" where
  "keys_ok d \<longleftrightarrow> keyed u_ID (users d) \<and> keyed u_Email (users d)
     \<and> keyed s_ID (sessions d) \<and> keyed s_TokenHash (sessions d)
     \<and> keyed v_ID (verifications d) \<and> keyed oa_ID (oauth_accounts d)
     \<and> keyed (\<lambda>a. (oa_Provider a, oa_ProviderAccountID a)) (oauth_accounts d)
     \<and> keyed e_ID (events d) \<and> keyed t_ID (ticket_tiers d) \<and> keyed p_ID (purchases d)
     \<and> keyed k_ID (tickets d) \<and> keyed k_QRToken (tickets d)
     \<and> keyed w_ID (waitlist_entries d) \<and> keyed (\<lambda>w. (w_UserID w, w_TierID w)) (waitlist_entries d)"

lemma keyed_upd_on:
  "(\<And>r. r \<in> set rs \<Longrightarrow> c r \<Longrightarrow> key (f r) = key r) \<Longrightarrow> keyed key (upd c f rs) = keyed key rs"
  unfolding keyed_def upd_def by (rule arg_cong [where f = distinct]) auto

lemma keyed_append_list:
  "keyed key (xs @ ys) \<longleftrightarrow> keyed key xs \<and> keyed key ys \<and> (\<forall>x \<in> set xs. \<forall>y \<in> set ys. key x \<noteq> key y)"
  by (auto simp: keyed_def)

lemma keyed_map: "keyed key (map g xs) = keyed (\<lambda>x. key (g x)) xs"
  by (simp add: keyed_def comp_def)

lemma keys_sold:
  assumes "keys_ok d" "\<forall>x \<in> set (purchases d). \<not> purchase_clash p x"
    "distinct (map k_ID ks)" "\<forall>k \<in> set ks. \<forall>x \<in> set (tickets d). \<not> ticket_clash k x"
    "distinct (map k_QRToken ks)"
  shows "keys_ok (sell p ks ev now d)"
proof -
  obtain c where "events (sell p ks ev now d) = upd (\<lambda>e. c \<and> e_ID e = ev \<and> e_Status e = Published)
     (\<lambda>e. e\<lparr>e_Status := EvSoldOut, e_UpdatedAt := now\<rparr>) (events d)"
    using sell_events by blast
  moreover have "keyed p_ID (purchases d @ [p])"
    using assms by (simp add: keys_ok_def keyed_append purchase_clash_def)
  moreover have "keyed k_ID (tickets d @ map (ticket_of p now) ks)"
    "keyed k_QRToken (tickets d @ map (ticket_of p now) ks)"
    using assms by (auto simp: keys_ok_def keyed_append_list keyed_map ticket_clash_def keyed_def [of _ ks])
  ultimately show ?thesis
    using assms by (simp add: keys_ok_def sell_rows keyed_upd)
qed

lemma keys_step: "db_step d d' \<Longrightarrow> keys_ok d \<Longrightarrow> keys_ok d'"
proof (induction rule: db_step.induct)
  case (sold t d p ev e now u ks)
  then show ?case by (simp add: keys_sold)
next
  case (event_edited d i f)
  then show ?case by (simp add: keys_ok_def same_event_def keyed_upd_on)
next
  case (tier_edited e d i f)
  then show ?case by (simp add: keys_ok_def same_sales_def keyed_upd_on)
qed (simp_all add: keys_ok_def change_defs keyed_upd keyed_append keyed_filter user_clash_def session_clash_def
  event_clash_def tier_clash_def waitlist_clash_def verification_clash_def oauth_clash_def)

subsection \<open>\<open>CHECK\<close> constraints\<close>

definition checks_ok :: "database \<Rightarrow> bool" where
  "checks_ok d \<longleftrightarrow> (\<forall>e \<in> set (events d). event_check e) \<and> (\<forall>t \<in> set (ticket_tiers d). tier_check t)
     \<and> (\<forall>p \<in> set (purchases d). purchase_check p)"

lemma check_fields [simp]:
  "event_check (e\<lparr>e_Status := s, e_UpdatedAt := now\<rparr>) = event_check e"
  "purchase_check (p\<lparr>p_Status := ps, p_UpdatedAt := now\<rparr>) = purchase_check p"
  by (simp_all add: event_check_def purchase_check_def)

lemma checks_step: "db_step d d' \<Longrightarrow> checks_ok d \<Longrightarrow> checks_ok d'"
proof (induction rule: db_step.induct)
  case (sold t d p ev e now u ks)
  then show ?case using sell_events [of p ks ev now d]
    by (auto simp: checks_ok_def sell_rows set_upd)
qed (auto simp: checks_ok_def change_defs set_upd)

subsection \<open>Foreign keys\<close>

definition refs_ok :: "database \<Rightarrow> bool" where
  "refs_ok d \<longleftrightarrow> s_UserID ` set (sessions d) \<subseteq> u_ID ` set (users d)
     \<and> oa_UserID ` set (oauth_accounts d) \<subseteq> u_ID ` set (users d)
     \<and> e_OrganizerID ` set (events d) \<subseteq> u_ID ` set (users d)
     \<and> t_EventID ` set (ticket_tiers d) \<subseteq> e_ID ` set (events d)
     \<and> p_UserID ` set (purchases d) \<subseteq> u_ID ` set (users d)
     \<and> p_TierID ` set (purchases d) \<subseteq> t_ID ` set (ticket_tiers d)
     \<and> (\<lambda>k. (k_PurchaseID k, k_TierID k)) ` set (tickets d) \<subseteq> (\<lambda>p. (p_ID p, p_TierID p)) ` set (purchases d)
     \<and> w_UserID ` set (waitlist_entries d) \<subseteq> u_ID ` set (users d)
     \<and> w_TierID ` set (waitlist_entries d) \<subseteq> t_ID ` set (ticket_tiers d)"

lemma refs_edit_event:
  "\<forall>e \<in> set (events d). e_ID e = i \<longrightarrow> same_event e (f e) \<Longrightarrow> refs_ok d
    \<Longrightarrow> refs_ok (put_events (upd (\<lambda>e. e_ID e = i) f (events d)) d)"
  by (simp add: refs_ok_def image_upd same_event_def)

lemma refs_edit_tier:
  "\<forall>t \<in> set (ticket_tiers d). t_ID t = i \<longrightarrow> same_sales t (f t) \<Longrightarrow> refs_ok d
    \<Longrightarrow> refs_ok (put_tiers (upd (\<lambda>t. t_ID t = i) f (ticket_tiers d)) d)"
  by (simp add: refs_ok_def image_upd same_sales_def)

lemma refs_drop_tiers:
  assumes "refs_ok d"
  shows "refs_ok (drop_tiers c d)"
proof -
  let ?gone = "t_ID ` {t \<in> set (ticket_tiers d). c t}"
  have tier: "i \<in> t_ID ` {t \<in> set (ticket_tiers d). \<not> c t}" if "i \<in> t_ID ` set (ticket_tiers d)" "i \<notin> ?gone" for i
    using that by blast
  have purchase: "x \<in> (\<lambda>p. (p_ID p, p_TierID p)) ` {p \<in> set (purchases d). p_TierID p \<notin> ?gone}"
    if "x \<in> (\<lambda>p. (p_ID p, p_TierID p)) ` set (purchases d)" "snd x \<notin> ?gone" for x
    using that by force
  show ?thesis
    using assms tier purchase unfolding refs_ok_def drop_tiers_def Let_def
    by (simp add: image_subset_iff)
qed

lemma refs_drop_event:
  assumes "refs_ok d"
  shows "refs_ok (drop_event i d)"
proof -
  from assms have "refs_ok (drop_tiers (\<lambda>t. t_EventID t = i) d)" by (rule refs_drop_tiers)
  then show ?thesis
    by (auto simp: refs_ok_def drop_event_def drop_tiers_def Let_def image_subset_iff image_iff)
qed

lemma refs_step: "db_step d d' \<Longrightarrow> refs_ok d \<Longrightarrow> refs_ok d'"
proof (induction rule: db_step.induct)
  case (sold t d p ev e now u ks)
  have "p_UserID p \<in> u_ID ` set (users d)" "p_TierID p \<in> t_ID ` set (ticket_tiers d)"
    using sold by (metis image_eqI)+
  with sold show ?case
    by (auto simp: refs_ok_def sell_rows sell_event_images image_upd image_Un image_image)
next
  case (event_edited d i f)
  then show ?case by (simp add: refs_edit_event)
next
  case (tier_edited e d i f)
  then show ?case by (simp add: refs_edit_tier)
next
  case (tier_dropped d ev i)
  then show ?case by (simp add: refs_drop_tiers)
next
  case (event_dropped d i)
  then show ?case by (simp add: refs_drop_event)
qed (auto simp: refs_ok_def flip_status_def end_expired_def take_back_def cancel_all_def cancel_purchase_rows_def
  cancel_ticket_rows_def admit_def notify_entry_def expire_entries_def image_upd session_fk_def event_fk_def
  waitlist_fk_def oauth_fk_def list_ex_iff intro: image_eqI [OF sym])

subsection \<open>The schema\<close>

definition schema_ok :: "database \<Rightarrow> bool" where
  "schema_ok d \<longleftrightarrow> keys_ok d \<and> checks_ok d \<and> refs_ok d"

interpretation schema: db_invariant schema_ok
proof unfold_locales
  show "schema_ok empty_db"
    by (simp add: schema_ok_def keys_ok_def checks_ok_def refs_ok_def empty_db_def keyed_def)
  show "schema_ok d \<Longrightarrow> db_step d d' \<Longrightarrow> schema_ok d'" for d d'
    by (simp add: schema_ok_def keys_step checks_step refs_step)
qed

lemma schema_keyed:
  "schema_ok d \<Longrightarrow> keyed u_ID (users d)" "schema_ok d \<Longrightarrow> keyed e_ID (events d)"
  "schema_ok d \<Longrightarrow> keyed t_ID (ticket_tiers d)" "schema_ok d \<Longrightarrow> keyed p_ID (purchases d)"
  "schema_ok d \<Longrightarrow> keyed k_ID (tickets d)"
  by (simp_all add: schema_ok_def keys_ok_def)

lemma image_refD: "f ` A \<subseteq> g ` B \<Longrightarrow> x \<in> A \<Longrightarrow> \<exists>y \<in> B. g y = f x"
  by force

lemma schema_refs:
  "schema_ok d \<Longrightarrow> t \<in> set (ticket_tiers d) \<Longrightarrow> \<exists>e \<in> set (events d). e_ID e = t_EventID t"
  "schema_ok d \<Longrightarrow> p \<in> set (purchases d) \<Longrightarrow> \<exists>t \<in> set (ticket_tiers d). t_ID t = p_TierID p"
  unfolding schema_ok_def refs_ok_def by (blast dest: image_refD)+

lemma schema_ticket_ref:
  assumes "schema_ok d" and "k \<in> set (tickets d)"
  shows "\<exists>p \<in> set (purchases d). p_ID p = k_PurchaseID k \<and> p_TierID p = k_TierID k"
proof -
  have "(\<lambda>k. (k_PurchaseID k, k_TierID k)) ` set (tickets d) \<subseteq> (\<lambda>p. (p_ID p, p_TierID p)) ` set (purchases d)"
    using assms(1) by (simp add: schema_ok_def refs_ok_def)
  from image_refD [OF this assms(2)] show ?thesis by simp
qed

lemma schema_checks:
  "schema_ok d \<Longrightarrow> e \<in> set (events d) \<Longrightarrow> event_check e"
  "schema_ok d \<Longrightarrow> t \<in> set (ticket_tiers d) \<Longrightarrow> tier_check t"
  "schema_ok d \<Longrightarrow> p \<in> set (purchases d) \<Longrightarrow> purchase_check p"
  by (simp_all add: schema_ok_def checks_ok_def)

end
