(* ===== verification/Refinement.thy ===== *)
theory Refinement
  imports Sales Invariants
begin

section \<open>The store methods refine the abstract steps\<close>

text \<open>
  For every method that writes: a run that answers made exactly the abstract change, under the
  conditions of the step; a run that ends in an error left the database alone. \<open>act P m Q\<close>
  packages this: from a database that satisfies the schema and \<open>P\<close>, every run of \<open>m\<close> is a
  sequence of abstract steps and ends with \<open>Q\<close> of its result and the database.
\<close>

subsection \<open>Programs as sequences of steps\<close>

definition act :: "(database \<Rightarrow> bool) \<Rightarrow> 'a io \<Rightarrow> ('a \<Rightarrow> database \<Rightarrow> bool) \<Rightarrow> bool" where
  "act P m Q \<longleftrightarrow> (\<forall>w r w'. schema_ok (db w) \<longrightarrow> P (db w) \<longrightarrow> run_state m w = (r, w')
     \<longrightarrow> db_run (db w) (db w') \<and> Q r (db w'))"

abbreviation acts :: "(database \<Rightarrow> bool) \<Rightarrow> 'a io \<Rightarrow> bool" where
  "acts P m \<equiv> act P m (\<lambda>_ _. True)"

lemma actI:
  "(\<And>w r w'. schema_ok (db w) \<Longrightarrow> P (db w) \<Longrightarrow> run_state m w = (r, w') \<Longrightarrow> db_run (db w) (db w') \<and> Q r (db w'))
    \<Longrightarrow> act P m Q"
  by (simp add: act_def)

lemma actD:
  "act P m Q \<Longrightarrow> schema_ok (db w) \<Longrightarrow> P (db w) \<Longrightarrow> run_state m w = (r, w')
    \<Longrightarrow> db_run (db w) (db w') \<and> Q r (db w')"
  by (simp add: act_def)

lemma act_schema: "act P m Q \<Longrightarrow> act P m (\<lambda>r d. schema_ok d \<and> Q r d)"
  unfolding act_def by (blast intro: schema.run)

lemma act_bind:
  assumes m: "act P m R" and f: "\<And>x. act (R x) (f x) Q"
  shows "act P (State_Monad.bind m f) Q"
proof (rule actI)
  fix w r w'
  assume w: "schema_ok (db w)" "P (db w)" and run: "run_state (State_Monad.bind m f) w = (r, w')"
  then obtain x w1 where 1: "run_state m w = (x, w1)" and 2: "run_state (f x) w1 = (r, w')"
    by (auto split: prod.splits)
  from actD [OF m w 1] have R: "db_run (db w) (db w1)" "R x (db w1)" by simp_all
  with w(1) have "schema_ok (db w1)" by (blast intro: schema.run)
  from actD [OF f this R(2) 2] R(1) show "db_run (db w) (db w') \<and> Q r (db w')"
    by (blast intro: db_run_trans)
qed

lemma act_return: "(\<And>d. schema_ok d \<Longrightarrow> P d \<Longrightarrow> Q x d) \<Longrightarrow> act P (State_Monad.return x) Q"
  by (simp add: act_def)

lemma acts_return: "acts P (State_Monad.return x)"
  by (simp add: act_def)

lemma act_pre: "act P m Q \<Longrightarrow> (\<And>d. schema_ok d \<Longrightarrow> P' d \<Longrightarrow> P d) \<Longrightarrow> act P' m Q"
  unfolding act_def by blast

lemma act_post: "act P m Q \<Longrightarrow> (\<And>r d. schema_ok d \<Longrightarrow> Q r d \<Longrightarrow> Q' r d) \<Longrightarrow> act P m Q'"
  using act_schema unfolding act_def by blast

lemma act_acts: "act P m Q \<Longrightarrow> acts P m"
  by (auto simp: act_def)

lemma act_state: "(\<And>w r w'. run_state m w = (r, w') \<Longrightarrow> db w' = db w) \<Longrightarrow> act P m (\<lambda>_. P)"
  unfolding act_def by (metis db_run_refl)

lemma act_exec_or:
  assumes "clean q"
    and "\<And>w x w'. schema_ok (db w) \<Longrightarrow> P (db w) \<Longrightarrow> q w = (Inr x, w') \<Longrightarrow> db_run (db w) (db w') \<and> R x (db w')"
    and "\<And>x. act (R x) (k x) Q"
    and "\<And>e d. P d \<Longrightarrow> Q (Inl e) d"
  shows "act P (exec_or f q k) Q"
proof (rule actI)
  fix w r w'
  assume S: "schema_ok (db w)" and P: "P (db w)" and run: "run_state (exec_or f q k) w = (r, w')"
  from run show "db_run (db w) (db w') \<and> Q r (db w')"
  proof (cases rule: exec_or_cases)
    case fault
    with P assms(4) show ?thesis by simp
  next
    case (error e)
    with \<open>clean q\<close> have "db w' = db w" unfolding clean_def by fastforce
    with error P assms(4) show ?thesis by simp
  next
    case (ok x w1)
    from assms(2) [of "pop w", OF _ _ ok(1)] S P have R: "db_run (db w) (db w1)" "R x (db w1)" by simp_all
    from S R(1) have "schema_ok (db w1)" by (blast intro: schema.run)
    from actD [OF assms(3) this R(2) ok(2)] R(1) show ?thesis by (blast intro: db_run_trans)
  qed
qed

text \<open>A single statement whose rows are the answer.\<close>

lemma act_exec_answer:
  assumes "clean q"
    and "\<And>w x w'. schema_ok (db w) \<Longrightarrow> P (db w) \<Longrightarrow> q w = (Inr x, w') \<Longrightarrow> db_run (db w) (db w') \<and> Q (Inr x) (db w')"
    and "\<And>e d. P d \<Longrightarrow> Q (Inl e) d"
  shows "act P (exec_or f q answer) Q"
  by (rule act_exec_or [where R = "\<lambda>x. Q (Inr x)"]) (use assms in \<open>auto intro: act_return\<close>)

lemma act_read:
  assumes "reads q" and "\<And>w x w'. q w = (Inr x, w') \<Longrightarrow> P (db w) \<Longrightarrow> Q (Inr x) (db w)"
    and "\<And>e d. P d \<Longrightarrow> Q (Inl e) d"
  shows "act P (exec_or f q answer) Q"
proof (rule act_exec_answer)
  show "clean q" using assms(1) by (rule reads_clean)
next
  fix w x w' assume "P (db w)" "q w = (Inr x, w')"
  moreover from this(2) assms(1) have "db w' = db w" unfolding reads_def by blast
  ultimately show "db_run (db w) (db w') \<and> Q (Inr x) (db w')" using assms(2) by simp
qed (rule assms(3))

lemma act_in_tx:
  assumes "\<And>w x w'. schema_ok (db w) \<Longrightarrow> P (db w) \<Longrightarrow> run_state body w = (Inr x, w')
      \<Longrightarrow> db_run (db w) (db w') \<and> Q (Inr x) (db w')"
    and "\<And>e d. P d \<Longrightarrow> Q (Inl e) d"
  shows "act P (in_tx body) Q"
proof (rule actI)
  fix w r w'
  assume S: "schema_ok (db w)" and P: "P (db w)" and run: "run_state (in_tx body) w = (r, w')"
  show "db_run (db w) (db w') \<and> Q r (db w')"
  proof (cases r)
    case (Inl e)
    with run in_tx_Inl have "db w' = db w" by blast
    with Inl P assms(2) show ?thesis by simp
  next
    case (Inr x)
    with run obtain w1 where "run_state body (pop w) = (Inr x, w1)" "w' = pop w1"
      by (auto elim: in_tx_InrE)
    with assms(1) [of "pop w" x w1] S P Inr show ?thesis by simp
  qed
qed

subsection \<open>Events\<close>

lemmas event_writes = update_events_def update_stmt_Inr insert_stmt_Inr with_uuid_def returning_one_Inr

lemma clean_update_events [clean_intros]: "clean (update_events c f)"
  unfolding clean_def update_events_def by (auto simp: update_stmt_def split: if_splits)

lemma clean_returning_events [clean_intros]: "clean (returning_one (update_events c f))"
  unfolding clean_def
proof (intro allI impI)
  fix w e w'
  assume "returning_one (update_events c f) w = (Inl e, w')"
  then have "returning_one (update_stmt events put_events event_check c (\<lambda>e. (f e)\<lparr>e_UpdatedAt := db_now w\<rparr>)) w = (Inl e, w')"
    by (simp add: returning_one_def update_events_def)
  with events_table.clean_returning show "db w' = db w" unfolding clean_def by blast
qed

lemma row_at_first: "filter (\<lambda>r. key r = k) rs = r # rest \<Longrightarrow> row_at key rs k = Some r"
  by (induction rs) (auto split: if_splits)

lemma clean_uuid_insert: "clean (with_uuid (\<lambda>i w. insert_stmt rows put chk clash fk (r i w) w))"
  by (auto simp: clean_def with_uuid_def insert_stmt_def split: if_splits)

lemma act_Events_Create: "acts P (Events_Create event)"
  unfolding Events_Create_def
  by (rule act_exec_answer, rule clean_uuid_insert)
    (auto simp: event_writes intro!: db_run_step db_step.event_added)

lemma act_Events_Update: "acts P (Events_Update event)"
  unfolding Events_Update_def
  by (rule act_exec_answer)
    (auto simp: event_writes same_event_def intro!: clean_intros db_run_step db_step.event_edited)

lemma act_Events_Delete:
  "acts (\<lambda>d. \<forall>e \<in> set (events d). e_ID e = i \<longrightarrow> e_Status e = Draft) (Events_Delete i)"
  unfolding Events_Delete_def
  by (rule act_exec_or [where R = "\<lambda>_ _. True"])
    (auto simp: clean_def delete_events_def act_return
      intro!: db_run_step db_step.event_dropped [unfolded drop_event_def])

lemma act_flip_event:
  assumes "\<And>now d. P d \<Longrightarrow> db_step d (flip_status from to i now d)"
  shows "act P (flip_event i from to)
    (\<lambda>r d. \<forall>e. r = Inr e \<longrightarrow> e_ID e = i \<and> (\<forall>x \<in> set (events d). e_ID x = i \<longrightarrow> e_Status x = to))"
  unfolding flip_event_def
proof (rule act_exec_answer)
  fix w x w'
  assume S: "schema_ok (db w)" and P: "P (db w)"
    and q: "returning_one (update_events (\<lambda>e. e_ID e = i \<and> e_Status e \<in> set from)
    (\<lambda>e. e\<lparr>e_Status := to\<rparr>)) w = (Inr x, w')"
  from q have "returning_one (update_stmt events put_events event_check
      (\<lambda>e. e_ID e = i \<and> e_Status e \<in> set from) (\<lambda>e. e\<lparr>e_Status := to, e_UpdatedAt := db_now w\<rparr>)) w = (Inr x, w')"
    by (simp add: returning_one_def update_events_def)
  then obtain e where e: "e \<in> set (events (db w))" "e_ID e = i" "e_Status e \<in> set from"
    and x: "x = e\<lparr>e_Status := to, e_UpdatedAt := db_now w\<rparr>"
    and w': "db w' = flip_status from to i (db_now w) (db w)"
    by (elim returning_update_InrE) (auto simp: flip_status_def)
  have set_to: "e_Status y = to" if y: "y \<in> set (events (db w'))" "e_ID y = i" for y
  proof -
    from y obtain y0 where y0: "y0 \<in> set (events (db w))"
      and "y = (if e_ID y0 = i \<and> e_Status y0 \<in> set from then y0\<lparr>e_Status := to, e_UpdatedAt := db_now w\<rparr> else y0)"
      by (auto simp: w' flip_status_def dest: upd_mem)
    moreover from this y e y0 have "y0 = e"
      by (intro keyed_unique [OF schema_keyed(2) [OF S]]) (simp_all split: if_splits)
    ultimately show ?thesis using e by simp
  qed
  have "db_run (db w) (db w')"
    unfolding w' by (rule db_run_step, rule assms, rule P)
  moreover have "e_ID x = i" using x e by simp
  ultimately show "db_run (db w) (db w') \<and> (\<forall>e. Inr x = (Inr e :: store_error + Event) \<longrightarrow> e_ID e = i
      \<and> (\<forall>x \<in> set (events (db w')). e_ID x = i \<longrightarrow> e_Status x = to))"
    using set_to by simp
qed (auto intro: clean_intros)

lemma act_Events_Publish: "acts P (Events_Publish i)"
  unfolding Events_Publish_def by (rule act_acts [OF act_flip_event]) (rule db_step.event_published)

lemmas act_Events_Cancel = act_flip_event [of "\<lambda>_. True" "[Draft, Published, EvSoldOut]" EvCancelled,
  OF db_step.event_cancelled, folded Events_Cancel_def]

lemma act_Events_SetStatus:
  "acts (in_stock i) (Events_SetStatus i EvSoldOut Published)"
  unfolding Events_SetStatus_def
  by (rule act_exec_or [where R = "\<lambda>_ _. True"])
    (auto simp: event_writes acts_return intro!: clean_intros db_run_step
       db_step.event_reopened [unfolded flip_status_def, simplified])

lemma act_Events_GetByID:
  "act P (Events_GetByID i) (\<lambda>r d. P d \<and> (\<forall>e. r = Inr e \<longrightarrow> e \<in> set (events d) \<and> e_ID e = i \<and> row_at e_ID (events d) i = Some e))"
  unfolding Events_GetByID_def by (rule act_read) (auto intro: clean_intros dest: row_at_Some)

lemma act_Events_GetAllPublished: "act P (Events_GetAllPublished cur limit) (\<lambda>_. P)"
  unfolding Events_GetAllPublished_def by (rule act_read) (auto intro: clean_intros)

lemma act_Events_EndAllExpired: "acts P Events_EndAllExpired"
  unfolding Events_EndAllExpired_def
  by (rule act_exec_answer)
    (auto simp: event_writes clean_def update_stmt_def intro!: db_run_step
       db_step.events_ended [unfolded end_expired_def, simplified] split: if_splits)

subsection \<open>Tiers\<close>

lemma act_Tiers_Create:
  "acts (\<lambda>d. \<forall>e \<in> set (events d). e_ID e = t_EventID t \<longrightarrow> e_Status e = Draft)
     (Tiers_Create t)" if "t_Remaining t = t_Quantity t"
  unfolding Tiers_Create_def
  by (rule act_exec_answer, rule clean_uuid_insert)
    (use that in \<open>auto simp: with_uuid_def tier_fk_def list_ex_iff intro!: db_run_step db_step.tier_added\<close>)

lemma act_Tiers_Delete:
  "acts (\<lambda>d. \<forall>e \<in> set (events d). e_ID e = ev \<longrightarrow> e_Status e = Draft) (Tiers_Delete i ev)"
  unfolding Tiers_Delete_def
  by (rule act_exec_or [where R = "\<lambda>_ _. True"])
    (auto simp: clean_def delete_tiers_def Let_def act_return intro!: db_run_step db_step.tier_dropped)

text \<open>A write of the whole tier: it must agree with the row on what was sold.\<close>

definition may_write_tier :: "Tier \<Rightarrow> Event \<Rightarrow> database \<Rightarrow> bool" where
  "may_write_tier t e d \<longleftrightarrow> e \<in> set (events d) \<and> e_Status e \<noteq> EvCancelled \<and> e_Status e \<noteq> Ended
     \<and> (\<forall>x \<in> set (ticket_tiers d). t_ID x = t_ID t \<longrightarrow> t_EventID x = e_ID e
          \<and> t_Quantity t - t_Remaining t = t_Quantity x - t_Remaining x
          \<and> (t_Quantity t \<noteq> t_Quantity x \<or> t_Status t \<noteq> t_Status x \<longrightarrow> (t_Status t = SoldOut \<longleftrightarrow> t_Remaining t = 0)))"

lemma clean_returning_tiers [clean_intros]: "clean (returning_one (update_tiers c f))"
  unfolding clean_def
proof (intro allI impI)
  fix w e w'
  assume "returning_one (update_tiers c f) w = (Inl e, w')"
  then have "returning_one (update_stmt ticket_tiers put_tiers tier_check c (\<lambda>t. (f t)\<lparr>t_UpdatedAt := db_now w\<rparr>)) w = (Inl e, w')"
    by (simp add: returning_one_def update_tiers_def)
  with tiers_table.clean_returning show "db w' = db w" unfolding clean_def by blast
qed

lemma act_Tiers_Update:
  "act (may_write_tier t e) (Tiers_Update t)
     (\<lambda>r d. \<forall>t'. r = Inr t' \<longrightarrow> t' \<in> set (ticket_tiers d) \<and> t_EventID t' = e_ID e)"
  unfolding Tiers_Update_def
proof (rule act_exec_answer)
  fix w :: world and x w'
  let ?f = "\<lambda>x. x\<lparr>t_Name := t_Name t, t_Price := t_Price t, t_Quantity := t_Quantity t,
    t_Remaining := t_Remaining t, t_Status := t_Status t, t_UpdatedAt := db_now w\<rparr>"
  assume P: "may_write_tier t e (db w)"
    and "returning_one (update_tiers (\<lambda>x. t_ID x = t_ID t)
      (\<lambda>x. x\<lparr>t_Name := t_Name t, t_Price := t_Price t, t_Quantity := t_Quantity t,
              t_Remaining := t_Remaining t, t_Status := t_Status t\<rparr>)) w = (Inr x, w')"
  then have "returning_one (update_stmt ticket_tiers put_tiers tier_check (\<lambda>x. t_ID x = t_ID t) ?f) w = (Inr x, w')"
    by (simp add: returning_one_def update_tiers_def)
  then obtain x0 where x0: "x0 \<in> set (ticket_tiers (db w))" "t_ID x0 = t_ID t" "x = ?f x0"
    and chk: "\<forall>r \<in> set (ticket_tiers (db w)). t_ID r = t_ID t \<longrightarrow> tier_check (?f r)"
    and w': "db w' = put_tiers (upd (\<lambda>x. t_ID x = t_ID t) ?f (ticket_tiers (db w))) (db w)"
    by (elim returning_update_InrE) auto
  have "db_step (db w) (db w')"
    unfolding w'
    by (rule db_step.tier_edited [of e]) (use P chk in \<open>auto simp: may_write_tier_def same_sales_def\<close>)
  moreover have "x \<in> set (ticket_tiers (db w'))"
    using x0 by (auto simp: w' set_upd intro!: image_eqI [where x = x0])
  moreover have "t_EventID x = e_ID e"
    using x0 P by (simp add: may_write_tier_def)
  ultimately show "db_run (db w) (db w') \<and> (\<forall>t'. Inr x = (Inr t' :: store_error + Tier)
      \<longrightarrow> t' \<in> set (ticket_tiers (db w')) \<and> t_EventID t' = e_ID e)"
    by (auto intro: db_run_step)
qed (auto intro: clean_intros)

lemma act_Tiers_GetByID:
  "act P (Tiers_GetByID i) (\<lambda>r d. P d \<and> (\<forall>t. r = Inr t \<longrightarrow> t \<in> set (ticket_tiers d) \<and> t_ID t = i))"
  unfolding Tiers_GetByID_def by (rule act_read) (auto intro: clean_intros dest: row_at_Some)

lemma act_Tiers_reads:
  "act P (Tiers_CountByEvent ev) (\<lambda>_. P)" "act P (Tiers_ListByEvent ev) (\<lambda>_. P)"
  "act P (Tiers_SumQuantityByEvent ev) (\<lambda>_. P)"
  unfolding Tiers_CountByEvent_def Tiers_ListByEvent_def Tiers_SumQuantityByEvent_def
  by (rule act_read; auto intro: clean_intros)+

subsection \<open>Purchases and tickets\<close>

lemma act_Purchases_Create:
  assumes "length ts = nat (p_Quantity p)"
  shows "acts P (Purchases_Create p ts)"
  unfolding act_def
proof (intro allI impI conjI TrueI)
  fix w r w'
  assume "schema_ok (db w)" and run: "run_state (Purchases_Create p ts) w = (r, w')"
  show "db_run (db w) (db w')"
  proof (cases r)
    case (Inl e)
    with run show ?thesis unfolding Purchases_Create_def by (auto dest: in_tx_Inl)
  next
    case (Inr x)
    obtain p' ts' where "r = Inr (p', ts')" using Inr by (cases x) simp
    with run have "run_state (Purchases_Create p ts) w = (Inr (p', ts'), w')" by simp
    then obtain t e where t: "row_at t_ID (ticket_tiers (db w)) (p_TierID p) = Some t"
      and e: "row_at e_ID (events (db w)) (t_EventID t) = Some e"
      and ok: "create_refuses p t e = None"
      and chk: "\<forall>x \<in> set (ticket_tiers (db w)). t_ID x = p_TierID p \<longrightarrow> tier_check (sold_row (p_Quantity p) (db_now w) x)"
      and p': "p' = purchase_row p (t_Price t) (db_now w)" and pc: "purchase_check p'"
      and fresh: "\<forall>x \<in> set (purchases (db w)). \<not> purchase_clash p x"
      and u: "\<exists>u \<in> set (users (db w)). u_ID u = p_UserID p"
      and batch: "batch_ok ts (db w)"
      and w': "db w' = sell p' ts (t_EventID t) (db_now w) (db w)"
      by (elim Purchases_Create_InrE)
    from u obtain u where u: "u \<in> set (users (db w))" "u_ID u = p_UserID p" by blast
    have fields: "p_TierID p' = p_TierID p" "p_Quantity p' = p_Quantity p" "p_UserID p' = p_UserID p"
      "p_ID p' = p_ID p" "p_Status p' = Confirmed" "p_Total p' = wrap64 (t_Price t * p_Quantity p)"
      by (simp_all add: p' purchase_row_def)
    have len: "int (length ts) = p_Quantity p"
      using assms pc by (simp add: fields purchase_check_def)
    have "db_step (db w) (sell p' ts (t_EventID t) (db_now w) (db w))"
      by (rule db_step.sold [of t _ _ _ e _ u])
        (use len t e ok chk pc fresh u batch in \<open>auto simp: fields create_refuses_def batch_ok_def
          purchase_clash_def list_all_iff list_ex_iff dest!: row_at_Some split: if_splits\<close>)
    then show ?thesis unfolding w' by (rule db_run_step)
  qed
qed

lemma act_Purchases_Cancel: "acts P (Purchases_Cancel i user)"
  unfolding act_def
proof (intro allI impI conjI TrueI)
  fix w r w'
  assume "schema_ok (db w)" and run: "run_state (Purchases_Cancel i user) w = (r, w')"
  show "db_run (db w) (db w')"
  proof (cases r)
    case (Inl e)
    with run show ?thesis unfolding Purchases_Cancel_def by (auto dest: in_tx_Inl)
  next
    case (Inr x)
    obtain p' b where "r = Inr (p', b)" using Inr by (cases x) simp
    with run have "run_state (Purchases_Cancel i user) w = (Inr (p', b), w')" by simp
    then show ?thesis
    proof (elim Purchases_Cancel_InrE)
      fix p t e
      assume p: "own_purchase i user (db w) = Some p" "p_Status p = Confirmed"
        and t: "row_at t_ID (ticket_tiers (db w)) (p_TierID p) = Some t"
        and chk: "\<forall>x \<in> set (ticket_tiers (db w)). t_ID x = p_TierID p \<longrightarrow> tier_check (returned_row (p_Quantity p) (db_now w) x)"
        and w': "db w' = take_back p (t_EventID t) (db_now w) (db w)"
      from p have "p \<in> set (purchases (db w))" by (auto simp: find_Some_iff)
      then show "db_run (db w) (db w')"
        unfolding w' using p t chk by (auto intro!: db_run_step db_step.taken_back [of p _ t] dest: row_at_Some)
    qed
  qed
qed

lemma act_Purchases_CancelByEvent:
  "acts (\<lambda>d. \<forall>e \<in> set (events d). e_ID e = ev \<longrightarrow> e_Status e = EvCancelled) (Purchases_CancelByEvent ev)"
  unfolding act_def
proof (intro allI impI conjI TrueI)
  fix w r w'
  assume P: "\<forall>e \<in> set (events (db w)). e_ID e = ev \<longrightarrow> e_Status e = EvCancelled"
    and run: "run_state (Purchases_CancelByEvent ev) w = (r, w')"
  show "db_run (db w) (db w')"
  proof (cases r)
    case (Inl e)
    with run show ?thesis unfolding Purchases_CancelByEvent_def by (auto dest: in_tx_Inl)
  next
    case (Inr x)
    with run P show ?thesis
      by (auto dest!: Purchases_CancelByEvent_Inr intro!: db_run_step db_step.all_cancelled)
  qed
qed

lemma act_Purchases_ListByUser: "act P (Purchases_ListByUser u l off) (\<lambda>_. P)"
  unfolding Purchases_ListByUser_def
  by (rule act_read) (auto simp: reads_def split: if_splits)

lemma act_Purchases_reads:
  "act P (Purchases_CountByUser u) (\<lambda>_. P)"
  "act P (Purchases_ListConfirmedBuyersByEvent ev) (\<lambda>_. P)"
  "act P (Purchases_SumConfirmedQuantityByEvent ev) (\<lambda>_. P)"
  "act P (Purchases_GetByID i u) (\<lambda>_. P)" "act P (Purchases_ListTicketsByPurchase i) (\<lambda>_. P)"
  unfolding Purchases_CountByUser_def Purchases_ListConfirmedBuyersByEvent_def
    Purchases_SumConfirmedQuantityByEvent_def Purchases_GetByID_def Purchases_ListTicketsByPurchase_def
  by (rule act_read; auto intro: clean_intros)+

lemma act_Purchases_HasConfirmedPurchase:
  "act P (Purchases_HasConfirmedPurchase u t) (\<lambda>r d. P d \<and> (\<forall>b. r = Inr b \<longrightarrow>
     (b \<longleftrightarrow> (\<exists>p \<in> set (purchases d). p_UserID p = u \<and> p_TierID p = t \<and> p_Status p = Confirmed))))"
  unfolding Purchases_HasConfirmedPurchase_def
  by (rule act_read) (auto simp: list_ex_iff intro: clean_intros)

lemma act_Tickets_CheckIn: "acts P (Tickets_CheckIn i ev)"
  unfolding act_def
proof (intro allI impI conjI TrueI)
  fix w r w'
  assume S: "schema_ok (db w)" and run: "run_state (Tickets_CheckIn i ev) w = (r, w')"
  show "db_run (db w) (db w')"
  proof (cases r)
    case (Inl e)
    with run show ?thesis unfolding Tickets_CheckIn_def by (auto dest: in_tx_Inl)
  next
    case (Inr tc)
    with run have "run_state (Tickets_CheckIn i ev) w = (Inr tc, w')" by simp
    then show ?thesis
    proof (elim Tickets_CheckIn_InrE)
      fix k t u
      assume k: "ticket_row i (db w) = Some (k, t, u)" and ok: "check_in_refuses k t ev = None"
        and w': "db w' = admit (k_ID k) (db_now w) (db w)"
      from ok have "k_Status k = Unused" by (cases "k_Status k") (auto simp: check_in_refuses_def split: if_splits)
      moreover from ticket_row_Some [OF k] have "k \<in> set (tickets (db w))" by simp
      ultimately have "\<forall>x \<in> set (tickets (db w)). k_ID x = k_ID k \<longrightarrow> k_Status x = Unused"
        using keyed_unique [OF schema_keyed(5) [OF S]] by metis
      then show "db_run (db w) (db w')" unfolding w' by (intro db_run_step db_step.admitted)
    qed
  qed
qed

subsection \<open>The waitlist\<close>

definition may_join :: "WaitlistEntry \<Rightarrow> database \<Rightarrow> bool" where
  "may_join e d \<longleftrightarrow> (\<forall>t \<in> set (ticket_tiers d). t_ID t = w_TierID e \<longrightarrow> t_Status t = SoldOut)
     \<and> (\<forall>p \<in> set (purchases d). p_UserID p = w_UserID e \<and> p_TierID p = w_TierID e \<longrightarrow> p_Status p \<noteq> Confirmed)"

lemma act_Waitlist_Create: "acts (may_join e) (Waitlist_Create e)"
  unfolding Waitlist_Create_def
  by (rule act_exec_answer, rule clean_uuid_insert)
    (auto simp: with_uuid_def may_join_def intro!: db_run_step db_step.joined)

lemma act_delete_waitlist:
  "acts P (exec_then (delete_waitlist c) (\<lambda>n. if n = 0 then refuse ErrNotFound else answer ()))"
  "acts P (exec_then (delete_waitlist c) (\<lambda>_. answer ()))"
  by (rule act_exec_or [where R = "\<lambda>_ _. True"];
      auto simp: clean_def delete_waitlist_def acts_return intro!: db_run_step db_step.left)+

lemmas act_Waitlist_deletes =
  act_delete_waitlist(1) [of _ "\<lambda>_ e. w_UserID e = userID \<and> w_TierID e = tierID" for userID tierID,
    folded Waitlist_DeleteByUserAndTier_def]
  act_delete_waitlist(2) [of _ "\<lambda>d e. of_event d ev (w_TierID e)" for ev, folded Waitlist_DeleteByEvent_def]

lemma act_Waitlist_ListByEvent: "act P (Waitlist_ListByEvent ev) (\<lambda>_. P)"
  unfolding Waitlist_ListByEvent_def by (rule act_read) (auto intro: clean_intros)

lemma act_Waitlist_ExpireReservations: "acts P Waitlist_ExpireReservations"
  unfolding Waitlist_ExpireReservations_def
  by (rule act_exec_answer)
    (auto simp: clean_def update_waitlist_def update_stmt_def intro!: db_run_step
      db_step.expired [unfolded expire_entries_def] split: if_splits)

lemma returning_waitlist:
  "returning_one (update_waitlist c f) w = (Inr row, w') \<Longrightarrow>
     (\<exists>r \<in> set (waitlist_entries (db w)). c r \<and> row = (f r)\<lparr>w_UpdatedAt := db_now w\<rparr>) \<and>
     w' = w\<lparr>db := put_waitlist (upd c (\<lambda>e. (f e)\<lparr>w_UpdatedAt := db_now w\<rparr>) (waitlist_entries (db w))) (db w)\<rparr>"
proof -
  assume "returning_one (update_waitlist c f) w = (Inr row, w')"
  then have "returning_one (update_stmt waitlist_entries put_waitlist (\<lambda>_. True) c
      (\<lambda>e. (f e)\<lparr>w_UpdatedAt := db_now w\<rparr>)) w = (Inr row, w')"
    by (simp add: returning_one_def update_waitlist_def)
  then show ?thesis by (elim returning_update_InrE) auto
qed

lemma Waitlist_NotifyNextWaiting_InrE:
  assumes "run_state (Waitlist_NotifyNextWaiting tier) w = (Inr (e', u, tn, en), w')"
  obtains e where "next_waiting tier (db w) = Some (e, u, tn, en)"
    and "w_ID e' = w_ID e" "w_UserID e' = w_UserID e" "w_TierID e' = w_TierID e"
    and "w_Status e' = Notified" "w_NotifiedAt e' = Some (go_now w)"
    and "w_ExpiresAt e' = Some (go_now w + 24 * time_Hour)"
    and "db w' = notify_entry (w_ID e) (go_now w) (db_now w) (db w)"
proof -
  from assms show thesis
    unfolding Waitlist_NotifyNextWaiting_def
  apply (elim in_tx_InrE exec_or_InrE)
  apply (clarsimp simp: Let_def)
  apply (elim exec_or_InrE)
  apply (clarsimp dest!: returning_waitlist)
  apply (rule that, assumption)
  by (auto simp: notify_entry_def)
qed

lemma act_Waitlist_NotifyNextWaiting: "acts P (Waitlist_NotifyNextWaiting tier)"
  unfolding act_def
proof (intro allI impI conjI TrueI)
  fix w r w'
  assume run: "run_state (Waitlist_NotifyNextWaiting tier) w = (r, w')"
  show "db_run (db w) (db w')"
  proof (cases r)
    case (Inl e)
    with run show ?thesis unfolding Waitlist_NotifyNextWaiting_def by (auto dest: in_tx_Inl)
  next
    case (Inr x)
    obtain e' u tn en where "r = Inr (e', u, tn, en)" using Inr by (cases x) auto
    with run show ?thesis
      by (auto elim!: Waitlist_NotifyNextWaiting_InrE intro!: db_run_step db_step.notified)
  qed
qed

subsection \<open>Users and sessions\<close>

lemma act_Users_Create: "acts P (Users_Create user)"
  unfolding Users_Create_def
  by (rule act_exec_answer, rule clean_uuid_insert)
    (auto simp: with_uuid_def intro!: db_run_step db_step.user_added)

lemma act_Users_reads:
  "act P (Users_GetByID i) (\<lambda>_. P)" "act P (Users_GetByEmail m) (\<lambda>_. P)"
  unfolding Users_GetByID_def Users_GetByEmail_def by (rule act_read; auto intro: clean_intros)+

lemma act_Users_writes:
  "acts P (Users_MarkVerified m)" "acts P (Users_ResetPassword m h)"
  unfolding Users_MarkVerified_def Users_ResetPassword_def
  by (rule act_exec_or [where R = "\<lambda>_ _. True"];
      auto simp: clean_def update_users_def update_stmt_def acts_return split: if_splits
        intro!: db_run_step db_step.users_changed)+

lemma act_Users_BecomeOrganizer: "acts P (Users_BecomeOrganizer i)"
  unfolding Users_BecomeOrganizer_def
proof (rule act_exec_answer)
  show "clean (returning_one (update_users (\<lambda>u. u_ID u = i) (\<lambda>u. u\<lparr>u_Role := RoleOrganizer\<rparr>)))"
    unfolding clean_def
  proof (intro allI impI)
    fix w e w'
    assume "returning_one (update_users (\<lambda>u. u_ID u = i) (\<lambda>u. u\<lparr>u_Role := RoleOrganizer\<rparr>)) w = (Inl e, w')"
    then have "returning_one (update_stmt users put_users (\<lambda>_. True) (\<lambda>u. u_ID u = i)
        (\<lambda>u. u\<lparr>u_Role := RoleOrganizer, u_UpdatedAt := db_now w\<rparr>)) w = (Inl e, w')"
      by (simp add: returning_one_def update_users_def)
    with users_table.clean_returning show "db w' = db w" unfolding clean_def by blast
  qed
qed (auto simp: returning_one_Inr update_users_def intro!: db_run_step db_step.users_changed)

lemma act_Sessions_Create: "acts P (Sessions_Create s)"
  unfolding Sessions_Create_def
  by (rule act_exec_answer, rule clean_uuid_insert)
    (auto simp: with_uuid_def intro!: db_run_step db_step.session_added)

lemma act_time_Now: "act P time_Now (\<lambda>_. P)"
  by (rule act_state) auto

lemma act_Sessions_Get: "act P (Sessions_Get h) (\<lambda>_. P)"
  unfolding Sessions_Get_def
  by (rule act_bind [OF act_time_Now act_read]) (auto intro: clean_intros)

lemma act_Sessions_deletes: "acts P (Sessions_Delete i)" "acts P (Sessions_DeleteAll u)"
  unfolding Sessions_Delete_def Sessions_DeleteAll_def
  by (rule act_exec_answer; auto simp: clean_def delete_sessions_def intro!: db_run_step db_step.sessions_dropped)+

lemma act_Verifications:
  "acts P (Verifications_Create i h e)" "acts P (Verifications_Delete j)" "acts P (Verifications_DeleteByIdentifier i)"
  unfolding Verifications_Create_def Verifications_Delete_def Verifications_DeleteByIdentifier_def
  subgoal
    by (rule act_exec_or [where R = "\<lambda>_ _. True"], rule clean_uuid_insert)
      (auto simp: with_uuid_def acts_return intro!: db_run_step db_step.verification_added)
  by (rule act_exec_answer; auto simp: clean_def delete_verifications_def intro!: db_run_step db_step.verifications_dropped)+

lemma act_Verifications_reads:
  "act P (Verifications_Get h) (\<lambda>_. P)" "act P (Verifications_GetLatest i) (\<lambda>_. P)"
  "act P (Verifications_CountSince i s) (\<lambda>_. P)"
  unfolding Verifications_Get_def Verifications_GetLatest_def Verifications_CountSince_def
  by ((rule act_bind [OF act_time_Now])?, rule act_read; auto intro: clean_intros)+

lemma act_OAuth:
  "acts P (OAuth_Create oa)" "act P (OAuth_GetByProviderAndAccountID pr i) (\<lambda>_. P)"
  unfolding OAuth_Create_def OAuth_GetByProviderAndAccountID_def
  subgoal
    by (rule act_exec_answer, rule clean_uuid_insert)
      (auto simp: with_uuid_def intro!: db_run_step db_step.account_linked)
  by (rule act_read; auto intro: clean_intros)

end
