(* ===== verification/Go_Text.thy ===== *)
theory Go_Text
  imports Prelude
begin

section \<open>Text and encodings of the Go standard library\<close>

text \<open>
  What the program uses of \<^verbatim>\<open>strings\<close>, \<^verbatim>\<open>strconv\<close>, \<^verbatim>\<open>fmt\<close>, \<^verbatim>\<open>encoding/hex\<close> and
  \<^verbatim>\<open>encoding/base64\<close>. A Go string is a list of bytes, written as the list of the
  characters with these codes; a \<open>[]byte\<close> is a list of \<open>byte\<close>. The interface \<open>codec\<close>
  states what an encoding promises; hexadecimal and base64url provide it.
\<close>

subsection \<open>Bytes and strings\<close>

definition to_bytes :: "string \<Rightarrow> byte list" where
  "to_bytes s = map (\<lambda>c. word_of_nat (of_char c)) s"

definition to_string :: "byte list \<Rightarrow> string" where
  "to_string bs = map (\<lambda>b. char_of (unat b)) bs"

lemma byte_lt: "unat (b :: byte) < 256"
proof -
  have "unat b < 2 ^ LENGTH(8)" by (rule unsigned_less)
  then show ?thesis by simp
qed

lemma char_byte: "char_of (unat (word_of_nat (of_char c) :: byte)) = c"
proof -
  have "unat (word_of_nat (of_char c :: nat) :: byte) = of_char c"
    by (simp add: unat_of_nat take_bit_nat_def)
  then show ?thesis by simp
qed

lemma byte_char: "word_of_nat (of_char (char_of (unat b))) = (b :: byte)"
  using byte_lt [of b] by (simp add: of_char_of)

lemma to_string_to_bytes [simp]: "to_string (to_bytes s) = s"
  by (induction s) (simp_all add: to_string_def to_bytes_def char_byte)

lemma to_bytes_to_string [simp]: "to_bytes (to_string bs) = bs"
  by (induction bs) (simp_all add: to_string_def to_bytes_def byte_char del: of_char_of)

lemma to_bytes_inject [simp]: "to_bytes s = to_bytes t \<longleftrightarrow> s = t"
  by (metis to_string_to_bytes)

subsection \<open>strings.Split, strings.CutPrefix, strings.ToLower\<close>

fun split_on :: "char \<Rightarrow> string \<Rightarrow> string list" where
  "split_on c [] = [[]]"
| "split_on c (x # xs) =
     (if x = c then [] # split_on c xs
      else (case split_on c xs of [] \<Rightarrow> [[x]] | y # ys \<Rightarrow> (x # y) # ys))"

definition cut_prefix :: "string \<Rightarrow> string \<Rightarrow> string option" where
  "cut_prefix s p = (if take (length p) s = p then Some (drop (length p) s) else None)"

definition lower_char :: "char \<Rightarrow> char" where
  "lower_char c = (let n = of_char c :: nat in if 65 \<le> n \<and> n \<le> 90 then char_of (n + 32) else c)"

text \<open>\<open>strings.ToLower\<close> on ASCII text.\<close>

definition ToLower :: "string \<Rightarrow> string" where
  "ToLower s = map lower_char s"

lemma split_on_nonempty: "split_on c s \<noteq> []"
  by (cases s) (auto split: list.splits)

lemma split_on_plain: "c \<notin> set s \<Longrightarrow> split_on c s = [s]"
  by (induction s) auto

lemma split_on_append: "c \<notin> set s \<Longrightarrow> split_on c (s @ c # t) = s # split_on c t"
  by (induction s) auto

text \<open>Splitting loses nothing: joining the parts with the separator gives the string back.\<close>

fun join_with :: "char \<Rightarrow> string list \<Rightarrow> string" where
  "join_with c [] = []"
| "join_with c [s] = s"
| "join_with c (s # t # ts) = s @ c # join_with c (t # ts)"

lemma join_Cons_ne: "ts \<noteq> [] \<Longrightarrow> join_with c (s # ts) = s @ c # join_with c ts"
  by (cases ts) auto

lemma join_split: "join_with c (split_on c s) = s"
proof (induction s)
  case Nil
  then show ?case by simp
next
  case (Cons x xs)
  obtain y ys where y: "split_on c xs = y # ys"
    using split_on_nonempty [of c xs] by (cases "split_on c xs") auto
  with Cons.IH show ?case by (cases ys) auto
qed

lemma split_parts_plain: "s \<in> set (split_on c t) \<Longrightarrow> c \<notin> set s"
proof (induction t arbitrary: s)
  case Nil
  then show ?case by simp
next
  case (Cons x xs)
  obtain y ys where y: "split_on c xs = y # ys"
    using split_on_nonempty [of c xs] by (cases "split_on c xs") auto
  with Cons.IH have "\<forall>u \<in> set (y # ys). c \<notin> set u" by auto
  with Cons.prems y show ?case by (auto split: if_splits)
qed

subsection \<open>strconv.Atoi and the verb \<open>%d\<close>\<close>

definition digit_of :: "char \<Rightarrow> nat option" where
  "digit_of c = (let n = of_char c :: nat in if 48 \<le> n \<and> n \<le> 57 then Some (n - 48) else None)"

fun digits_value :: "nat \<Rightarrow> string \<Rightarrow> nat option" where
  "digits_value acc [] = Some acc"
| "digits_value acc (c # cs) =
     (case digit_of c of None \<Rightarrow> None | Some d \<Rightarrow> digits_value (acc * 10 + d) cs)"

text \<open>An optional sign, at least one digit, and a value in the range of a 64-bit integer.\<close>

definition Atoi :: "string \<Rightarrow> int option" where
  "Atoi s =
     (let (neg, ds) = (case s of [] \<Rightarrow> (False, [])
                       | c # cs \<Rightarrow> if c = CHR ''-'' then (True, cs)
                                  else if c = CHR ''+'' then (False, cs) else (False, s))
      in if ds = [] then None
         else case digits_value 0 ds of
                None \<Rightarrow> None
              | Some n \<Rightarrow> (let v = (if neg then - int n else int n)
                         in if int64 v then Some v else None))"

lemma Atoi_int64: "Atoi s = Some v \<Longrightarrow> int64 v"
  by (auto simp: Atoi_def Let_def split: prod.splits if_splits option.splits list.splits)

fun show_nat :: "nat \<Rightarrow> string" where
  "show_nat n = (if n < 10 then [char_of (48 + n)] else show_nat (n div 10) @ [char_of (48 + n mod 10)])"

declare show_nat.simps [simp del]

definition show_int :: "int \<Rightarrow> string" where
  "show_int i = (if i < 0 then CHR ''-'' # show_nat (nat (- i)) else show_nat (nat i))"

subsection \<open>The interface of an encoding\<close>

locale codec =
  fixes enc :: "'a \<Rightarrow> string" and dec :: "string \<Rightarrow> 'a option"
  assumes dec_enc: "dec (enc x) = Some x"
begin

lemma enc_inject: "enc x = enc y \<longleftrightarrow> x = y"
  by (metis dec_enc option.inject)

lemma inj_enc: "inj enc"
  by (simp add: inj_def enc_inject)

end

subsection \<open>encoding/hex\<close>

definition hex_digit :: "nat \<Rightarrow> char" where
  "hex_digit n = (if n < 10 then char_of (48 + n) else char_of (87 + n))"

definition hex_value :: "char \<Rightarrow> nat option" where
  "hex_value c =
     (let n = of_char c :: nat
      in if 48 \<le> n \<and> n \<le> 57 then Some (n - 48)
         else if 97 \<le> n \<and> n \<le> 102 then Some (n - 87)
         else if 65 \<le> n \<and> n \<le> 70 then Some (n - 55)
         else None)"

definition hex_EncodeToString :: "byte list \<Rightarrow> string" where
  "hex_EncodeToString bs = concat (map (\<lambda>b. [hex_digit (unat b div 16), hex_digit (unat b mod 16)]) bs)"

fun hex_DecodeString :: "string \<Rightarrow> byte list option" where
  "hex_DecodeString [] = Some []"
| "hex_DecodeString [c] = None"
| "hex_DecodeString (c # d # cs) =
     (case (hex_value c, hex_value d, hex_DecodeString cs) of
        (Some h, Some l, Some bs) \<Rightarrow> Some (word_of_nat (h * 16 + l) # bs)
      | _ \<Rightarrow> None)"

lemma hex_value_digit: "n < 16 \<Longrightarrow> hex_value (hex_digit n) = Some n"
  by (auto simp: hex_value_def hex_digit_def of_char_of Let_def)

lemma hex_decode_encode: "hex_DecodeString (hex_EncodeToString bs) = Some bs"
proof (induction bs)
  case Nil
  then show ?case by (simp add: hex_EncodeToString_def)
next
  case (Cons b bs)
  have "unat b < 256" by (rule byte_lt)
  then have "unat b div 16 < 16" "unat b mod 16 < 16" by simp_all
  with Cons show ?case
    by (simp add: hex_EncodeToString_def hex_value_digit)
qed

interpretation hex: codec hex_EncodeToString hex_DecodeString
  by unfold_locales (rule hex_decode_encode)

lemma length_hex: "length (hex_EncodeToString bs) = 2 * length bs"
  by (induction bs) (simp_all add: hex_EncodeToString_def)

definition hex_chars :: "char list" where
  "hex_chars = map hex_digit [0..<16]"

lemma set_hex: "set (hex_EncodeToString bs) \<subseteq> set hex_chars"
proof -
  have "unat b div 16 < 16 \<and> unat b mod 16 < 16" for b :: byte
    using byte_lt [of b] by simp
  then show ?thesis
    by (auto simp: hex_EncodeToString_def hex_chars_def)
qed

lemma hex_chars_plain: "CHR ''.'' \<notin> set hex_chars"
  by code_simp

lemma hex_no_dot: "CHR ''.'' \<notin> set (hex_EncodeToString bs)"
  using set_hex hex_chars_plain by blast

subsection \<open>encoding/base64\<close>

text \<open>
  Three bytes are four characters of the alphabet; a rest of one or two bytes is two or three
  characters, without padding. \<open>RawURLEncoding\<close> skips line breaks and does not look at the
  unused low bits of the last character; \<open>RawStdEncoding.Strict()\<close> wants them to be zero.
\<close>

fun index_of :: "'a \<Rightarrow> 'a list \<Rightarrow> nat option" where
  "index_of c [] = None"
| "index_of c (x # xs) = (if c = x then Some 0 else map_option Suc (index_of c xs))"

fun b64_sextets :: "nat list \<Rightarrow> nat list" where
  "b64_sextets [] = []"
| "b64_sextets [a] = [a div 4, a mod 4 * 16]"
| "b64_sextets [a, b] = [a div 4, a mod 4 * 16 + b div 16, b mod 16 * 4]"
| "b64_sextets (a # b # c # bs) =
     a div 4 # (a mod 4 * 16 + b div 16) # (b mod 16 * 4 + c div 64) # c mod 64 # b64_sextets bs"

fun b64_bytes :: "nat list \<Rightarrow> nat list option" where
  "b64_bytes [] = Some []"
| "b64_bytes [p] = None"
| "b64_bytes [p, q] = Some [p * 4 + q div 16]"
| "b64_bytes [p, q, r] = Some [p * 4 + q div 16, q mod 16 * 16 + r div 4]"
| "b64_bytes (p # q # r # s # ns) =
     map_option (\<lambda>bs. (p * 4 + q div 16) # (q mod 16 * 16 + r div 4) # (r mod 4 * 64 + s) # bs) (b64_bytes ns)"

text \<open>The unused bits of the last sextet are zero.\<close>

fun b64_strict :: "nat list \<Rightarrow> bool" where
  "b64_strict [p, q] = (q mod 16 = 0)"
| "b64_strict [p, q, r] = (r mod 4 = 0)"
| "b64_strict (p # q # r # s # ns) = b64_strict ns"
| "b64_strict _ = True"

definition encode64 :: "string \<Rightarrow> byte list \<Rightarrow> string" where
  "encode64 alpha bs = map (\<lambda>n. alpha ! n) (b64_sextets (map unat bs))"

definition decode64 :: "bool \<Rightarrow> string \<Rightarrow> string \<Rightarrow> byte list option" where
  "decode64 strict alpha s =
     (case those (map (\<lambda>c. index_of c alpha) s) of
        None \<Rightarrow> None
      | Some ns \<Rightarrow>
          if strict \<and> \<not> b64_strict ns then None
          else map_option (map word_of_nat) (b64_bytes ns))"

definition url_alphabet :: string where
  "url_alphabet = ''ABCDEFGHIJKLMNOPQRSTUVWXYZabcdefghijklmnopqrstuvwxyz0123456789-_''"

definition std_alphabet :: string where
  "std_alphabet = ''ABCDEFGHIJKLMNOPQRSTUVWXYZabcdefghijklmnopqrstuvwxyz0123456789+/''"

definition b64_EncodeToString :: "byte list \<Rightarrow> string" where
  "b64_EncodeToString bs = encode64 url_alphabet bs"

definition b64_DecodeString :: "string \<Rightarrow> byte list option" where
  "b64_DecodeString s = decode64 False url_alphabet (filter (\<lambda>c. c \<noteq> CHR 0x0A \<and> c \<noteq> CHR 0x0D) s)"

definition std_EncodeToString :: "byte list \<Rightarrow> string" where
  "std_EncodeToString bs = encode64 std_alphabet bs"

definition std_DecodeStrict :: "string \<Rightarrow> byte list option" where
  "std_DecodeStrict s = decode64 True std_alphabet s"

lemma b64_sextets_lt: "\<forall>a \<in> set bs. a < 256 \<Longrightarrow> \<forall>n \<in> set (b64_sextets bs). n < 64"
  by (induction bs rule: b64_sextets.induct) auto

lemma b64_bytes_sextets: "\<forall>a \<in> set bs. a < 256 \<Longrightarrow> b64_bytes (b64_sextets bs) = Some bs"
  by (induction bs rule: b64_sextets.induct) auto

lemma b64_strict_sextets: "b64_strict (b64_sextets bs)"
  by (induction bs rule: b64_sextets.induct) auto

lemma those_map_Some: "(\<And>x. x \<in> set xs \<Longrightarrow> f (g x) = Some x) \<Longrightarrow> those (map f (map g xs)) = Some xs"
  by (induction xs) auto

lemma index_of_nth: "distinct xs \<Longrightarrow> n < length xs \<Longrightarrow> index_of (xs ! n) xs = Some n"
  by (induction xs arbitrary: n) (auto simp: nth_Cons split: nat.splits)

text \<open>What an alphabet promises, and what the encoding gains from it.\<close>

locale alphabet64 =
  fixes alpha :: string
  assumes size64: "length alpha = 64" and distinct_alpha: "distinct alpha"
begin

lemma decode_encode: "decode64 strict alpha (encode64 alpha bs) = Some bs"
proof -
  let ?ns = "b64_sextets (map unat bs)"
  have "\<forall>n \<in> set ?ns. n < 64"
    by (rule b64_sextets_lt) (auto simp: byte_lt)
  then have "those (map (\<lambda>c. index_of c alpha) (map (\<lambda>n. alpha ! n) ?ns)) = Some ?ns"
    by (intro those_map_Some index_of_nth) (auto simp: size64 distinct_alpha)
  moreover have "b64_bytes ?ns = Some (map unat bs)"
    by (rule b64_bytes_sextets) (auto simp: byte_lt)
  ultimately show ?thesis
    by (simp add: decode64_def encode64_def b64_strict_sextets comp_def)
qed

lemma set_encode: "set (encode64 alpha bs) \<subseteq> set alpha"
proof -
  have "\<forall>n \<in> set (b64_sextets (map unat bs)). n < length alpha"
    unfolding size64 by (rule b64_sextets_lt) (auto simp: byte_lt)
  then show ?thesis by (auto simp: encode64_def)
qed

end

interpretation url64: alphabet64 url_alphabet
  by unfold_locales (simp_all add: url_alphabet_def)

interpretation std64: alphabet64 std_alphabet
  by unfold_locales (simp_all add: std_alphabet_def)

lemma b64_decode_encode: "b64_DecodeString (b64_EncodeToString bs) = Some bs"
proof -
  have "c \<noteq> CHR 0x0A \<and> c \<noteq> CHR 0x0D" if "c \<in> set (encode64 url_alphabet bs)" for c
    using url64.set_encode that by (fastforce simp: url_alphabet_def)
  then have "filter (\<lambda>c. c \<noteq> CHR 0x0A \<and> c \<noteq> CHR 0x0D) (encode64 url_alphabet bs) = encode64 url_alphabet bs"
    by (simp add: filter_id_conv)
  then show ?thesis
    by (simp add: b64_DecodeString_def b64_EncodeToString_def url64.decode_encode)
qed

lemma std_plain: "c \<in> set (std_EncodeToString bs) \<Longrightarrow> c \<noteq> CHR ''$'' \<and> c \<noteq> CHR 0x0A \<and> c \<noteq> CHR 0x0D"
  using std64.set_encode by (fastforce simp: std_EncodeToString_def std_alphabet_def)

interpretation b64: codec b64_EncodeToString b64_DecodeString
  by unfold_locales (rule b64_decode_encode)

interpretation std: codec std_EncodeToString std_DecodeStrict
  by unfold_locales (simp add: std_EncodeToString_def std_DecodeStrict_def std64.decode_encode)

subsection \<open>Decimal numbers: what \<open>%d\<close> prints can be read back\<close>

lemma digit_of_show: "n < 10 \<Longrightarrow> digit_of (char_of (48 + n)) = Some n"
  by (simp add: digit_of_def of_char_of Let_def)

lemma digits_value_append:
  "digits_value acc (xs @ ys) = Option.bind (digits_value acc xs) (\<lambda>n. digits_value n ys)"
  by (induction xs arbitrary: acc) (auto split: option.splits)

lemma digits_value_show: "digits_value acc (show_nat n) = Some (acc * 10 ^ length (show_nat n) + n)"
proof (induction n arbitrary: acc rule: show_nat.induct)
  case (1 n)
  show ?case
  proof (cases "n < 10")
    case True
    then show ?thesis by (simp add: show_nat.simps [of n] digit_of_show)
  next
    case False
    with 1 have "digits_value acc (show_nat (n div 10)) = Some (acc * 10 ^ length (show_nat (n div 10)) + n div 10)"
      by blast
    with False show ?thesis
      by (simp add: show_nat.simps [of n] digits_value_append digit_of_show algebra_simps)
  qed
qed

lemma show_nat_digits: "c \<in> set (show_nat n) \<Longrightarrow> digit_of c \<noteq> None"
proof (induction n rule: show_nat.induct)
  case (1 n)
  then show ?case
    by (cases "n < 10") (auto simp: show_nat.simps [of n] digit_of_show)
qed

lemma show_nat_ne: "show_nat n \<noteq> []"
  by (simp add: show_nat.simps [of n])

subsection \<open>strings.SplitN(s, sep, 2), net.SplitHostPort\<close>

definition split_once :: "char \<Rightarrow> string \<Rightarrow> (string \<times> string) option" where
  "split_once c s =
     (if c \<in> set s then Some (takeWhile (\<lambda>x. x \<noteq> c) s, tl (dropWhile (\<lambda>x. x \<noteq> c) s)) else None)"

lemma split_once_append: "c \<notin> set s \<Longrightarrow> split_once c (s @ c # t) = Some (s, t)"
proof -
  assume "c \<notin> set s"
  then have "\<forall>x \<in> set s. x \<noteq> c" by auto
  then show ?thesis
    by (simp add: split_once_def takeWhile_append2 dropWhile_append2)
qed

text \<open>Host and port around the last colon; a host with colons is in brackets.\<close>

definition SplitHostPort :: "string \<Rightarrow> (string \<times> string) option" where
  "SplitHostPort hostport =
     (if CHR '':'' \<notin> set hostport then None
      else
        let port = rev (takeWhile (\<lambda>x. x \<noteq> CHR '':'') (rev hostport));
            before = take (length hostport - length port - 1) hostport
        in case before of
             CHR ''['' # inner \<Rightarrow>
               (case split_once CHR '']'' inner of
                  None \<Rightarrow> None
                | Some (host, rest) \<Rightarrow>
                    if rest \<noteq> [] \<or> CHR ''['' \<in> set host \<or> CHR ''['' \<in> set port \<or> CHR '']'' \<in> set port then None
                    else Some (host, port))
           | host \<Rightarrow>
               if CHR '':'' \<in> set host \<or> CHR ''['' \<in> set hostport \<or> CHR '']'' \<in> set hostport then None
               else Some (host, port))"

end
