(* ===== verification/Sha256.thy ===== *)
theory Sha256
  imports Go_Text
begin

section \<open>\<^verbatim>\<open>crypto/sha256\<close> and \<^verbatim>\<open>crypto/hmac\<close>\<close>

text \<open>
  The hash functions of the standard library that tokens and QR signatures use: SHA-256 on
  32-bit words, and HMAC over it (block size 64). Both are executable.
\<close>

unbundle bit_operations_syntax

type_synonym u32 = "32 word"

definition sha_H0 :: "u32 list" where
  "sha_H0 = [
    0x6A09E667, 0xBB67AE85, 0x3C6EF372, 0xA54FF53A, 0x510E527F, 0x9B05688C,
    0x1F83D9AB, 0x5BE0CD19]"

definition sha_K :: "u32 list" where
  "sha_K = [
    0x428A2F98, 0x71374491, 0xB5C0FBCF, 0xE9B5DBA5, 0x3956C25B, 0x59F111F1,
    0x923F82A4, 0xAB1C5ED5, 0xD807AA98, 0x12835B01, 0x243185BE, 0x550C7DC3,
    0x72BE5D74, 0x80DEB1FE, 0x9BDC06A7, 0xC19BF174, 0xE49B69C1, 0xEFBE4786,
    0x0FC19DC6, 0x240CA1CC, 0x2DE92C6F, 0x4A7484AA, 0x5CB0A9DC, 0x76F988DA,
    0x983E5152, 0xA831C66D, 0xB00327C8, 0xBF597FC7, 0xC6E00BF3, 0xD5A79147,
    0x06CA6351, 0x14292967, 0x27B70A85, 0x2E1B2138, 0x4D2C6DFC, 0x53380D13,
    0x650A7354, 0x766A0ABB, 0x81C2C92E, 0x92722C85, 0xA2BFE8A1, 0xA81A664B,
    0xC24B8B70, 0xC76C51A3, 0xD192E819, 0xD6990624, 0xF40E3585, 0x106AA070,
    0x19A4C116, 0x1E376C08, 0x2748774C, 0x34B0BCB5, 0x391C0CB3, 0x4ED8AA4A,
    0x5B9CCA4F, 0x682E6FF3, 0x748F82EE, 0x78A5636F, 0x84C87814, 0x8CC70208,
    0x90BEFFFA, 0xA4506CEB, 0xBEF9A3F7, 0xC67178F2]"

definition rotr :: "nat \<Rightarrow> u32 \<Rightarrow> u32" where
  "rotr n x = word_rotr n x"

definition sha_Ch :: "u32 \<Rightarrow> u32 \<Rightarrow> u32 \<Rightarrow> u32" where
  "sha_Ch x y z = (x AND y) XOR (NOT x AND z)"

definition sha_Maj :: "u32 \<Rightarrow> u32 \<Rightarrow> u32 \<Rightarrow> u32" where
  "sha_Maj x y z = (x AND y) XOR (x AND z) XOR (y AND z)"

definition sha_S0 :: "u32 \<Rightarrow> u32" where
  "sha_S0 x = rotr 2 x XOR rotr 13 x XOR rotr 22 x"

definition sha_S1 :: "u32 \<Rightarrow> u32" where
  "sha_S1 x = rotr 6 x XOR rotr 11 x XOR rotr 25 x"

definition sha_s0 :: "u32 \<Rightarrow> u32" where
  "sha_s0 x = rotr 7 x XOR rotr 18 x XOR drop_bit 3 x"

definition sha_s1 :: "u32 \<Rightarrow> u32" where
  "sha_s1 x = rotr 17 x XOR rotr 19 x XOR drop_bit 10 x"

text \<open>Big-endian words.\<close>

definition be32 :: "u32 \<Rightarrow> byte list" where
  "be32 x = [ucast (drop_bit 24 x), ucast (drop_bit 16 x), ucast (drop_bit 8 x), ucast x]"

fun words_of :: "byte list \<Rightarrow> u32 list" where
  "words_of (a # b # c # d # bs) =
     (push_bit 24 (ucast a) OR push_bit 16 (ucast b) OR push_bit 8 (ucast c) OR ucast d) # words_of bs"
| "words_of _ = []"

text \<open>Padding: a one bit, zeros up to 8 bytes below a multiple of 64, the length in bits.\<close>

definition sha_pad :: "byte list \<Rightarrow> byte list" where
  "sha_pad m =
     (let n = length m; z = (119 - n mod 64) mod 64; bits = word_of_nat (8 * n) :: 64 word
      in m @ [0x80] @ replicate z 0 @ be32 (ucast (drop_bit 32 bits)) @ be32 (ucast bits))"

text \<open>
  The message schedule: sixteen words, then \<open>n\<close> more, each from the words 16, 15, 7 and 2
  before it.
\<close>

fun sha_schedule :: "nat \<Rightarrow> u32 list \<Rightarrow> u32 list" where
  "sha_schedule 0 ws = ws"
| "sha_schedule (Suc n) ws =
     (let t = length ws
      in sha_schedule n (ws @ [sha_s1 (ws ! (t - 2)) + ws ! (t - 7) + sha_s0 (ws ! (t - 15)) + ws ! (t - 16)]))"

type_synonym sha_state = "u32 \<times> u32 \<times> u32 \<times> u32 \<times> u32 \<times> u32 \<times> u32 \<times> u32"

fun sha_round :: "u32 \<times> u32 \<Rightarrow> sha_state \<Rightarrow> sha_state" where
  "sha_round (k, w) (a, b, c, d, e, f, g, h) =
     (let t1 = h + sha_S1 e + sha_Ch e f g + k + w; t2 = sha_S0 a + sha_Maj a b c
      in (t1 + t2, a, b, c, d + t1, e, f, g))"

fun sha_add :: "sha_state \<Rightarrow> sha_state \<Rightarrow> sha_state" where
  "sha_add (a, b, c, d, e, f, g, h) (a', b', c', d', e', f', g', h') =
     (a + a', b + b', c + c', d + d', e + e', f + f', g + g', h + h')"

definition sha_block :: "u32 list \<Rightarrow> sha_state \<Rightarrow> sha_state" where
  "sha_block ws s = sha_add s (fold sha_round (zip sha_K (sha_schedule 48 ws)) s)"

fun sha_blocks :: "nat \<Rightarrow> u32 list \<Rightarrow> sha_state \<Rightarrow> sha_state" where
  "sha_blocks 0 ws s = s"
| "sha_blocks (Suc n) ws s = sha_blocks n (drop 16 ws) (sha_block (take 16 ws) s)"

fun sha_digest :: "sha_state \<Rightarrow> byte list" where
  "sha_digest (a, b, c, d, e, f, g, h) =
     be32 a @ be32 b @ be32 c @ be32 d @ be32 e @ be32 f @ be32 g @ be32 h"

definition sha_init :: sha_state where
  "sha_init = (sha_H0 ! 0, sha_H0 ! 1, sha_H0 ! 2, sha_H0 ! 3, sha_H0 ! 4, sha_H0 ! 5, sha_H0 ! 6, sha_H0 ! 7)"

definition Sum256 :: "byte list \<Rightarrow> byte list" where
  "Sum256 m = (let ws = words_of (sha_pad m) in sha_digest (sha_blocks (length ws div 16) ws sha_init))"

lemma length_sha_digest: "length (sha_digest s) = 32"
  by (cases s rule: sha_digest.cases) (simp add: be32_def)

lemma length_Sum256: "length (Sum256 m) = 32"
  by (simp add: Sum256_def Let_def length_sha_digest)

text \<open>The padded message is a whole number of blocks.\<close>

lemma length_sha_pad: "length (sha_pad m) mod 64 = 0"
proof -
  have "(n + 1 + (119 - n mod 64) mod 64 + 8) mod 64 = 0" for n :: nat
  proof -
    have "n mod 64 < 64" by simp
    then have "n mod 64 + 9 + (119 - n mod 64) = 128" by linarith
    then have "(n mod 64 + 9 + (119 - n mod 64)) mod 64 = 0" by simp
    moreover have "(n + 9 + (119 - n mod 64) mod 64) mod 64 = (n mod 64 + 9 + (119 - n mod 64)) mod 64"
      by (metis (no_types) add.assoc mod_add_left_eq mod_add_right_eq)
    ultimately show ?thesis by (simp add: ac_simps)
  qed
  then show ?thesis by (simp add: sha_pad_def be32_def Let_def ac_simps)
qed

definition hmac_key :: "byte list \<Rightarrow> byte list" where
  "hmac_key k = (let k' = (if length k > 64 then Sum256 k else k) in k' @ replicate (64 - length k') 0)"

definition hmac_Sum :: "byte list \<Rightarrow> byte list \<Rightarrow> byte list" where
  "hmac_Sum key msg =
     (let k = hmac_key key
      in Sum256 (map (\<lambda>b. b XOR 0x5c) k @ Sum256 (map (\<lambda>b. b XOR 0x36) k @ msg)))"

lemma length_hmac: "length (hmac_Sum key msg) = 32"
  by (simp add: hmac_Sum_def Let_def length_Sum256)

end
