(* ===== verification/Qr.thy ===== *)
theory Qr
  imports Sha256
begin

section \<open>Ticket tokens: \<^verbatim>\<open>internal/qr/qr.go\<close>\<close>

text \<open>
  A token is the base64url text of \<open>ticket:purchase:tier.signature\<close>, the signature being the
  hexadecimal HMAC of the part before the dot. \<open>uuid_String\<close> and \<open>uuid_Parse\<close> stand for the
  package \<^verbatim>\<open>github.com/google/uuid\<close>.
\<close>

datatype qr_error = ErrInvalidToken

definition createHMAC :: "byte list \<Rightarrow> string \<Rightarrow> byte list" where
  "createHMAC payload secret = hmac_Sum (to_bytes secret) payload"

definition qr_payload :: "(uuid \<Rightarrow> string) \<Rightarrow> uuid \<Rightarrow> uuid \<Rightarrow> uuid \<Rightarrow> string" where
  "qr_payload uuid_String ticketID purchaseID tierID =
     uuid_String ticketID @ CHR '':'' # uuid_String purchaseID @ CHR '':'' # uuid_String tierID"

definition GenerateToken :: "(uuid \<Rightarrow> string) \<Rightarrow> uuid \<Rightarrow> uuid \<Rightarrow> uuid \<Rightarrow> string \<Rightarrow> string" where
  "GenerateToken uuid_String ticketID purchaseID tierID secret =
     (let payload = qr_payload uuid_String ticketID purchaseID tierID;
          sig = createHMAC (to_bytes payload) secret;
          signed = payload @ CHR ''.'' # hex_EncodeToString sig
      in b64_EncodeToString (to_bytes signed))"

definition VerifyToken :: "(string \<Rightarrow> uuid option) \<Rightarrow> string \<Rightarrow> string \<Rightarrow> qr_error + uuid" where
  "VerifyToken uuid_Parse token secret =
     (case b64_DecodeString token of
        None \<Rightarrow> Inl ErrInvalidToken
      | Some decoded \<Rightarrow>
          (case split_on CHR ''.'' (to_string decoded) of
             [payload, sigHex] \<Rightarrow>
               (case hex_DecodeString sigHex of
                  None \<Rightarrow> Inl ErrInvalidToken
                | Some sig \<Rightarrow>
                    if sig \<noteq> createHMAC (to_bytes payload) secret then Inl ErrInvalidToken
                    else
                      (case split_on CHR '':'' payload of
                         [i, _, _] \<Rightarrow>
                           (case uuid_Parse i of None \<Rightarrow> Inl ErrInvalidToken | Some ticketID \<Rightarrow> Inr ticketID)
                       | _ \<Rightarrow> Inl ErrInvalidToken))
           | _ \<Rightarrow> Inl ErrInvalidToken))"

text \<open>
  What the code relies on of the UUID package: the text form uses neither separator, and
  parsing it gives the identifier back.
\<close>

definition uuid_text_ok :: "(uuid \<Rightarrow> string) \<Rightarrow> (string \<Rightarrow> uuid option) \<Rightarrow> uuid \<Rightarrow> bool" where
  "uuid_text_ok uuid_String uuid_Parse i \<longleftrightarrow>
     uuid_Parse (uuid_String i) = Some i
     \<and> CHR ''.'' \<notin> set (uuid_String i) \<and> CHR '':'' \<notin> set (uuid_String i)"

lemma qr_payload_split:
  assumes "CHR '':'' \<notin> set (uuid_String i)" "CHR '':'' \<notin> set (uuid_String j)" "CHR '':'' \<notin> set (uuid_String k)"
  shows "split_on CHR '':'' (qr_payload uuid_String i j k) = [uuid_String i, uuid_String j, uuid_String k]"
  using assms by (simp add: qr_payload_def split_on_append split_on_plain)

lemma qr_payload_no_dot:
  assumes "CHR ''.'' \<notin> set (uuid_String i)" "CHR ''.'' \<notin> set (uuid_String j)" "CHR ''.'' \<notin> set (uuid_String k)"
  shows "CHR ''.'' \<notin> set (qr_payload uuid_String i j k)"
  using assms by (simp add: qr_payload_def)

lemma verify_generate:
  assumes "uuid_text_ok uuid_String uuid_Parse i" "uuid_text_ok uuid_String uuid_Parse j"
    and "uuid_text_ok uuid_String uuid_Parse k"
  shows "VerifyToken uuid_Parse (GenerateToken uuid_String i j k secret) secret = Inr i"
proof -
  let ?p = "qr_payload uuid_String i j k"
  let ?h = "hex_EncodeToString (createHMAC (to_bytes ?p) secret)"
  have "split_on CHR ''.'' (?p @ CHR ''.'' # ?h) = [?p, ?h]"
    using assms by (subst split_on_append)
      (simp_all add: qr_payload_no_dot uuid_text_ok_def split_on_plain hex_no_dot)
  with assms show ?thesis
    by (simp add: VerifyToken_def GenerateToken_def Let_def b64_decode_encode hex_decode_encode
        qr_payload_split uuid_text_ok_def)
qed

lemma two_parts:
  "(case xs of [a, b] \<Rightarrow> f a b | _ \<Rightarrow> Inl e) = Inr t \<Longrightarrow> \<exists>a b. xs = [a, b] \<and> f a b = Inr t"
  by (auto split: list.splits)

lemma three_parts:
  "(case xs of [a, b, c] \<Rightarrow> f a b c | _ \<Rightarrow> Inl e) = Inr t \<Longrightarrow> \<exists>a b c. xs = [a, b, c] \<and> f a b c = Inr t"
  by (auto split: list.splits)

text \<open>An accepted token carries a valid signature of its payload, which names the ticket.\<close>

lemma verify_sound:
  assumes "VerifyToken uuid_Parse token secret = Inr t"
  obtains payload sigHex i j k where
    "b64_DecodeString token = Some (to_bytes (payload @ CHR ''.'' # sigHex))"
    and "hex_DecodeString sigHex = Some (createHMAC (to_bytes payload) secret)"
    and "payload = i @ CHR '':'' # j @ CHR '':'' # k" and "uuid_Parse i = Some t"
proof -
  from assms obtain decoded where d: "b64_DecodeString token = Some decoded"
    by (cases "b64_DecodeString token") (simp_all add: VerifyToken_def)
  from assms d obtain payload sigHex where s: "split_on CHR ''.'' (to_string decoded) = [payload, sigHex]"
    and r: "(case hex_DecodeString sigHex of None \<Rightarrow> Inl ErrInvalidToken
             | Some sig \<Rightarrow> if sig \<noteq> createHMAC (to_bytes payload) secret then Inl ErrInvalidToken
                else (case split_on CHR '':'' payload of
                         [i, _, _] \<Rightarrow> (case uuid_Parse i of None \<Rightarrow> Inl ErrInvalidToken | Some ticketID \<Rightarrow> Inr ticketID)
                       | _ \<Rightarrow> Inl ErrInvalidToken)) = Inr t"
    by (auto simp: VerifyToken_def dest!: two_parts)
  from r obtain h: "hex_DecodeString sigHex = Some (createHMAC (to_bytes payload) secret)"
    and r': "(case split_on CHR '':'' payload of
               [i, _, _] \<Rightarrow> (case uuid_Parse i of None \<Rightarrow> Inl ErrInvalidToken | Some ticketID \<Rightarrow> Inr ticketID)
             | _ \<Rightarrow> Inl ErrInvalidToken) = Inr t"
    by (cases "hex_DecodeString sigHex"; cases "the (hex_DecodeString sigHex) = createHMAC (to_bytes payload) secret")
      simp_all
  from three_parts [OF r'] obtain i j k where p: "split_on CHR '':'' payload = [i, j, k]"
    and u: "uuid_Parse i = Some t"
    by (auto split: option.splits)
  have "to_string decoded = payload @ CHR ''.'' # sigHex"
    using join_split [of "CHR ''.''" "to_string decoded"] s by simp
  then have "decoded = to_bytes (payload @ CHR ''.'' # sigHex)"
    by (metis to_bytes_to_string)
  moreover have "payload = i @ CHR '':'' # j @ CHR '':'' # k"
    using join_split [of "CHR '':''" payload] p by simp
  ultimately show ?thesis using that d h u by blast
qed

end
