(* ===== verification/Go_Time.thy ===== *)
theory Go_Time
  imports Go_Text
begin

section \<open>Instants as text: \<^verbatim>\<open>time.Format\<close> and \<^verbatim>\<open>time.Parse\<close> with RFC 3339\<close>

text \<open>
  The layout \<open>time.RFC3339Nano\<close> of Go's package \<^verbatim>\<open>time\<close>, in UTC and for the years 0 to 9999,
  over the proleptic Gregorian calendar. Parsing is the strict reading of RFC 3339 with an
  optional zone offset; the lenient fallback of \<^verbatim>\<open>time.Parse\<close> (a comma before the fraction, one
  digit hours) is left out. The main fact is that formatted instants are read back.
\<close>

subsection \<open>The calendar\<close>

definition leap_year :: "nat \<Rightarrow> bool" where
  "leap_year y \<longleftrightarrow> y mod 4 = 0 \<and> (y mod 100 \<noteq> 0 \<or> y mod 400 = 0)"

definition year_len :: "nat \<Rightarrow> nat" where
  "year_len y = (if leap_year y then 366 else 365)"

definition month_lens :: "nat \<Rightarrow> nat list" where
  "month_lens y = [31, if leap_year y then 29 else 28, 31, 30, 31, 30, 31, 31, 30, 31, 30, 31]"

lemma year_len_pos: "0 < year_len y"
  by (simp add: year_len_def)

function year_of :: "nat \<Rightarrow> nat \<Rightarrow> nat \<times> nat" where
  "year_of y n = (if n < year_len y then (y, n) else year_of (Suc y) (n - year_len y))"
  by pat_completeness auto
termination
  by (relation "measure snd") (auto simp: year_len_def split: if_splits)

declare year_of.simps [simp del]

fun month_of :: "nat list \<Rightarrow> nat \<Rightarrow> nat \<times> nat" where
  "month_of [] n = (0, n)"
| "month_of (l # ls) n = (if n < l then (0, n) else (case month_of ls (n - l) of (m, d) \<Rightarrow> (Suc m, d)))"

definition days_to_year :: "nat \<Rightarrow> nat" where
  "days_to_year y = sum_list (map year_len [0..<y])"

definition date_of :: "nat \<Rightarrow> nat \<times> nat \<times> nat" where
  "date_of n = (case year_of 0 n of (y, r) \<Rightarrow> (case month_of (month_lens y) r of (m, d) \<Rightarrow> (y, Suc m, Suc d)))"

definition days_of :: "nat \<Rightarrow> nat \<Rightarrow> nat \<Rightarrow> nat" where
  "days_of y m d = days_to_year y + sum_list (take (m - 1) (month_lens y)) + (d - 1)"

lemma days_to_Suc: "days_to_year (Suc y) = days_to_year y + year_len y"
  by (simp add: days_to_year_def)

lemma year_of_days: "year_of y n = (y', r) \<Longrightarrow> days_to_year y' + r = days_to_year y + n \<and> r < year_len y' \<and> y \<le> y'"
proof (induction y n rule: year_of.induct)
  case (1 y n)
  then show ?case
    by (cases "n < year_len y") (auto simp: year_of.simps [of y n] days_to_Suc)
qed

lemma month_of_days: "month_of ls n = (m, d) \<Longrightarrow> n < sum_list ls
    \<Longrightarrow> sum_list (take m ls) + d = n \<and> m < length ls \<and> d < ls ! m"
  by (induction ls n arbitrary: m rule: month_of.induct) (auto simp: less_diff_conv2 split: if_splits prod.splits)

lemma sum_month_lens: "sum_list (month_lens y) = year_len y"
  by (simp add: month_lens_def year_len_def)

lemma days_to_year_mono: "y \<le> z \<Longrightarrow> days_to_year y \<le> days_to_year z"
proof (induction z)
  case (Suc z)
  then show ?case by (cases "y = Suc z") (simp_all add: days_to_Suc)
qed simp

text \<open>A date exists for every day, and it determines the day.\<close>

lemma date_of_days:
  assumes "date_of n = (y, m, d)"
  shows "days_of y m d = n" and "1 \<le> m" and "m \<le> 12" and "1 \<le> d" and "d \<le> month_lens y ! (m - 1)"
    and "days_to_year y \<le> n"
proof -
  obtain r where r: "year_of 0 n = (y, r)" and m: "month_of (month_lens y) r = (m - 1, d - 1)" "1 \<le> m" "1 \<le> d"
    using assms by (auto simp: date_of_def split: prod.splits)
  from year_of_days [OF r] have y: "days_to_year y + r = n" "r < year_len y"
    by (simp_all add: days_to_year_def)
  with month_of_days [OF m(1)] have d: "sum_list (take (m - 1) (month_lens y)) + (d - 1) = r"
      "m - 1 < length (month_lens y)" "d - 1 < month_lens y ! (m - 1)"
    by (simp_all add: sum_month_lens)
  with y m show "days_of y m d = n" "1 \<le> m" "m \<le> 12" "1 \<le> d" "d \<le> month_lens y ! (m - 1)" "days_to_year y \<le> n"
    by (simp_all add: days_of_def month_lens_def)
qed

text \<open>Four digits are enough for the years before 10000.\<close>

lemma div_up_Suc: "0 < k \<Longrightarrow> (Suc n + (k - 1)) div k = (n + (k - 1)) div k + (if n mod k = 0 then 1 else 0)" for k :: nat
proof -
  assume k: "0 < k"
  define q r where "q = n div k" and "r = n mod k"
  then have n: "n = k * q + r" and r: "r < k" using k by simp_all
  have "(Suc n + (k - 1)) div k = Suc q"
    by (rule div_nat_eqI) (use n r k in simp_all)
  moreover have "(n + (k - 1)) div k = (if r = 0 then q else Suc q)"
    by (rule div_nat_eqI) (use n r k in auto)
  ultimately show ?thesis by (simp add: r_def)
qed

lemma days_to_year_leaps: "days_to_year y + (y + 99) div 100 = 365 * y + (y + 3) div 4 + (y + 399) div 400"
proof (induction y)
  case 0
  show ?case by (simp add: days_to_year_def)
next
  case (Suc y)
  have "y mod 400 = 0 \<Longrightarrow> y mod 100 = 0" "y mod 100 = 0 \<Longrightarrow> y mod 4 = 0" by presburger+
  with Suc div_up_Suc [of 4 y] div_up_Suc [of 100 y] div_up_Suc [of 400 y] show ?case
    by (auto simp: days_to_Suc year_len_def leap_year_def split: if_splits)
qed

lemma days_to_10000: "days_to_year 10000 = 3652425"
  using days_to_year_leaps [of 10000] by simp

lemma date_of_year:
  assumes "date_of n = (y, m, d)" and "n < 3652425"
  shows "y \<le> 9999"
proof (rule ccontr)
  assume "\<not> y \<le> 9999"
  then have "days_to_year 10000 \<le> days_to_year y" by (intro days_to_year_mono) simp
  with date_of_days(6) [OF assms(1)] assms(2) show False by (simp add: days_to_10000)
qed

subsection \<open>Numbers of a fixed width\<close>

definition is_digit :: "char \<Rightarrow> bool" where
  "is_digit c \<longleftrightarrow> digit_of c \<noteq> None"

definition pad_nat :: "nat \<Rightarrow> nat \<Rightarrow> string" where
  "pad_nat w n = replicate (w - length (show_nat n)) CHR ''0'' @ show_nat n"

definition parse_uint :: "string \<Rightarrow> nat \<Rightarrow> nat \<Rightarrow> nat option" where
  "parse_uint s lo hi =
     (case digits_value 0 s of None \<Rightarrow> None | Some n \<Rightarrow> if lo \<le> n \<and> n \<le> hi then Some n else None)"

lemma length_show_nat: "n < 10 ^ w \<Longrightarrow> 0 < w \<Longrightarrow> length (show_nat n) \<le> w"
proof (induction n arbitrary: w rule: show_nat.induct)
  case (1 n)
  show ?case
  proof (cases "n < 10")
    case True
    with 1 show ?thesis by (simp add: show_nat.simps [of n])
  next
    case False
    with 1 obtain v where v: "w = Suc v" "0 < v" by (cases w; cases "w - 1") auto
    with 1 False have "length (show_nat (n div 10)) \<le> v" by (intro 1) auto
    with False v show ?thesis by (simp add: show_nat.simps [of n])
  qed
qed

lemma digits_value_zeros: "digits_value 0 (replicate k CHR ''0'' @ s) = digits_value 0 s"
  by (induction k) (simp_all add: digit_of_def)

lemma digits_pad: "digits_value 0 (pad_nat w n) = Some n"
  by (simp add: pad_nat_def digits_value_zeros digits_value_show)

lemma length_pad: "n < 10 ^ w \<Longrightarrow> 0 < w \<Longrightarrow> length (pad_nat w n) = w"
  using length_show_nat [of n w] by (simp add: pad_nat_def)

lemma pad_digits: "c \<in> set (pad_nat w n) \<Longrightarrow> is_digit c"
  using show_nat_digits by (auto simp: pad_nat_def is_digit_def digit_of_def)

lemma parse_pad: "lo \<le> n \<Longrightarrow> n \<le> hi \<Longrightarrow> parse_uint (pad_nat w n) lo hi = Some n"
  by (simp add: parse_uint_def digits_pad)

subsection \<open>The fraction of a second\<close>

text \<open>The layout \<open>.999999999\<close>: nothing for zero, otherwise nine digits without the zeros at the end.\<close>

definition drop_zeros :: "string \<Rightarrow> string" where
  "drop_zeros s = rev (dropWhile (\<lambda>c. c = CHR ''0'') (rev s))"

definition format_nanos :: "nat \<Rightarrow> string" where
  "format_nanos ns = (if ns = 0 then [] else CHR ''.'' # drop_zeros (pad_nat 9 ns))"

text \<open>A point and at least one digit; digits after the ninth are ignored.\<close>

definition parse_nanos :: "string \<Rightarrow> nat \<times> string" where
  "parse_nanos s =
     (case s of
        CHR ''.'' # r \<Rightarrow>
          (let ds = takeWhile is_digit r
           in if ds = [] then (0, s)
              else (case digits_value 0 (take 9 ds) of
                      None \<Rightarrow> (0, s)
                    | Some n \<Rightarrow> (n * 10 ^ (9 - length (take 9 ds)), dropWhile is_digit r)))
      | _ \<Rightarrow> (0, s))"

lemma drop_zeros_append: "\<exists>k. s = drop_zeros s @ replicate k CHR ''0''"
proof -
  have "rev s = takeWhile (\<lambda>c. c = CHR ''0'') (rev s) @ dropWhile (\<lambda>c. c = CHR ''0'') (rev s)" by simp
  moreover have "takeWhile (\<lambda>c. c = CHR ''0'') (rev s)
      = replicate (length (takeWhile (\<lambda>c. c = CHR ''0'') (rev s))) CHR ''0''"
    by (rule replicate_length_same [symmetric]) (auto dest: set_takeWhileD)
  ultimately have "rev s = replicate (length (takeWhile (\<lambda>c. c = CHR ''0'') (rev s))) CHR ''0'' @ rev (drop_zeros s)"
    by (simp add: drop_zeros_def)
  then have "s = drop_zeros s @ replicate (length (takeWhile (\<lambda>c. c = CHR ''0'') (rev s))) CHR ''0''"
    by (metis rev_append rev_replicate rev_rev_ident)
  then show ?thesis by blast
qed

lemma digits_value_times: "digits_value n (replicate k CHR ''0'') = Some (n * 10 ^ k)"
  by (induction k arbitrary: n) (simp_all add: digit_of_def)

lemma parse_nanos_digits:
  assumes "ds \<noteq> []" and "\<forall>c \<in> set ds. is_digit c" and "length ds \<le> 9" and "digits_value 0 ds = Some n"
    and "r = [] \<or> \<not> is_digit (hd r)"
  shows "parse_nanos (CHR ''.'' # ds @ r) = (n * 10 ^ (9 - length ds), r)"
proof -
  from assms(2,5) have "takeWhile is_digit (ds @ r) = ds" "dropWhile is_digit (ds @ r) = r"
    by (cases r; simp add: takeWhile_append2 dropWhile_append2)+
  with assms show ?thesis by (simp add: parse_nanos_def Let_def)
qed

lemma parse_format_nanos:
  assumes "ns < 1000000000" and "r = [] \<or> \<not> is_digit (hd r)" and "r \<noteq> [] \<Longrightarrow> hd r \<noteq> CHR ''.''"
  shows "parse_nanos (format_nanos ns @ r) = (ns, r)"
proof (cases "ns = 0")
  case True
  with assms(3) show ?thesis
    by (cases r) (simp_all add: parse_nanos_def format_nanos_def split: list.splits char.splits bool.splits)
next
  case False
  let ?p = "pad_nat 9 ns"
  obtain k where k: "?p = drop_zeros ?p @ replicate k CHR ''0''"
    using drop_zeros_append by blast
  have len: "length ?p = 9" using assms(1) by (intro length_pad) simp_all
  with k have lz: "length (drop_zeros ?p) = 9 - k" "k \<le> 9"
    by (metis add_diff_cancel_right' length_append length_replicate, metis le_add2 length_append length_replicate)
  obtain n where n: "digits_value 0 (drop_zeros ?p) = Some n"
    using digits_pad [of 9 ns] k by (metis bind_eq_Some_conv digits_value_append)
  then have ns: "ns = n * 10 ^ k"
    using digits_pad [of 9 ns] k by (metis bind.bind_lunit digits_value_append digits_value_times option.inject)
  have ne: "drop_zeros ?p \<noteq> []" using n ns False by auto
  have "\<forall>c \<in> set (drop_zeros ?p). is_digit c"
    using pad_digits k by (metis Un_iff set_append)
  from parse_nanos_digits [OF ne this _ n assms(2)] lz ns False show ?thesis
    by (simp add: format_nanos_def)
qed

subsection \<open>RFC3339Nano\<close>

definition unix_days :: nat where "unix_days = 719528"

definition time_Format :: "instant \<Rightarrow> string" where
  "time_Format t =
     (let secs = nat (t div 1000000000 + int unix_days * 86400);
          ns = nat (t mod 1000000000);
          sod = secs mod 86400
      in case date_of (secs div 86400) of
           (y, m, d) \<Rightarrow> pad_nat 4 y @ ''-'' @ pad_nat 2 m @ ''-'' @ pad_nat 2 d @ ''T''
             @ pad_nat 2 (sod div 3600) @ '':'' @ pad_nat 2 (sod div 60 mod 60) @ '':'' @ pad_nat 2 (sod mod 60)
             @ format_nanos ns @ ''Z'')"

text \<open>The offset of the zone in seconds: \<open>Z\<close> or a sign, two digits, a colon, two digits.\<close>

definition parse_zone :: "string \<Rightarrow> int option" where
  "parse_zone s =
     (if s = ''Z'' then Some 0
      else if length s \<noteq> 6 \<or> s ! 3 \<noteq> CHR '':'' \<or> s ! 0 \<noteq> CHR ''+'' \<and> s ! 0 \<noteq> CHR ''-'' then None
      else (case (parse_uint (take 2 (drop 1 s)) 0 23, parse_uint (drop 4 s) 0 59) of
              (Some h, Some m) \<Rightarrow> Some ((if s ! 0 = CHR ''-'' then - 1 else 1) * (int (h * 60 + m) * 60))
            | _ \<Rightarrow> None))"

definition parse_ymd :: "string \<Rightarrow> nat option" where
  "parse_ymd s =
     (case (parse_uint (take 4 s) 0 9999, parse_uint (take 2 (drop 5 s)) 1 12) of
        (Some y, Some m) \<Rightarrow>
          (case parse_uint (take 2 (drop 8 s)) 1 (month_lens y ! (m - 1)) of
             None \<Rightarrow> None
           | Some d \<Rightarrow> if s ! 4 = CHR ''-'' \<and> s ! 7 = CHR ''-'' then Some (days_of y m d) else None)
      | _ \<Rightarrow> None)"

definition parse_hms :: "string \<Rightarrow> nat option" where
  "parse_hms s =
     (case (parse_uint (take 2 s) 0 23, parse_uint (take 2 (drop 3 s)) 0 59, parse_uint (take 2 (drop 6 s)) 0 59) of
        (Some h, Some mi, Some se) \<Rightarrow>
          if s ! 2 = CHR '':'' \<and> s ! 5 = CHR '':'' then Some (h * 3600 + mi * 60 + se) else None
      | _ \<Rightarrow> None)"

definition time_Parse :: "string \<Rightarrow> instant option" where
  "time_Parse s =
     (if length s < 19 \<or> s ! 10 \<noteq> CHR ''T'' then None
      else (case (parse_ymd (take 10 s), parse_hms (take 8 (drop 11 s))) of
              (Some days, Some sod) \<Rightarrow>
                (case parse_nanos (drop 19 s) of
                   (ns, r) \<Rightarrow> map_option (\<lambda>zone.
                     (int (days * 86400 + sod) - int unix_days * 86400 - zone) * 1000000000 + int ns) (parse_zone r))
            | _ \<Rightarrow> None))"

text \<open>The instants of the years 0 to 9999.\<close>

definition four_digit_year :: "instant \<Rightarrow> bool" where
  "four_digit_year t \<longleftrightarrow> - (int unix_days * 86400) \<le> t div 1000000000
     \<and> t div 1000000000 < (3652425 - int unix_days) * 86400"

lemma parse_ymd_format:
  assumes "date_of n = (y, m, d)" and "n < 3652425"
  shows "parse_ymd (pad_nat 4 y @ ''-'' @ pad_nat 2 m @ ''-'' @ pad_nat 2 d) = Some n"
proof -
  from date_of_days [OF assms(1)] date_of_year [OF assms]
  have y: "y \<le> 9999" and m: "1 \<le> m" "m \<le> 12" and d: "1 \<le> d" "d \<le> month_lens y ! (m - 1)" and n: "days_of y m d = n"
    by simp_all
  have "month_lens y ! (m - 1) \<le> 31"
    using m by (auto simp: month_lens_def nth_Cons split: nat.splits)
  then have len: "length (pad_nat 4 y) = 4" "length (pad_nat 2 m) = 2" "length (pad_nat 2 d) = 2"
    using y m d by (auto intro!: length_pad)
  then show ?thesis
    using y m d n by (simp add: parse_ymd_def parse_pad nth_append)
qed

lemma parse_hms_format:
  assumes "sod < 86400"
  shows "parse_hms (pad_nat 2 (sod div 3600) @ '':'' @ pad_nat 2 (sod div 60 mod 60) @ '':'' @ pad_nat 2 (sod mod 60))
    = Some sod"
proof -
  have b: "sod div 3600 \<le> 23" "sod div 60 mod 60 \<le> 59" "sod mod 60 \<le> 59"
    using assms by (simp_all add: less_Suc_eq_le [symmetric] less_mult_imp_div_less)
  have len: "length (pad_nat 2 (sod div 3600)) = 2" "length (pad_nat 2 (sod div 60 mod 60)) = 2" "length (pad_nat 2 (sod mod 60)) = 2"
    using b by (auto intro!: length_pad)
  have hours: "sod div 3600 = sod div 60 div 60" by (simp add: div_mult2_eq [symmetric])
  have weights: "h * 3600 + m * 60 + r = (h * 60 + m) * 60 + r" for h m r :: nat by simp
  have "sod div 3600 * 3600 + sod div 60 mod 60 * 60 + sod mod 60 = sod"
    by (simp only: hours weights div_mult_mod_eq)
  with b len show ?thesis
    by (simp add: parse_hms_def parse_pad nth_append)
qed

lemma take_drop_parts: "length a = k \<Longrightarrow> take k (a @ b) = a" "length a = k \<Longrightarrow> drop k (a @ b) = b"
  by simp_all

lemma time_parse_format:
  assumes "four_digit_year t"
  shows "time_Parse (time_Format t) = Some t"
proof -
  define secs where "secs = nat (t div 1000000000 + int unix_days * 86400)"
  define ns where "ns = nat (t mod 1000000000)"
  obtain y m d where ymd: "date_of (secs div 86400) = (y, m, d)" by (metis prod_cases3)
  from assms have secs: "int secs = t div 1000000000 + int unix_days * 86400"
    by (simp add: secs_def four_digit_year_def unix_days_def)
  with assms have "int secs < int (3652425 * 86400)"
    by (simp add: four_digit_year_def unix_days_def)
  then have secs_lt: "secs < 3652425 * 86400" by (simp only: of_nat_less_iff)
  then have days: "secs div 86400 < 3652425" by (rule less_mult_imp_div_less)
  have ns: "ns < 1000000000" "int ns = t mod 1000000000" by (simp_all add: ns_def)
  define dt tm where "dt = pad_nat 4 y @ ''-'' @ pad_nat 2 m @ ''-'' @ pad_nat 2 d"
    and "tm = pad_nat 2 (secs mod 86400 div 3600) @ '':'' @ pad_nat 2 (secs mod 86400 div 60 mod 60) @ '':''
      @ pad_nat 2 (secs mod 86400 mod 60)"
  have f: "time_Format t = dt @ ''T'' @ tm @ format_nanos ns @ ''Z''"
    unfolding time_Format_def Let_def secs_def [symmetric] ns_def [symmetric] ymd
    by (simp add: dt_def tm_def)
  from date_of_days [OF ymd] date_of_year [OF ymd days] have b: "y \<le> 9999" "m \<le> 12" "d \<le> month_lens y ! (m - 1)" "1 \<le> m"
    by simp_all
  then have "month_lens y ! (m - 1) \<le> 31"
    by (auto simp: month_lens_def nth_Cons split: nat.splits)
  with b have l1: "length dt = 10" by (simp add: dt_def length_pad)
  have "secs mod 86400 div 3600 < 24" by (rule less_mult_imp_div_less) simp
  moreover have "secs mod 86400 div 60 mod 60 < 60" "secs mod 86400 mod 60 < 60" by simp_all
  ultimately have "secs mod 86400 div 3600 < 100" "secs mod 86400 div 60 mod 60 < 100" "secs mod 86400 mod 60 < 100"
    by linarith+
  then have l2: "length tm = 8" by (simp add: tm_def length_pad)
  have p1: "parse_ymd dt = Some (secs div 86400)"
    unfolding dt_def by (rule parse_ymd_format [OF ymd days])
  have p2: "parse_hms tm = Some (secs mod 86400)"
    unfolding tm_def by (rule parse_hms_format) simp
  have p3: "parse_nanos (format_nanos ns @ ''Z'') = (ns, ''Z'')"
    by (rule parse_format_nanos) (simp_all add: ns is_digit_def digit_of_def)
  have "int (secs div 86400 * 86400 + secs mod 86400) = int secs" by simp
  then have "(int (secs div 86400 * 86400 + secs mod 86400) - int unix_days * 86400 - 0) * 1000000000 + int ns = t"
    using secs ns(2) by (simp only:) simp
  then show ?thesis
    unfolding time_Parse_def f using l1 l2 p1 p2 p3 by (simp add: nth_append parse_zone_def)
qed

lemma time_Format_plain: "c \<in> set (time_Format t) \<Longrightarrow> is_digit c \<or> c \<in> set ''-T:.Z''"
  using pad_digits
  by (auto simp: time_Format_def format_nanos_def drop_zeros_def Let_def split: prod.splits if_splits dest: set_dropWhileD)

end
