(* ===== verification/Password.thy ===== *)
theory Password
  imports Schema Go_Time "HOL-Library.Monad_Syntax"
begin

section \<open>Passwords: \<^verbatim>\<open>internal/auth/password.go\<close>\<close>

text \<open>
  Argon2id hashes in the PHC text form. \<open>IDKey\<close> stands for \<^verbatim>\<open>argon2.IDKey\<close> of
  \<^verbatim>\<open>golang.org/x/crypto\<close>: password, salt, iterations, memory, threads and key length give the key.
  The text is read by \<open>fmt.Fscanf\<close>: literal text, and numbers after optional blanks.
\<close>

type_synonym id_key = "byte list \<Rightarrow> byte list \<Rightarrow> nat \<Rightarrow> nat \<Rightarrow> nat \<Rightarrow> nat \<Rightarrow> byte list"

datatype hash_error = errInvalidHash | errIncompatibleVariant | errIncompatibleVersion | errScan

record HashParams =
  hp_Memory :: nat
  hp_Iterations :: nat
  hp_Threads :: nat
  hp_SaltLength :: nat
  hp_KeyLength :: nat

definition DefaultHashParams :: HashParams where
  "DefaultHashParams = \<lparr>hp_Memory = 64 * 1024, hp_Iterations = 3, hp_Threads = 4, hp_SaltLength = 16, hp_KeyLength = 32\<rparr>"

definition argon2_Version :: nat where "argon2_Version = 19"

subsection \<open>fmt.Fscanf\<close>

definition is_blank :: "char \<Rightarrow> bool" where
  "is_blank c \<longleftrightarrow> c \<in> {CHR 0x09, CHR 0x0B, CHR 0x0C, CHR 0x0D, CHR '' ''}"

definition scan_digits :: "string \<Rightarrow> (nat \<times> string) option" where
  "scan_digits s =
     (let ds = takeWhile is_digit s
      in if ds = [] then None else map_option (\<lambda>n. (n, dropWhile is_digit s)) (digits_value 0 ds))"

text \<open>\<open>%d\<close> for an unsigned and a signed variable.\<close>

definition scan_uint :: "nat \<Rightarrow> string \<Rightarrow> (nat \<times> string) option" where
  "scan_uint bits s =
     (case scan_digits (dropWhile is_blank s) of
        None \<Rightarrow> None
      | Some (n, r) \<Rightarrow> if n < 2 ^ bits then Some (n, r) else None)"

definition scan_int :: "string \<Rightarrow> (int \<times> string) option" where
  "scan_int s =
     (let s' = dropWhile is_blank s;
          (sign, t) = (case s' of
             c # cs \<Rightarrow> if c = CHR ''-'' then (- 1, cs) else if c = CHR ''+'' then (1, cs) else (1, s')
           | [] \<Rightarrow> (1, s'))
      in case scan_digits t of
           None \<Rightarrow> None
         | Some (n, r) \<Rightarrow> if int64 (sign * int n) then Some (sign * int n, r) else None)"

definition scan_version :: "string \<Rightarrow> (int \<times> string) option" where
  "scan_version s = do {
     r \<leftarrow> cut_prefix s ''v='';
     (v, r) \<leftarrow> scan_int r;
     r \<leftarrow> cut_prefix r ''$'';
     Some (v, r) }"

definition scan_params :: "string \<Rightarrow> ((nat \<times> nat \<times> nat) \<times> string) option" where
  "scan_params s = do {
     r \<leftarrow> cut_prefix s ''m='';
     (m, r) \<leftarrow> scan_uint 32 r;
     r \<leftarrow> cut_prefix r '',t='';
     (t, r) \<leftarrow> scan_uint 32 r;
     r \<leftarrow> cut_prefix r '',p='';
     (p, r) \<leftarrow> scan_uint 8 r;
     r \<leftarrow> cut_prefix r ''$'';
     Some ((m, t, p), r) }"

subsection \<open>Hashing and verifying\<close>

definition generateRandomBytes :: "nat \<Rightarrow> (pg_error + byte list) io" where
  "generateRandomBytes n = exec (rand_Read n)"

definition encode_hash :: "HashParams \<Rightarrow> byte list \<Rightarrow> byte list \<Rightarrow> string" where
  "encode_hash p salt key =
     ''$argon2id$v='' @ show_nat argon2_Version @ ''$m='' @ show_nat (hp_Memory p) @ '',t='' @ show_nat (hp_Iterations p)
     @ '',p='' @ show_nat (hp_Threads p) @ ''$'' @ std_EncodeToString salt @ ''$'' @ std_EncodeToString key"

definition HashPassword :: "id_key \<Rightarrow> string \<Rightarrow> HashParams option \<Rightarrow> (pg_error + string) io" where
  "HashPassword IDKey password params = do {
     let p = (case params of None \<Rightarrow> DefaultHashParams | Some p \<Rightarrow> p);
     r \<leftarrow> generateRandomBytes (hp_SaltLength p);
     case r of
       Inl e \<Rightarrow> State_Monad.return (Inl e)
     | Inr salt \<Rightarrow> State_Monad.return (Inr (encode_hash p salt
         (IDKey (to_bytes password) salt (hp_Iterations p) (hp_Memory p) (hp_Threads p) (hp_KeyLength p)))) }"

definition decodeHash :: "string \<Rightarrow> hash_error + (HashParams \<times> byte list \<times> byte list)" where
  "decodeHash hash =
     (case cut_prefix hash ''$argon2id$'' of
        None \<Rightarrow> Inl errIncompatibleVariant
      | Some r \<Rightarrow>
          (case scan_version r of
             None \<Rightarrow> Inl errScan
           | Some (version, r) \<Rightarrow>
               if version \<noteq> int argon2_Version then Inl errIncompatibleVersion
               else
                 (case scan_params r of
                    None \<Rightarrow> Inl errScan
                  | Some ((m, t, p), rest) \<Rightarrow>
                      if CHR 0x0D \<in> set rest \<or> CHR 0x0A \<in> set rest then Inl errInvalidHash
                      else
                        (case split_once CHR ''$'' rest of
                           None \<Rightarrow> Inl errInvalidHash
                         | Some (b64Salt, b64Key) \<Rightarrow>
                             (case (std_DecodeStrict b64Salt, std_DecodeStrict b64Key) of
                                (Some salt, Some key) \<Rightarrow>
                                  Inr (\<lparr>hp_Memory = m, hp_Iterations = t, hp_Threads = p,
                                        hp_SaltLength = length salt, hp_KeyLength = length key\<rparr>, salt, key)
                              | _ \<Rightarrow> Inl errScan)))))"

definition VerifyPassword :: "id_key \<Rightarrow> string \<Rightarrow> string \<Rightarrow> hash_error + bool" where
  "VerifyPassword IDKey password hash =
     (case decodeHash hash of
        Inl e \<Rightarrow> Inl e
      | Inr (p, salt, key) \<Rightarrow>
          (let otherKey = IDKey (to_bytes password) salt (hp_Iterations p) (hp_Memory p) (hp_Threads p) (hp_KeyLength p)
           in Inr (length key = length otherKey \<and> key = otherKey)))"

subsection \<open>What is written is read back\<close>

lemma cut_prefix_append [simp]: "cut_prefix (p @ s) p = Some s"
  by (simp add: cut_prefix_def)

lemma cut_prefix_simps [simp]: "cut_prefix s [] = Some s" "cut_prefix (c # s) (c # p) = cut_prefix s p"
  by (simp_all add: cut_prefix_def)

lemma scan_digits_show:
  assumes "r = [] \<or> \<not> is_digit (hd r)"
  shows "scan_digits (show_nat n @ r) = Some (n, r)"
proof -
  have "\<forall>c \<in> set (show_nat n). is_digit c"
    using show_nat_digits by (auto simp: is_digit_def)
  with assms have "takeWhile is_digit (show_nat n @ r) = show_nat n" "dropWhile is_digit (show_nat n @ r) = r"
    by (cases r; simp add: takeWhile_append2 dropWhile_append2)+
  then show ?thesis
    by (simp add: scan_digits_def Let_def show_nat_ne digits_value_show)
qed

lemma digit_not_blank: "is_digit c \<Longrightarrow> \<not> is_blank c \<and> c \<noteq> CHR ''-'' \<and> c \<noteq> CHR ''+''"
  by (auto simp: is_digit_def is_blank_def digit_of_def)

lemma show_nat_head: "\<exists>c cs. show_nat n = c # cs \<and> is_digit c"
  using show_nat_ne [of n] show_nat_digits [of _ n] by (cases "show_nat n") (auto simp: is_digit_def)

lemma scan_uint_show: "r = [] \<or> \<not> is_digit (hd r) \<Longrightarrow> n < 2 ^ bits \<Longrightarrow> scan_uint bits (show_nat n @ r) = Some (n, r)"
proof -
  assume r: "r = [] \<or> \<not> is_digit (hd r)" "n < 2 ^ bits"
  obtain c cs where "show_nat n = c # cs" "is_digit c" using show_nat_head by blast
  then have "dropWhile is_blank (show_nat n @ r) = show_nat n @ r"
    using digit_not_blank by simp
  with r show ?thesis by (simp add: scan_uint_def scan_digits_show)
qed

lemma scan_int_show:
  "r = [] \<or> \<not> is_digit (hd r) \<Longrightarrow> int64 (int n) \<Longrightarrow> scan_int (show_nat n @ r) = Some (int n, r)"
proof -
  assume r: "r = [] \<or> \<not> is_digit (hd r)" "int64 (int n)"
  obtain c cs where c: "show_nat n = c # cs" "is_digit c" using show_nat_head by blast
  have "scan_digits (c # cs @ r) = Some (n, r)"
    using scan_digits_show [OF r(1), of n] c(1) by simp
  with c r(2) digit_not_blank [OF c(2)] show ?thesis
    by (simp add: scan_int_def)
qed

lemma not_digits [simp]: "\<not> is_digit CHR '',''" "\<not> is_digit CHR ''$''"
  by (simp_all add: is_digit_def digit_of_def)

text \<open>Parameters in range and the lengths as they are.\<close>

definition params_ok :: "HashParams \<Rightarrow> byte list \<Rightarrow> byte list \<Rightarrow> bool" where
  "params_ok p salt key \<longleftrightarrow> hp_Memory p < 2 ^ 32 \<and> hp_Iterations p < 2 ^ 32 \<and> hp_Threads p < 2 ^ 8
     \<and> hp_SaltLength p = length salt \<and> hp_KeyLength p = length key"

lemma decode_encode_hash:
  assumes "params_ok p salt key"
  shows "decodeHash (encode_hash p salt key) = Inr (p, salt, key)"
proof -
  let ?rest = "std_EncodeToString salt @ CHR ''$'' # std_EncodeToString key"
  let ?params = "''m='' @ show_nat (hp_Memory p) @ '',t='' @ show_nat (hp_Iterations p)
     @ '',p='' @ show_nat (hp_Threads p) @ ''$'' @ ?rest"
  have v: "scan_version (''v='' @ show_nat argon2_Version @ CHR ''$'' # ?params) = Some (int argon2_Version, ?params)"
    by (simp add: scan_version_def scan_int_show argon2_Version_def int64_def)
  have ps: "scan_params ?params = Some ((hp_Memory p, hp_Iterations p, hp_Threads p), ?rest)"
    using assms by (simp add: scan_params_def scan_uint_show params_ok_def)
  have nl: "CHR 0x0D \<notin> set ?rest" "CHR 0x0A \<notin> set ?rest" "CHR ''$'' \<notin> set (std_EncodeToString salt)"
    using std_plain by auto
  have "encode_hash p salt key = ''$argon2id$'' @ ''v='' @ show_nat argon2_Version @ CHR ''$'' # ?params"
    by (simp add: encode_hash_def)
  then show ?thesis
    using assms nl(1,2) v ps unfolding decodeHash_def
    by (simp add: split_once_append [OF nl(3)] std.dec_enc params_ok_def)
qed

lemma verify_encoded:
  assumes "params_ok p salt key"
  shows "VerifyPassword IDKey password (encode_hash p salt key) = Inr (key =
    IDKey (to_bytes password) salt (hp_Iterations p) (hp_Memory p) (hp_Threads p) (hp_KeyLength p))"
  by (auto simp: VerifyPassword_def decode_encode_hash [OF assms] Let_def)

end
