(* ===== verification/Cursor.thy ===== *)
theory Cursor
  imports Go_Time
begin

section \<open>Pagination cursors: \<^verbatim>\<open>internal/cursor/cursor.go\<close>\<close>

text \<open>
  A cursor is the start and the identifier of the last event of a page, as the base64url text
  of \<open>timestamp,id\<close>. \<open>uuid_String\<close> and \<open>uuid_Parse\<close> stand for \<^verbatim>\<open>github.com/google/uuid\<close>.
\<close>

definition Cursor_Encode :: "(uuid \<Rightarrow> string) \<Rightarrow> instant \<times> uuid \<Rightarrow> string" where
  "Cursor_Encode uuid_String c =
     b64_EncodeToString (to_bytes (time_Format (fst c) @ CHR '','' # uuid_String (snd c)))"

definition Cursor_Decode :: "(string \<Rightarrow> uuid option) \<Rightarrow> string \<Rightarrow> (instant \<times> uuid) option" where
  "Cursor_Decode uuid_Parse encoded =
     (case b64_DecodeString encoded of
        None \<Rightarrow> None
      | Some raw \<Rightarrow>
          (case split_once CHR '','' (to_string raw) of
             None \<Rightarrow> None
           | Some (ts, i) \<Rightarrow>
               (case (time_Parse ts, uuid_Parse i) of
                  (Some t, Some u) \<Rightarrow> Some (t, u)
                | _ \<Rightarrow> None)))"

lemma cursor_decode_encode:
  assumes "four_digit_year t" and "uuid_Parse (uuid_String u) = Some u"
  shows "Cursor_Decode uuid_Parse (Cursor_Encode uuid_String (t, u)) = Some (t, u)"
proof -
  have "CHR '','' \<notin> set (time_Format t)"
    using time_Format_plain [of "CHR '',''" t] by (auto simp: is_digit_def digit_of_def)
  with assms show ?thesis
    by (simp add: Cursor_Decode_def Cursor_Encode_def b64_decode_encode split_once_append time_parse_format)
qed

end
