(* ===== verification/Config.thy ===== *)
theory Config
  imports Main
begin

section \<open>Configuration: \<^verbatim>\<open>internal/config/config.go\<close>\<close>

text \<open>
  The settings and their validation. \<open>getenv\<close> is the process environment after \<^verbatim>\<open>godotenv\<close>
  read the file; an unset variable is the empty string. The program looks at the required
  variables in the random order of a map and reports one that is missing; the model answers
  all that are missing.
\<close>

record Config =
  Env :: string
  Port :: string
  FrontendURL :: string
  DatabaseURL :: string
  RedisURL :: string
  CORSAllowedOrigin :: string
  ResendAPIKey :: string
  ResendDomain :: string
  GoogleClientID :: string
  GoogleClientSecret :: string
  GoogleRedirectURI :: string
  TicketSecret :: string

definition required_settings :: "Config \<Rightarrow> (string \<times> string) list" where
  "required_settings c =
     [(''ENV'', Env c), (''FRONTEND_URL'', FrontendURL c), (''DATABASE_URL'', DatabaseURL c),
      (''REDIS_URL'', RedisURL c), (''CORS_ALLOWED_ORIGIN'', CORSAllowedOrigin c),
      (''RESEND_API_KEY'', ResendAPIKey c), (''RESEND_DOMAIN'', ResendDomain c),
      (''GOOGLE_CLIENT_ID'', GoogleClientID c), (''GOOGLE_CLIENT_SECRET'', GoogleClientSecret c),
      (''GOOGLE_REDIRECT_URI'', GoogleRedirectURI c), (''TICKET_SECRET'', TicketSecret c)]"

definition Config_validate :: "Config \<Rightarrow> string list + Config" where
  "Config_validate c =
     (case map fst (filter (\<lambda>(k, v). v = []) (required_settings c)) of
        [] \<Rightarrow> Inr (if Port c = [] then c\<lparr>Port := ''8080''\<rparr> else c)
      | missing \<Rightarrow> Inl missing)"

definition Config_Load :: "(string \<Rightarrow> string) \<Rightarrow> string list + Config" where
  "Config_Load getenv = Config_validate
     \<lparr>Env = getenv ''ENV'', Port = getenv ''PORT'', FrontendURL = getenv ''FRONTEND_URL'',
      DatabaseURL = getenv ''DATABASE_URL'', RedisURL = getenv ''REDIS_URL'',
      CORSAllowedOrigin = getenv ''CORS_ALLOWED_ORIGIN'', ResendAPIKey = getenv ''RESEND_API_KEY'',
      ResendDomain = getenv ''RESEND_DOMAIN'', GoogleClientID = getenv ''GOOGLE_CLIENT_ID'',
      GoogleClientSecret = getenv ''GOOGLE_CLIENT_SECRET'', GoogleRedirectURI = getenv ''GOOGLE_REDIRECT_URI'',
      TicketSecret = getenv ''TICKET_SECRET''\<rparr>"

definition IsProduction :: "Config \<Rightarrow> bool" where
  "IsProduction c \<longleftrightarrow> Env c = ''production''"

lemma validated_settings:
  assumes "Config_validate c = Inr c'"
  shows "\<forall>(k, v) \<in> set (required_settings c'). v \<noteq> []" and "Port c' \<noteq> []" and "TicketSecret c' \<noteq> []"
proof -
  have none: "filter (\<lambda>(k, v). v = []) (required_settings c) = []"
    and c': "c' = (if Port c = [] then c\<lparr>Port := ''8080''\<rparr> else c)"
    using assms by (auto simp: Config_validate_def split: list.splits)
  have "required_settings c' = required_settings c" by (simp add: c' required_settings_def)
  with none show 1: "\<forall>(k, v) \<in> set (required_settings c'). v \<noteq> []"
    by (auto simp: filter_empty_conv)
  show "Port c' \<noteq> []" by (simp add: c')
  from 1 show "TicketSecret c' \<noteq> []" by (simp add: required_settings_def)
qed

end
