(* ===== verification/Api.thy ===== *)
theory Api
  imports Waitlist_Store Accounts_Store Qr Password Cursor Config
begin

section \<open>Requests, responses, validation and middleware\<close>

text \<open>
  What every HTTP handler of \<^verbatim>\<open>cmd/server\<close> uses: the decoded request, the response
  envelopes of \<^verbatim>\<open>internal/jsonutil\<close>, the messages of \<^verbatim>\<open>internal/validator\<close>, the session
  tokens of \<^verbatim>\<open>internal/auth/token.go\<close>, and the middleware that fills the request context.
  \<open>app\<close> holds the configuration and the third-party functions the handlers call.
\<close>

subsection \<open>The application\<close>

datatype fval = FString string | FStringPtr "string option" | FInt int | FIntPtr "int option" | FTime instant

type_synonym field = "string \<times> fval \<times> string"

record FieldError =
  fe_Field :: string
  fe_Tag :: string
  fe_Param :: string

record oauth2_Config =
  oc_ClientID :: string
  oc_ClientSecret :: string
  oc_RedirectURL :: string
  oc_Scopes :: "string list"

text \<open>
  Third-party code: the UUID package, the validator, Argon2id, and the OAuth client:
  \<open>oauth_Exchange\<close> turns a code into an access token and its scope, \<open>oauth_Userinfo\<close> is the
  request to the user-info service with its status and, when it decodes, its JSON object.
\<close>

record app =
  config :: Config
  uuid_String :: "uuid \<Rightarrow> string"
  uuid_Parse :: "string \<Rightarrow> uuid option"
  validate_Struct :: "field list \<Rightarrow> FieldError list"
  argon2_IDKey :: id_key
  oauth_AuthCodeURL :: "oauth2_Config \<Rightarrow> string \<Rightarrow> string"
  oauth_Exchange :: "oauth2_Config \<Rightarrow> string \<Rightarrow> (string \<times> string) option"
  oauth_Userinfo :: "string \<Rightarrow> (int \<times> (string \<Rightarrow> string option) option) option"

subsection \<open>Validation: \<^verbatim>\<open>internal/validator/validator.go\<close>\<close>

definition error_message :: "FieldError \<Rightarrow> string" where
  "error_message e =
     (let field = ToLower (fe_Field e); param = fe_Param e
      in if fe_Tag e = ''required'' then field @ '' is required''
         else if fe_Tag e = ''email'' then ''invalid email format''
         else if fe_Tag e = ''gte'' then field @ '' must be at least '' @ param
         else if fe_Tag e = ''gt'' then field @ '' must be greater than '' @ param
         else if fe_Tag e = ''lte'' then field @ '' must not be more than '' @ param
         else if fe_Tag e = ''lt'' then field @ '' must be less than '' @ param
         else if fe_Tag e = ''hexadecimal'' then field @ '' must be a valid hex string''
         else if fe_Tag e = ''min'' then field @ '' must have at least '' @ param @ '' characters''
         else if fe_Tag e = ''max'' then field @ '' must not have more than '' @ param @ '' characters''
         else if fe_Tag e = ''len'' then field @ '' must be exactly '' @ param @ '' characters''
         else field @ '' is invalid'')"

definition ValidateStruct :: "app \<Rightarrow> field list \<Rightarrow> string list \<times> bool" where
  "ValidateStruct a s =
     (case validate_Struct a s of
        [] \<Rightarrow> ([], True)
      | errs \<Rightarrow> (map error_message errs, False))"

subsection \<open>Requests and responses: \<^verbatim>\<open>internal/jsonutil/json.go\<close>\<close>

text \<open>
  The request as the handlers read it: headers and parameters as text, absent ones empty; the
  body is nothing, or something the JSON decoder refuses (with its message), or a payload.
\<close>

record request =
  rq_Authorization :: string
  rq_SessionCookie :: "string option"
  rq_id :: string
  rq_tierId :: string
  rq_limit :: string
  rq_page :: string
  rq_cursor :: string
  rq_code :: string
  rq_state :: string
  rq_StateCookie :: "string option"
  rq_UserAgent :: string
  rq_RemoteAddr :: string

datatype 'p req_body = NoBody | BadBody string | JsonBody 'p

definition json_Read :: "'p req_body \<Rightarrow> string + 'p" where
  "json_Read b =
     (case b of
        NoBody \<Rightarrow> Inl ''request body is required''
      | BadBody e \<Rightarrow> Inl (''decode json: '' @ e)
      | JsonBody p \<Rightarrow> Inr p)"

record purchaseResponse =
  pr_ID :: uuid
  pr_Quantity :: int
  pr_Total :: int
  pr_Status :: purchase_status
  pr_Event :: Event
  pr_Tier :: Tier
  pr_Tickets :: "Ticket list"
  pr_CreatedAt :: instant
  pr_UpdatedAt :: instant

datatype body =
    Errors "string list"
  | Status string
  | MessageData string
  | LoginData string string User
  | UserData string User
  | EventData string Event
  | EventsData string "Event list" string
  | TierData string Tier
  | TiersData string "Tier list"
  | PurchaseData purchaseResponse
  | PurchasesData string "PurchaseSummary list" int int int
  | EntryData string WaitlistEntry
  | WaitlistData string "WaitlistSummary list"
  | InvalidScan string
  | ValidScan "string \<times> string" "uuid \<times> string \<times> instant option"

text \<open>
  A cookie with the attributes that vary; every cookie has the path \<open>/\<close>, is \<open>HttpOnly\<close> and
  \<open>SameSite=Lax\<close>. A negative age deletes it.
\<close>

record Cookie =
  ck_Name :: string
  ck_Value :: string
  ck_MaxAge :: int
  ck_Secure :: bool

text \<open>\<open>Panic\<close>: the handler dereferenced a nil pointer; the router's \<open>Recoverer\<close> answers 500.\<close>

datatype response = Resp int body | Redirect int string | SetCookie Cookie response | Panic

definition with_cookie :: "Cookie \<Rightarrow> response io \<Rightarrow> response io" where
  "with_cookie ck m = do { r \<leftarrow> m; State_Monad.return (SetCookie ck r) }"

abbreviation WriteData :: "int \<Rightarrow> body \<Rightarrow> response io" where
  "WriteData status b \<equiv> State_Monad.return (Resp status b)"

abbreviation WriteErrors :: "int \<Rightarrow> string list \<Rightarrow> response io" where
  "WriteErrors status msgs \<equiv> State_Monad.return (Resp status (Errors msgs))"

abbreviation WriteError :: "int \<Rightarrow> string \<Rightarrow> response io" where
  "WriteError status msg \<equiv> WriteErrors status [msg]"

abbreviation something_went_wrong :: "response io" where
  "something_went_wrong \<equiv> WriteError 500 ''something went wrong''"

text \<open>The usual \<open>switch\<close>: \<open>ErrNotFound\<close> is a 404 with a message, everything else a 500.\<close>

definition not_found_or_500 :: "string \<Rightarrow> store_error \<Rightarrow> response io" where
  "not_found_or_500 msg e = (if e = ErrNotFound then WriteError 404 msg else something_went_wrong)"

subsection \<open>Session tokens: \<^verbatim>\<open>internal/auth/token.go\<close>\<close>

record Token =
  tok_Plaintext :: string
  tok_Hash :: string

definition HashToken :: "string \<Rightarrow> string" where
  "HashToken token = hex_EncodeToString (Sum256 (to_bytes token))"

text \<open>\<open>rand.Read\<close> of 32 bytes may fail.\<close>

definition auth_GenerateToken :: "(pg_error + Token) io" where
  "auth_GenerateToken = exec (\<lambda>w.
     case rand_Read 32 w of
       (Inl e, w') \<Rightarrow> (Inl e, w')
     | (Inr b, w') \<Rightarrow>
         (let plaintext = hex_EncodeToString b
          in (Inr \<lparr>tok_Plaintext = plaintext, tok_Hash = HashToken plaintext\<rparr>, w')))"

definition CompareToken :: "string \<Rightarrow> string \<Rightarrow> bool" where
  "CompareToken token hash =
     (case hex_DecodeString hash of None \<Rightarrow> False | Some storedHash \<Rightarrow> Sum256 (to_bytes token) = storedHash)"

lemma compare_hash: "CompareToken token (HashToken token)"
  by (simp add: CompareToken_def HashToken_def hex_decode_encode)

subsection \<open>Middleware: \<^verbatim>\<open>cmd/server/middleware.go\<close>\<close>

record ctx =
  userCtx :: "User option"
  sessionCtx :: "Session option"
  eventCtx :: "Event option"

definition empty_ctx :: ctx where
  "empty_ctx = \<lparr>userCtx = None, sessionCtx = None, eventCtx = None\<rparr>"

type_synonym handler = "ctx \<Rightarrow> response io"

datatype auth_error = errMalformedHeader | errMissingToken | errInvalidSession

definition bearer_token :: "request \<Rightarrow> auth_error + string" where
  "bearer_token r =
     (if rq_Authorization r \<noteq> [] then
        (case split_on CHR '' '' (rq_Authorization r) of
           [scheme, token] \<Rightarrow> if scheme = ''Bearer'' then Inr token else Inl errMalformedHeader
         | _ \<Rightarrow> Inl errMalformedHeader)
      else (case rq_SessionCookie r of None \<Rightarrow> Inl errMissingToken | Some v \<Rightarrow> Inr v))"

definition authenticate :: "request \<Rightarrow> (auth_error + (Session \<times> User)) io" where
  "authenticate r =
     (case bearer_token r of
        Inl e \<Rightarrow> State_Monad.return (Inl e)
      | Inr token \<Rightarrow>
          if token = [] then State_Monad.return (Inl errMissingToken)
          else do {
            s \<leftarrow> Sessions_Get (HashToken token);
            case s of
              Inl _ \<Rightarrow> State_Monad.return (Inl errInvalidSession)
            | Inr session \<Rightarrow> do {
                u \<leftarrow> Users_GetByID (s_UserID session);
                case u of
                  Inl _ \<Rightarrow> State_Monad.return (Inl errInvalidSession)
                | Inr user \<Rightarrow> State_Monad.return (Inr (session, user)) } })"

definition requireAuth :: "request \<Rightarrow> handler \<Rightarrow> handler" where
  "requireAuth r nxt c = do {
     res \<leftarrow> authenticate r;
     case res of
       Inl errMalformedHeader \<Rightarrow> WriteError 401 ''malformed authorization header''
     | Inl errMissingToken \<Rightarrow> WriteError 401 ''missing authorization token''
     | Inl errInvalidSession \<Rightarrow> WriteError 401 ''unauthorized''
     | Inr (session, user) \<Rightarrow> nxt (c\<lparr>userCtx := Some user, sessionCtx := Some session\<rparr>) }"

definition maybeAuth :: "request \<Rightarrow> handler \<Rightarrow> handler" where
  "maybeAuth r nxt c = do {
     res \<leftarrow> authenticate r;
     case res of
       Inl _ \<Rightarrow> nxt c
     | Inr (session, user) \<Rightarrow> nxt (c\<lparr>userCtx := Some user, sessionCtx := Some session\<rparr>) }"

definition requireEventOrganizer :: "app \<Rightarrow> request \<Rightarrow> handler \<Rightarrow> handler" where
  "requireEventOrganizer a r nxt c =
     (case userCtx c of
        None \<Rightarrow> something_went_wrong
      | Some user \<Rightarrow>
          (case uuid_Parse a (rq_id r) of
             None \<Rightarrow> WriteError 400 ''invalid event id''
           | Some eventID \<Rightarrow> do {
               e \<leftarrow> Events_GetByID eventID;
               case e of
                 Inl err \<Rightarrow> not_found_or_500 ''event not found'' err
               | Inr event \<Rightarrow>
                   if u_ID user \<noteq> e_OrganizerID event
                   then WriteError 403 ''event does not belong to current user''
                   else nxt (c\<lparr>eventCtx := Some event\<rparr>) }))"

definition requireOrganizer :: "handler \<Rightarrow> handler" where
  "requireOrganizer nxt c =
     (case userCtx c of
        None \<Rightarrow> something_went_wrong
      | Some user \<Rightarrow>
          if u_Role user \<noteq> RoleOrganizer then WriteError 403 ''organizer role required''
          else nxt c)"

text \<open>The three shapes of a handler's first lines.\<close>

definition with_user :: "(User \<Rightarrow> response io) \<Rightarrow> handler" where
  "with_user f c = (case userCtx c of None \<Rightarrow> something_went_wrong | Some user \<Rightarrow> f user)"

definition with_event :: "(Event \<Rightarrow> response io) \<Rightarrow> handler" where
  "with_event f c = (case eventCtx c of None \<Rightarrow> something_went_wrong | Some event \<Rightarrow> f event)"

definition with_payload :: "app \<Rightarrow> ('p \<Rightarrow> field list) \<Rightarrow> 'p req_body \<Rightarrow> ('p \<Rightarrow> response io) \<Rightarrow> response io" where
  "with_payload a tags b f =
     (case json_Read b of
        Inl msg \<Rightarrow> WriteError 400 msg
      | Inr payload \<Rightarrow>
          (case ValidateStruct a (tags payload) of
             (errs, ok) \<Rightarrow> if \<not> ok then WriteErrors 422 errs else f payload))"

definition with_uuid_param :: "app \<Rightarrow> string \<Rightarrow> string \<Rightarrow> (uuid \<Rightarrow> response io) \<Rightarrow> response io" where
  "with_uuid_param a s msg f =
     (case uuid_Parse a s of None \<Rightarrow> WriteError 400 msg | Some i \<Rightarrow> f i)"

subsection \<open>Users: \<^verbatim>\<open>cmd/server/users.go\<close>\<close>

definition getUser :: handler where
  "getUser = with_user (\<lambda>user. WriteData 200 (UserData [] user))"

text \<open>On an error of \<open>BecomeOrganizer\<close> the variable \<open>user\<close> is nil when its ID is logged.\<close>

definition becomeOrganizer :: handler where
  "becomeOrganizer = with_user (\<lambda>user.
     if u_Role user = RoleOrganizer then WriteData 200 (UserData ''already an organizer'' user)
     else do {
       r \<leftarrow> Users_BecomeOrganizer (u_ID user);
       case r of
         Inl _ \<Rightarrow> State_Monad.return Panic
       | Inr user' \<Rightarrow> WriteData 200 (UserData ''organizer role activated'' user') })"

end
