(* ===== verification/Accounts_Api.thy ===== *)
theory Accounts_Api
  imports Api
begin

section \<open>Account handlers: \<^verbatim>\<open>cmd/server/auth.go\<close>\<close>

text \<open>
  Sign-up, sign-in, e-mail verification, password reset and sign-in with Google, one definition
  per handler, in the order of the file. What several handlers repeat (issuing a token,
  the limit on mails, creating a session) is a definition of its own.
\<close>

subsection \<open>Shared steps\<close>

text \<open>Generate a token and store its hash.\<close>

definition issue_token :: "string \<Rightarrow> int \<Rightarrow> (store_error + Token) io" where
  "issue_token identifier lifetime = do {
     t \<leftarrow> auth_GenerateToken;
     case t of
       Inl e \<Rightarrow> State_Monad.return (Inl (ErrPg e))
     | Inr token \<Rightarrow> do {
         now \<leftarrow> time_Now;
         r \<leftarrow> Verifications_Create identifier (tok_Hash token) (now + lifetime);
         case r of
           Inl e \<Rightarrow> State_Monad.return (Inl e)
         | Inr _ \<Rightarrow> State_Monad.return (Inr token) } }"

text \<open>
  A mail is allowed when there is no token of this kind, or fewer than five were created in the
  last hour and none in the last minute.
\<close>

definition allow_send :: "string \<Rightarrow> (store_error + bool) io" where
  "allow_send identifier = do {
     latest \<leftarrow> Verifications_GetLatest identifier;
     case latest of
       Inl e \<Rightarrow>
         if e \<noteq> ErrNotFound then State_Monad.return (Inl e)
         else do {
           n \<leftarrow> Verifications_CountSince identifier time_Hour;
           case n of Inl e \<Rightarrow> State_Monad.return (Inl e) | Inr _ \<Rightarrow> State_Monad.return (Inr True) }
     | Inr v \<Rightarrow> do {
         n \<leftarrow> Verifications_CountSince identifier time_Hour;
         case n of
           Inl e \<Rightarrow> State_Monad.return (Inl e)
         | Inr count \<Rightarrow> do {
             now \<leftarrow> time_Now;
             State_Monad.return (Inr (count < 5 \<and> now - time_Minute > v_CreatedAt v)) } } }"

definition sessionLifetime :: int where
  "sessionLifetime = time_Hour * 24 * 30"

definition new_session :: "User \<Rightarrow> string \<Rightarrow> string \<Rightarrow> Token \<Rightarrow> instant \<Rightarrow> Session" where
  "new_session user ip ua token now =
     \<lparr>s_ID = 0, s_UserID = u_ID user, s_TokenHash = tok_Hash token, s_IPAddress = Some ip, s_UserAgent = Some ua,
      s_ExpiresAt = now + sessionLifetime, s_CreatedAt = 0, s_UpdatedAt = 0\<rparr>"

text \<open>The loop \<open>for range 3\<close>: another try when the hash of the token is taken; \<open>None\<close> is a 500.\<close>

fun create_session :: "nat \<Rightarrow> User \<Rightarrow> string \<Rightarrow> string \<Rightarrow> (Token option) io" where
  "create_session 0 user ip ua = State_Monad.return None"
| "create_session (Suc n) user ip ua = do {
     t \<leftarrow> auth_GenerateToken;
     case t of
       Inl _ \<Rightarrow> State_Monad.return None
     | Inr token \<Rightarrow> do {
         now \<leftarrow> time_Now;
         s \<leftarrow> Sessions_Create (new_session user ip ua token now);
         case s of
           Inl err \<Rightarrow>
             if err = ErrConflict then create_session n user ip ua else State_Monad.return None
         | Inr _ \<Rightarrow> State_Monad.return (Some token) } }"

definition session_cookie :: "app \<Rightarrow> Token \<Rightarrow> Cookie" where
  "session_cookie a token = \<lparr>ck_Name = ''gater_auth_session'', ck_Value = tok_Plaintext token,
     ck_MaxAge = 60 * 60 * 24 * 30, ck_Secure = IsProduction (config a)\<rparr>"

definition clear_cookie :: "app \<Rightarrow> string \<Rightarrow> Cookie" where
  "clear_cookie a name = \<lparr>ck_Name = name, ck_Value = [], ck_MaxAge = - 1, ck_Secure = IsProduction (config a)\<rparr>"

subsection \<open>Register\<close>

record RegisterUserPayload =
  ru_Name :: string
  ru_Email :: string
  ru_Password :: string

definition register_tags :: "RegisterUserPayload \<Rightarrow> field list" where
  "register_tags p =
     [(''Name'', FString (ru_Name p), ''required,max=100''),
      (''Email'', FString (ru_Email p), ''required,email,max=255''),
      (''Password'', FString (ru_Password p), ''required,min=8,max=96'')]"

definition new_user :: "RegisterUserPayload \<Rightarrow> string \<Rightarrow> User" where
  "new_user p hash =
     \<lparr>u_ID = 0, u_Name = ru_Name p, u_Email = ru_Email p, u_PasswordHash = Some hash, u_EmailVerified = False,
      u_Image = None, u_Role = RoleAttendee, u_CreatedAt = 0, u_UpdatedAt = 0\<rparr>"

definition verify_identifier :: "string \<Rightarrow> string" where
  "verify_identifier email = ''email-verification:'' @ email"

definition registerUser :: "app \<Rightarrow> RegisterUserPayload req_body \<Rightarrow> handler" where
  "registerUser a b c = with_payload a register_tags
     (map_req_body (\<lambda>p. p\<lparr>ru_Email := ToLower (ru_Email p)\<rparr>) b) (\<lambda>payload. do {
     h \<leftarrow> HashPassword (argon2_IDKey a) (ru_Password payload) None;
     case h of
       Inl _ \<Rightarrow> something_went_wrong
     | Inr hash \<Rightarrow> do {
         r \<leftarrow> Users_Create (new_user payload hash);
         case r of
           Inl err \<Rightarrow>
             if err = ErrConflict then WriteError 409 ''email already registered'' else something_went_wrong
         | Inr user \<Rightarrow> do {
             t \<leftarrow> issue_token (verify_identifier (u_Email user)) time_Hour;
             case t of
               Inl _ \<Rightarrow> something_went_wrong
             | Inr token \<Rightarrow> do {
                 _ \<leftarrow> Enqueue (SendVerificationEmail [u_Email user] (u_Name user) (tok_Plaintext token));
                 WriteData 201 (UserData ''account created successfully'' user) } } } })"

subsection \<open>Login and logout\<close>

record LoginUserPayload =
  lu_Email :: string
  lu_Password :: string

definition login_tags :: "LoginUserPayload \<Rightarrow> field list" where
  "login_tags p =
     [(''Email'', FString (lu_Email p), ''required,email,max=255''),
      (''Password'', FString (lu_Password p), ''required,min=8,max=96'')]"

definition bad_login :: "response io" where
  "bad_login = WriteError 401 ''invalid email or password''"

definition loginUser :: "app \<Rightarrow> request \<Rightarrow> LoginUserPayload req_body \<Rightarrow> handler" where
  "loginUser a r b c = with_payload a login_tags
     (map_req_body (\<lambda>p. p\<lparr>lu_Email := ToLower (lu_Email p)\<rparr>) b) (\<lambda>payload. do {
     x \<leftarrow> Users_GetByEmail (lu_Email payload);
     case x of
       Inl err \<Rightarrow> if err = ErrNotFound then bad_login else something_went_wrong
     | Inr user \<Rightarrow>
         (case u_PasswordHash user of
            None \<Rightarrow> bad_login
          | Some hash \<Rightarrow>
              (case VerifyPassword (argon2_IDKey a) (lu_Password payload) hash of
                 Inl _ \<Rightarrow> something_went_wrong
               | Inr matched \<Rightarrow>
                   if \<not> matched then bad_login
                   else
                     (case SplitHostPort (rq_RemoteAddr r) of
                        None \<Rightarrow> something_went_wrong
                      | Some (ip, _) \<Rightarrow> do {
                          s \<leftarrow> create_session 3 user ip (rq_UserAgent r);
                          case s of
                            None \<Rightarrow> something_went_wrong
                          | Some token \<Rightarrow> with_cookie (session_cookie a token)
                              (WriteData 200 (LoginData ''logged in successfully'' (tok_Plaintext token) user)) }))) })"

definition logoutUser :: "app \<Rightarrow> handler" where
  "logoutUser a c =
     (case sessionCtx c of
        None \<Rightarrow> something_went_wrong
      | Some session \<Rightarrow> do {
          r \<leftarrow> Sessions_Delete (s_ID session);
          case r of
            Inl _ \<Rightarrow> something_went_wrong
          | Inr _ \<Rightarrow> with_cookie (clear_cookie a ''gater_auth_session'')
              (WriteData 200 (MessageData ''logged out successfully'')) })"

subsection \<open>Verify the e-mail address\<close>

record VerifyEmailPayload =
  ve_Token :: string

definition verify_email_tags :: "VerifyEmailPayload \<Rightarrow> field list" where
  "verify_email_tags p = [(''Token'', FString (ve_Token p), ''required,hexadecimal,len=64'')]"

definition invalid_token :: "response io" where
  "invalid_token = WriteError 400 ''invalid or expired token''"

text \<open>
  What both token handlers begin with: the verification of the token; an expired one is deleted
  and refused.
\<close>

definition with_verification :: "string \<Rightarrow> (Verifications \<Rightarrow> response io) \<Rightarrow> response io" where
  "with_verification token f = do {
     x \<leftarrow> Verifications_Get (HashToken token);
     case x of
       Inl err \<Rightarrow> if err = ErrNotFound then invalid_token else something_went_wrong
     | Inr v \<Rightarrow> do {
         now \<leftarrow> time_Now;
         if now \<ge> v_ExpiresAt v then do { _ \<leftarrow> Verifications_Delete (v_ID v); invalid_token }
         else f v } }"

definition verifyEmail :: "app \<Rightarrow> VerifyEmailPayload req_body \<Rightarrow> handler" where
  "verifyEmail a b c = with_payload a verify_email_tags b (\<lambda>payload.
     with_verification (ve_Token payload) (\<lambda>v.
       case cut_prefix (v_Identifier v) ''email-verification:'' of
         None \<Rightarrow> something_went_wrong
       | Some email \<Rightarrow> do {
           m \<leftarrow> Users_MarkVerified email;
           case m of
             Inl _ \<Rightarrow> something_went_wrong
           | Inr _ \<Rightarrow> do {
               _ \<leftarrow> Verifications_Delete (v_ID v);
               WriteData 200 (MessageData ''email verified successfully'') } }))"

subsection \<open>Mails with a token\<close>

record ResendVerificationPayload =
  rv_Email :: string

definition resend_tags :: "ResendVerificationPayload \<Rightarrow> field list" where
  "resend_tags p = [(''Email'', FString (rv_Email p), ''required,email,max=255'')]"

definition resend_message :: string where
  "resend_message = ''if the account with this email exists and is unverified, a verification email has been sent''"

text \<open>
  The common end: nothing when the limit is reached; otherwise the old tokens go, a new one is
  stored and mailed. The answer is the same.
\<close>

definition replace_token :: "string \<Rightarrow> int \<Rightarrow> (string \<Rightarrow> task) \<Rightarrow> string \<Rightarrow> response io" where
  "replace_token identifier lifetime mail message = do {
     ok \<leftarrow> allow_send identifier;
     case ok of
       Inl _ \<Rightarrow> something_went_wrong
     | Inr allowed \<Rightarrow>
         if \<not> allowed then WriteData 200 (MessageData message)
         else do {
           _ \<leftarrow> Verifications_DeleteByIdentifier identifier;
           t \<leftarrow> issue_token identifier lifetime;
           case t of
             Inl _ \<Rightarrow> something_went_wrong
           | Inr token \<Rightarrow> do {
               _ \<leftarrow> Enqueue (mail (tok_Plaintext token));
               WriteData 200 (MessageData message) } } }"

definition resendVerificationEmail :: "app \<Rightarrow> ResendVerificationPayload req_body \<Rightarrow> handler" where
  "resendVerificationEmail a b c = with_payload a resend_tags
     (map_req_body (\<lambda>p. p\<lparr>rv_Email := ToLower (rv_Email p)\<rparr>) b) (\<lambda>payload. do {
     x \<leftarrow> Users_GetByEmail (rv_Email payload);
     case x of
       Inl err \<Rightarrow>
         if err = ErrNotFound then WriteData 200 (MessageData resend_message) else something_went_wrong
     | Inr user \<Rightarrow>
         if u_EmailVerified user then WriteData 200 (MessageData resend_message)
         else replace_token (verify_identifier (u_Email user)) time_Hour
                (SendVerificationEmail [u_Email user] (u_Name user)) resend_message })"

record ForgotPasswordPayload =
  fp_Email :: string

definition forgot_tags :: "ForgotPasswordPayload \<Rightarrow> field list" where
  "forgot_tags p = [(''Email'', FString (fp_Email p), ''required,email,max=255'')]"

definition forgot_message :: string where
  "forgot_message = ''if the account with this email exists, a password reset email has been sent''"

definition reset_identifier :: "string \<Rightarrow> string" where
  "reset_identifier email = ''password-reset:'' @ email"

definition forgotPassword :: "app \<Rightarrow> ForgotPasswordPayload req_body \<Rightarrow> handler" where
  "forgotPassword a b c = with_payload a forgot_tags
     (map_req_body (\<lambda>p. p\<lparr>fp_Email := ToLower (fp_Email p)\<rparr>) b) (\<lambda>payload. do {
     x \<leftarrow> Users_GetByEmail (fp_Email payload);
     case x of
       Inl err \<Rightarrow>
         if err = ErrNotFound then WriteData 200 (MessageData forgot_message) else something_went_wrong
     | Inr user \<Rightarrow> replace_token (reset_identifier (u_Email user)) (15 * time_Minute)
         (SendPasswordResetEmail [u_Email user] (u_Name user)) forgot_message })"

subsection \<open>Reset the password\<close>

record ResetPasswordPayload =
  rp_Token :: string
  rp_Password :: string

definition reset_tags :: "ResetPasswordPayload \<Rightarrow> field list" where
  "reset_tags p =
     [(''Token'', FString (rp_Token p), ''required,hexadecimal,len=64''),
      (''Password'', FString (rp_Password p), ''required,min=8,max=96'')]"

definition resetPassword :: "app \<Rightarrow> ResetPasswordPayload req_body \<Rightarrow> handler" where
  "resetPassword a b c = with_payload a reset_tags b (\<lambda>payload.
     with_verification (rp_Token payload) (\<lambda>v. do {
       h \<leftarrow> HashPassword (argon2_IDKey a) (rp_Password payload) None;
       case h of
         Inl _ \<Rightarrow> something_went_wrong
       | Inr hash \<Rightarrow>
           (case cut_prefix (v_Identifier v) ''password-reset:'' of
              None \<Rightarrow> something_went_wrong
            | Some email \<Rightarrow> do {
                x \<leftarrow> Users_GetByEmail email;
                case x of
                  Inl _ \<Rightarrow> something_went_wrong
                | Inr user \<Rightarrow> do {
                    r \<leftarrow> Users_ResetPassword (u_Email user) hash;
                    case r of
                      Inl _ \<Rightarrow> something_went_wrong
                    | Inr _ \<Rightarrow> do {
                        _ \<leftarrow> Verifications_Delete (v_ID v);
                        _ \<leftarrow> Sessions_DeleteAll (u_ID user);
                        WriteData 200 (MessageData ''password reset successfully'') } } }) }))"

subsection \<open>Google\<close>

definition googleOAuthConfig :: "app \<Rightarrow> oauth2_Config" where
  "googleOAuthConfig a =
     \<lparr>oc_ClientID = GoogleClientID (config a), oc_ClientSecret = GoogleClientSecret (config a),
      oc_RedirectURL = GoogleRedirectURI (config a), oc_Scopes = [''email'', ''profile'']\<rparr>"

text \<open>\<^verbatim>\<open>internal/auth/oauth.go\<close>\<close>

definition GenerateRandomOAuthState :: "(pg_error + string) io" where
  "GenerateRandomOAuthState = exec (\<lambda>w.
     case rand_Read 32 w of
       (Inl e, w') \<Rightarrow> (Inl e, w')
     | (Inr b, w') \<Rightarrow> (Inr (hex_EncodeToString b), w'))"

definition google :: "app \<Rightarrow> handler" where
  "google a c = do {
     s \<leftarrow> GenerateRandomOAuthState;
     case s of
       Inl _ \<Rightarrow> something_went_wrong
     | Inr st \<Rightarrow> with_cookie
         \<lparr>ck_Name = ''gater_oauth_state'', ck_Value = st, ck_MaxAge = 60 * 10, ck_Secure = IsProduction (config a)\<rparr>
         (State_Monad.return (Redirect 307 (oauth_AuthCodeURL a (googleOAuthConfig a) st))) }"

record GoogleUser =
  gu_ID :: string
  gu_Email :: string
  gu_Name :: string
  gu_Picture :: string

text \<open>A field that the JSON object does not have is empty.\<close>

definition json_field :: "(string \<Rightarrow> string option) \<Rightarrow> string \<Rightarrow> string" where
  "json_field j k = (case j k of None \<Rightarrow> [] | Some v \<Rightarrow> v)"

definition google_user :: "(string \<Rightarrow> string option) \<Rightarrow> GoogleUser" where
  "google_user j =
     \<lparr>gu_ID = json_field j ''id'', gu_Email = ToLower (json_field j ''email''), gu_Name = json_field j ''name'',
      gu_Picture = json_field j ''picture''\<rparr>"

definition new_google_user :: "GoogleUser \<Rightarrow> User" where
  "new_google_user g =
     \<lparr>u_ID = 0, u_Name = gu_Name g, u_Email = gu_Email g, u_PasswordHash = None, u_EmailVerified = True,
      u_Image = Some (gu_Picture g), u_Role = RoleAttendee, u_CreatedAt = 0, u_UpdatedAt = 0\<rparr>"

definition link_account :: "GoogleUser \<Rightarrow> string \<Rightarrow> User \<Rightarrow> (User option) io" where
  "link_account g scope user = do {
     r \<leftarrow> OAuth_Create \<lparr>oa_ID = 0, oa_UserID = u_ID user, oa_Provider = ''google'', oa_ProviderAccountID = gu_ID g,
        oa_Scope = scope, oa_CreatedAt = 0, oa_UpdatedAt = 0\<rparr>;
     State_Monad.return (case r of Inl _ \<Rightarrow> None | Inr _ \<Rightarrow> Some user) }"

text \<open>The user of a Google identity: linked before, or found by e-mail, or new; \<open>None\<close> is a 500.\<close>

definition google_account :: "GoogleUser \<Rightarrow> string \<Rightarrow> (User option) io" where
  "google_account g scope = do {
     o1 \<leftarrow> OAuth_GetByProviderAndAccountID ''google'' (gu_ID g);
     case o1 of
       Inr oa \<Rightarrow> do {
         u \<leftarrow> Users_GetByID (oa_UserID oa);
         State_Monad.return (case u of Inl _ \<Rightarrow> None | Inr user \<Rightarrow> Some user) }
     | Inl err \<Rightarrow>
         if err \<noteq> ErrNotFound then State_Monad.return None
         else do {
           u \<leftarrow> Users_GetByEmail (gu_Email g);
           case u of
             Inl err \<Rightarrow>
               if err \<noteq> ErrNotFound then State_Monad.return None
               else do {
                 n \<leftarrow> Users_Create (new_google_user g);
                 case n of
                   Inl _ \<Rightarrow> State_Monad.return None
                 | Inr user \<Rightarrow> link_account g scope user }
           | Inr user \<Rightarrow>
               if \<not> u_EmailVerified user
               then do { _ \<leftarrow> Users_MarkVerified (u_Email user); link_account g scope user }
               else link_account g scope user } }"

text \<open>The end of the handler: a session, its cookie, and the way back to the frontend.\<close>

definition google_session :: "app \<Rightarrow> request \<Rightarrow> User \<Rightarrow> response io" where
  "google_session a r user =
     (case SplitHostPort (rq_RemoteAddr r) of
        None \<Rightarrow> something_went_wrong
      | Some (ip, _) \<Rightarrow> do {
          s \<leftarrow> create_session 3 user ip (rq_UserAgent r);
          case s of
            None \<Rightarrow> something_went_wrong
          | Some token \<Rightarrow> with_cookie (session_cookie a token)
              (State_Monad.return (Redirect 302 (FrontendURL (config a)))) })"

definition googleCallback :: "app \<Rightarrow> request \<Rightarrow> handler" where
  "googleCallback a r c =
     (case rq_StateCookie r of
        None \<Rightarrow> WriteError 400 ''missing or invalid state''
      | Some ck \<Rightarrow>
          if rq_state r \<noteq> ck then WriteError 400 ''invalid state''
          else with_cookie (clear_cookie a ''gater_oauth_state'')
            (case oauth_Exchange a (googleOAuthConfig a) (rq_code r) of
               None \<Rightarrow> something_went_wrong
             | Some (access, scope) \<Rightarrow>
                 (case oauth_Userinfo a access of
                    None \<Rightarrow> something_went_wrong
                  | Some (status, reply) \<Rightarrow>
                      if status \<noteq> 200 then something_went_wrong
                      else
                        (case reply of
                           None \<Rightarrow> something_went_wrong
                         | Some j \<Rightarrow> do {
                             u \<leftarrow> google_account (google_user j) scope;
                             case u of
                               None \<Rightarrow> something_went_wrong
                             | Some user \<Rightarrow> google_session a r user }))))"

end
