(* ===== verification/Events_Api.thy ===== *)
theory Events_Api
  imports Api
begin

section \<open>Event handlers: \<^verbatim>\<open>cmd/server/events.go\<close>\<close>

text \<open>
  One definition per handler, in the order of the file.
\<close>

subsection \<open>Create\<close>

record CreateEventPayload =
  ce_Name :: string
  ce_Description :: "string option"
  ce_Location :: string
  ce_StartsAt :: instant
  ce_EndsAt :: instant
  ce_Capacity :: "int option"
  ce_CancellationAllowed :: "bool option"
  ce_CancellationHoursBefore :: int
  ce_MaxTicketsPerPurchase :: "int option"

definition create_event_tags :: "CreateEventPayload \<Rightarrow> field list" where
  "create_event_tags p =
     [(''Name'', FString (ce_Name p), ''required,max=255''),
      (''Location'', FString (ce_Location p), ''required,max=255''),
      (''StartsAt'', FTime (ce_StartsAt p), ''required''),
      (''EndsAt'', FTime (ce_EndsAt p), ''required''),
      (''Capacity'', FIntPtr (ce_Capacity p), ''omitempty,gte=1''),
      (''CancellationHoursBefore'', FInt (ce_CancellationHoursBefore p), ''gte=0''),
      (''MaxTicketsPerPurchase'', FIntPtr (ce_MaxTicketsPerPurchase p), ''omitempty,gte=1'')]"

text \<open>The zero value of the fields that \<open>Events.Create\<close> does not send is overwritten by \<open>RETURNING\<close>.\<close>

definition new_event :: "User \<Rightarrow> CreateEventPayload \<Rightarrow> Event" where
  "new_event user p =
     \<lparr>e_ID = 0, e_OrganizerID = u_ID user, e_Name = ce_Name p, e_Description = ce_Description p,
      e_Location = ce_Location p, e_Status = Draft, e_StartsAt = ce_StartsAt p, e_EndsAt = ce_EndsAt p,
      e_Capacity = ce_Capacity p,
      e_CancellationAllowed = (case ce_CancellationAllowed p of None \<Rightarrow> True | Some b \<Rightarrow> b),
      e_CancellationHoursBefore = ce_CancellationHoursBefore p,
      e_MaxTicketsPerPurchase = (case ce_MaxTicketsPerPurchase p of None \<Rightarrow> 10 | Some n \<Rightarrow> n),
      e_MaterialChangedAt = None, e_CreatedAt = 0, e_UpdatedAt = 0\<rparr>"

definition createEvent :: "app \<Rightarrow> CreateEventPayload req_body \<Rightarrow> handler" where
  "createEvent a b = with_user (\<lambda>user. with_payload a create_event_tags b (\<lambda>payload.
     if \<not> ce_EndsAt payload > ce_StartsAt payload
     then WriteError 422 ''ends_at must be after starts_at''
     else do {
       r \<leftarrow> Events_Create (new_event user payload);
       case r of
         Inl _ \<Rightarrow> something_went_wrong
       | Inr event \<Rightarrow> WriteData 201 (EventData ''event created successfully'' event) }))"

subsection \<open>Update\<close>

record UpdateEventPayload =
  ue_Name :: "string option"
  ue_Description :: "string option"
  ue_Location :: "string option"
  ue_StartsAt :: "instant option"
  ue_EndsAt :: "instant option"
  ue_Capacity :: "int option"
  ue_CancellationAllowed :: "bool option"
  ue_CancellationHoursBefore :: "int option"
  ue_MaxTicketsPerPurchase :: "int option"
  ue_ConfirmMaterialChange :: "bool option"

definition update_event_tags :: "UpdateEventPayload \<Rightarrow> field list" where
  "update_event_tags p =
     [(''Name'', FStringPtr (ue_Name p), ''omitempty,max=255''),
      (''Location'', FStringPtr (ue_Location p), ''omitempty,max=255''),
      (''Capacity'', FIntPtr (ue_Capacity p), ''omitempty,gte=1''),
      (''CancellationHoursBefore'', FIntPtr (ue_CancellationHoursBefore p), ''omitempty,gte=0''),
      (''MaxTicketsPerPurchase'', FIntPtr (ue_MaxTicketsPerPurchase p), ''omitempty,gte=1'')]"

definition or_old :: "'a option \<Rightarrow> 'a \<Rightarrow> 'a" where
  "or_old new old = (case new of None \<Rightarrow> old | Some x \<Rightarrow> x)"

definition merge_event :: "UpdateEventPayload \<Rightarrow> Event \<Rightarrow> Event" where
  "merge_event p e =
     e\<lparr>e_Name := or_old (ue_Name p) (e_Name e),
       e_Description := (case ue_Description p of None \<Rightarrow> e_Description e | Some s \<Rightarrow> Some s),
       e_Location := or_old (ue_Location p) (e_Location e),
       e_StartsAt := or_old (ue_StartsAt p) (e_StartsAt e),
       e_EndsAt := or_old (ue_EndsAt p) (e_EndsAt e),
       e_Capacity := (case ue_Capacity p of None \<Rightarrow> e_Capacity e | Some c \<Rightarrow> Some c),
       e_CancellationAllowed := or_old (ue_CancellationAllowed p) (e_CancellationAllowed e),
       e_CancellationHoursBefore := or_old (ue_CancellationHoursBefore p) (e_CancellationHoursBefore e),
       e_MaxTicketsPerPurchase := or_old (ue_MaxTicketsPerPurchase p) (e_MaxTicketsPerPurchase e)\<rparr>"

definition changedMaterial :: "UpdateEventPayload \<Rightarrow> bool" where
  "changedMaterial p \<longleftrightarrow> ue_Location p \<noteq> None \<or> ue_StartsAt p \<noteq> None \<or> ue_EndsAt p \<noteq> None
     \<or> ue_CancellationAllowed p \<noteq> None \<or> ue_CancellationHoursBefore p \<noteq> None"

text \<open>
  The map of changed fields, in the order of the tests: the old value, an arrow (three bytes in
  UTF-8), the new value. RFC 3339 without a fraction is the text of the second.
\<close>

definition from_to :: "string \<Rightarrow> string \<Rightarrow> string" where
  "from_to old new = old @ '' '' @ [CHR 0xE2, CHR 0x86, CHR 0x92] @ '' '' @ new"

definition time_RFC3339 :: "instant \<Rightarrow> string" where
  "time_RFC3339 t = time_Format (t div 1000000000 * 1000000000)"

definition show_bool :: "bool \<Rightarrow> string" where
  "show_bool b = (if b then ''true'' else ''false'')"

definition changedFields :: "UpdateEventPayload \<Rightarrow> Event \<Rightarrow> Event \<Rightarrow> (string \<times> string) list" where
  "changedFields p old new =
     (if ue_Location p \<noteq> None then [(''location'', from_to (e_Location old) (e_Location new))] else [])
   @ (if ue_StartsAt p \<noteq> None then [(''starts_at'', from_to (time_RFC3339 (e_StartsAt old)) (time_RFC3339 (e_StartsAt new)))] else [])
   @ (if ue_EndsAt p \<noteq> None then [(''ends_at'', from_to (time_RFC3339 (e_EndsAt old)) (time_RFC3339 (e_EndsAt new)))] else [])
   @ (if ue_CancellationAllowed p \<noteq> None
      then [(''cancellation_allowed'', from_to (show_bool (e_CancellationAllowed old)) (show_bool (e_CancellationAllowed new)))] else [])
   @ (if ue_CancellationHoursBefore p \<noteq> None
      then [(''cancellation_hours_before'',
             from_to (show_int (e_CancellationHoursBefore old)) (show_int (e_CancellationHoursBefore new)))] else [])"

text \<open>A new capacity must cover the confirmed sales.\<close>

definition check_capacity :: "UpdateEventPayload \<Rightarrow> Event \<Rightarrow> response io \<Rightarrow> response io" where
  "check_capacity p event k =
     (case ue_Capacity p of
        None \<Rightarrow> k
      | Some capacity \<Rightarrow> do {
          r \<leftarrow> Purchases_SumConfirmedQuantityByEvent (e_ID event);
          case r of
            Inl _ \<Rightarrow> something_went_wrong
          | Inr sold \<Rightarrow>
              if capacity < sold
              then WriteError 422 (''capacity cannot be reduced below the '' @ show_int sold @ '' tickets already sold'')
              else k })"

definition confirm_message :: "int \<Rightarrow> string" where
  "confirm_message affected =
     (if affected > 0
      then ''this change affects '' @ show_int affected
           @ '' confirmed ticket holders; pass confirm_material_change: true to proceed''
      else ''no tickets have been sold yet; pass confirm_material_change: true to proceed'')"

text \<open>The rest of the handler once the status allows the merged event: write it, tell the buyers.\<close>

definition save_event :: "UpdateEventPayload \<Rightarrow> Event \<Rightarrow> Event \<Rightarrow> response io" where
  "save_event p oldEvent event = do {
     r \<leftarrow> Events_Update event;
     case r of
       Inl _ \<Rightarrow> something_went_wrong
     | Inr event' \<Rightarrow> do {
         _ \<leftarrow> (case (changedMaterial p, e_MaterialChangedAt event') of
                 (True, Some changedAt) \<Rightarrow>
                   if changedFields p oldEvent event' \<noteq> []
                   then Enqueue (NotifyBuyersUpdated (e_ID event') (e_Name event')
                          (changedFields p oldEvent event') changedAt)
                   else State_Monad.return (Inr ())
               | _ \<Rightarrow> State_Monad.return (Inr ()));
         WriteData 200 (EventData ''event updated successfully'' event') } }"

definition updateEvent :: "app \<Rightarrow> UpdateEventPayload req_body \<Rightarrow> handler" where
  "updateEvent a b = with_event (\<lambda>oldEvent. with_payload a update_event_tags b (\<lambda>payload.
     check_capacity payload oldEvent (
     let event = merge_event payload oldEvent in
     if \<not> e_EndsAt event > e_StartsAt event then WriteError 422 ''ends_at must be after starts_at''
     else
       (case e_Status event of
          Draft \<Rightarrow> save_event payload oldEvent event
        | EvCancelled \<Rightarrow> WriteError 409 ''event can no longer be updated''
        | Ended \<Rightarrow> WriteError 409 ''event can no longer be updated''
        | _ \<Rightarrow>
            if changedMaterial payload \<and> ue_ConfirmMaterialChange payload \<noteq> Some True then do {
              r \<leftarrow> Purchases_SumConfirmedQuantityByEvent (e_ID event);
              case r of
                Inl _ \<Rightarrow> something_went_wrong
              | Inr affected \<Rightarrow> WriteError 409 (confirm_message affected) }
            else if changedMaterial payload then do {
              now \<leftarrow> time_Now;
              save_event payload oldEvent (event\<lparr>e_MaterialChangedAt := Some now\<rparr>) }
            else save_event payload oldEvent event))))"

subsection \<open>Delete, publish, cancel\<close>

definition deleteEvent :: handler where
  "deleteEvent = with_event (\<lambda>event.
     if e_Status event \<noteq> Draft then WriteError 409 ''event can only be deleted while in draft''
     else do {
       r \<leftarrow> Events_Delete (e_ID event);
       case r of
         Inl _ \<Rightarrow> something_went_wrong
       | Inr _ \<Rightarrow> WriteData 200 (MessageData ''event deleted successfully'') })"

text \<open>
  \<open>event, err = a.store.Events.Publish(..)\<close> overwrites \<open>event\<close> with nil on an error, and the
  log call reads \<open>event.ID\<close>: a nil dereference. The same holds for \<open>Cancel\<close> below.
\<close>

definition publishEvent :: handler where
  "publishEvent = with_event (\<lambda>event.
     if e_Status event \<noteq> Draft then WriteError 409 ''event can only be published while in draft''
     else do {
       n \<leftarrow> Tiers_CountByEvent (e_ID event);
       case n of
         Inl _ \<Rightarrow> something_went_wrong
       | Inr count \<Rightarrow>
           if count = 0
           then WriteError 409 ''event must have at least one ticket tier before publishing''
           else do {
             r \<leftarrow> Events_Publish (e_ID event);
             case r of
               Inl _ \<Rightarrow> State_Monad.return Panic
             | Inr event' \<Rightarrow> WriteData 200 (EventData ''event published successfully'' event') } })"

definition buyer_snapshot :: "User list \<Rightarrow> (string \<times> string \<times> uuid) list" where
  "buyer_snapshot us = map (\<lambda>u. (u_Email u, u_Name u, u_ID u)) us"

definition cancelEvent :: handler where
  "cancelEvent = with_event (\<lambda>event.
     if e_Status event \<noteq> Draft \<and> e_Status event \<noteq> Published \<and> e_Status event \<noteq> EvSoldOut
     then WriteError 409 ''event can no longer be cancelled''
     else do {
       r \<leftarrow> Events_Cancel (e_ID event);
       case r of
         Inl _ \<Rightarrow> State_Monad.return Panic
       | Inr event' \<Rightarrow> do {
           bs \<leftarrow> Purchases_ListConfirmedBuyersByEvent (e_ID event');
           _ \<leftarrow> Purchases_CancelByEvent (e_ID event');
           _ \<leftarrow> Waitlist_DeleteByEvent (e_ID event');
           _ \<leftarrow> Enqueue (NotifyBuyersCancelled (e_ID event') (e_Name event') (e_UpdatedAt event')
                  (buyer_snapshot (case bs of Inl _ \<Rightarrow> [] | Inr us \<Rightarrow> us)));
           WriteData 200 (EventData ''event cancelled successfully'' event') } })"

subsection \<open>Reading events\<close>

definition visible_to :: "User option \<Rightarrow> Event \<Rightarrow> bool" where
  "visible_to user event \<longleftrightarrow>
     e_Status event \<in> {Published, EvSoldOut, Ended}
     \<or> (case user of None \<Rightarrow> False | Some u \<Rightarrow> u_ID u = e_OrganizerID event)"

definition getPublicEvent :: "app \<Rightarrow> request \<Rightarrow> (Event \<Rightarrow> response io) \<Rightarrow> handler" where
  "getPublicEvent a r k c = with_uuid_param a (rq_id r) ''invalid event id'' (\<lambda>i. do {
     e \<leftarrow> Events_GetByID i;
     case e of
       Inl err \<Rightarrow> not_found_or_500 ''event not found'' err
     | Inr event \<Rightarrow>
         if \<not> visible_to (userCtx c) event then WriteError 404 ''event not found'' else k event })"

definition getEvent :: "app \<Rightarrow> request \<Rightarrow> handler" where
  "getEvent a r = getPublicEvent a r (\<lambda>event.
     WriteData 200 (EventData ''event retrieved successfully'' event))"

definition page_limit :: "string \<Rightarrow> int" where
  "page_limit lq =
     (if lq = [] then 50
      else (case Atoi lq of None \<Rightarrow> 50 | Some v \<Rightarrow> if v > 0 \<and> v \<le> 100 then v else 50))"

text \<open>One page: the first \<open>limit\<close> events, and the key of the last one when there are more.\<close>

definition page_of :: "int \<Rightarrow> Event list \<Rightarrow> Event list \<times> cursor option" where
  "page_of limit es =
     (if int (length es) = limit + 1
      then (let page = take (nat limit) es in (page, Some (event_key (last page))))
      else (es, None))"

definition getPublishedEvents :: "app \<Rightarrow> request \<Rightarrow> handler" where
  "getPublishedEvents a r c =
     (let limit = page_limit (rq_limit r);
          list_from = (\<lambda>cur. do {
            es \<leftarrow> Events_GetAllPublished cur (limit + 1);
            case es of
              Inl _ \<Rightarrow> something_went_wrong
            | Inr evs \<Rightarrow>
                (case page_of limit evs of
                   (page, nxt) \<Rightarrow> WriteData 200 (EventsData ''published events retrieved successfully'' page
                      (case nxt of None \<Rightarrow> [] | Some k \<Rightarrow> Cursor_Encode (uuid_String a) k))) })
      in if rq_cursor r = [] then list_from None
         else (case Cursor_Decode (uuid_Parse a) (rq_cursor r) of
                 None \<Rightarrow> WriteError 400 ''invalid cursor''
               | Some k \<Rightarrow> list_from (Some k)))"

end
