(* ===== verification/Tiers_Api.thy ===== *)
theory Tiers_Api
  imports Events_Api
begin

section \<open>Tier handlers: \<^verbatim>\<open>cmd/server/tiers.go\<close>\<close>

text \<open>
  One definition per handler. Quantities of rows fit 32 bits, so their differences stay in
  range; sums with a quantity of the payload are 64-bit sums and are wrapped.
\<close>

definition listTiers :: "app \<Rightarrow> request \<Rightarrow> handler" where
  "listTiers a r = getPublicEvent a r (\<lambda>event. do {
     ts \<leftarrow> Tiers_ListByEvent (e_ID event);
     case ts of
       Inl _ \<Rightarrow> something_went_wrong
     | Inr tiers \<Rightarrow> WriteData 200 (TiersData ''tiers retrieved successfully'' tiers) })"

subsection \<open>Update\<close>

record UpdateTierPayload =
  ut_Name :: "string option"
  ut_Price :: "int option"
  ut_Quantity :: "int option"

definition update_tier_tags :: "UpdateTierPayload \<Rightarrow> field list" where
  "update_tier_tags p =
     [(''Name'', FStringPtr (ut_Name p), ''omitempty,max=255''),
      (''Price'', FIntPtr (ut_Price p), ''omitempty,gte=0''),
      (''Quantity'', FIntPtr (ut_Quantity p), ''omitempty,gte=1'')]"

definition exceed_message :: "int \<Rightarrow> int \<Rightarrow> string" where
  "exceed_message newTotal capacity =
     ''total tier capacity ('' @ show_int newTotal @ '') would exceed event capacity ('' @ show_int capacity @ '')''"

text \<open>\<open>below_capacity event total k\<close>: go on with \<open>k\<close> if the event's cap, if any, allows the total.\<close>

definition below_capacity :: "Event \<Rightarrow> (int \<Rightarrow> int) \<Rightarrow> response io \<Rightarrow> response io" where
  "below_capacity event newTotal k =
     (case e_Capacity event of
        None \<Rightarrow> k
      | Some capacity \<Rightarrow> do {
          r \<leftarrow> Tiers_SumQuantityByEvent (e_ID event);
          case r of
            Inl _ \<Rightarrow> something_went_wrong
          | Inr existingTotal \<Rightarrow>
              if newTotal existingTotal > capacity
              then WriteError 400 (exceed_message (newTotal existingTotal) capacity)
              else k })"

definition resized :: "Tier \<Rightarrow> int \<Rightarrow> Tier" where
  "resized t quantity =
     (let sold = t_Quantity t - t_Remaining t; remaining = quantity - sold
      in t\<lparr>t_Quantity := quantity, t_Remaining := remaining,
           t_Status := (if remaining > 0 then Available else SoldOut)\<rparr>)"

text \<open>Writing the merged tier back, and reopening a sold-out event that has stock again.\<close>

definition save_tier :: "Event \<Rightarrow> Tier \<Rightarrow> response io" where
  "save_tier event tier = do {
     r \<leftarrow> Tiers_Update tier;
     case r of
       Inl _ \<Rightarrow> something_went_wrong
     | Inr tier' \<Rightarrow>
         if e_Status event = EvSoldOut \<and> t_Remaining tier' > 0 then do {
           s \<leftarrow> Events_SetStatus (e_ID event) EvSoldOut Published;
           case s of
             Inl _ \<Rightarrow> something_went_wrong
           | Inr _ \<Rightarrow> WriteData 200 (TierData ''tier updated successfully'' tier') }
         else WriteData 200 (TierData ''tier updated successfully'' tier') }"

definition updateTier :: "app \<Rightarrow> request \<Rightarrow> UpdateTierPayload req_body \<Rightarrow> handler" where
  "updateTier a r b = with_event (\<lambda>event.
     if e_Status event = EvCancelled \<or> e_Status event = Ended
     then WriteError 409 ''event can no longer be updated''
     else with_uuid_param a (rq_tierId r) ''invalid tier id'' (\<lambda>tierID. do {
       x \<leftarrow> Tiers_GetByID tierID;
       case x of
         Inl err \<Rightarrow> not_found_or_500 ''tier not found'' err
       | Inr tier \<Rightarrow>
           if t_EventID tier \<noteq> e_ID event then WriteError 404 ''tier not found''
           else with_payload a update_tier_tags b (\<lambda>payload.
             let tier' = tier\<lparr>t_Name := or_old (ut_Name payload) (t_Name tier),
                              t_Price := or_old (ut_Price payload) (t_Price tier)\<rparr>
             in case ut_Quantity payload of
                  None \<Rightarrow> save_tier event tier'
                | Some quantity \<Rightarrow>
                    let sold = t_Quantity tier - t_Remaining tier
                    in if quantity < sold
                       then WriteError 422 (''quantity cannot be reduced below the '' @ show_int sold @ '' tickets already sold'')
                       else below_capacity event
                              (\<lambda>existingTotal. wrap64 (existingTotal - t_Quantity tier + quantity))
                              (save_tier event (resized tier' quantity))) }))"

subsection \<open>Delete\<close>

definition deleteTier :: "app \<Rightarrow> request \<Rightarrow> handler" where
  "deleteTier a r = with_event (\<lambda>event.
     if e_Status event \<noteq> Draft then WriteError 409 ''tiers can only be deleted from draft events''
     else with_uuid_param a (rq_tierId r) ''invalid tier id'' (\<lambda>tierID. do {
       x \<leftarrow> Tiers_Delete tierID (e_ID event);
       case x of
         Inl err \<Rightarrow> not_found_or_500 ''tier not found'' err
       | Inr _ \<Rightarrow> WriteData 200 (MessageData ''tier deleted successfully'') }))"

subsection \<open>Create\<close>

record CreateTierPayload =
  ct_Name :: string
  ct_Price :: "int option"
  ct_Quantity :: "int option"

definition create_tier_tags :: "CreateTierPayload \<Rightarrow> field list" where
  "create_tier_tags p =
     [(''Name'', FString (ct_Name p), ''required,max=255''),
      (''Price'', FIntPtr (ct_Price p), ''omitempty,gte=0''),
      (''Quantity'', FIntPtr (ct_Quantity p), ''omitempty,gt=0'')]"

definition new_tier :: "Event \<Rightarrow> string \<Rightarrow> int \<Rightarrow> int \<Rightarrow> Tier" where
  "new_tier event name price quantity =
     \<lparr>t_ID = 0, t_EventID = e_ID event, t_Name = name, t_Price = price, t_Quantity = quantity,
      t_Remaining = quantity, t_Status = Available, t_CreatedAt = 0, t_UpdatedAt = 0\<rparr>"

definition createTier :: "app \<Rightarrow> CreateTierPayload req_body \<Rightarrow> handler" where
  "createTier a b = with_event (\<lambda>event. with_payload a create_tier_tags b (\<lambda>payload.
     if e_Status event \<noteq> Draft then WriteError 409 ''tiers can only be added to draft events''
     else (case ct_Price payload of
         None \<Rightarrow> WriteError 422 ''price is required''
       | Some price \<Rightarrow>
           (case ct_Quantity payload of
              None \<Rightarrow> WriteError 422 ''quantity is required''
            | Some quantity \<Rightarrow>
                below_capacity event (\<lambda>existingTotal. wrap64 (existingTotal + quantity)) (do {
                  x \<leftarrow> Tiers_Create (new_tier event (ct_Name payload) price quantity);
                  case x of
                    Inl _ \<Rightarrow> something_went_wrong
                  | Inr tier \<Rightarrow> WriteData 201 (TierData ''tier created successfully'' tier) })))))"

end
