(* ===== verification/Purchases_Api.thy ===== *)
theory Purchases_Api
  imports Tiers_Api
begin

section \<open>Purchase and check-in handlers\<close>

text \<open>
  \<^verbatim>\<open>cmd/server/purchases.go\<close> and \<^verbatim>\<open>cmd/server/check-in.go\<close>, one definition per handler.
\<close>

subsection \<open>Create\<close>

record CreatePurchasePayload =
  cp_TierID :: string
  cp_Quantity :: int

definition create_purchase_tags :: "CreatePurchasePayload \<Rightarrow> field list" where
  "create_purchase_tags p =
     [(''TierID'', FString (cp_TierID p), ''required''),
      (''Quantity'', FInt (cp_Quantity p), ''required,gte=1'')]"

text \<open>\<open>for range payload.Quantity\<close>: one signed ticket per unit.\<close>

fun mint_tickets :: "app \<Rightarrow> uuid \<Rightarrow> uuid \<Rightarrow> nat \<Rightarrow> (Ticket list) io" where
  "mint_tickets a purchaseID tierID 0 = State_Monad.return []"
| "mint_tickets a purchaseID tierID (Suc n) = do {
     ticketID \<leftarrow> uuid_New;
     ts \<leftarrow> mint_tickets a purchaseID tierID n;
     State_Monad.return
       (\<lparr>k_ID = ticketID, k_PurchaseID = purchaseID, k_TierID = tierID,
         k_QRToken = GenerateToken (uuid_String a) ticketID purchaseID tierID (TicketSecret (config a)),
         k_Status = Unused, k_CheckedInAt = None, k_CreatedAt = 0, k_UpdatedAt = 0\<rparr> # ts) }"

definition purchase_response :: "Purchase \<Rightarrow> Event \<Rightarrow> Tier \<Rightarrow> Ticket list \<Rightarrow> body" where
  "purchase_response p event tier ts = PurchaseData
     \<lparr>pr_ID = p_ID p, pr_Quantity = p_Quantity p, pr_Total = p_Total p, pr_Status = p_Status p,
      pr_Event = event, pr_Tier = tier, pr_Tickets = ts,
      pr_CreatedAt = p_CreatedAt p, pr_UpdatedAt = p_UpdatedAt p\<rparr>"

definition not_published_message :: string where
  "not_published_message = ''event is not open for ticket sales''"

definition create_purchase_error :: "Event \<Rightarrow> store_error \<Rightarrow> response io" where
  "create_purchase_error event e =
     (case e of
        ErrNotFound \<Rightarrow> WriteError 404 ''tier not found''
      | ErrEventNotPublished \<Rightarrow> WriteError 409 not_published_message
      | ErrExceedsMaxPerPurchase \<Rightarrow> WriteError 422
          (''quantity exceeds the maximum tickets allowed per purchase (''
             @ show_int (e_MaxTicketsPerPurchase event) @ '')'')
      | ErrInsufficientRemaining \<Rightarrow> WriteError 409 ''not enough tickets remaining''
      | _ \<Rightarrow> something_went_wrong)"

definition new_purchase :: "User \<Rightarrow> Tier \<Rightarrow> uuid \<Rightarrow> int \<Rightarrow> Purchase" where
  "new_purchase user tier i quantity =
     \<lparr>p_ID = i, p_UserID = u_ID user, p_TierID = t_ID tier, p_Quantity = quantity, p_Total = 0,
      p_Status = Confirmed, p_CreatedAt = 0, p_UpdatedAt = 0\<rparr>"

definition createPurchase :: "app \<Rightarrow> CreatePurchasePayload req_body \<Rightarrow> handler" where
  "createPurchase a b = with_user (\<lambda>user. with_payload a create_purchase_tags b (\<lambda>payload.
     with_uuid_param a (cp_TierID payload) ''invalid tier id'' (\<lambda>tierID. do {
       x \<leftarrow> Tiers_GetByID tierID;
       case x of
         Inl err \<Rightarrow> not_found_or_500 ''tier not found'' err
       | Inr tier \<Rightarrow> do {
           y \<leftarrow> Events_GetByID (t_EventID tier);
           case y of
             Inl err \<Rightarrow> not_found_or_500 ''event not found'' err
           | Inr event \<Rightarrow>
               if e_Status event \<noteq> Published then WriteError 409 not_published_message
               else do {
                 purchaseID \<leftarrow> uuid_New;
                 ts \<leftarrow> mint_tickets a purchaseID (t_ID tier) (nat (cp_Quantity payload));
                 z \<leftarrow> Purchases_Create (new_purchase user tier purchaseID (cp_Quantity payload)) ts;
                 case z of
                   Inl err \<Rightarrow> create_purchase_error event err
                 | Inr (purchase, ts') \<Rightarrow> WriteData 201 (purchase_response purchase event tier ts') } } })))"

subsection \<open>List\<close>

text \<open>A malformed limit falls back to 50; a malformed page is refused. The offset is a 64-bit product.\<close>

definition page_number :: "string \<Rightarrow> int option" where
  "page_number pq =
     (if pq = [] then Some 1
      else (case Atoi pq of None \<Rightarrow> None | Some v \<Rightarrow> if v < 1 then None else Some v))"

definition page_offset :: "int \<Rightarrow> int \<Rightarrow> int" where
  "page_offset page limit = wrap64 (wrap64 (page - 1) * limit)"

definition listPurchases :: "request \<Rightarrow> handler" where
  "listPurchases r = with_user (\<lambda>user.
     let limit = page_limit (rq_limit r)
     in case page_number (rq_page r) of
          None \<Rightarrow> WriteError 400 ''invalid page''
        | Some page \<Rightarrow> do {
            x \<leftarrow> Purchases_ListByUser (u_ID user) limit (page_offset page limit);
            case x of
              Inl _ \<Rightarrow> something_went_wrong
            | Inr ps \<Rightarrow> do {
                y \<leftarrow> Purchases_CountByUser (u_ID user);
                case y of
                  Inl _ \<Rightarrow> something_went_wrong
                | Inr count \<Rightarrow> WriteData 200 (PurchasesData ''purchases retrieved successfully'' ps page limit count) } })"

subsection \<open>Cancel and get\<close>

text \<open>The common end of both handlers: tickets, tier and event of the purchase.\<close>

definition respond_with_purchase :: "Purchase \<Rightarrow> response io" where
  "respond_with_purchase purchase = do {
     x \<leftarrow> Purchases_ListTicketsByPurchase (p_ID purchase);
     case x of
       Inl _ \<Rightarrow> something_went_wrong
     | Inr ts \<Rightarrow> do {
         y \<leftarrow> Tiers_GetByID (p_TierID purchase);
         case y of
           Inl _ \<Rightarrow> something_went_wrong
         | Inr tier \<Rightarrow> do {
             z \<leftarrow> Events_GetByID (t_EventID tier);
             case z of
               Inl _ \<Rightarrow> something_went_wrong
             | Inr event \<Rightarrow> WriteData 200 (purchase_response purchase event tier ts) } } }"

definition cancel_purchase_error :: "store_error \<Rightarrow> response io" where
  "cancel_purchase_error e =
     (case e of
        ErrNotFound \<Rightarrow> WriteError 404 ''purchase not found''
      | ErrAlreadyCancelled \<Rightarrow> WriteError 409 ''purchase has already been cancelled''
      | ErrEventStarted \<Rightarrow> WriteError 409 ''event has already started''
      | ErrCancellationNotAllowed \<Rightarrow> WriteError 409 ''this event does not allow cancellations''
      | ErrOutsideCancellationWindow \<Rightarrow> WriteError 409 ''cancellations are closed for this event''
      | _ \<Rightarrow> something_went_wrong)"

definition cancelPurchase :: "app \<Rightarrow> request \<Rightarrow> handler" where
  "cancelPurchase a r = with_user (\<lambda>user. with_uuid_param a (rq_id r) ''invalid purchase id'' (\<lambda>i. do {
     x \<leftarrow> Purchases_Cancel i (u_ID user);
     case x of
       Inl err \<Rightarrow> cancel_purchase_error err
     | Inr (purchase, wasSoldOut) \<Rightarrow> do {
         _ \<leftarrow> (if wasSoldOut then Enqueue (NotifyWaitlistEntry (p_TierID purchase))
              else State_Monad.return (Inr ()));
         respond_with_purchase purchase } }))"

definition getPurchase :: "app \<Rightarrow> request \<Rightarrow> handler" where
  "getPurchase a r = with_user (\<lambda>user. with_uuid_param a (rq_id r) ''invalid purchase id'' (\<lambda>i. do {
     x \<leftarrow> Purchases_GetByID i (u_ID user);
     case x of
       Inl err \<Rightarrow> not_found_or_500 ''purchase not found'' err
     | Inr purchase \<Rightarrow> respond_with_purchase purchase }))"

subsection \<open>Check-in\<close>

record CheckInPayload =
  ci_Token :: string

definition check_in_tags :: "CheckInPayload \<Rightarrow> field list" where
  "check_in_tags p = [(''Token'', FString (ci_Token p), ''required'')]"

definition check_in_reason :: "store_error \<Rightarrow> string" where
  "check_in_reason e =
     (case e of
        ErrNotFound \<Rightarrow> ''invalid token''
      | ErrAlreadyCheckedIn \<Rightarrow> ''already checked in''
      | ErrTicketCancelled \<Rightarrow> ''ticket cancelled''
      | ErrWrongEvent \<Rightarrow> ''wrong event''
      | _ \<Rightarrow> [])"

definition checkIn :: "app \<Rightarrow> CheckInPayload req_body \<Rightarrow> handler" where
  "checkIn a b = with_event (\<lambda>event. with_payload a check_in_tags b (\<lambda>payload.
     case VerifyToken (uuid_Parse a) (ci_Token payload) (TicketSecret (config a)) of
       Inl _ \<Rightarrow> WriteData 200 (InvalidScan ''invalid token'')
     | Inr ticketID \<Rightarrow> do {
         x \<leftarrow> Tickets_CheckIn ticketID (e_ID event);
         case x of
           Inl err \<Rightarrow>
             (if check_in_reason err = [] then something_went_wrong
              else WriteData 200 (InvalidScan (check_in_reason err)))
         | Inr tc \<Rightarrow> WriteData 200 (ValidScan (tc_AttendeeName tc, tc_AttendeeEmail tc)
                       (k_ID (tc_Ticket tc), tc_TierName tc, k_CheckedInAt (tc_Ticket tc))) }))"

end
