(* ===== verification/Waitlist_Api.thy ===== *)
theory Waitlist_Api
  imports Purchases_Api
begin

section \<open>Waitlist handlers: \<^verbatim>\<open>cmd/server/waitlist.go\<close>\<close>

text \<open>One definition per handler.\<close>

definition new_entry :: "User \<Rightarrow> Tier \<Rightarrow> WaitlistEntry" where
  "new_entry user tier =
     \<lparr>w_ID = 0, w_UserID = u_ID user, w_TierID = t_ID tier, w_Status = Waiting, w_NotifiedAt = None,
      w_ExpiresAt = None, w_CreatedAt = 0, w_UpdatedAt = 0\<rparr>"

definition joinWaitlist :: "app \<Rightarrow> request \<Rightarrow> handler" where
  "joinWaitlist a r c = with_user (\<lambda>user. getPublicEvent a r (\<lambda>event.
     if e_Status event = Ended then WriteError 409 ''this event has ended''
     else with_uuid_param a (rq_tierId r) ''invalid tier id'' (\<lambda>tierID. do {
       x \<leftarrow> Tiers_GetByID tierID;
       case x of
         Inl err \<Rightarrow> not_found_or_500 ''tier not found'' err
       | Inr tier \<Rightarrow>
           if t_EventID tier \<noteq> e_ID event then WriteError 404 ''tier not found''
           else if t_Status tier \<noteq> SoldOut
           then WriteError 409 ''you can only join the waitlist for sold out tiers''
           else do {
             h \<leftarrow> Purchases_HasConfirmedPurchase (u_ID user) (t_ID tier);
             case h of
               Inl _ \<Rightarrow> something_went_wrong
             | Inr holds \<Rightarrow>
                 if holds then WriteError 409 ''you already have tickets for this tier''
                 else do {
                   e \<leftarrow> Waitlist_Create (new_entry user tier);
                   case e of
                     Inl err \<Rightarrow>
                       (if err = ErrConflict
                        then WriteError 409 ''you are already on the waitlist for this tier''
                        else something_went_wrong)
                   | Inr entry \<Rightarrow> WriteData 201 (EntryData ''you have been added to the waitlist'' entry) } } })) c) c"

definition leaveWaitlist :: "app \<Rightarrow> request \<Rightarrow> handler" where
  "leaveWaitlist a r = with_user (\<lambda>user. with_uuid_param a (rq_id r) ''invalid event id'' (\<lambda>_.
     with_uuid_param a (rq_tierId r) ''invalid tier id'' (\<lambda>tierID. do {
       x \<leftarrow> Waitlist_DeleteByUserAndTier (u_ID user) tierID;
       case x of
         Inl err \<Rightarrow> not_found_or_500 ''you are not on the waitlist for this tier'' err
       | Inr _ \<Rightarrow> WriteData 200 (MessageData ''you have been removed from the waitlist'') })))"

definition getWaitlist :: handler where
  "getWaitlist = with_event (\<lambda>event. do {
     x \<leftarrow> Waitlist_ListByEvent (e_ID event);
     case x of
       Inl _ \<Rightarrow> something_went_wrong
     | Inr entries \<Rightarrow> WriteData 200 (WaitlistData ''waitlist retrieved successfully'' entries) })"

end
