(* ===== verification/Worker.thy ===== *)
theory Worker
  imports Waitlist_Store Accounts_Store
begin

section \<open>Background tasks: \<^verbatim>\<open>internal/worker\<close>\<close>

text \<open>
  The handlers that asynq runs. A handler ends with no error, with an error that asynq retries,
  or with \<open>SkipRetry\<close>. \<open>run_task\<close> is the mux.
\<close>

datatype task_result = TaskDone | TaskRetry | TaskSkipRetry

definition HandleSendVerificationTask :: "string list \<Rightarrow> string \<Rightarrow> string \<Rightarrow> task_result io" where
  "HandleSendVerificationTask to name token = do {
     r \<leftarrow> send_mail (VerificationEmail to name token);
     State_Monad.return (case r of Inl _ \<Rightarrow> TaskRetry | Inr _ \<Rightarrow> TaskDone) }"

definition HandleSendPwdResetTask :: "string list \<Rightarrow> string \<Rightarrow> string \<Rightarrow> task_result io" where
  "HandleSendPwdResetTask to name token = do {
     r \<leftarrow> send_mail (PasswordResetEmail to name token);
     State_Monad.return (case r of Inl _ \<Rightarrow> TaskRetry | Inr _ \<Rightarrow> TaskDone) }"

definition HandleEndExpiredEvents :: "task_result io" where
  "HandleEndExpiredEvents = do {
     r \<leftarrow> Events_EndAllExpired;
     State_Monad.return (case r of Inl _ \<Rightarrow> TaskRetry | Inr _ \<Rightarrow> TaskDone) }"

text \<open>One promotion per expired entry; a task that cannot be enqueued is logged and skipped.\<close>

fun enqueue_promotions :: "WaitlistEntry list \<Rightarrow> unit io" where
  "enqueue_promotions [] = State_Monad.return ()"
| "enqueue_promotions (e # es) = do {
     _ \<leftarrow> Enqueue (NotifyWaitlistEntry (w_TierID e));
     enqueue_promotions es }"

definition HandleExpireWaitlistReservations :: "task_result io" where
  "HandleExpireWaitlistReservations = do {
     r \<leftarrow> Waitlist_ExpireReservations;
     case r of
       Inl _ \<Rightarrow> State_Monad.return TaskRetry
     | Inr es \<Rightarrow> do { _ \<leftarrow> enqueue_promotions es; State_Monad.return TaskDone } }"

definition HandleNotifyNextWaiting :: "uuid \<Rightarrow> task_result io" where
  "HandleNotifyNextWaiting tierID = do {
     r \<leftarrow> Waitlist_NotifyNextWaiting tierID;
     case r of
       Inl err \<Rightarrow> State_Monad.return (if err = ErrNotFound then TaskSkipRetry else TaskRetry)
     | Inr (entry, user, tierName, eventName) \<Rightarrow>
         (case w_ExpiresAt entry of
            None \<Rightarrow> State_Monad.return TaskSkipRetry
          | Some expiresAt \<Rightarrow> do {
              m \<leftarrow> send_mail (WaitlistNotification [u_Email user] (u_Name user) tierName eventName expiresAt);
              State_Monad.return (case m of Inl _ \<Rightarrow> TaskRetry | Inr _ \<Rightarrow> TaskDone) }) }"

text \<open>One mail per buyer; a mail that cannot be sent is logged and the loop goes on.\<close>

fun send_each :: "email list \<Rightarrow> unit io" where
  "send_each [] = State_Monad.return ()"
| "send_each (m # ms) = do { _ \<leftarrow> send_mail m; send_each ms }"

definition HandleNotifyBuyersUpdated ::
  "uuid \<Rightarrow> string \<Rightarrow> (string \<times> string) list \<Rightarrow> instant \<Rightarrow> task_result io" where
  "HandleNotifyBuyersUpdated eventID eventName changes changedAt = do {
     r \<leftarrow> Purchases_ListConfirmedBuyersByEvent eventID;
     case r of
       Inl _ \<Rightarrow> State_Monad.return TaskRetry
     | Inr buyers \<Rightarrow> do {
         _ \<leftarrow> send_each (map (\<lambda>u. EventUpdatedNotification [u_Email u] (u_Name u) eventName changes changedAt) buyers);
         State_Monad.return TaskDone } }"

definition HandleNotifyBuyersCancelled ::
  "string \<Rightarrow> instant \<Rightarrow> (string \<times> string \<times> uuid) list \<Rightarrow> task_result io" where
  "HandleNotifyBuyersCancelled eventName cancelledAt buyers = do {
     _ \<leftarrow> send_each (map (\<lambda>(email, name, _). EventCancelledNotification [email] name eventName cancelledAt) buyers);
     State_Monad.return TaskDone }"

fun run_task :: "task \<Rightarrow> task_result io" where
  "run_task (SendVerificationEmail to name token) = HandleSendVerificationTask to name token"
| "run_task (SendPasswordResetEmail to name token) = HandleSendPwdResetTask to name token"
| "run_task EndExpiredEvents = HandleEndExpiredEvents"
| "run_task ExpireWaitlistReservations = HandleExpireWaitlistReservations"
| "run_task (NotifyWaitlistEntry tierID) = HandleNotifyNextWaiting tierID"
| "run_task (NotifyBuyersUpdated i name changes at) = HandleNotifyBuyersUpdated i name changes at"
| "run_task (NotifyBuyersCancelled i name at buyers) = HandleNotifyBuyersCancelled name at buyers"

end
