(* ===== verification/Simulation.thy ===== *)
theory Simulation
  imports Refinement Accounts_Api Waitlist_Api Worker
begin

section \<open>Handlers and tasks are sequences of abstract steps\<close>

text \<open>
  Every handler, behind its middleware, and every task keeps to the abstract steps, whatever
  faults occur. The condition of a write (a draft event, a sold-out tier) is what the handler
  read before it.
\<close>

subsection \<open>Composition\<close>

named_theorems act_intros \<open>programs that are sequences of abstract steps\<close>

abbreviation anything :: "database \<Rightarrow> bool" where
  "anything \<equiv> \<lambda>_. True"

lemma acts_bind: "acts P m \<Longrightarrow> (\<And>x. acts anything (f x)) \<Longrightarrow> acts P (State_Monad.bind m f)"
  by (rule act_bind) (auto elim: act_pre)

lemma acts_after_read:
  "act P m (\<lambda>_. P) \<Longrightarrow> (\<And>x. acts P (f x)) \<Longrightarrow> acts P (State_Monad.bind m f)"
  by (rule act_bind)

lemma acts_weak: "acts anything m \<Longrightarrow> acts P m"
  by (erule act_pre) simp

lemma act_if: "(b \<Longrightarrow> act P m Q) \<Longrightarrow> (\<not> b \<Longrightarrow> act P n Q) \<Longrightarrow> act P (if b then m else n) Q"
  by simp

lemma act_case_sum:
  "(\<And>e. s = Inl e \<Longrightarrow> act P (f e) Q) \<Longrightarrow> (\<And>x. s = Inr x \<Longrightarrow> act P (g x) Q)
    \<Longrightarrow> act P (case s of Inl e \<Rightarrow> f e | Inr x \<Rightarrow> g x) Q"
  by (cases s) auto

lemma act_case_option:
  "(s = None \<Longrightarrow> act P m Q) \<Longrightarrow> (\<And>x. s = Some x \<Longrightarrow> act P (f x) Q)
    \<Longrightarrow> act P (case s of None \<Rightarrow> m | Some x \<Rightarrow> f x) Q"
  by (cases s) auto

lemma act_case_prod: "(\<And>a b. p = (a, b) \<Longrightarrow> act P (f a b) Q) \<Longrightarrow> act P (case p of (a, b) \<Rightarrow> f a b) Q"
  by (cases p) auto

lemma act_Let: "act P (f x) Q \<Longrightarrow> act P (Let x f) Q"
  by simp

lemmas act_splits = act_if act_case_sum act_case_option act_case_prod act_Let

lemma acts_exec_same:
  "(\<And>w x w'. q w = (x, w') \<Longrightarrow> db w' = db w) \<Longrightarrow> act P (exec q) (\<lambda>_. P)"
  by (rule act_state) (auto simp: run_exec split: if_splits)

lemma act_Enqueue: "act P (Enqueue t) (\<lambda>_. P)"
  unfolding Enqueue_def by (rule acts_exec_same) auto

lemma act_send_mail: "act P (send_mail m) (\<lambda>_. P)"
  unfolding send_mail_def by (rule acts_exec_same) auto

lemma act_uuid_New: "act P uuid_New (\<lambda>_. P)"
  by (rule act_state) auto

lemma act_mint_tickets: "act P (mint_tickets a p t n) (\<lambda>ts d. P d \<and> length ts = n)"
proof (induction n)
  case 0
  then show ?case by (simp add: act_return)
next
  case (Suc n)
  show ?case
    by (simp, rule act_bind [OF act_uuid_New], rule act_bind [OF Suc.IH], rule act_return) simp
qed

text \<open>Methods without a condition.\<close>

lemmas act_plain [act_intros] = acts_return
  act_Events_Create act_Events_Update act_Events_Publish act_acts [OF act_Events_Cancel]
  act_Events_EndAllExpired act_acts [OF act_Events_GetAllPublished] act_acts [OF act_Events_GetByID]
  act_acts [OF act_Tiers_GetByID] act_Tiers_reads [THEN act_acts]
  act_Purchases_Cancel act_Purchases_reads [THEN act_acts] act_acts [OF act_Purchases_ListByUser]
  act_acts [OF act_Purchases_HasConfirmedPurchase] act_Tickets_CheckIn
  act_Waitlist_deletes act_acts [OF act_Waitlist_ListByEvent] act_Waitlist_ExpireReservations
  act_Waitlist_NotifyNextWaiting act_Users_Create act_Users_reads [THEN act_acts] act_Users_writes
  act_Users_BecomeOrganizer act_Sessions_Create act_acts [OF act_Sessions_Get] act_Sessions_deletes
  act_Verifications act_Verifications_reads [THEN act_acts] act_OAuth(1) act_acts [OF act_OAuth(2)]
  act_acts [OF act_time_Now] act_acts [OF act_Enqueue] act_acts [OF act_send_mail] act_acts [OF act_uuid_New]

subsection \<open>Middleware\<close>

text \<open>What the context says of the database when a handler starts.\<close>

definition ctx_ok :: "ctx \<Rightarrow> database \<Rightarrow> bool" where
  "ctx_ok c d \<longleftrightarrow> (\<forall>e. eventCtx c = Some e \<longrightarrow> e \<in> set (events d))"

definition sound_handler :: "handler \<Rightarrow> bool" where
  "sound_handler h \<longleftrightarrow> (\<forall>c. acts (ctx_ok c) (h c))"

lemma ctx_ok_user [simp]:
  "ctx_ok (c\<lparr>userCtx := u, sessionCtx := s\<rparr>) = ctx_ok c"
  by (simp add: ctx_ok_def fun_eq_iff)

lemma act_authenticate: "act P (authenticate r) (\<lambda>_. P)"
  unfolding authenticate_def
  by (intro act_splits act_bind [OF act_Sessions_Get] act_bind [OF act_Users_reads(1)])
    (auto intro!: act_splits act_return act_bind [OF act_Users_reads(1)])

lemma sound_requireAuth: "sound_handler nxt \<Longrightarrow> sound_handler (requireAuth r nxt)"
  unfolding sound_handler_def requireAuth_def
proof (intro allI acts_after_read [OF act_authenticate])
  fix c x
  assume nxt: "\<forall>c. acts (ctx_ok c) (nxt c)"
  have "acts (ctx_ok c) (nxt (c\<lparr>userCtx := u, sessionCtx := s\<rparr>))" for u s
    using nxt [rule_format, of "c\<lparr>userCtx := u, sessionCtx := s\<rparr>"] by simp
  then show "acts (ctx_ok c) (case x of Inl errMalformedHeader \<Rightarrow> WriteError 401 ''malformed authorization header''
     | Inl errMissingToken \<Rightarrow> WriteError 401 ''missing authorization token''
     | Inl errInvalidSession \<Rightarrow> WriteError 401 ''unauthorized''
     | Inr (session, user) \<Rightarrow> nxt (c\<lparr>userCtx := Some user, sessionCtx := Some session\<rparr>))"
    by (auto intro: acts_return split: sum.splits auth_error.splits)
qed

lemma sound_maybeAuth: "sound_handler nxt \<Longrightarrow> sound_handler (maybeAuth r nxt)"
  unfolding sound_handler_def maybeAuth_def
proof (intro allI acts_after_read [OF act_authenticate])
  fix c x
  assume nxt: "\<forall>c. acts (ctx_ok c) (nxt c)"
  have "acts (ctx_ok c) (nxt (c\<lparr>userCtx := u, sessionCtx := s\<rparr>))" for u s
    using nxt [rule_format, of "c\<lparr>userCtx := u, sessionCtx := s\<rparr>"] by simp
  with nxt show "acts (ctx_ok c) (case x of Inl _ \<Rightarrow> nxt c
     | Inr (session, user) \<Rightarrow> nxt (c\<lparr>userCtx := Some user, sessionCtx := Some session\<rparr>))"
    by (auto split: sum.splits)
qed

lemma sound_requireOrganizer: "sound_handler nxt \<Longrightarrow> sound_handler (requireOrganizer nxt)"
  unfolding sound_handler_def requireOrganizer_def
  by (auto intro!: act_splits acts_return)

lemma sound_requireEventOrganizer: "sound_handler nxt \<Longrightarrow> sound_handler (requireEventOrganizer a r nxt)"
  unfolding sound_handler_def requireEventOrganizer_def not_found_or_500_def
proof (intro allI act_splits acts_return act_bind [OF act_Events_GetByID])
  fix c user i x e
  assume "\<forall>c. acts (ctx_ok c) (nxt c)"
  then have nxt: "acts (ctx_ok (c\<lparr>eventCtx := Some e\<rparr>)) (nxt (c\<lparr>eventCtx := Some e\<rparr>))" by blast
  assume "x = Inr e"
  then show "acts (\<lambda>d. ctx_ok c d \<and> (\<forall>e. x = Inr e \<longrightarrow> e \<in> set (events d) \<and> e_ID e = i
      \<and> row_at e_ID (events d) i = Some e)) (nxt (c\<lparr>eventCtx := Some e\<rparr>))"
    by (intro act_pre [OF nxt]) (simp add: ctx_ok_def)
qed

text \<open>The first lines of handlers.\<close>

lemma sound_with_user: "(\<And>u. acts anything (f u)) \<Longrightarrow> sound_handler (with_user f)"
  unfolding sound_handler_def with_user_def
  by (auto intro!: act_splits acts_return intro: acts_weak)

lemma sound_with_event: "(\<And>e. acts (\<lambda>d. e \<in> set (events d)) (f e)) \<Longrightarrow> sound_handler (with_event f)"
  unfolding sound_handler_def with_event_def
  by (intro allI act_splits acts_return) (erule meta_allE, erule act_pre, simp add: ctx_ok_def)

lemma acts_with_payload:
  assumes "\<And>p. acts P (f p)" shows "acts P (with_payload a tags b f)"
  unfolding with_payload_def by (intro act_splits acts_return assms)

lemma acts_with_uuid_param:
  assumes "\<And>i. acts P (f i)" shows "acts P (with_uuid_param a s msg f)"
  unfolding with_uuid_param_def by (intro act_splits acts_return assms)

lemma acts_not_found_or_500: "acts P (not_found_or_500 msg e)"
  unfolding not_found_or_500_def by (intro act_splits acts_return)

lemmas act_handler [act_intros] = acts_with_payload acts_with_uuid_param acts_not_found_or_500

lemmas act_steps = act_splits acts_bind act_intros

text \<open>The row the context or a read gave determines all rows with its key.\<close>

lemma same_event_row:
  "schema_ok d \<Longrightarrow> e \<in> set (events d) \<Longrightarrow> \<forall>x \<in> set (events d). e_ID x = e_ID e \<longrightarrow> x = e"
  by (intro ballI impI) (rule keyed_unique [OF schema_keyed(2)])

lemma same_tier_row:
  "schema_ok d \<Longrightarrow> t \<in> set (ticket_tiers d) \<Longrightarrow> \<forall>x \<in> set (ticket_tiers d). t_ID x = t_ID t \<longrightarrow> x = t"
  by (intro ballI impI) (rule keyed_unique [OF schema_keyed(3)])

subsection \<open>Handlers\<close>

lemma sound_reads:
  "sound_handler getUser" "sound_handler becomeOrganizer" "sound_handler (listPurchases r)"
  "sound_handler (getPublishedEvents a r)"
proof -
  show "sound_handler getUser" unfolding getUser_def by (intro sound_with_user act_steps)
  show "sound_handler becomeOrganizer" unfolding becomeOrganizer_def by (intro sound_with_user act_steps)
  show "sound_handler (listPurchases r)" unfolding listPurchases_def by (intro sound_with_user act_steps)
  show "sound_handler (getPublishedEvents a r)"
    unfolding sound_handler_def getPublishedEvents_def by (intro allI act_steps)
qed

lemma sound_createEvent: "sound_handler (createEvent a b)"
  unfolding createEvent_def by (intro sound_with_user act_steps)

lemma acts_save_event: "acts P (save_event p e0 e)"
  unfolding save_event_def by (intro act_steps; auto split: option.splits bool.splits intro!: act_steps)

lemma acts_capacity:
  assumes "acts P k"
  shows "acts P (check_capacity p e k)" and "acts P (below_capacity e f k)"
proof -
  show "acts P (check_capacity p e k)"
    unfolding check_capacity_def
    by (intro act_splits acts_return assms acts_after_read [OF act_Purchases_reads(3)])
  show "acts P (below_capacity e f k)"
    unfolding below_capacity_def
    by (intro act_splits acts_return assms acts_after_read [OF act_Tiers_reads(3)])
qed

lemma act_case_event_status:
  "act P m1 Q \<Longrightarrow> act P m2 Q \<Longrightarrow> act P m3 Q \<Longrightarrow> act P m4 Q \<Longrightarrow> act P m5 Q
    \<Longrightarrow> act P (case s of Draft \<Rightarrow> m1 | Published \<Rightarrow> m2 | EvSoldOut \<Rightarrow> m3 | EvCancelled \<Rightarrow> m4 | Ended \<Rightarrow> m5) Q"
  by (cases s) auto

lemma sound_updateEvent: "sound_handler (updateEvent a b)"
  unfolding updateEvent_def
  by (intro sound_with_event acts_with_payload acts_capacity act_case_event_status act_steps acts_save_event)

lemma sound_deleteEvent: "sound_handler deleteEvent"
  unfolding deleteEvent_def
  by (intro sound_with_event act_splits acts_return acts_bind act_pre [OF act_Events_Delete])
    (use same_event_row in force)+

lemma sound_publishEvent: "sound_handler publishEvent"
  unfolding publishEvent_def by (intro sound_with_event act_steps)

lemma sound_cancelEvent: "sound_handler cancelEvent"
  unfolding cancelEvent_def
proof (intro sound_with_event act_if acts_return act_bind [OF act_pre [OF act_Events_Cancel]] TrueI act_case_sum)
  fix event x event'
  assume "x = Inr (event' :: Event)"
  then show "acts (\<lambda>d. \<forall>e. x = Inr e \<longrightarrow> e_ID e = e_ID (event :: Event)
      \<and> (\<forall>x \<in> set (events d). e_ID x = e_ID event \<longrightarrow> e_Status x = EvCancelled))
    (do {
       bs \<leftarrow> Purchases_ListConfirmedBuyersByEvent (e_ID event');
       _ \<leftarrow> Purchases_CancelByEvent (e_ID event');
       _ \<leftarrow> Waitlist_DeleteByEvent (e_ID event');
       _ \<leftarrow> Enqueue (NotifyBuyersCancelled (e_ID event') (e_Name event') (e_UpdatedAt event')
              (buyer_snapshot (case bs of Inl _ \<Rightarrow> [] | Inr us \<Rightarrow> us)));
       WriteData 200 (EventData ''event cancelled successfully'' event') })"
    by (intro acts_after_read [OF act_Purchases_reads(2)] acts_bind [OF act_pre [OF act_Purchases_CancelByEvent]])
      (auto intro!: act_steps)
qed

text \<open>Handlers behind \<open>getPublicEvent\<close>.\<close>

lemma acts_getPublicEvent:
  assumes "\<And>e. acts (\<lambda>d. e \<in> set (events d)) (k e)"
  shows "acts P (getPublicEvent a r k c)"
  unfolding getPublicEvent_def
  by (intro acts_with_uuid_param act_bind [OF act_Events_GetByID] act_splits acts_return
      acts_not_found_or_500 act_pre [OF assms]) auto

lemma sound_getEvent: "sound_handler (getEvent a r)"
  unfolding getEvent_def sound_handler_def by (intro allI acts_getPublicEvent acts_return)

lemma sound_listTiers: "sound_handler (listTiers a r)"
  unfolding listTiers_def sound_handler_def by (intro allI acts_getPublicEvent act_steps)

lemma acts_save_tier: "acts (may_write_tier t e) (save_tier e t)"
  unfolding save_tier_def
  by (intro act_bind [OF act_Tiers_Update] act_splits acts_return acts_bind act_pre [OF act_Events_SetStatus])
    (auto simp: in_stock_def list_ex_iff)

lemma may_write_resized:
  assumes "schema_ok d" "e \<in> set (events d)" "e_Status e \<noteq> EvCancelled" "e_Status e \<noteq> Ended"
    and "t \<in> set (ticket_tiers d)" "t_EventID t = e_ID e"
  shows "may_write_tier (t\<lparr>t_Name := n, t_Price := p\<rparr>) e d"
    and "q \<ge> t_Quantity t - t_Remaining t \<Longrightarrow> may_write_tier (resized (t\<lparr>t_Name := n, t_Price := p\<rparr>) q) e d"
  using same_tier_row [OF assms(1,5)] assms
  by (auto simp: may_write_tier_def resized_def Let_def)

lemma sound_updateTier: "sound_handler (updateTier a r b)"
  unfolding updateTier_def
  by (intro sound_with_event act_splits acts_return acts_with_uuid_param act_bind [OF act_Tiers_GetByID]
      acts_not_found_or_500 acts_with_payload acts_capacity act_pre [OF acts_save_tier])
    (auto intro!: may_write_resized)

lemma sound_deleteTier: "sound_handler (deleteTier a r)"
  unfolding deleteTier_def
  by (intro sound_with_event act_splits acts_return acts_with_uuid_param acts_bind act_pre [OF act_Tiers_Delete]
      acts_not_found_or_500)
    (use same_event_row in force)+

lemma sound_createTier: "sound_handler (createTier a b)"
  unfolding createTier_def
  by (intro sound_with_event acts_with_payload act_splits acts_return acts_capacity acts_bind
      act_pre [OF act_Tiers_Create])
    (use same_event_row in \<open>force simp: new_tier_def\<close>)+

text \<open>Purchases, check-in, waitlist.\<close>

lemma acts_respond_with_purchase: "acts P (respond_with_purchase p)"
  unfolding respond_with_purchase_def by (intro act_steps)

lemma acts_create_purchase_error: "acts P (create_purchase_error e err)"
  unfolding create_purchase_error_def by (cases err) (auto intro: acts_return)

lemma acts_cancel_purchase_error: "acts P (cancel_purchase_error err)"
  unfolding cancel_purchase_error_def by (cases err) (auto intro: acts_return)

lemma sound_getPurchase: "sound_handler (getPurchase a r)"
  unfolding getPurchase_def by (intro sound_with_user act_steps acts_respond_with_purchase)

lemma sound_cancelPurchase: "sound_handler (cancelPurchase a r)"
  unfolding cancelPurchase_def
  by (intro sound_with_user act_steps acts_respond_with_purchase acts_cancel_purchase_error)

lemma sound_checkIn: "sound_handler (checkIn a b)"
  unfolding checkIn_def by (intro sound_with_event act_steps)

lemma sound_leaveWaitlist: "sound_handler (leaveWaitlist a r)"
  unfolding leaveWaitlist_def by (intro sound_with_user act_steps)

lemma sound_getWaitlist: "sound_handler getWaitlist"
  unfolding getWaitlist_def by (intro sound_with_event act_steps)

lemma act_pure: "(A \<Longrightarrow> act P m Q) \<Longrightarrow> act (\<lambda>d. P d \<and> A) m Q"
  unfolding act_def by blast

lemma sound_createPurchase: "sound_handler (createPurchase a b)"
  unfolding createPurchase_def
proof (intro sound_with_user acts_with_payload acts_with_uuid_param acts_bind [OF act_acts [OF act_Tiers_GetByID]]
    act_case_sum acts_not_found_or_500 acts_bind [OF act_acts [OF act_Events_GetByID]] act_if acts_return
    acts_bind [OF act_acts [OF act_uuid_New]] act_bind [OF act_mint_tickets] act_pure
    acts_bind [OF act_Purchases_Create] act_case_prod acts_create_purchase_error)
qed (simp add: new_purchase_def)

lemma sound_joinWaitlist: "sound_handler (joinWaitlist a r)"
  unfolding joinWaitlist_def sound_handler_def with_user_def
  by (intro allI act_case_option acts_return acts_getPublicEvent act_if acts_with_uuid_param
      act_bind [OF act_Tiers_GetByID] act_case_sum acts_not_found_or_500
      act_bind [OF act_Purchases_HasConfirmedPurchase] acts_bind [OF act_pre [OF act_Waitlist_Create]])
    (use same_tier_row in \<open>auto simp: may_join_def new_entry_def\<close>)

subsection \<open>Accounts\<close>

lemma act_random:
  "act P auth_GenerateToken (\<lambda>_. P)" "act P GenerateRandomOAuthState (\<lambda>_. P)" "act P (HashPassword k pw ps) (\<lambda>_. P)"
proof -
  show "act P auth_GenerateToken (\<lambda>_. P)" "act P GenerateRandomOAuthState (\<lambda>_. P)"
    unfolding auth_GenerateToken_def GenerateRandomOAuthState_def
    by (rule acts_exec_same; auto simp: rand_Read_def Let_def)+
  have "act P (generateRandomBytes n) (\<lambda>_. P)" for n
    unfolding generateRandomBytes_def by (rule acts_exec_same) (auto simp: rand_Read_def)
  then show "act P (HashPassword k pw ps) (\<lambda>_. P)"
    unfolding HashPassword_def Let_def by (rule act_bind) (intro act_splits act_return; assumption)
qed

lemmas act_random_acts [act_intros] = act_random [THEN act_acts]

lemma acts_with_cookie [act_intros]: "acts P m \<Longrightarrow> acts P (with_cookie ck m)"
  unfolding with_cookie_def by (intro acts_bind acts_return)

lemma acts_issue_token [act_intros]: "acts P (issue_token i l)"
  unfolding issue_token_def by (intro act_steps act_intros)

lemma acts_allow_send [act_intros]: "acts P (allow_send i)"
  unfolding allow_send_def by (intro act_steps act_intros)

lemma acts_create_session [act_intros]: "acts P (create_session n user ip ua)"
proof (induction n arbitrary: P)
  case (Suc n)
  show ?case by (simp, intro act_steps act_intros Suc)
qed (simp add: acts_return)

lemma acts_with_verification: "(\<And>v. acts anything (f v)) \<Longrightarrow> acts P (with_verification t f)"
  unfolding with_verification_def invalid_token_def by (intro act_steps act_intros)

lemma acts_replace_token [act_intros]: "acts P (replace_token i l mail msg)"
  unfolding replace_token_def by (intro act_steps act_intros)

lemma acts_google_account [act_intros]: "acts P (google_account g scope)"
  unfolding google_account_def link_account_def by (intro act_steps act_intros)

lemma acts_google_session [act_intros]: "acts P (google_session a r user)"
  unfolding google_session_def by (intro act_steps act_intros)

lemma sound_accounts:
  "sound_handler (registerUser a b1)" "sound_handler (loginUser a r b2)" "sound_handler (logoutUser a)"
  "sound_handler (verifyEmail a b3)" "sound_handler (resendVerificationEmail a b4)"
  "sound_handler (forgotPassword a b5)" "sound_handler (resetPassword a b6)" "sound_handler (google a)"
  "sound_handler (googleCallback a r)"
  unfolding sound_handler_def registerUser_def loginUser_def logoutUser_def verifyEmail_def
    resendVerificationEmail_def forgotPassword_def resetPassword_def google_def googleCallback_def bad_login_def
  by (intro allI act_steps act_intros acts_with_verification)+

subsection \<open>Tasks\<close>

lemma acts_enqueue_promotions: "acts P (enqueue_promotions es)"
proof (induction es arbitrary: P)
  case (Cons e es)
  then show ?case by (auto intro!: acts_bind act_acts [OF act_Enqueue])
qed (simp add: acts_return)

lemma acts_send_each: "acts P (send_each ms)"
proof (induction ms arbitrary: P)
  case (Cons m ms)
  then show ?case by (auto intro!: acts_bind act_acts [OF act_send_mail])
qed (simp add: acts_return)

lemma acts_run_task: "acts P (run_task t)"
proof (cases t)
  case (NotifyWaitlistEntry tier)
  then show ?thesis by (simp add: HandleNotifyNextWaiting_def) (intro act_steps)
next
  case ExpireWaitlistReservations
  then show ?thesis
    by (simp add: HandleExpireWaitlistReservations_def) (intro act_steps acts_enqueue_promotions)
next
  case (NotifyBuyersUpdated i name changes at)
  then show ?thesis
    by (simp add: HandleNotifyBuyersUpdated_def) (intro act_steps acts_send_each)
next
  case (NotifyBuyersCancelled i name at buyers)
  then show ?thesis
    by (simp add: HandleNotifyBuyersCancelled_def) (intro act_steps acts_send_each)
qed (simp_all add: HandleSendVerificationTask_def HandleSendPwdResetTask_def HandleEndExpiredEvents_def,
    (intro act_steps)+)

end
