(* ===== verification/System.thy ===== *)
theory System
  imports Simulation
begin

section \<open>The running system\<close>

text \<open>
  The routes of \<^verbatim>\<open>cmd/server/api.go\<close> with their middleware, and the transitions of the whole
  system: a request is served, a task runs (asynq delivers a task at least once, in any order),
  time passes. \<open>reachable\<close> are the worlds that arise from an empty database.
\<close>

subsection \<open>Routes\<close>

datatype call =
    Health
  | Register "RegisterUserPayload req_body" | Login "LoginUserPayload req_body"
  | VerifyEmail "VerifyEmailPayload req_body" | ResendVerification "ResendVerificationPayload req_body"
  | ForgotPassword "ForgotPasswordPayload req_body" | ResetPassword "ResetPasswordPayload req_body"
  | Google | GoogleCallback
  | Me | BecomeOrganizer | Logout
  | ListEvents | GetEvent | ListTiers
  | JoinWaitlist | LeaveWaitlist
  | CreateEvent "CreateEventPayload req_body"
  | UpdateEvent "UpdateEventPayload req_body"
  | DeleteEvent | PublishEvent | CancelEvent | GetWaitlist
  | CheckIn "CheckInPayload req_body"
  | CreateTier "CreateTierPayload req_body"
  | UpdateTier "UpdateTierPayload req_body"
  | DeleteTier
  | ListPurchases
  | CreatePurchase "CreatePurchasePayload req_body"
  | GetPurchase | CancelPurchase

definition checkHealth :: handler where
  "checkHealth c = WriteData 200 (Status ''OK'')"

definition organizer_of :: "app \<Rightarrow> request \<Rightarrow> handler \<Rightarrow> handler" where
  "organizer_of a r h = requireAuth r (requireOrganizer (requireEventOrganizer a r h))"

fun mount :: "app \<Rightarrow> request \<Rightarrow> call \<Rightarrow> handler" where
  "mount a r Health = checkHealth"
| "mount a r (Register b) = registerUser a b"
| "mount a r (Login b) = loginUser a r b"
| "mount a r (VerifyEmail b) = verifyEmail a b"
| "mount a r (ResendVerification b) = resendVerificationEmail a b"
| "mount a r (ForgotPassword b) = forgotPassword a b"
| "mount a r (ResetPassword b) = resetPassword a b"
| "mount a r Google = google a"
| "mount a r GoogleCallback = googleCallback a r"
| "mount a r Logout = requireAuth r (logoutUser a)"
| "mount a r Me = requireAuth r getUser"
| "mount a r BecomeOrganizer = requireAuth r becomeOrganizer"
| "mount a r ListEvents = getPublishedEvents a r"
| "mount a r GetEvent = maybeAuth r (getEvent a r)"
| "mount a r ListTiers = maybeAuth r (listTiers a r)"
| "mount a r JoinWaitlist = requireAuth r (joinWaitlist a r)"
| "mount a r LeaveWaitlist = requireAuth r (leaveWaitlist a r)"
| "mount a r (CreateEvent b) = requireAuth r (requireOrganizer (createEvent a b))"
| "mount a r (UpdateEvent b) = organizer_of a r (updateEvent a b)"
| "mount a r DeleteEvent = organizer_of a r deleteEvent"
| "mount a r PublishEvent = organizer_of a r publishEvent"
| "mount a r CancelEvent = organizer_of a r cancelEvent"
| "mount a r GetWaitlist = organizer_of a r getWaitlist"
| "mount a r (CheckIn b) = organizer_of a r (checkIn a b)"
| "mount a r (CreateTier b) = organizer_of a r (createTier a b)"
| "mount a r (UpdateTier b) = organizer_of a r (updateTier a r b)"
| "mount a r DeleteTier = organizer_of a r (deleteTier a r)"
| "mount a r ListPurchases = requireAuth r (listPurchases r)"
| "mount a r (CreatePurchase b) = requireAuth r (createPurchase a b)"
| "mount a r GetPurchase = requireAuth r (getPurchase a r)"
| "mount a r CancelPurchase = requireAuth r (cancelPurchase a r)"

lemmas sound_handlers = sound_reads sound_accounts sound_createEvent sound_updateEvent sound_deleteEvent sound_publishEvent
  sound_cancelEvent sound_getEvent sound_listTiers sound_updateTier sound_deleteTier sound_createTier
  sound_getPurchase sound_cancelPurchase sound_checkIn sound_leaveWaitlist sound_getWaitlist
  sound_createPurchase sound_joinWaitlist

lemma sound_checkHealth: "sound_handler checkHealth"
  by (simp add: sound_handler_def checkHealth_def acts_return)

lemma sound_mount: "sound_handler (mount a r c)"
  by (cases c) (simp_all add: organizer_of_def sound_checkHealth sound_requireAuth sound_maybeAuth sound_requireOrganizer
    sound_requireEventOrganizer sound_handlers)

lemma acts_serve: "acts anything (mount a r c empty_ctx)"
  by (rule act_pre [OF sound_mount [unfolded sound_handler_def, rule_format]])
    (simp add: ctx_ok_def empty_ctx_def)

subsection \<open>Transitions\<close>

text \<open>A task may run again after it ran (a retry), or leave the queue.\<close>

definition may_run :: "world \<Rightarrow> task \<Rightarrow> bool" where
  "may_run w t \<longleftrightarrow> t \<in> set (tasks w) \<or> t = EndExpiredEvents \<or> t = ExpireWaitlistReservations"

inductive world_step :: "app \<Rightarrow> world \<Rightarrow> world \<Rightarrow> bool" for a where
  serve: "run_state (mount a r c empty_ctx) w = (resp, w') \<Longrightarrow> world_step a w w'"
| run: "may_run w t \<Longrightarrow> run_state (run_task t) w = (res, w') \<Longrightarrow> world_step a w w'"
| finished: "world_step a w (w\<lparr>tasks := removeAll t (tasks w)\<rparr>)"
| environment: "db_now w \<le> t \<Longrightarrow> go_now w \<le> t'
    \<Longrightarrow> world_step a w (w\<lparr>db_now := t, go_now := t', faults := fs, new_uuid := ids, rand_bytes := bs\<rparr>)"

definition initial :: "world \<Rightarrow> bool" where
  "initial w \<longleftrightarrow> db w = empty_db \<and> tasks w = [] \<and> outbox w = []"

definition reachable :: "app \<Rightarrow> world \<Rightarrow> bool" where
  "reachable a w \<longleftrightarrow> (\<exists>w0. initial w0 \<and> (world_step a)\<^sup>*\<^sup>* w0 w)"

inductive_cases world_stepE: "world_step a w w'"

subsection \<open>Every reachable database is a run of the abstract specification\<close>

lemma actsD: "acts anything m \<Longrightarrow> schema_ok (db w) \<Longrightarrow> run_state m w = (r, w') \<Longrightarrow> db_run (db w) (db w')"
  by (simp add: act_def)

lemma world_step_refines:
  assumes "world_step a w w'" and "schema_ok (db w)"
  shows "db_run (db w) (db w')"
  using assms
  by (induction rule: world_step.induct)
    (auto intro: actsD acts_serve acts_run_task)

lemma world_steps_refine:
  "(world_step a)\<^sup>*\<^sup>* w w' \<Longrightarrow> schema_ok (db w) \<Longrightarrow> db_run (db w) (db w')"
proof (induction rule: rtranclp_induct)
  case (step w1 w2)
  then have "db_run (db w) (db w1)" by blast
  moreover from this step.prems have "schema_ok (db w1)" by (blast intro: schema.run)
  ultimately show ?case using world_step_refines [OF step.hyps(2)] by (blast intro: db_run_trans)
qed simp

lemma reachable_refines: "reachable a w \<Longrightarrow> db_run empty_db (db w)"
  unfolding reachable_def initial_def using world_steps_refine schema.init by fastforce

context db_invariant
begin

lemma world: "reachable a w \<Longrightarrow> I (db w)"
  using reachable reachable_refines by blast

end

end
