(* ===== verification/Stock.thy ===== *)
theory Stock
  imports System
begin

section \<open>Invariants of sales\<close>

text \<open>
  What the steps keep of stock, purchases and tickets: a tier's quantity is what remains plus
  what is confirmed (at least, once the event is cancelled); a tier is sold out exactly when
  nothing remains; a purchase has as many tickets as its quantity, all of them cancelled exactly
  when it is; drafts have no purchases. Each is an instance of \<open>db_invariant_with\<close>.
\<close>

subsection \<open>Confirmed sales of a tier\<close>

definition sold_of :: "uuid \<Rightarrow> database \<Rightarrow> int" where
  "sold_of tier d = sum_where (\<lambda>p. p_TierID p = tier \<and> p_Status p = Confirmed) p_Quantity (purchases d)"

definition event_live :: "uuid \<Rightarrow> database \<Rightarrow> bool" where
  "event_live ev d \<longleftrightarrow> (\<exists>e \<in> set (events d). e_ID e = ev \<and> e_Status e \<noteq> EvCancelled)"

text \<open>Conservation: what is not confirmed of a live event's tier can still be sold.\<close>

definition tier_balanced :: "database \<Rightarrow> Tier \<Rightarrow> bool" where
  "tier_balanced d t \<longleftrightarrow> sold_of (t_ID t) d \<le> t_Quantity t - t_Remaining t
     \<and> (event_live (t_EventID t) d \<longrightarrow> sold_of (t_ID t) d = t_Quantity t - t_Remaining t)
     \<and> (t_Status t = SoldOut \<longleftrightarrow> t_Remaining t = 0)"

definition stock_ok :: "database \<Rightarrow> bool" where
  "stock_ok d \<longleftrightarrow> (\<forall>t \<in> set (ticket_tiers d). tier_balanced d t)"

lemma sold_of_same: "purchases d' = purchases d \<Longrightarrow> sold_of i d' = sold_of i d"
  by (simp add: sold_of_def)

lemma stock_same:
  assumes "stock_ok d" and "ticket_tiers d' = ticket_tiers d" and "purchases d' = purchases d"
    and "\<And>ev. event_live ev d' \<Longrightarrow> event_live ev d"
  shows "stock_ok d'"
  using assms by (auto simp: stock_ok_def tier_balanced_def sold_of_def)

lemma event_live_upd:
  assumes "event_live ev (put_events (upd c f (events d)) d)"
    and "\<And>e. e \<in> set (events d) \<Longrightarrow> c e \<Longrightarrow> e_ID (f e) = e_ID e"
    and "\<And>e. e \<in> set (events d) \<Longrightarrow> c e \<Longrightarrow> e_Status (f e) \<noteq> EvCancelled \<Longrightarrow> e_Status e \<noteq> EvCancelled"
  shows "event_live ev d"
proof -
  from assms(1) obtain e' where e': "e' \<in> set (upd c f (events d))" "e_ID e' = ev" "e_Status e' \<noteq> EvCancelled"
    by (auto simp: event_live_def)
  then obtain e where "e \<in> set (events d)" "e' = (if c e then f e else e)"
    using upd_mem [OF e'(1)] by blast
  with e' assms(2,3) show ?thesis unfolding event_live_def by (metis (full_types))
qed

subsection \<open>Sales and cancellations\<close>

lemma sold_of_append:
  "sold_of i (d\<lparr>purchases := purchases d @ [p]\<rparr>) = sold_of i d + (if p_TierID p = i \<and> p_Status p = Confirmed then p_Quantity p else 0)"
  by (simp add: sold_of_def)

lemma sell_live: "event_live ev' (sell p ks ev now d) \<Longrightarrow> event_live ev' d"
proof -
  obtain c where c: "events (sell p ks ev now d) = upd (\<lambda>e. c \<and> e_ID e = ev \<and> e_Status e = Published)
     (\<lambda>e. e\<lparr>e_Status := EvSoldOut, e_UpdatedAt := now\<rparr>) (events d)"
    using sell_events by blast
  assume "event_live ev' (sell p ks ev now d)"
  then have "event_live ev' (put_events (events (sell p ks ev now d)) d)"
    by (simp add: event_live_def)
  then show ?thesis unfolding c by (rule event_live_upd) auto
qed

lemma stock_sell:
  assumes "stock_ok d" and "p_Status p = Confirmed"
  shows "stock_ok (sell p ks ev now d)"
proof -
  let ?d' = "sell p ks ev now d"
  have sold: "sold_of i ?d' = sold_of i d + (if p_TierID p = i then p_Quantity p else 0)" for i
    using assms(2) by (simp add: sold_of_def sell_rows)
  show ?thesis
    unfolding stock_ok_def
  proof
    fix t' assume "t' \<in> set (ticket_tiers ?d')"
    then obtain t where t: "t \<in> set (ticket_tiers d)"
      and t': "t' = (if t_ID t = p_TierID p then sold_row (p_Quantity p) now t else t)"
      by (auto simp: sell_rows dest: upd_mem)
    from assms(1) t have "tier_balanced d t" by (simp add: stock_ok_def)
    then show "tier_balanced ?d' t'"
      using sell_live [of _ p ks ev now d] by (auto simp: t' tier_balanced_def sold)
  qed
qed

lemma sold_of_cancel_one:
  assumes "keyed p_ID ps" and "p \<in> set ps" and "p_Status p = Confirmed"
  shows "sum_where (\<lambda>x. p_TierID x = i \<and> p_Status x = Confirmed) p_Quantity
      (cancel_purchase_rows (\<lambda>x. p_ID x = p_ID p) now ps)
    = sum_where (\<lambda>x. p_TierID x = i \<and> p_Status x = Confirmed) p_Quantity ps
      - (if p_TierID p = i then p_Quantity p else 0)"
  unfolding cancel_purchase_rows_def
  using assms by (subst sum_where_upd_key [OF assms(1,2) refl]) auto

lemma take_back_live: "event_live ev' (take_back p ev now d) \<Longrightarrow> event_live ev' d"
  by (fastforce simp: event_live_def take_back_def flip_status_def set_upd)

lemma stock_take_back:
  assumes "schema_ok d" and "stock_ok d" and "p \<in> set (purchases d)" and "p_Status p = Confirmed"
  shows "stock_ok (take_back p ev now d)"
proof -
  let ?d' = "take_back p ev now d"
  have sold: "sold_of i ?d' = sold_of i d - (if p_TierID p = i then p_Quantity p else 0)" for i
    using sold_of_cancel_one [OF schema_keyed(4) [OF assms(1)] assms(3,4)]
    by (simp add: sold_of_def take_back_def flip_status_def)
  from schema_checks(3) [OF assms(1,3)] have q: "0 < p_Quantity p"
    by (simp add: purchase_check_def)
  show ?thesis
    unfolding stock_ok_def
  proof
    fix t' assume "t' \<in> set (ticket_tiers ?d')"
    then obtain t where t: "t \<in> set (ticket_tiers d)"
      and t': "t' = (if t_ID t = p_TierID p then returned_row (p_Quantity p) now t else t)"
      by (auto simp: take_back_def flip_status_def dest: upd_mem)
    from assms(2) t have "tier_balanced d t" by (simp add: stock_ok_def)
    moreover from assms(1) t have "0 \<le> t_Remaining t"
      by (auto simp: schema_ok_def checks_ok_def tier_check_def)
    ultimately show "tier_balanced ?d' t'"
      using q take_back_live [of _ p ev now d] by (auto simp: t' tier_balanced_def sold)
  qed
qed

text \<open>Cancelling all purchases only frees what was sold, of an event that is not live.\<close>

lemma sum_where_cancelled_le:
  "\<forall>p \<in> set ps. 0 \<le> p_Quantity p \<Longrightarrow>
    sum_where (\<lambda>p. p_TierID p = i \<and> p_Status p = Confirmed) p_Quantity (cancel_purchase_rows c now ps)
      \<le> sum_where (\<lambda>p. p_TierID p = i \<and> p_Status p = Confirmed) p_Quantity ps"
  by (induction ps) (auto simp: cancel_purchase_rows_def)

lemma stock_cancel_all:
  assumes S: "schema_ok d" and "stock_ok d" and ev: "\<forall>e \<in> set (events d). e_ID e = ev \<longrightarrow> e_Status e = EvCancelled"
  shows "stock_ok (cancel_all ev now d)"
  unfolding stock_ok_def
proof
  fix t assume "t \<in> set (ticket_tiers (cancel_all ev now d))"
  then have t: "t \<in> set (ticket_tiers d)" by (simp add: cancel_all_def)
  have live: "event_live e (cancel_all ev now d) = event_live e d" for e
    by (simp add: event_live_def cancel_all_def)
  have "\<forall>p \<in> set (purchases d). 0 \<le> p_Quantity p"
    using S by (auto simp: schema_ok_def checks_ok_def purchase_check_def)
  then have le: "sold_of (t_ID t) (cancel_all ev now d) \<le> sold_of (t_ID t) d"
    unfolding sold_of_def cancel_all_def by (simp add: sum_where_cancelled_le)
  have same: "sold_of (t_ID t) (cancel_all ev now d) = sold_of (t_ID t) d" if "t_EventID t \<noteq> ev"
  proof -
    have "\<not> of_event d ev (t_ID t)"
      using that t keyed_unique [OF schema_keyed(3) [OF S]] by (auto simp: of_event_def list_ex_iff)
    then show ?thesis
      unfolding sold_of_def cancel_all_def cancel_purchase_rows_def
      by (simp, intro sum_where_upd_same) auto
  qed
  have dead: "\<not> event_live (t_EventID t) d" if "t_EventID t = ev"
    using that ev by (auto simp: event_live_def)
  from assms(2) t have "tier_balanced d t" by (simp add: stock_ok_def)
  with le same dead show "tier_balanced (cancel_all ev now d) t"
    by (cases "t_EventID t = ev") (auto simp: tier_balanced_def live)
qed

subsection \<open>Editing and dropping tiers\<close>

lemma stock_edit_tier:
  assumes "schema_ok d" and "stock_ok d"
    and same: "\<forall>t \<in> set (ticket_tiers d). t_ID t = i \<longrightarrow> same_sales t (f t) \<and> tier_check (f t)"
  shows "stock_ok (put_tiers (upd (\<lambda>t. t_ID t = i) f (ticket_tiers d)) d)"
  unfolding stock_ok_def
proof
  fix t' assume "t' \<in> set (ticket_tiers (put_tiers (upd (\<lambda>t. t_ID t = i) f (ticket_tiers d)) d))"
  then obtain t where t: "t \<in> set (ticket_tiers d)" and t': "t' = (if t_ID t = i then f t else t)"
    by (auto dest: upd_mem)
  from assms(2) t have "tier_balanced d t" by (simp add: stock_ok_def)
  with t' same [rule_format, OF t]
  show "tier_balanced (put_tiers (upd (\<lambda>t. t_ID t = i) f (ticket_tiers d)) d) t'"
    by (auto simp: tier_balanced_def same_sales_def sold_of_def event_live_def)
qed

lemma gone_tiers:
  "schema_ok d \<Longrightarrow> t \<in> set (ticket_tiers d) \<Longrightarrow> \<not> c t
    \<Longrightarrow> \<forall>x \<in> set (ticket_tiers d). c x \<longrightarrow> t_ID x \<noteq> t_ID t"
  using same_tier_row by blast

lemma stock_drop_tiers:
  assumes "schema_ok d" and "stock_ok d"
  shows "stock_ok (drop_tiers c d)"
  unfolding stock_ok_def
proof
  fix t assume "t \<in> set (ticket_tiers (drop_tiers c d))"
  then have t: "t \<in> set (ticket_tiers d)" "\<not> c t" by (auto simp: drop_tiers_def Let_def)
  have "sold_of (t_ID t) (drop_tiers c d) = sold_of (t_ID t) d"
    using gone_tiers [where c = c, OF assms(1) t]
    unfolding sold_of_def drop_tiers_def Let_def
    by (simp add: sum_where_filter, intro sum_where_cong) auto
  moreover from assms(2) t have "tier_balanced d t" by (simp add: stock_ok_def)
  ultimately show "tier_balanced (drop_tiers c d) t"
    by (simp add: tier_balanced_def event_live_def drop_tiers_def Let_def)
qed

lemma stock_drop_event:
  assumes "schema_ok d" and "stock_ok d"
  shows "stock_ok (drop_event i d)"
proof -
  have "stock_ok (drop_tiers (\<lambda>t. t_EventID t = i) d)" by (rule stock_drop_tiers [OF assms])
  then show ?thesis
    by (rule stock_same) (auto simp: drop_event_def drop_tiers_def Let_def event_live_def)
qed

lemma stock_flip: "stock_ok d \<Longrightarrow> EvCancelled \<notin> set from \<Longrightarrow> stock_ok (flip_status from to ev now d)"
  unfolding flip_status_def by (erule stock_same) (auto elim!: event_live_upd)

lemma stock_ended: "stock_ok d \<Longrightarrow> stock_ok (end_expired now d)"
  unfolding end_expired_def by (erule stock_same) (auto elim!: event_live_upd)

lemma stock_step: "db_step d d' \<Longrightarrow> schema_ok d \<Longrightarrow> stock_ok d \<Longrightarrow> stock_ok d'"
proof (induction rule: db_step.induct)
  case (sold t d p ev e now u ks)
  then show ?case by (simp add: stock_sell)
next
  case (taken_back p d t ev now)
  then show ?case by (simp add: stock_take_back)
next
  case (all_cancelled d ev now)
  then show ?case by (simp add: stock_cancel_all)
next
  case (tier_edited e d i f)
  then show ?case by (intro stock_edit_tier)
next
  case (tier_dropped d ev i)
  then show ?case by (intro stock_drop_tiers)
next
  case (event_dropped d i)
  then show ?case by (intro stock_drop_event)
next
  case (tier_added t d e)
  have "sold_of (t_ID t) d = 0"
  proof -
    have "p_TierID p \<noteq> t_ID t" if "p \<in> set (purchases d)" for p
      using schema_refs(2) [OF tier_added.prems(1) that] tier_added.hyps(2) by (auto simp: tier_clash_def)
    then show ?thesis unfolding sold_of_def by (intro sum_where_none) auto
  qed
  with tier_added show ?case
    by (auto simp: stock_ok_def tier_balanced_def sold_of_def event_live_def tier_check_def)
next
  case (event_edited d i f)
  show ?case
  proof (rule stock_same [OF event_edited.prems(2)])
    fix ev assume "event_live ev (put_events (upd (\<lambda>e. e_ID e = i) f (events d)) d)"
    then show "event_live ev d"
      by (rule event_live_upd) (use event_edited.hyps in \<open>auto simp: same_event_def\<close>)
  qed simp_all
next
  case (event_added e d)
  have "\<forall>t \<in> set (ticket_tiers d). e_ID e \<noteq> t_EventID t"
    using schema_refs(1) [OF event_added.prems(1)] event_added.hyps(2) by (fastforce simp: event_clash_def)
  with event_added.prems(2) show ?case
    by (auto simp: stock_ok_def tier_balanced_def sold_of_def event_live_def)
qed (simp_all add: stock_flip stock_ended,
  (rule stock_same; simp add: admit_def notify_entry_def expire_entries_def event_live_def)+)

interpretation stock: db_invariant_with schema_ok stock_ok
proof unfold_locales
  show "stock_ok empty_db" by (simp add: stock_ok_def empty_db_def)
qed (rule stock_step)

end
