(* ===== verification/Ticketing.thy ===== *)
theory Ticketing
  imports Stock
begin

section \<open>Invariants of purchases, tickets and waitlist entries\<close>

text \<open>
  Further instances of \<open>db_invariant_with\<close>: the tickets of a purchase, no purchases below a draft
  event, and the shape of waitlist entries.
\<close>

subsection \<open>The tickets of a purchase\<close>

definition tickets_of :: "uuid \<Rightarrow> database \<Rightarrow> Ticket list" where
  "tickets_of i d = filter (\<lambda>k. k_PurchaseID k = i) (tickets d)"

definition purchase_matched :: "database \<Rightarrow> Purchase \<Rightarrow> bool" where
  "purchase_matched d p \<longleftrightarrow> int (length (tickets_of (p_ID p) d)) = p_Quantity p \<and> p_Status p \<noteq> Refunded
     \<and> (\<forall>k \<in> set (tickets_of (p_ID p) d). k_Status k = TkCancelled \<longleftrightarrow> p_Status p = PuCancelled)"

definition tickets_ok :: "database \<Rightarrow> bool" where
  "tickets_ok d \<longleftrightarrow> (\<forall>p \<in> set (purchases d). purchase_matched d p)"

lemma tickets_same:
  "tickets_ok d \<Longrightarrow> purchases d' = purchases d \<Longrightarrow> tickets d' = tickets d \<Longrightarrow> tickets_ok d'"
  by (simp add: tickets_ok_def purchase_matched_def tickets_of_def)

lemma tickets_of_upd:
  "(\<And>k. k_PurchaseID (f k) = k_PurchaseID k)
    \<Longrightarrow> filter (\<lambda>k. k_PurchaseID k = i) (upd c f ks) = upd c f (filter (\<lambda>k. k_PurchaseID k = i) ks)"
  by (induction ks) auto

lemma length_upd [simp]: "length (upd c f rs) = length rs"
  by (simp add: upd_def)

lemma tickets_sell:
  assumes S: "schema_ok d" and T: "tickets_ok d" and fresh: "\<forall>x \<in> set (purchases d). \<not> purchase_clash p x"
    and "p_Status p = Confirmed" and "int (length ks) = p_Quantity p"
  shows "tickets_ok (sell p ks ev now d)"
proof -
  have old: "k_PurchaseID k \<noteq> p_ID p" if "k \<in> set (tickets d)" for k
    using schema_ticket_ref [OF S that] fresh by (auto simp: purchase_clash_def)
  have new: "tickets_of (p_ID p) (sell p ks ev now d) = map (ticket_of p now) ks"
    using old by (auto simp: tickets_of_def sell_rows filter_empty_conv intro: filter_True)
  have "purchase_matched (sell p ks ev now d) p"
    using assms(4,5) by (simp add: purchase_matched_def new)
  moreover have "purchase_matched (sell p ks ev now d) x" if x: "x \<in> set (purchases d)" for x
  proof -
    have "p_ID p \<noteq> p_ID x" using fresh x by (auto simp: purchase_clash_def)
    then have "tickets_of (p_ID x) (sell p ks ev now d) = tickets_of (p_ID x) d"
      by (simp add: tickets_of_def sell_rows)
    with T x show ?thesis by (simp add: tickets_ok_def purchase_matched_def)
  qed
  ultimately show ?thesis by (simp add: tickets_ok_def sell_rows)
qed

lemma tickets_take_back:
  assumes S: "schema_ok d" and T: "tickets_ok d" and p: "p \<in> set (purchases d)"
  shows "tickets_ok (take_back p ev now d)"
  unfolding tickets_ok_def
proof
  fix x' assume "x' \<in> set (purchases (take_back p ev now d))"
  then obtain x where x: "x \<in> set (purchases d)"
    and x': "x' = (if p_ID x = p_ID p then x\<lparr>p_Status := PuCancelled, p_UpdatedAt := now\<rparr> else x)"
    by (auto simp: take_back_def flip_status_def cancel_purchase_rows_def dest: upd_mem)
  have ts: "tickets_of i (take_back p ev now d)
      = cancel_ticket_rows (\<lambda>k. k_PurchaseID k = p_ID p) now (tickets_of i d)" for i
    by (simp add: tickets_of_def take_back_def flip_status_def cancel_ticket_rows_def tickets_of_upd)
  have "k_PurchaseID k = p_ID x" if "k \<in> set (tickets_of (p_ID x) d)" for k
    using that by (simp add: tickets_of_def)
  with T x show "purchase_matched (take_back p ev now d) x'"
    by (auto simp: x' ts tickets_ok_def purchase_matched_def cancel_ticket_rows_def dest!: upd_mem)
qed

lemma tickets_cancel_all:
  assumes S: "schema_ok d" and T: "tickets_ok d"
  shows "tickets_ok (cancel_all ev now d)"
  unfolding tickets_ok_def
proof
  let ?c = "\<lambda>p. of_event d ev (p_TierID p) \<and> p_Status p = Confirmed"
  let ?k = "\<lambda>k. list_ex (\<lambda>p. p_ID p = k_PurchaseID k \<and> of_event d ev (p_TierID p)) (purchases d)
            \<and> k_Status k \<noteq> TkCancelled"
  fix x' assume "x' \<in> set (purchases (cancel_all ev now d))"
  then obtain x where x: "x \<in> set (purchases d)"
    and x': "x' = (if ?c x then x\<lparr>p_Status := PuCancelled, p_UpdatedAt := now\<rparr> else x)"
    by (auto simp: cancel_all_def cancel_purchase_rows_def dest: upd_mem)
  have ts: "tickets_of (p_ID x) (cancel_all ev now d) = cancel_ticket_rows ?k now (tickets_of (p_ID x) d)"
    by (simp add: tickets_of_def cancel_all_def cancel_ticket_rows_def tickets_of_upd)
  have "list_ex (\<lambda>p. p_ID p = k_PurchaseID k \<and> of_event d ev (p_TierID p)) (purchases d) \<longleftrightarrow> of_event d ev (p_TierID x)"
    if "k \<in> set (tickets_of (p_ID x) d)" for k
    using that x keyed_unique [OF schema_keyed(4) [OF S]] by (auto simp: tickets_of_def list_ex_iff)
  moreover have "purchase_matched d x" using T x by (simp add: tickets_ok_def)
  ultimately show "purchase_matched (cancel_all ev now d) x'"
    by (cases "p_Status x")
      (auto simp: x' ts purchase_matched_def cancel_ticket_rows_def set_upd split: if_splits)
qed

lemma tickets_admit:
  assumes T: "tickets_ok d" and "\<forall>k \<in> set (tickets d). k_ID k = i \<longrightarrow> k_Status k = Unused"
  shows "tickets_ok (admit i now d)"
  unfolding tickets_ok_def
proof
  fix x assume x: "x \<in> set (purchases (admit i now d))"
  have ts: "tickets_of (p_ID x) (admit i now d) = upd (\<lambda>k. k_ID k = i)
     (\<lambda>k. k\<lparr>k_Status := Used, k_CheckedInAt := Some now, k_UpdatedAt := now\<rparr>) (tickets_of (p_ID x) d)"
    by (simp add: tickets_of_def admit_def tickets_of_upd)
  have unused: "k_Status k = Unused" if "k \<in> set (tickets_of (p_ID x) d)" "k_ID k = i" for k
    using that assms(2) by (simp add: tickets_of_def)
  have "purchase_matched d x" using x T by (simp add: tickets_ok_def admit_def)
  then show "purchase_matched (admit i now d) x"
    using unused by (auto simp: purchase_matched_def ts dest!: upd_mem split: if_splits) fastforce
qed

lemma tickets_drop_tiers:
  assumes S: "schema_ok d" and T: "tickets_ok d"
  shows "tickets_ok (drop_tiers c d)"
  unfolding tickets_ok_def
proof
  fix p assume "p \<in> set (purchases (drop_tiers c d))"
  then have p: "p \<in> set (purchases d)" and kept: "\<forall>t \<in> set (ticket_tiers d). c t \<longrightarrow> t_ID t \<noteq> p_TierID p"
    by (auto simp: drop_tiers_def Let_def image_iff)
  have same: "x = p" if "x \<in> set (purchases d)" "p_ID x = p_ID p" for x
    using that p by (intro keyed_unique [OF schema_keyed(4) [OF S]])
  have "k_TierID k = p_TierID p" if "k \<in> set (tickets d)" "k_PurchaseID k = p_ID p" for k
    using schema_ticket_ref [OF S that(1)] that(2) by (metis same)
  moreover have "p_TierID x = p_TierID p" if "x \<in> set (purchases d)" "p_ID x = p_ID p" for x
    using same [OF that] by simp
  ultimately have "tickets_of (p_ID p) (drop_tiers c d) = tickets_of (p_ID p) d"
    using kept unfolding tickets_of_def drop_tiers_def Let_def
    by (simp, intro filter_cong refl) fastforce
  with T p show "purchase_matched (drop_tiers c d) p"
    by (simp add: tickets_ok_def purchase_matched_def)
qed

lemma tickets_step: "db_step d d' \<Longrightarrow> schema_ok d \<Longrightarrow> tickets_ok d \<Longrightarrow> tickets_ok d'"
proof (induction rule: db_step.induct)
  case (sold t d p ev e now u ks)
  then show ?case by (simp add: tickets_sell)
next
  case (taken_back p d t ev now)
  then show ?case by (simp add: tickets_take_back)
next
  case (all_cancelled d ev now)
  then show ?case by (simp add: tickets_cancel_all)
next
  case (admitted d i now)
  then show ?case by (simp add: tickets_admit)
next
  case (tier_dropped d ev i)
  then show ?case by (intro tickets_drop_tiers)
next
  case (event_dropped d i)
  have "tickets_ok (drop_tiers (\<lambda>t. t_EventID t = i) d)"
    using event_dropped.prems by (rule tickets_drop_tiers)
  then show ?case by (rule tickets_same) (simp_all add: drop_event_def drop_tiers_def Let_def)
qed (erule tickets_same; simp add: flip_status_def end_expired_def notify_entry_def expire_entries_def)+

interpretation ticketing: db_invariant_with schema_ok tickets_ok
proof unfold_locales
  show "tickets_ok empty_db" by (simp add: tickets_ok_def empty_db_def)
qed (rule tickets_step)

subsection \<open>Drafts have no purchases\<close>

definition drafts_ok :: "database \<Rightarrow> bool" where
  "drafts_ok d \<longleftrightarrow> (\<forall>p \<in> set (purchases d). \<forall>t \<in> set (ticket_tiers d). \<forall>e \<in> set (events d).
     p_TierID p = t_ID t \<and> t_EventID t = e_ID e \<longrightarrow> e_Status e \<noteq> Draft)"

text \<open>The changes that keep it: no new purchase, no new tier below a draft's purchases, no new draft.\<close>

lemma drafts_mono:
  assumes "drafts_ok d"
    and "\<And>p. p \<in> set (purchases d') \<Longrightarrow> \<exists>p0 \<in> set (purchases d). p_TierID p0 = p_TierID p"
    and "\<And>t. t \<in> set (ticket_tiers d') \<Longrightarrow> \<exists>t0 \<in> set (ticket_tiers d). t_ID t0 = t_ID t \<and> t_EventID t0 = t_EventID t"
    and "\<And>e. e \<in> set (events d') \<Longrightarrow> e_Status e = Draft \<Longrightarrow> \<exists>e0 \<in> set (events d). e_ID e0 = e_ID e \<and> e_Status e0 = Draft"
  shows "drafts_ok d'"
  unfolding drafts_ok_def
proof (intro ballI impI notI)
  fix p t e
  assume "p \<in> set (purchases d')" "t \<in> set (ticket_tiers d')" "e \<in> set (events d')"
    and eq: "p_TierID p = t_ID t \<and> t_EventID t = e_ID e" and "e_Status e = Draft"
  with assms(2-4) obtain p0 t0 e0 where "p0 \<in> set (purchases d)" "p_TierID p0 = p_TierID p"
    "t0 \<in> set (ticket_tiers d)" "t_ID t0 = t_ID t" "t_EventID t0 = t_EventID t"
    "e0 \<in> set (events d)" "e_ID e0 = e_ID e" "e_Status e0 = Draft" by meson
  with assms(1) eq show False unfolding drafts_ok_def by metis
qed

lemma drafts_flip: "drafts_ok d \<Longrightarrow> to \<noteq> Draft \<Longrightarrow> drafts_ok (flip_status from to ev now d)"
  by (erule drafts_mono) (auto simp: flip_status_def dest!: upd_mem split: if_splits)

lemma drafts_sell:
  assumes S: "schema_ok d" and D: "drafts_ok d" and t: "t \<in> set (ticket_tiers d)" "t_ID t = p_TierID p"
    and e: "e \<in> set (events d)" "e_ID e = t_EventID t" "e_Status e = Published"
  shows "drafts_ok (sell p ks (t_EventID t) now d)"
proof -
  let ?d = "d\<lparr>ticket_tiers := upd (\<lambda>t. t_ID t = p_TierID p) (sold_row (p_Quantity p) now) (ticket_tiers d),
                 purchases := purchases d @ [p], tickets := tickets d @ map (ticket_of p now) ks\<rparr>"
  have "drafts_ok (d\<lparr>purchases := purchases d @ [p]\<rparr>)"
    unfolding drafts_ok_def
  proof (intro ballI impI)
    fix x t' e'
    assume x: "x \<in> set (purchases (d\<lparr>purchases := purchases d @ [p]\<rparr>))"
      and "t' \<in> set (ticket_tiers (d\<lparr>purchases := purchases d @ [p]\<rparr>))" "e' \<in> set (events (d\<lparr>purchases := purchases d @ [p]\<rparr>))"
      and eq: "p_TierID x = t_ID t' \<and> t_EventID t' = e_ID e'"
    then have t': "t' \<in> set (ticket_tiers d)" and e': "e' \<in> set (events d)" by simp_all
    show "e_Status e' \<noteq> Draft"
    proof (cases "x = p")
      case True
      with eq t t' have "t' = t" by (intro keyed_unique [OF schema_keyed(3) [OF S]]) simp_all
      with eq e e' have "e' = e" by (intro keyed_unique [OF schema_keyed(2) [OF S]]) simp_all
      with e show ?thesis by simp
    next
      case False
      with x eq t' e' D show ?thesis by (auto simp: drafts_ok_def)
    qed
  qed
  then have "drafts_ok ?d" by (rule drafts_mono) (auto dest!: upd_mem)
  then show ?thesis by (simp add: sell_def Let_def drafts_flip)
qed

lemma drafts_edit_event:
  assumes "drafts_ok d" and "\<forall>e \<in> set (events d). e_ID e = i \<longrightarrow> same_event e (f e)"
  shows "drafts_ok (put_events (upd (\<lambda>e. e_ID e = i) f (events d)) d)"
  by (rule drafts_mono [OF assms(1)])
    (use assms(2) in \<open>auto simp: same_event_def dest!: upd_mem split: if_splits\<close>)

lemma drafts_edit_tier:
  assumes "drafts_ok d" and "\<forall>t \<in> set (ticket_tiers d). t_ID t = i \<longrightarrow> same_sales t (f t)"
  shows "drafts_ok (put_tiers (upd (\<lambda>t. t_ID t = i) f (ticket_tiers d)) d)"
  by (rule drafts_mono [OF assms(1)])
    (use assms(2) in \<open>auto simp: same_sales_def dest!: upd_mem split: if_splits\<close>)

lemma drafts_step: "db_step d d' \<Longrightarrow> schema_ok d \<Longrightarrow> drafts_ok d \<Longrightarrow> drafts_ok d'"
proof (induction rule: db_step.induct)
  case (sold t d p ev e now u ks)
  then show ?case using drafts_sell [of d t p e ks now] by simp
next
  case (event_edited d i f)
  then show ?case by (intro drafts_edit_event) simp_all
next
  case (tier_edited e d i f)
  then show ?case by (intro drafts_edit_tier) simp_all
next
  case (taken_back p d t ev now)
  show ?case unfolding take_back_def
    by (rule drafts_flip, rule drafts_mono [OF taken_back.prems(2)])
      (auto simp: cancel_purchase_rows_def dest!: upd_mem)
next
  case (all_cancelled d ev now)
  show ?case
    by (rule drafts_mono [OF all_cancelled.prems(2)])
      (auto simp: cancel_all_def cancel_purchase_rows_def dest!: upd_mem)
next
  case (events_ended d now)
  show ?case
    by (rule drafts_mono [OF events_ended.prems(2)]) (auto simp: end_expired_def dest!: upd_mem split: if_splits)
next
  case (event_added e d)
  have "\<forall>t \<in> set (ticket_tiers d). e_ID e \<noteq> t_EventID t"
    using schema_refs(1) [OF event_added.prems(1)] event_added.hyps(2) by (fastforce simp: event_clash_def)
  with event_added.prems(2) show ?case by (auto simp: drafts_ok_def)
next
  case (tier_added t d e)
  have "\<forall>p \<in> set (purchases d). t_ID t \<noteq> p_TierID p"
    using schema_refs(2) [OF tier_added.prems(1)] tier_added.hyps(2) by (fastforce simp: tier_clash_def)
  with tier_added.prems(2) show ?case by (auto simp: drafts_ok_def)
qed (simp_all add: drafts_flip,
  (erule drafts_mono; auto simp: drop_event_def drop_tiers_def Let_def admit_def notify_entry_def expire_entries_def)+)

interpretation drafts: db_invariant_with schema_ok drafts_ok
proof unfold_locales
  show "drafts_ok empty_db" by (simp add: drafts_ok_def empty_db_def)
qed (rule drafts_step)

subsection \<open>The waitlist\<close>

definition entry_ok :: "WaitlistEntry \<Rightarrow> bool" where
  "entry_ok e \<longleftrightarrow> w_Status e \<noteq> Purchased
     \<and> (w_Status e = Notified \<longrightarrow> (\<exists>t. w_NotifiedAt e = Some t \<and> w_ExpiresAt e = Some (t + 24 * time_Hour)))"

definition waitlist_ok :: "database \<Rightarrow> bool" where
  "waitlist_ok d \<longleftrightarrow> (\<forall>e \<in> set (waitlist_entries d). entry_ok e)"

lemma waitlist_same: "waitlist_ok d \<Longrightarrow> waitlist_entries d' = waitlist_entries d \<Longrightarrow> waitlist_ok d'"
  by (simp add: waitlist_ok_def)

lemma waitlist_step: "db_step d d' \<Longrightarrow> waitlist_ok d \<Longrightarrow> waitlist_ok d'"
proof (induction rule: db_step.induct)
  case (notified d i at now)
  then show ?case by (auto simp: waitlist_ok_def notify_entry_def entry_ok_def dest!: upd_mem split: if_splits)
next
  case (expired d now)
  then show ?case by (auto simp: waitlist_ok_def expire_entries_def entry_ok_def dest!: upd_mem split: if_splits)
qed (simp_all add: waitlist_ok_def entry_ok_def drop_event_def drop_tiers_def Let_def flip_status_def
  end_expired_def take_back_def cancel_all_def admit_def sell_rows)

interpretation waitlist: db_invariant waitlist_ok
proof unfold_locales
  show "waitlist_ok empty_db" by (simp add: waitlist_ok_def empty_db_def)
qed (rule waitlist_step)

end
