(* ===== verification/Lifecycle.thy ===== *)
theory Lifecycle
  imports Ticketing
begin

section \<open>Lifecycles\<close>

text \<open>
  The interface \<open>lifecycle\<close>: rows of a table enter with a first status, move along a relation,
  and leave only from the first status. Along any run the status of a row then follows the
  relation, and a row that has left its first status stays. Instances: events, purchases, tickets.
\<close>

subsection \<open>All invariants together\<close>

definition core_ok :: "database \<Rightarrow> bool" where
  "core_ok d \<longleftrightarrow> schema_ok d \<and> stock_ok d \<and> tickets_ok d \<and> drafts_ok d \<and> waitlist_ok d"

interpretation core: db_invariant core_ok
proof unfold_locales
  show "core_ok empty_db"
    by (simp add: core_ok_def schema.init stock.init_with ticketing.init_with drafts.init_with waitlist.init)
  show "core_ok d \<Longrightarrow> db_step d d' \<Longrightarrow> core_ok d'" for d d'
    unfolding core_ok_def
    using schema.step stock.step_with ticketing.step_with drafts.step_with waitlist.step by blast
qed

lemma core_schema: "core_ok d \<Longrightarrow> schema_ok d"
  by (simp add: core_ok_def)

subsection \<open>The interface\<close>

locale lifecycle =
  fixes rows :: "database \<Rightarrow> 'r list" and key :: "'r \<Rightarrow> uuid" and status :: "'r \<Rightarrow> 's"
    and moves :: "'s \<Rightarrow> 's \<Rightarrow> bool" and first :: 's
  assumes move: "core_ok d \<Longrightarrow> db_step d d' \<Longrightarrow> r \<in> set (rows d) \<Longrightarrow> r' \<in> set (rows d') \<Longrightarrow> key r' = key r
      \<Longrightarrow> status r' = status r \<or> moves (status r) (status r')"
    and enter: "core_ok d \<Longrightarrow> db_step d d' \<Longrightarrow> r' \<in> set (rows d') \<Longrightarrow> \<forall>r \<in> set (rows d). key r \<noteq> key r'
      \<Longrightarrow> status r' = first"
    and leave: "core_ok d \<Longrightarrow> db_step d d' \<Longrightarrow> r \<in> set (rows d) \<Longrightarrow> \<forall>r' \<in> set (rows d'). key r' \<noteq> key r
      \<Longrightarrow> status r = first"
    and unique: "core_ok d \<Longrightarrow> keyed key (rows d)"
    and unmoved: "\<not> moves s first"
begin

lemma first_back: "moves\<^sup>*\<^sup>* s first \<Longrightarrow> s = first"
  by (erule rtranclp.cases) (auto simp: unmoved)

lemma run:
  assumes "db_run d d'" and "core_ok d" and "r \<in> set (rows d)"
  shows "(\<forall>r' \<in> set (rows d'). key r' = key r \<longrightarrow> moves\<^sup>*\<^sup>* (status r) (status r'))
    \<and> (status r = first \<or> (\<exists>r' \<in> set (rows d'). key r' = key r))"
  using assms unfolding db_run_def
proof (induction rule: rtranclp_induct)
  case base
  have "r' = r" if "r' \<in> set (rows d)" "key r' = key r" for r'
    using keyed_unique [OF unique] base that by blast
  then show ?case using base by auto
next
  case (step d1 d2)
  then have IH: "\<forall>r' \<in> set (rows d1). key r' = key r \<longrightarrow> moves\<^sup>*\<^sup>* (status r) (status r')"
    and present: "status r = first \<or> (\<exists>r' \<in> set (rows d1). key r' = key r)" by blast+
  from step have "core_ok d1" using core.run unfolding db_run_def by blast
  note this_step = move [OF this step.hyps(2)] enter [OF this step.hyps(2)] leave [OF this step.hyps(2)]
  show ?case
  proof (cases "\<exists>r1 \<in> set (rows d1). key r1 = key r")
    case True
    then obtain r1 where r1: "r1 \<in> set (rows d1)" "key r1 = key r" by blast
    with IH have "moves\<^sup>*\<^sup>* (status r) (status r1)" by blast
    moreover from this have "status r1 = first \<longrightarrow> status r = first" by (metis first_back)
    ultimately show ?thesis
      using this_step(1) [OF r1(1)] this_step(3) [OF r1(1)] r1(2) by (metis rtranclp.rtrancl_into_rtrancl)
  next
    case False
    with present have "status r = first" by blast
    moreover have "status r' = first" if "r' \<in> set (rows d2)" "key r' = key r" for r'
      using this_step(2) [OF that(1)] False that(2) by auto
    ultimately show ?thesis by simp
  qed
qed

end

subsection \<open>Tables changed by updates, insertions and guarded deletions\<close>

text \<open>
  An update that keeps keys and moves statuses; a table whose steps are such updates, insertions
  of rows with the first status, or deletions of such rows, has a lifecycle.
\<close>

definition edited :: "('r \<Rightarrow> uuid) \<Rightarrow> ('r \<Rightarrow> 's) \<Rightarrow> ('s \<Rightarrow> 's \<Rightarrow> bool) \<Rightarrow> 'r list \<Rightarrow> 'r list \<Rightarrow> bool" where
  "edited key status moves rs rs' \<longleftrightarrow> (\<exists>c f. rs' = upd c f rs
     \<and> (\<forall>r \<in> set rs. c r \<longrightarrow> key (f r) = key r \<and> (status (f r) = status r \<or> moves (status r) (status (f r)))))"

lemma editedI:
  "rs' = upd c f rs \<Longrightarrow> (\<And>r. r \<in> set rs \<Longrightarrow> c r \<Longrightarrow> key (f r) = key r
      \<and> (status (f r) = status r \<or> moves (status r) (status (f r)))) \<Longrightarrow> edited key status moves rs rs'"
  unfolding edited_def by blast

lemma edited_same: "edited key status moves rs rs"
  by (rule editedI [where c = "\<lambda>_. False"]) (simp_all add: upd_none)

lemma upd_row:
  assumes "keyed key rs" and "\<And>x. x \<in> set rs \<Longrightarrow> c x \<Longrightarrow> key (f x) = key x"
    and "r \<in> set rs" and "r' \<in> set (upd c f rs)" and "key r' = key r"
  shows "r' = (if c r then f r else r)"
proof -
  from upd_mem [OF assms(4)] obtain r0 where r0: "r0 \<in> set rs" "r' = (if c r0 then f r0 else r0)" by blast
  have "key r' = key r0" unfolding r0(2) using assms(2) r0(1) by (cases "c r0") simp_all
  with assms(5) have "key r0 = key r" by simp
  then have "r0 = r" by (rule keyed_unique [OF assms(1) r0(1) assms(3)])
  with r0 show ?thesis by simp
qed

text \<open>Every row of an updated table has one predecessor and one successor.\<close>

lemma edited_rows:
  assumes "edited key status moves rs rs'" and "keyed key rs"
  shows "r \<in> set rs \<Longrightarrow> r' \<in> set rs' \<Longrightarrow> key r' = key r \<Longrightarrow> status r' = status r \<or> moves (status r) (status r')"
    and "r' \<in> set rs' \<Longrightarrow> \<exists>r \<in> set rs. key r = key r'"
    and "r \<in> set rs \<Longrightarrow> \<exists>r' \<in> set rs'. key r' = key r"
proof -
  from assms(1) obtain c f where rs': "rs' = upd c f rs"
    and cf: "\<forall>r \<in> set rs. c r \<longrightarrow> key (f r) = key r \<and> (status (f r) = status r \<or> moves (status r) (status (f r)))"
    unfolding edited_def by blast
  show "status r' = status r \<or> moves (status r) (status r')" if r: "r \<in> set rs" "r' \<in> set rs'" "key r' = key r"
  proof -
    have "r' = (if c r then f r else r)"
      using r cf unfolding rs' by (intro upd_row [where key = key, OF assms(2)]) auto
    then show ?thesis using cf r(1) by auto
  qed
  show "\<exists>r \<in> set rs. key r = key r'" if "r' \<in> set rs'"
  proof -
    from upd_mem [OF that [unfolded rs']] obtain r where "r \<in> set rs" "r' = (if c r then f r else r)" by blast
    with cf show ?thesis by (intro bexI [of _ r]) auto
  qed
  show "\<exists>r' \<in> set rs'. key r' = key r" if "r \<in> set rs"
    using cf that by (intro bexI [of _ "if c r then f r else r"]) (auto simp: rs' set_upd)
qed

locale table_life =
  fixes rows :: "database \<Rightarrow> 'r list" and key :: "'r \<Rightarrow> uuid" and status :: "'r \<Rightarrow> 's"
    and moves :: "'s \<Rightarrow> 's \<Rightarrow> bool" and first :: 's
  assumes change: "core_ok d \<Longrightarrow> db_step d d' \<Longrightarrow> edited key status moves (rows d) (rows d')
      \<or> (\<exists>rs. rows d' = rows d @ rs \<and> (\<forall>r \<in> set rs. status r = first))
      \<or> (\<exists>P. rows d' = filter P (rows d) \<and> (\<forall>r \<in> set (rows d). \<not> P r \<longrightarrow> status r = first))"
    and keys: "core_ok d \<Longrightarrow> keyed key (rows d)"
    and no_return: "\<not> moves s first"

sublocale table_life \<subseteq> lifecycle rows key status moves first
proof unfold_locales
  fix d d' r r'
  assume J: "core_ok d" and st: "db_step d d'"
  note keyed = keys [OF J] and keyed' = keys [OF core.step [OF J st]]
  show "status r' = status r \<or> moves (status r) (status r')"
    if "r \<in> set (rows d)" "r' \<in> set (rows d')" "key r' = key r"
    using change [OF J st]
  proof (elim disjE exE conjE)
    assume "edited key status moves (rows d) (rows d')"
    then show ?thesis using edited_rows(1) [OF _ keyed] that by blast
  next
    fix rs assume "rows d' = rows d @ rs"
    then have "r' = r" using that keyed_unique [OF keyed'] by (metis Un_iff set_append)
    then show ?thesis by simp
  next
    fix P assume "rows d' = filter P (rows d)"
    then have "r' = r" using that keyed_unique [OF keyed] by auto
    then show ?thesis by simp
  qed
  show "status r' = first" if r': "r' \<in> set (rows d')" "\<forall>r \<in> set (rows d). key r \<noteq> key r'"
    using change [OF J st]
  proof (elim disjE exE conjE)
    assume "edited key status moves (rows d) (rows d')"
    from edited_rows(2) [OF this keyed r'(1)] r'(2) show ?thesis by blast
  qed (use r' in auto)
  show "status r = first" if r: "r \<in> set (rows d)" "\<forall>r' \<in> set (rows d'). key r' \<noteq> key r"
    using change [OF J st]
  proof (elim disjE exE conjE)
    assume "edited key status moves (rows d) (rows d')"
    from edited_rows(3) [OF this keyed r(1)] r(2) show ?thesis by blast
  qed (use r in auto)
qed (simp_all add: keys no_return)

subsection \<open>Nothing is sold below what may be dropped\<close>

lemma draft_purchases:
  assumes "core_ok d" and "\<forall>e \<in> set (events d). e_ID e = ev \<longrightarrow> e_Status e = Draft"
    and "p \<in> set (purchases d)" and "t \<in> set (ticket_tiers d)" and "t_ID t = p_TierID p"
  shows "t_EventID t \<noteq> ev"
proof
  assume ev: "t_EventID t = ev"
  from assms(1) have S: "schema_ok d" and D: "drafts_ok d" by (simp_all add: core_ok_def)
  from schema_refs(1) [OF S assms(4)] obtain e where "e \<in> set (events d)" "e_ID e = t_EventID t" by blast
  with D assms ev show False by (auto simp: drafts_ok_def)
qed

lemma drop_draft_tiers:
  assumes "core_ok d" and "\<forall>e \<in> set (events d). e_ID e = ev \<longrightarrow> e_Status e = Draft"
    and "\<And>t. c t \<Longrightarrow> t_EventID t = ev"
  shows "purchases (drop_tiers c d) = purchases d" and "tickets (drop_tiers c d) = tickets d"
proof -
  have kept: "\<forall>t \<in> set (ticket_tiers d). c t \<longrightarrow> p_TierID p \<noteq> t_ID t" if "p \<in> set (purchases d)" for p
    using draft_purchases [OF assms(1,2) that] assms(3) by metis
  then show "purchases (drop_tiers c d) = purchases d"
    by (auto simp: drop_tiers_def Let_def filter_id_conv)
  have "\<forall>t \<in> set (ticket_tiers d). c t \<longrightarrow> k_TierID k \<noteq> t_ID t" if "k \<in> set (tickets d)" for k
    using schema_ticket_ref [OF core_schema [OF assms(1)] that] kept by metis
  with kept show "tickets (drop_tiers c d) = tickets d"
    by (auto simp: drop_tiers_def Let_def filter_id_conv)
qed

lemma drop_draft_event:
  assumes "core_ok d" and "\<forall>e \<in> set (events d). e_ID e = ev \<longrightarrow> e_Status e = Draft"
  shows "purchases (drop_event ev d) = purchases d" and "tickets (drop_event ev d) = tickets d"
  using drop_draft_tiers [OF assms, of "\<lambda>t. t_EventID t = ev"]
  by (simp_all add: drop_event_def drop_tiers_def Let_def)

subsection \<open>Events\<close>

definition event_moves :: "event_status \<Rightarrow> event_status \<Rightarrow> bool" where
  "event_moves s s' \<longleftrightarrow> (s, s') \<in> {(Draft, Published), (Draft, EvCancelled), (Published, EvSoldOut),
     (Published, EvCancelled), (Published, Ended), (EvSoldOut, Published), (EvSoldOut, EvCancelled), (EvSoldOut, Ended)}"

lemma event_moves_simps [simp]:
  "event_moves Draft Published" "event_moves Draft EvCancelled" "event_moves Published EvSoldOut"
  "event_moves Published EvCancelled" "event_moves Published Ended" "event_moves EvSoldOut Published"
  "event_moves EvSoldOut EvCancelled" "event_moves EvSoldOut Ended" "\<not> event_moves s Draft"
  by (simp_all add: event_moves_def)

abbreviation events_edited :: "database \<Rightarrow> database \<Rightarrow> bool" where
  "events_edited d d' \<equiv> edited e_ID e_Status event_moves (events d) (events d')"

lemma events_flip: "\<forall>s \<in> set from. event_moves s to \<Longrightarrow> events_edited d (flip_status from to i now d)"
  by (rule editedI [where c = "\<lambda>e. e_ID e = i \<and> e_Status e \<in> set from"
        and f = "\<lambda>e. e\<lparr>e_Status := to, e_UpdatedAt := now\<rparr>"])
    (auto simp: flip_status_def)

lemma events_step:
  "db_step d d' \<Longrightarrow> events_edited d d'
     \<or> (\<exists>es. events d' = events d @ es \<and> (\<forall>e \<in> set es. e_Status e = Draft))
     \<or> (\<exists>P. events d' = filter P (events d) \<and> (\<forall>e \<in> set (events d). \<not> P e \<longrightarrow> e_Status e = Draft))"
proof (induction rule: db_step.induct)
  case (event_edited d i f)
  then have "events_edited d (put_events (upd (\<lambda>e. e_ID e = i) f (events d)) d)"
    by (intro editedI [where c = "\<lambda>e. e_ID e = i" and f = f]) (auto simp: same_event_def)
  then show ?case ..
next
  case (events_ended d now)
  have "events_edited d (end_expired now d)"
    by (rule editedI [where c = "\<lambda>e. e_Status e \<in> {Published, EvSoldOut} \<and> e_EndsAt e < now"
          and f = "\<lambda>e. e\<lparr>e_Status := Ended, e_UpdatedAt := now\<rparr>"])
      (auto simp: end_expired_def event_moves_def)
  then show ?case ..
next
  case (sold t d p ev e now u ks)
  obtain c where "events (sell p ks ev now d) = upd (\<lambda>e. c \<and> e_ID e = ev \<and> e_Status e = Published)
     (\<lambda>e. e\<lparr>e_Status := EvSoldOut, e_UpdatedAt := now\<rparr>) (events d)"
    using sell_events by blast
  then have "events_edited d (sell p ks ev now d)"
    by (rule editedI) (auto simp: event_moves_def)
  then show ?case ..
next
  case (taken_back p d t ev now)
  have "events_edited d (take_back p ev now d)"
    by (rule editedI [where c = "\<lambda>e. e_ID e = ev \<and> e_Status e \<in> set [EvSoldOut]"
          and f = "\<lambda>e. e\<lparr>e_Status := Published, e_UpdatedAt := now\<rparr>"])
      (auto simp: take_back_def flip_status_def event_moves_def)
  then show ?case ..
next
  case (event_dropped d i)
  then have "events (drop_event i d) = filter (\<lambda>e. e_ID e \<noteq> i) (events d)
      \<and> (\<forall>e \<in> set (events d). \<not> e_ID e \<noteq> i \<longrightarrow> e_Status e = Draft)"
    by (simp add: drop_event_def drop_tiers_def Let_def)
  then show ?case by blast
qed (simp_all add: events_flip edited_same drop_tiers_def Let_def cancel_all_def admit_def notify_entry_def
  expire_entries_def)

interpretation event_life: table_life events e_ID e_Status event_moves Draft
  by unfold_locales (auto simp: event_moves_def schema_keyed core_ok_def dest: events_step)

subsection \<open>Purchases and tickets\<close>

definition purchase_moves :: "purchase_status \<Rightarrow> purchase_status \<Rightarrow> bool" where
  "purchase_moves s s' \<longleftrightarrow> s = Confirmed \<and> s' = PuCancelled"

definition ticket_moves :: "ticket_status \<Rightarrow> ticket_status \<Rightarrow> bool" where
  "ticket_moves s s' \<longleftrightarrow> (s, s') \<in> {(Unused, Used), (Unused, TkCancelled), (Used, TkCancelled)}"

lemma cancel_rows_edited:
  assumes "\<And>p. c p \<Longrightarrow> p \<in> set ps \<Longrightarrow> p_Status p \<noteq> Refunded"
  shows "edited p_ID p_Status purchase_moves ps (cancel_purchase_rows c now ps)"
  unfolding cancel_purchase_rows_def
proof (rule editedI, rule refl)
  fix p assume "p \<in> set ps" "c p"
  with assms show "p_ID (p\<lparr>p_Status := PuCancelled, p_UpdatedAt := now\<rparr>) = p_ID p
      \<and> (p_Status (p\<lparr>p_Status := PuCancelled, p_UpdatedAt := now\<rparr>) = p_Status p
        \<or> purchase_moves (p_Status p) (p_Status (p\<lparr>p_Status := PuCancelled, p_UpdatedAt := now\<rparr>)))"
    by (cases "p_Status p") (auto simp: purchase_moves_def)
qed

lemma cancel_tickets_edited: "edited k_ID k_Status ticket_moves ks (cancel_ticket_rows c now ks)"
  unfolding cancel_ticket_rows_def
proof (rule editedI, rule refl)
  fix k :: Ticket
  show "k_ID (k\<lparr>k_Status := TkCancelled, k_UpdatedAt := now\<rparr>) = k_ID k
      \<and> (k_Status (k\<lparr>k_Status := TkCancelled, k_UpdatedAt := now\<rparr>) = k_Status k
        \<or> ticket_moves (k_Status k) (k_Status (k\<lparr>k_Status := TkCancelled, k_UpdatedAt := now\<rparr>)))"
    by (cases "k_Status k") (auto simp: ticket_moves_def)
qed

lemma not_refunded: "core_ok d \<Longrightarrow> p \<in> set (purchases d) \<Longrightarrow> p_Status p \<noteq> Refunded"
  by (auto simp: core_ok_def tickets_ok_def purchase_matched_def)

lemma purchases_step:
  "db_step d d' \<Longrightarrow> core_ok d \<Longrightarrow> edited p_ID p_Status purchase_moves (purchases d) (purchases d')
     \<or> (\<exists>ps. purchases d' = purchases d @ ps \<and> (\<forall>p \<in> set ps. p_Status p = Confirmed))"
proof (induction rule: db_step.induct)
  case (sold t d p ev e now u ks)
  then show ?case by (simp add: sell_rows)
next
  case (taken_back p d t ev now)
  then show ?case
    by (simp add: take_back_def flip_status_def cancel_rows_edited not_refunded)
next
  case (all_cancelled d ev now)
  then show ?case by (simp add: cancel_all_def cancel_rows_edited not_refunded)
next
  case (event_dropped d i)
  then show ?case by (simp add: drop_draft_event edited_same)
next
  case (tier_dropped d ev i)
  then have "purchases (drop_tiers (\<lambda>t. t_ID t = i \<and> t_EventID t = ev) d) = purchases d"
    by (intro drop_draft_tiers(1)) auto
  then show ?case by (simp add: edited_same)
qed (simp_all add: flip_status_def end_expired_def admit_def notify_entry_def expire_entries_def edited_same)

interpretation purchase_life: table_life purchases p_ID p_Status purchase_moves Confirmed
  by unfold_locales (auto simp: purchase_moves_def schema_keyed core_ok_def dest: purchases_step [unfolded core_ok_def])

lemma tickets_rows_step:
  "db_step d d' \<Longrightarrow> core_ok d \<Longrightarrow> edited k_ID k_Status ticket_moves (tickets d) (tickets d')
     \<or> (\<exists>ks. tickets d' = tickets d @ ks \<and> (\<forall>k \<in> set ks. k_Status k = Unused))"
proof (induction rule: db_step.induct)
  case (sold t d p ev e now u ks)
  then show ?case by (simp add: sell_rows)
next
  case (taken_back p d t ev now)
  then show ?case by (simp add: take_back_def flip_status_def cancel_tickets_edited)
next
  case (all_cancelled d ev now)
  then show ?case by (simp add: cancel_all_def cancel_tickets_edited)
next
  case (admitted d i now)
  have "edited k_ID k_Status ticket_moves (tickets d) (tickets (admit i now d))"
    by (rule editedI [where c = "\<lambda>k. k_ID k = i"
          and f = "\<lambda>k. k\<lparr>k_Status := Used, k_CheckedInAt := Some now, k_UpdatedAt := now\<rparr>"])
      (use admitted in \<open>auto simp: admit_def ticket_moves_def\<close>)
  then show ?case ..
next
  case (event_dropped d i)
  then show ?case by (simp add: drop_draft_event edited_same)
next
  case (tier_dropped d ev i)
  then have "tickets (drop_tiers (\<lambda>t. t_ID t = i \<and> t_EventID t = ev) d) = tickets d"
    by (intro drop_draft_tiers(2)) auto
  then show ?case by (simp add: edited_same)
qed (simp_all add: flip_status_def end_expired_def notify_entry_def expire_entries_def edited_same)

interpretation ticket_life: table_life tickets k_ID k_Status ticket_moves Unused
  by unfold_locales (auto simp: ticket_moves_def schema_keyed core_ok_def dest: tickets_rows_step [unfolded core_ok_def])

end
