(* ===== verification/Scenario.thy ===== *)
theory Scenario
  imports Lifecycle
begin

section \<open>A concrete run of the system\<close>

text \<open>
  A run from an empty database: a user registers, signs in, becomes an organizer, creates an
  event with one tier, publishes it, and buys a ticket. Every world is what the model computes;
  the token hash and the QR token stay symbolic. The witnesses of the properties of reachable
  worlds are taken at its end.
\<close>

definition demo_config :: Config where
  "demo_config = \<lparr>Env = ''development'', Port = ''8080'', FrontendURL = ''f'', DatabaseURL = ''d'', RedisURL = ''r'',
     CORSAllowedOrigin = ''f'', ResendAPIKey = ''k'', ResendDomain = ''m'', GoogleClientID = ''c'',
     GoogleClientSecret = ''g'', GoogleRedirectURI = ''u'', TicketSecret = ''secret''\<rparr>"

text \<open>A stand-in for Argon2id of the right length: the password, padded or cut.\<close>

definition demo_key :: id_key where
  "demo_key pw salt t m p len = map (\<lambda>i. if i < length pw then pw ! i else 0) [0..<len]"

definition demo_app :: app where
  "demo_app = \<lparr>config = demo_config, uuid_String = (\<lambda>u. show_nat (unat u)),
     uuid_Parse = (\<lambda>s. map_option word_of_int (Atoi s)), validate_Struct = (\<lambda>_. []),
     argon2_IDKey = demo_key, oauth_AuthCodeURL = (\<lambda>_ s. s), oauth_Exchange = (\<lambda>_ c. Some (c, [])),
     oauth_Userinfo = (\<lambda>c. Some (200, Some (\<lambda>k. if k = ''email'' then Some c else None)))\<rparr>"

definition demo_bytes :: "nat \<Rightarrow> nat \<Rightarrow> byte list" where
  "demo_bytes k n = map (\<lambda>_. of_nat k) [0..<n]"

definition demo_hash :: string where
  "demo_hash = encode_hash DefaultHashParams (demo_bytes 0 16) (demo_key (to_bytes ''password'') (demo_bytes 0 16) 3 65536 4 32)"

text \<open>The tokens drawn third (the e-mail verification) and fifth (the session).\<close>

definition demo_token :: "nat \<Rightarrow> string" where
  "demo_token k = hex_EncodeToString (demo_bytes k 32)"

definition demo_user :: User where
  "demo_user = \<lparr>u_ID = 1, u_Name = ''Ada'', u_Email = ''a@x'', u_PasswordHash = Some demo_hash, u_EmailVerified = False,
     u_Image = None, u_Role = RoleAttendee, u_CreatedAt = 0, u_UpdatedAt = 0\<rparr>"

definition demo_v :: Verifications where
  "demo_v = \<lparr>v_ID = 100, v_Identifier = verify_identifier ''a@x'', v_Value = HashToken (demo_token 2),
     v_ExpiresAt = time_Hour, v_CreatedAt = 0, v_UpdatedAt = 0\<rparr>"

definition demo_tasks :: "task list" where
  "demo_tasks = [SendVerificationEmail [''a@x''] ''Ada'' (demo_token 2)]"

definition demo_register :: RegisterUserPayload where
  "demo_register = \<lparr>ru_Name = ''Ada'', ru_Email = ''A@x'', ru_Password = ''password''\<rparr>"

definition demo_login :: LoginUserPayload where
  "demo_login = \<lparr>lu_Email = ''a@X'', lu_Password = ''password''\<rparr>"

definition demo_request :: "string \<Rightarrow> string \<Rightarrow> request" where
  "demo_request i tier = \<lparr>rq_Authorization = ''Bearer '' @ demo_token 4, rq_SessionCookie = None, rq_id = i, rq_tierId = tier,
     rq_limit = [], rq_page = [], rq_cursor = [], rq_code = [], rq_state = [], rq_StateCookie = None,
     rq_UserAgent = ''curl'', rq_RemoteAddr = ''10.0.0.1:80''\<rparr>"

definition demo_event :: CreateEventPayload where
  "demo_event = \<lparr>ce_Name = ''Gala'', ce_Description = None, ce_Location = ''Hall'', ce_StartsAt = 500,
     ce_EndsAt = 600, ce_Capacity = None, ce_CancellationAllowed = None, ce_CancellationHoursBefore = 0,
     ce_MaxTicketsPerPurchase = None\<rparr>"

definition demo_tier :: CreateTierPayload where
  "demo_tier = \<lparr>ct_Name = ''GA'', ct_Price = Some 500, ct_Quantity = Some 2\<rparr>"

definition demo_buy :: CreatePurchasePayload where
  "demo_buy = \<lparr>cp_TierID = ''4'', cp_Quantity = 1\<rparr>"

definition demo0 :: world where
  "demo0 = \<lparr>db = empty_db, db_now = 0, go_now = 0, faults = [],
     new_uuid = (\<lambda>n. if n = 1 then 1 else if n = 3 then 100 else of_nat (n - 3)),
     rand_bytes = (\<lambda>k _. of_nat k), drawn = 0, tasks = [], outbox = []\<rparr>"

definition served :: "string \<Rightarrow> string \<Rightarrow> call \<Rightarrow> world \<Rightarrow> world" where
  "served i tier c w = snd (run_state (mount demo_app (demo_request i tier) c empty_ctx) w)"

definition demo_organizer :: world where
  "demo_organizer = served [] [] BecomeOrganizer
     (served [] [] (Login (JsonBody demo_login)) (served [] [] (Register (JsonBody demo_register)) demo0))"

definition demo_draft :: world where
  "demo_draft = served ''3'' [] (CreateTier (JsonBody demo_tier))
     (served [] [] (CreateEvent (JsonBody demo_event)) demo_organizer)"

definition demo_published :: world where
  "demo_published = served ''3'' [] PublishEvent demo_draft"

definition demo_sold :: world where
  "demo_sold = served [] [] (CreatePurchase (JsonBody demo_buy)) demo_published"

subsection \<open>Reachability\<close>

lemma served_step: "world_step demo_app w (served i tier c w)"
  unfolding served_def by (rule world_step.serve [OF prod.collapse [symmetric]])

lemma reachable_step: "reachable a w \<Longrightarrow> world_step a w w' \<Longrightarrow> reachable a w'"
  unfolding reachable_def by (meson rtranclp.rtrancl_into_rtrancl)

lemma reachable_initial: "initial w \<Longrightarrow> reachable a w"
  unfolding reachable_def by blast

lemma reachable_demo:
  "reachable demo_app demo_organizer" "reachable demo_app demo_draft"
  "reachable demo_app demo_published" "reachable demo_app demo_sold"
proof -
  have "reachable demo_app demo0"
    by (rule reachable_initial) (simp add: initial_def demo0_def)
  then show 1: "reachable demo_app demo_organizer"
    unfolding demo_organizer_def
    by (intro reachable_step [OF _ served_step])
  then show 2: "reachable demo_app demo_draft"
    unfolding demo_draft_def by (intro reachable_step [OF _ served_step])
  then show 3: "reachable demo_app demo_published"
    unfolding demo_published_def by (intro reachable_step [OF _ served_step])
  then show "reachable demo_app demo_sold"
    unfolding demo_sold_def by (intro reachable_step [OF _ served_step])
qed

subsection \<open>The worlds\<close>

lemmas run_defs = run_exec_or run_exec exec_or_def with_uuid_def insert_stmt_def select_one_def select_all_def
  returning_one_def update_stmt_def ok_next_def in_tx_def pop_def

lemmas serve_defs = served_def requireAuth_def maybeAuth_def requireOrganizer_def requireEventOrganizer_def organizer_of_def
  authenticate_def bearer_token_def Sessions_Get_def Users_GetByID_def Events_GetByID_def Tiers_GetByID_def
  with_user_def with_event_def with_payload_def with_uuid_param_def json_Read_def ValidateStruct_def

lemmas demo_defs = demo_request_def demo_app_def empty_ctx_def Atoi_def

definition demo_world :: "database \<Rightarrow> nat \<Rightarrow> task list \<Rightarrow> world" where
  "demo_world d n ts = demo0\<lparr>db := d, drawn := n, tasks := ts\<rparr>"

abbreviation world_at :: "database \<Rightarrow> nat \<Rightarrow> world" where
  "world_at d n \<equiv> demo_world d n demo_tasks"

definition demo_u :: User where
  "demo_u = demo_user\<lparr>u_Role := RoleOrganizer\<rparr>"

definition demo_s :: Session where
  "demo_s = \<lparr>s_ID = 2, s_UserID = 1, s_TokenHash = HashToken (demo_token 4), s_IPAddress = Some ''10.0.0.1'',
     s_UserAgent = Some ''curl'', s_ExpiresAt = sessionLifetime, s_CreatedAt = 0, s_UpdatedAt = 0\<rparr>"

definition demo_e :: "event_status \<Rightarrow> Event" where
  "demo_e st = \<lparr>e_ID = 3, e_OrganizerID = 1, e_Name = ''Gala'', e_Description = None, e_Location = ''Hall'', e_Status = st,
     e_StartsAt = 500, e_EndsAt = 600, e_Capacity = None, e_CancellationAllowed = True, e_CancellationHoursBefore = 0,
     e_MaxTicketsPerPurchase = 10, e_MaterialChangedAt = None, e_CreatedAt = 0, e_UpdatedAt = 0\<rparr>"

definition demo_t :: "int \<Rightarrow> Tier" where
  "demo_t left = \<lparr>t_ID = 4, t_EventID = 3, t_Name = ''GA'', t_Price = 500, t_Quantity = 2, t_Remaining = left,
     t_Status = Available, t_CreatedAt = 0, t_UpdatedAt = 0\<rparr>"

definition demo_p :: Purchase where
  "demo_p = \<lparr>p_ID = 5, p_UserID = 1, p_TierID = 4, p_Quantity = 1, p_Total = 500, p_Status = Confirmed,
     p_CreatedAt = 0, p_UpdatedAt = 0\<rparr>"

definition demo_k :: Ticket where
  "demo_k = \<lparr>k_ID = 6, k_PurchaseID = 5, k_TierID = 4, k_QRToken = GenerateToken (uuid_String demo_app) 6 5 4 ''secret'',
     k_Status = Unused, k_CheckedInAt = None, k_CreatedAt = 0, k_UpdatedAt = 0\<rparr>"

definition demo_db :: "Event list \<Rightarrow> Tier list \<Rightarrow> Purchase list \<Rightarrow> Ticket list \<Rightarrow> database" where
  "demo_db es ts ps ks = \<lparr>users = [demo_u], sessions = [demo_s], verifications = [demo_v], oauth_accounts = [], events = es, ticket_tiers = ts, purchases = ps,
     tickets = ks, waitlist_entries = []\<rparr>"

text \<open>Signing up and signing in.\<close>

lemma demo_bearer: "bearer_token (demo_request i t) = Inr (demo_token 4)" "demo_token k \<noteq> []"
proof -
  have "CHR '' '' \<notin> set hex_chars" by code_simp
  then have "CHR '' '' \<notin> set (demo_token 4)" using set_hex unfolding demo_token_def by blast
  then have "split_on CHR '' '' (''Bearer'' @ CHR '' '' # demo_token 4) = [''Bearer'', demo_token 4]"
    by (subst split_on_append) (simp_all add: split_on_plain)
  then show "bearer_token (demo_request i t) = Inr (demo_token 4)"
    by (simp add: bearer_token_def demo_request_def)
  show "demo_token k \<noteq> []"
    using length_hex [of "demo_bytes k 32"] by (auto simp: demo_token_def demo_bytes_def)
qed

lemma demo_password: "VerifyPassword demo_key ''password'' demo_hash = Inr True"
proof -
  have "params_ok DefaultHashParams (demo_bytes 0 16) (demo_key (to_bytes ''password'') (demo_bytes 0 16) 3 65536 4 32)"
    by (simp add: params_ok_def DefaultHashParams_def demo_bytes_def demo_key_def del: upt_rec_numeral)
  from verify_encoded [OF this] show ?thesis
    by (simp add: demo_hash_def DefaultHashParams_def)
qed

lemma demo_world_simps [simp]:
  "db (demo_world d n ts) = d" "db_now (demo_world d n ts) = 0" "go_now (demo_world d n ts) = 0"
  "faults (demo_world d n ts) = []" "drawn (demo_world d n ts) = n" "tasks (demo_world d n ts) = ts"
  "new_uuid (demo_world d n ts) m = (if m = 1 then 1 else if m = 3 then 100 else of_nat (m - 3))"
  "demo_world d n ts\<lparr>db := d'\<rparr> = demo_world d' n ts" "demo_world d n ts\<lparr>drawn := m\<rparr> = demo_world d m ts"
  "demo_world d n ts\<lparr>tasks := ts'\<rparr> = demo_world d n ts'"
  "demo_world d n ts\<lparr>faults := []\<rparr> = demo_world d n ts" "pop (demo_world d n ts) = demo_world d n ts"
  "rand_Read k (demo_world d n ts) = (Inr (demo_bytes n k), demo_world d (Suc n) ts)"
  by (simp_all add: demo_world_def demo0_def pop_def rand_Read_def demo_bytes_def)

lemma demo_lower: "ToLower ''A@x'' = ''a@x''" "ToLower ''a@X'' = ''a@x''"
  by code_simp+

lemma demo_registered:
  "served [] [] (Register (JsonBody demo_register)) demo0
    = world_at (empty_db\<lparr>users := [demo_user], verifications := [demo_v]\<rparr>) 4"
proof -
  have start: "demo0 = demo_world empty_db 0 []" by (simp add: demo_world_def demo0_def)
  show ?thesis unfolding start
    by (simp add: served_def registerUser_def with_payload_def json_Read_def ValidateStruct_def demo_app_def
      demo_register_def demo_lower HashPassword_def generateRandomBytes_def run_defs Users_Create_def new_user_def
      issue_token_def auth_GenerateToken_def Verifications_Create_def Enqueue_def demo_tasks_def demo_v_def
      demo_user_def empty_db_def demo_hash_def DefaultHashParams_def demo_token_def
      numeral_2_eq_2 [symmetric] Let_def)
qed

lemma demo_logged_in:
  "served [] [] (Login (JsonBody demo_login)) (world_at (empty_db\<lparr>users := [demo_user], verifications := [demo_v]\<rparr>) 4)
    = world_at (empty_db\<lparr>users := [demo_user], sessions := [demo_s], verifications := [demo_v]\<rparr>) 6"
proof -
  have "SplitHostPort ''10.0.0.1:80'' = Some (''10.0.0.1'', ''80'')" by code_simp
  then show ?thesis
    by (simp add: served_def loginUser_def with_payload_def json_Read_def ValidateStruct_def demo_app_def
      demo_login_def demo_lower run_defs Users_GetByEmail_def demo_user_def demo_password demo_request_def
      numeral_3_eq_3 new_session_def auth_GenerateToken_def Sessions_Create_def session_fk_def Let_def
      demo_s_def demo_token_def empty_db_def with_cookie_def)
qed

lemma demo_organizer_at: "demo_organizer = world_at (demo_db [] [] [] []) 6"
  unfolding demo_organizer_def demo_registered demo_logged_in
  by (simp add: served_def requireAuth_def authenticate_def demo_bearer Sessions_Get_def Users_GetByID_def run_defs
    demo_s_def demo_user_def sessionLifetime_def time_Hour_def empty_ctx_def becomeOrganizer_def with_user_def
    Users_BecomeOrganizer_def update_users_def demo_db_def demo_u_def empty_db_def)

lemma demo_signed_in:
  "run_state (authenticate (demo_request i t)) (world_at (demo_db es ts ps ks) n)
    = (Inr (demo_s, demo_u), world_at (demo_db es ts ps ks) n)"
  by (simp add: demo_db_def demo_u_def demo_s_def demo_user_def sessionLifetime_def time_Hour_def run_defs
    authenticate_def demo_bearer Sessions_Get_def Users_GetByID_def)

lemma demo_db_simps [simp]:
  "users (demo_db es ts ps ks) = [demo_u]" "sessions (demo_db es ts ps ks) = [demo_s]" "events (demo_db es ts ps ks) = es"
  "ticket_tiers (demo_db es ts ps ks) = ts" "purchases (demo_db es ts ps ks) = ps" "tickets (demo_db es ts ps ks) = ks"
  "put_events es' (demo_db es ts ps ks) = demo_db es' ts ps ks" "put_tiers ts' (demo_db es ts ps ks) = demo_db es ts' ps ks"
  "put_purchases ps' (demo_db es ts ps ks) = demo_db es ts ps' ks" "put_tickets ks' (demo_db es ts ps ks) = demo_db es ts ps ks'"
  "waitlist_entries (demo_db es ts ps ks) = []"
  by (simp_all add: demo_db_def)

lemma demo_fields [simp]:
  "u_ID demo_u = 1" "u_Role demo_u = RoleOrganizer" "e_ID (demo_e st) = 3" "e_OrganizerID (demo_e st) = 1"
  "e_Status (demo_e st) = st" "e_Capacity (demo_e st) = None" "t_ID (demo_t l) = 4" "t_EventID (demo_t l) = 3"
  "e_MaxTicketsPerPurchase (demo_e st) = 10" "t_Remaining (demo_t l) = l" "t_Quantity (demo_t l) = 2"
  "t_Status (demo_t l) = Available" "t_Price (demo_t l) = 500"
  by (simp_all add: demo_u_def demo_user_def demo_e_def demo_t_def)

lemma demo_parse [simp]:
  "uuid_Parse demo_app ''3'' = Some 3" "uuid_Parse demo_app ''4'' = Some 4"
  by (simp_all add: demo_app_def Atoi_def digit_of_def int64_def)

lemma demo_request_fields [simp]:
  "rq_id (demo_request i t) = i" "rq_tierId (demo_request i t) = t"
  "validate_Struct demo_app fs = []" "TicketSecret (config demo_app) = ''secret''"
  by (simp_all add: demo_request_def demo_app_def demo_config_def)

lemma demo_organizer_of:
  "run_state (organizer_of demo_app (demo_request ''3'' t) h empty_ctx) (world_at (demo_db [demo_e st] ts ps ks) n)
    = run_state (h \<lparr>userCtx = Some demo_u, sessionCtx = Some demo_s, eventCtx = Some (demo_e st)\<rparr>)
        (world_at (demo_db [demo_e st] ts ps ks) n)"
  by (simp add: organizer_of_def requireAuth_def demo_signed_in requireOrganizer_def requireEventOrganizer_def
    Events_GetByID_def run_defs empty_ctx_def)

lemma demo_calls:
  "served [] [] (CreateEvent (JsonBody demo_event)) (world_at (demo_db [] [] [] []) 6)
    = world_at (demo_db [demo_e Draft] [] [] []) 7"
  "served ''3'' [] (CreateTier (JsonBody demo_tier)) (world_at (demo_db [demo_e Draft] [] [] []) 7)
    = world_at (demo_db [demo_e Draft] [demo_t 2] [] []) 8"
  "served ''3'' [] PublishEvent (world_at (demo_db [demo_e Draft] [demo_t 2] [] []) 8)
    = world_at (demo_db [demo_e Published] [demo_t 2] [] []) 8"
  subgoal by (simp add: served_def requireAuth_def demo_signed_in requireOrganizer_def createEvent_def with_user_def with_payload_def
    json_Read_def ValidateStruct_def demo_event_def run_defs Events_Create_def event_fk_def
    new_event_def event_check_def int32_def demo_e_def)
  subgoal by (simp add: served_def demo_organizer_of createTier_def with_event_def with_payload_def
    json_Read_def ValidateStruct_def demo_tier_def below_capacity_def new_tier_def Tiers_Create_def run_defs tier_fk_def
    tier_check_def int32_def demo_t_def)
  subgoal by (simp add: served_def demo_organizer_of publishEvent_def with_event_def Tiers_CountByEvent_def
    Events_Publish_def flip_event_def update_events_def run_defs) (simp add: demo_e_def event_check_def int32_def)
  done

lemma demo_rows [simp]:
  "(demo_t 2)\<lparr>t_Remaining := 1, t_Status := Available, t_UpdatedAt := 0\<rparr> = demo_t 1"
  "\<lparr>p_ID = 5, p_UserID = 1, p_TierID = 4, p_Quantity = 1, p_Total = wrap64 500, p_Status = Confirmed,
     p_CreatedAt = 0, p_UpdatedAt = 0\<rparr> = demo_p"
  "\<lparr>k_ID = 6, k_PurchaseID = 5, k_TierID = 4, k_QRToken = GenerateToken (uuid_String demo_app) 6 5 4 ''secret'',
     k_Status = Unused, k_CheckedInAt = None, k_CreatedAt = 0, k_UpdatedAt = 0\<rparr> = demo_k"
  "demo_p\<lparr>p_Status := Confirmed, p_CreatedAt := 0, p_UpdatedAt := 0\<rparr> = demo_p"
  "\<lparr>k_ID = 6, k_PurchaseID = 5, k_TierID = 4, k_QRToken = k_QRToken demo_k,
     k_Status = Unused, k_CheckedInAt = None, k_CreatedAt = 0, k_UpdatedAt = 0\<rparr> = demo_k"
  "tier_check (demo_t 1)" "purchase_check demo_p" "purchase_fk demo_p (demo_db es [demo_t l] ps ks)"
  "p_ID demo_p = 5" "p_TierID demo_p = 4" "p_UserID demo_p = 1" "p_Status demo_p = Confirmed" "p_Quantity demo_p = 1"
  "k_ID demo_k = 6" "k_PurchaseID demo_k = 5" "k_TierID demo_k = 4" "k_Status demo_k = Unused"
  "k_CreatedAt demo_k = 0" "k_UpdatedAt demo_k = 0"
  "demo_k\<lparr>k_CreatedAt := 0, k_UpdatedAt := 0\<rparr> = demo_k" "demo_k\<lparr>k_Status := Unused, k_CreatedAt := 0, k_UpdatedAt := 0\<rparr> = demo_k"
  by (simp_all add: demo_t_def demo_p_def demo_k_def wrap64_def tier_check_def purchase_check_def purchase_fk_def int32_def)

lemma demo_purchase:
  "run_state (createPurchase demo_app (JsonBody demo_buy) \<lparr>userCtx = Some demo_u, sessionCtx = Some demo_s, eventCtx = None\<rparr>)
     (world_at (demo_db [demo_e Published] [demo_t 2] [] []) 8)
   = (Resp 201 (purchase_response demo_p (demo_e Published) (demo_t 2) [demo_k]),
      world_at (demo_db [demo_e Published] [demo_t 1] [demo_p] [demo_k]) 10)"
  by (simp add: createPurchase_def with_user_def with_payload_def with_uuid_param_def json_Read_def ValidateStruct_def demo_buy_def Tiers_GetByID_def
      Events_GetByID_def Purchases_Create_def update_tiers_def insert_purchase_def new_purchase_def run_defs
      insert_ticket_def ticket_fk_def)

lemma demo_draft_at: "demo_draft = world_at (demo_db [demo_e Draft] [demo_t 2] [] []) 8"
  by (simp add: demo_draft_def demo_organizer_at demo_calls)

lemma demo_published_at: "demo_published = world_at (demo_db [demo_e Published] [demo_t 2] [] []) 8"
  by (simp add: demo_published_def demo_draft_at demo_calls)

lemma demo_sold_at: "demo_sold = world_at (demo_db [demo_e Published] [demo_t 1] [demo_p] [demo_k]) 10"
  by (simp add: demo_sold_def demo_published_at served_def requireAuth_def demo_signed_in demo_purchase empty_ctx_def)

end
