(* ===== verification/Accounts_Spec.thy ===== *)
theory Accounts_Spec
  imports Scenario
begin

section \<open>What the accounts promise\<close>

text \<open>
  Sign-up, sign-in, the tokens that are mailed and sign-in with Google, over the handlers of
  \<^verbatim>\<open>cmd/server/auth.go\<close>. The statements about answers are for worlds where no call fails
  (\<open>faults w = []\<close>); the ones about what is never done hold with faults too.
\<close>

subsection \<open>The store methods when no call fails\<close>

named_theorems quiet \<open>exact runs of store methods without faults\<close>

lemma quiet_users [quiet]:
  assumes "faults w = []"
  shows "run_state (Users_GetByEmail e) w =
      ((case row_at u_Email (users (db w)) e of None \<Rightarrow> Inl ErrNotFound | Some u \<Rightarrow> Inr u), w)"
    and "run_state (Users_GetByID i) w =
      ((case row_at u_ID (users (db w)) i of None \<Rightarrow> Inl ErrNotFound | Some u \<Rightarrow> Inr u), w)"
    and "run_state (Users_Create u) w =
      (let i = new_uuid w (drawn w); w1 = w\<lparr>drawn := Suc (drawn w)\<rparr>;
           u' = u\<lparr>u_ID := i, u_Role := RoleAttendee, u_CreatedAt := db_now w, u_UpdatedAt := db_now w\<rparr>
       in if list_ex (user_clash u') (users (db w)) then (Inl ErrConflict, w1)
          else (Inr u', w1\<lparr>db := put_users (users (db w) @ [u']) (db w)\<rparr>))"
    and "run_state (Users_MarkVerified e) w =
      (if filter (\<lambda>u. u_Email u = e) (users (db w)) = [] then Inl ErrNotFound else Inr (),
       w\<lparr>db := put_users (upd (\<lambda>u. u_Email u = e) (\<lambda>u. u\<lparr>u_EmailVerified := True, u_UpdatedAt := db_now w\<rparr>) (users (db w))) (db w)\<rparr>)"
    and "run_state (Users_ResetPassword e h) w =
      (if filter (\<lambda>u. u_Email u = e) (users (db w)) = [] then Inl ErrNotFound else Inr (),
       w\<lparr>db := put_users (upd (\<lambda>u. u_Email u = e) (\<lambda>u. u\<lparr>u_PasswordHash := Some h, u_UpdatedAt := db_now w\<rparr>) (users (db w))) (db w)\<rparr>)"
  using assms
  by (auto simp: Users_GetByEmail_def Users_GetByID_def Users_Create_def Users_MarkVerified_def Users_ResetPassword_def
    update_users_def run_defs no_rows_as_def unique_as_def Let_def list_all_iff split: option.splits)

lemma quiet_sessions [quiet]:
  assumes "faults w = []"
  shows "run_state (Sessions_Get h) w =
      ((case find (\<lambda>s. s_TokenHash s = h \<and> go_now w < s_ExpiresAt s) (sessions (db w)) of
          None \<Rightarrow> Inl ErrNotFound | Some s \<Rightarrow> Inr s), w)"
    and "run_state (Sessions_Create s) w =
      (let w1 = w\<lparr>drawn := Suc (drawn w)\<rparr>;
           s' = s\<lparr>s_ID := new_uuid w (drawn w), s_CreatedAt := db_now w, s_UpdatedAt := db_now w\<rparr>
       in if list_ex (session_clash s') (sessions (db w)) then (Inl ErrConflict, w1)
          else if \<not> session_fk s' (db w) then (Inl (ErrPg ForeignKeyViolation), w1)
          else (Inr s', w1\<lparr>db := put_sessions (sessions (db w) @ [s']) (db w)\<rparr>))"
    and "run_state (Sessions_DeleteAll i) w =
      (Inr (), w\<lparr>db := put_sessions (filter (\<lambda>s. s_UserID s \<noteq> i) (sessions (db w))) (db w)\<rparr>)"
  using assms
  by (auto simp: Sessions_Get_def Sessions_Create_def Sessions_DeleteAll_def delete_sessions_def
    run_defs no_rows_as_def unique_as_def Let_def split: option.splits)

lemma quiet_verifications [quiet]:
  assumes "faults w = []"
  shows "run_state (Verifications_Get h) w =
      ((case row_at v_Value (verifications (db w)) h of None \<Rightarrow> Inl ErrNotFound | Some v \<Rightarrow> Inr v), w)"
    and "run_state (Verifications_GetLatest i) w =
      ((case latest_verification i (db w) of None \<Rightarrow> Inl ErrNotFound | Some v \<Rightarrow> Inr v), w)"
    and "run_state (Verifications_CountSince i s) w =
      (Inr (int (length (filter (\<lambda>v. v_Identifier v = i \<and> go_now w - s < v_CreatedAt v) (verifications (db w))))), w)"
    and "run_state (Verifications_Create i h x) w =
      (let w1 = w\<lparr>drawn := Suc (drawn w)\<rparr>;
           v = \<lparr>v_ID = new_uuid w (drawn w), v_Identifier = i, v_Value = h, v_ExpiresAt = x,
                v_CreatedAt = db_now w, v_UpdatedAt = db_now w\<rparr>
       in if list_ex (verification_clash v) (verifications (db w)) then (Inl (ErrPg UniqueViolation), w1)
          else (Inr (), w1\<lparr>db := put_verifications (verifications (db w) @ [v]) (db w)\<rparr>))"
    and "run_state (Verifications_Delete k) w =
      (Inr (), w\<lparr>db := put_verifications (filter (\<lambda>v. v_ID v \<noteq> k) (verifications (db w))) (db w)\<rparr>)"
    and "run_state (Verifications_DeleteByIdentifier i) w =
      (Inr (), w\<lparr>db := put_verifications (filter (\<lambda>v. v_Identifier v \<noteq> i) (verifications (db w))) (db w)\<rparr>)"
  using assms
  by (auto simp: Verifications_Get_def Verifications_GetLatest_def Verifications_CountSince_def Verifications_Create_def
    Verifications_Delete_def Verifications_DeleteByIdentifier_def delete_verifications_def
    run_defs no_rows_as_def Let_def split: option.splits)

lemma quiet_oauth [quiet]:
  assumes "faults w = []"
  shows "run_state (OAuth_GetByProviderAndAccountID p i) w =
      ((case find (\<lambda>a. oa_Provider a = p \<and> oa_ProviderAccountID a = i) (oauth_accounts (db w)) of
          None \<Rightarrow> Inl ErrNotFound | Some a \<Rightarrow> Inr a), w)"
    and "run_state (OAuth_Create oa) w =
      (let w1 = w\<lparr>drawn := Suc (drawn w)\<rparr>;
           oa' = oa\<lparr>oa_ID := new_uuid w (drawn w), oa_CreatedAt := db_now w, oa_UpdatedAt := db_now w\<rparr>
       in if list_ex (oauth_clash oa') (oauth_accounts (db w)) then (Inl ErrConflict, w1)
          else if \<not> oauth_fk oa' (db w) then (Inl (ErrPg ForeignKeyViolation), w1)
          else (Inr oa', w1\<lparr>db := put_oauth (oauth_accounts (db w) @ [oa']) (db w)\<rparr>))"
  using assms
  by (auto simp: OAuth_GetByProviderAndAccountID_def OAuth_Create_def
    run_defs no_rows_as_def unique_as_def Let_def split: option.splits)

text \<open>The random bytes of the next draw, and the token made of them.\<close>

definition next_token :: "world \<Rightarrow> string" where
  "next_token w = hex_EncodeToString (map (rand_bytes w (drawn w)) [0..<32])"

lemma quiet_random [quiet]:
  assumes "faults w = []"
  shows "run_state auth_GenerateToken w = (Inr \<lparr>tok_Plaintext = next_token w, tok_Hash = HashToken (next_token w)\<rparr>,
      w\<lparr>drawn := Suc (drawn w)\<rparr>)"
    and "run_state (generateRandomBytes n) w = (Inr (map (rand_bytes w (drawn w)) [0..<n]), w\<lparr>drawn := Suc (drawn w)\<rparr>)"
    and "run_state (Enqueue t) w = (Inr (), w\<lparr>tasks := tasks w @ [t]\<rparr>)"
  using assms
  by (simp_all add: auth_GenerateToken_def generateRandomBytes_def Enqueue_def rand_Read_def run_defs next_token_def Let_def
    del: upt_rec_numeral)


lemma bearer_hex:
  assumes "rq_Authorization q = ''Bearer '' @ hex_EncodeToString bs"
  shows "bearer_token q = Inr (hex_EncodeToString bs)"
proof -
  have "CHR '' '' \<notin> set hex_chars" by code_simp
  then have "CHR '' '' \<notin> set (hex_EncodeToString bs)" using set_hex by blast
  then have "split_on CHR '' '' (''Bearer'' @ CHR '' '' # hex_EncodeToString bs) = [''Bearer'', hex_EncodeToString bs]"
    by (subst split_on_append) (simp_all add: split_on_plain)
  with assms show ?thesis by (simp add: bearer_token_def)
qed

lemma find_last: "\<forall>x \<in> set xs. \<not> P x \<Longrightarrow> P y \<Longrightarrow> find P (xs @ [y]) = Some y"
  by (induction xs) auto

subsection \<open>Signing in\<close>

text \<open>A created session is the only one with its hash, belongs to the user and lives 30 days.\<close>

definition opened :: "User \<Rightarrow> string \<Rightarrow> world \<Rightarrow> world \<Rightarrow> bool" where
  "opened user tok w w' \<longleftrightarrow> (\<exists>s k bs. w' = w\<lparr>drawn := k, db := put_sessions (sessions (db w) @ [s]) (db w)\<rparr>
     \<and> s_UserID s = u_ID user \<and> s_TokenHash s = HashToken tok \<and> s_ExpiresAt s = go_now w + sessionLifetime
     \<and> (\<forall>x \<in> set (sessions (db w)). s_TokenHash x \<noteq> s_TokenHash s) \<and> tok = hex_EncodeToString bs \<and> length bs = 32)"

lemma opened_drawn: "opened user tok (w\<lparr>drawn := k\<rparr>) w' \<Longrightarrow> opened user tok w w'"
  by (auto simp: opened_def)

lemma create_session_Some:
  assumes "faults w = []" and "run_state (create_session n user ip ua) w = (Some t, w')"
  shows "opened user (tok_Plaintext t) w w'"
  using assms
proof (induction n arbitrary: w)
  case (Suc n)
  let ?w2 = "w\<lparr>drawn := Suc (Suc (drawn w))\<rparr>"
  let ?s = "new_session user ip ua \<lparr>tok_Plaintext = next_token w, tok_Hash = HashToken (next_token w)\<rparr> (go_now w)
      \<lparr>s_ID := new_uuid w (Suc (drawn w)), s_CreatedAt := db_now w, s_UpdatedAt := db_now w\<rparr>"
  show ?case
  proof (cases "list_ex (session_clash ?s) (sessions (db w))")
    case True
    with Suc.prems have "run_state (create_session n user ip ua) ?w2 = (Some t, w')"
      by (simp add: quiet Let_def)
    with Suc.IH [of ?w2] Suc.prems(1) show ?thesis by (auto dest: opened_drawn)
  next
    case False
    then have "\<forall>x \<in> set (sessions (db w)). s_TokenHash x \<noteq> HashToken (next_token w)"
      by (auto simp: list_ex_iff session_clash_def new_session_def)
    with Suc.prems False show ?thesis
      by (auto simp: quiet Let_def opened_def new_session_def next_token_def split: if_splits
        intro!: exI [of _ ?s] exI [of _ "Suc (Suc (drawn w))"] exI [of _ "map (rand_bytes w (drawn w)) [0..<32]"] simp del: upt_rec_numeral)
  qed
qed simp

lemma opened_authenticates:
  assumes "faults w = []" and "opened user tok w w'" and "row_at u_ID (users (db w)) (u_ID user) = Some user"
    and "rq_Authorization q = ''Bearer '' @ tok" and "go_now w \<le> t" and "t < go_now w + sessionLifetime"
  shows "\<exists>s. run_state (authenticate q) (w'\<lparr>go_now := t\<rparr>) = (Inr (s, user), w'\<lparr>go_now := t\<rparr>) \<and> s_UserID s = u_ID user"
proof -
  from assms(2) obtain s k bs where w': "w' = w\<lparr>drawn := k, db := put_sessions (sessions (db w) @ [s]) (db w)\<rparr>"
    and s: "s_UserID s = u_ID user" "s_TokenHash s = HashToken tok" "s_ExpiresAt s = go_now w + sessionLifetime"
    and new: "\<forall>x \<in> set (sessions (db w)). s_TokenHash x \<noteq> s_TokenHash s" and tok: "tok = hex_EncodeToString bs" "length bs = 32"
    unfolding opened_def by blast
  have "find (\<lambda>s. s_TokenHash s = HashToken tok \<and> t < s_ExpiresAt s) (sessions (db w) @ [s]) = Some s"
    using new s assms(6) by (intro find_last) auto
  moreover have "tok \<noteq> []" using tok length_hex [of bs] by auto
  ultimately show ?thesis
    using assms(1,3) s bearer_hex [of q bs] assms(4) tok
    by (auto simp: authenticate_def quiet w')
qed


text \<open>What a successful login has checked and done.\<close>

lemma login_granted:
  assumes "faults w = []" and "run_state (loginUser a r (JsonBody l) c) w = (SetCookie ck (Resp 200 (LoginData m tok user)), w')"
  shows "row_at u_Email (users (db w)) (ToLower (lu_Email l)) = Some user
    \<and> (\<exists>h. u_PasswordHash user = Some h \<and> VerifyPassword (argon2_IDKey a) (lu_Password l) h = Inr True)
    \<and> ck = \<lparr>ck_Name = ''gater_auth_session'', ck_Value = tok, ck_MaxAge = 60 * 60 * 24 * 30, ck_Secure = IsProduction (config a)\<rparr>
    \<and> opened user tok w w'"
proof -
  obtain t where "ck = session_cookie a t" "tok = tok_Plaintext t"
    and "run_state (create_session 3 user (fst (the (SplitHostPort (rq_RemoteAddr r)))) (rq_UserAgent r)) w = (Some t, w')"
    and "row_at u_Email (users (db w)) (ToLower (lu_Email l)) = Some user"
    and "\<exists>h. u_PasswordHash user = Some h \<and> VerifyPassword (argon2_IDKey a) (lu_Password l) h = Inr True"
    using assms
    by (auto simp: loginUser_def with_payload_def json_Read_def quiet bad_login_def with_cookie_def
      split: prod.splits if_splits option.splits sum.splits)
  with create_session_Some [OF assms(1)] show ?thesis by (auto simp: session_cookie_def)
qed

text \<open>
  C20. A login opens a session that works. When a login answers 200, the password matched the stored
  hash of the account with that e-mail (upper and lower case alike), the cookie carries the token
  of the answer, and a request with that token as bearer is authenticated as this user at every
  moment of the following 30 days.
\<close>

theorem login_opens_session:
  assumes "faults w = []" and "schema_ok (db w)"
    and "run_state (loginUser a r (JsonBody l) c) w = (SetCookie ck (Resp 200 (LoginData m tok user)), w')"
    and "rq_Authorization q = ''Bearer '' @ tok" and "go_now w \<le> t" and "t < go_now w + 30 * 24 * time_Hour"
  shows "u_Email user = ToLower (lu_Email l)
    \<and> (\<exists>h. u_PasswordHash user = Some h \<and> VerifyPassword (argon2_IDKey a) (lu_Password l) h = Inr True)
    \<and> ck_Value ck = tok
    \<and> (\<exists>s. run_state (authenticate q) (w'\<lparr>go_now := t\<rparr>) = (Inr (s, user), w'\<lparr>go_now := t\<rparr>))"
proof -
  note granted = login_granted [OF assms(1,3)]
  then have "user \<in> set (users (db w))" and email: "u_Email user = ToLower (lu_Email l)" by (auto dest: row_at_Some)
  with row_at_mem [OF schema_keyed(1) [OF assms(2)]] have "row_at u_ID (users (db w)) (u_ID user) = Some user" by blast
  with opened_authenticates [OF assms(1) _ this assms(4,5)] granted assms(6)
  have "\<exists>s. run_state (authenticate q) (w'\<lparr>go_now := t\<rparr>) = (Inr (s, user), w'\<lparr>go_now := t\<rparr>)"
    by (fastforce simp: sessionLifetime_def)
  with granted email show ?thesis by auto
qed

lemma demo_login_run:
  "run_state (loginUser demo_app (demo_request [] []) (JsonBody demo_login) c)
     (world_at (empty_db\<lparr>users := [demo_user], verifications := [demo_v]\<rparr>) 4)
   = (SetCookie \<lparr>ck_Name = ''gater_auth_session'', ck_Value = demo_token 4, ck_MaxAge = 2592000, ck_Secure = False\<rparr>
        (Resp 200 (LoginData ''logged in successfully'' (demo_token 4) demo_user)),
      world_at (empty_db\<lparr>users := [demo_user], sessions := [demo_s], verifications := [demo_v]\<rparr>) 6)"
proof -
  have "SplitHostPort ''10.0.0.1:80'' = Some (''10.0.0.1'', ''80'')" by code_simp
  then show ?thesis
    by (simp add: loginUser_def with_payload_def json_Read_def ValidateStruct_def demo_app_def
      demo_login_def demo_lower run_defs Users_GetByEmail_def demo_user_def demo_password demo_request_def
      numeral_3_eq_3 new_session_def auth_GenerateToken_def Sessions_Create_def session_fk_def Let_def
      demo_s_def demo_token_def empty_db_def with_cookie_def session_cookie_def IsProduction_def demo_config_def)
qed

theorem login_opens_session_witness:
  "\<exists>s. fst (run_state (authenticate (demo_request [] [])) (world_at (empty_db\<lparr>users := [demo_user], sessions := [demo_s],
     verifications := [demo_v]\<rparr>) 6\<lparr>go_now := 29 * 24 * time_Hour\<rparr>)) = Inr (s, demo_user)"
proof -
  have "schema_ok (empty_db\<lparr>users := [demo_user], verifications := [demo_v]\<rparr>)"
    by (simp add: schema_ok_def keys_ok_def checks_ok_def refs_ok_def keyed_def empty_db_def)
  moreover have "rq_Authorization (demo_request [] []) = ''Bearer '' @ demo_token 4" by (simp add: demo_request_def)
  ultimately show ?thesis
    using login_opens_session [where q = "demo_request [] []" and t = "29 * 24 * time_Hour", OF _ _ demo_login_run]
    by (auto simp: time_Hour_def)
qed


subsection \<open>Signing up\<close>

lemma quiet_hash [quiet]:
  assumes "faults w = []"
  shows "run_state (HashPassword k pw None) w =
    (let salt = map (rand_bytes w (drawn w)) [0..<16]
     in (Inr (encode_hash DefaultHashParams salt (k (to_bytes pw) salt 3 65536 4 32)), w\<lparr>drawn := Suc (drawn w)\<rparr>))"
  using assms by (simp add: HashPassword_def quiet Let_def DefaultHashParams_def del: upt_rec_numeral)

text \<open>Argon2id returns a key of the length it is asked for.\<close>

definition key_lengths :: "app \<Rightarrow> bool" where
  "key_lengths a \<longleftrightarrow> (\<forall>pw salt t m p n. length (argon2_IDKey a pw salt t m p n) = n)"

lemma verify_default:
  assumes "key_lengths a" and "length salt = 16"
  shows "VerifyPassword (argon2_IDKey a) pw' (encode_hash DefaultHashParams salt (argon2_IDKey a (to_bytes pw) salt 3 65536 4 32))
    = Inr (argon2_IDKey a (to_bytes pw) salt 3 65536 4 32 = argon2_IDKey a (to_bytes pw') salt 3 65536 4 32)"
  using assms
  by (subst verify_encoded) (simp_all add: params_ok_def DefaultHashParams_def key_lengths_def)

lemma create_session_fresh:
  assumes "faults w = []" and "\<forall>s \<in> set (sessions (db w)). s_ID s \<noteq> new_uuid w (Suc (drawn w)) \<and> s_TokenHash s \<noteq> HashToken (next_token w)"
    and "user \<in> set (users (db w))"
  shows "\<exists>w'. run_state (create_session (Suc n) user ip ua) w
    = (Some \<lparr>tok_Plaintext = next_token w, tok_Hash = HashToken (next_token w)\<rparr>, w')"
  using assms by (auto simp: quiet Let_def list_ex_iff session_clash_def session_fk_def new_session_def)

lemma registered:
  assumes "faults w = []" and "run_state (registerUser a (JsonBody p) c) w = (Resp 201 body, w')"
  shows "\<exists>u salt. length salt = 16 \<and> body = UserData ''account created successfully'' u
    \<and> u_Email u = ToLower (ru_Email p) \<and> u_Name u = ru_Name p \<and> u_Role u = RoleAttendee \<and> \<not> u_EmailVerified u
    \<and> u_PasswordHash u = Some (encode_hash DefaultHashParams salt (argon2_IDKey a (to_bytes (ru_Password p)) salt 3 65536 4 32))
    \<and> (\<forall>x \<in> set (users (db w)). u_Email x \<noteq> u_Email u)
    \<and> users (db w') = users (db w) @ [u] \<and> faults w' = []"
  using assms
  by (fastforce simp: registerUser_def with_payload_def json_Read_def quiet issue_token_def Let_def new_user_def
      list_ex_iff user_clash_def
    split: prod.splits if_splits option.splits sum.splits simp del: upt_rec_numeral
    intro: exI [of _ "map (rand_bytes w (drawn w)) [0..<16]"])

text \<open>
  C21. Who signs up can sign in. After a registration that answered 201, a login with the same e-mail
  in any case and the same password answers 200 with a session for that very account, although
  its e-mail is not verified, as long as the payload is valid, the address of the client has a
  port, and the drawn token is new. Registering stores the e-mail in lower case, the role
  attendee, and no two accounts share an e-mail.
\<close>

theorem register_then_login:
  assumes "faults w = []" and "key_lengths a"
    and "run_state (registerUser a (JsonBody p) c) w = (Resp 201 (UserData m u), w')"
    and "ToLower (lu_Email l) = ToLower (ru_Email p)" and "lu_Password l = ru_Password p"
    and "validate_Struct a (login_tags (l\<lparr>lu_Email := ToLower (lu_Email l)\<rparr>)) = []"
    and "SplitHostPort (rq_RemoteAddr r) = Some (ip, port)"
    and "\<forall>s \<in> set (sessions (db w')). s_ID s \<noteq> new_uuid w' (Suc (drawn w')) \<and> s_TokenHash s \<noteq> HashToken (next_token w')"
  shows "\<exists>ck w''. run_state (loginUser a r (JsonBody l) c') w'
      = (SetCookie ck (Resp 200 (LoginData ''logged in successfully'' (next_token w') u)), w'')
    \<and> u_Email u = ToLower (ru_Email p) \<and> u_Role u = RoleAttendee \<and> \<not> u_EmailVerified u
    \<and> (\<forall>x \<in> set (users (db w)). u_Email x \<noteq> u_Email u)"
proof -
  from registered [OF assms(1,3)] obtain salt where salt: "length salt = 16"
    and u: "u_Email u = ToLower (ru_Email p)" "u_Role u = RoleAttendee" "\<not> u_EmailVerified u"
    and h: "u_PasswordHash u = Some (encode_hash DefaultHashParams salt (argon2_IDKey a (to_bytes (ru_Password p)) salt 3 65536 4 32))"
    and new: "\<forall>x \<in> set (users (db w)). u_Email x \<noteq> u_Email u"
    and w': "users (db w') = users (db w) @ [u]" "faults w' = []"
    by auto
  have "row_at u_Email (users (db w')) (ToLower (lu_Email l)) = Some u"
    using new assms(4) u(1) by (auto simp: w' row_at_append row_at_None split: option.split dest: row_at_Some)
  moreover obtain w'' where "run_state (create_session 3 u ip (rq_UserAgent r)) w'
      = (Some \<lparr>tok_Plaintext = next_token w', tok_Hash = HashToken (next_token w')\<rparr>, w'')"
    using create_session_fresh [OF w'(2) assms(8), of u 2] w'(1) by (auto simp: numeral_3_eq_3 numeral_2_eq_2)
  ultimately show ?thesis
    using assms(5-7) h verify_default [OF assms(2) salt, of "lu_Password l" "ru_Password p"] w'(2) u new
    by (simp add: loginUser_def with_payload_def json_Read_def ValidateStruct_def quiet with_cookie_def)
qed


lemma demo_register_run:
  "run_state (registerUser demo_app (JsonBody demo_register) empty_ctx) demo0
    = (Resp 201 (UserData ''account created successfully'' demo_user),
       world_at (empty_db\<lparr>users := [demo_user], verifications := [demo_v]\<rparr>) 4)"
proof -
  have start: "demo0 = demo_world empty_db 0 []" by (simp add: demo_world_def demo0_def)
  show ?thesis unfolding start
    by (simp add: registerUser_def with_payload_def json_Read_def ValidateStruct_def demo_app_def
      demo_register_def demo_lower HashPassword_def generateRandomBytes_def run_defs Users_Create_def new_user_def
      issue_token_def auth_GenerateToken_def Verifications_Create_def Enqueue_def demo_tasks_def demo_v_def
      demo_user_def empty_db_def demo_hash_def DefaultHashParams_def demo_token_def
      numeral_2_eq_2 [symmetric] Let_def)
qed

lemma demo_key_lengths: "key_lengths demo_app"
  by (simp add: key_lengths_def demo_app_def demo_key_def)

theorem register_then_login_witness:
  "\<exists>ck tok w''. run_state (loginUser demo_app (demo_request [] []) (JsonBody demo_login) empty_ctx)
     (world_at (empty_db\<lparr>users := [demo_user], verifications := [demo_v]\<rparr>) 4)
   = (SetCookie ck (Resp 200 (LoginData ''logged in successfully'' tok demo_user)), w'')"
proof -
  have "SplitHostPort (rq_RemoteAddr (demo_request [] [])) = Some (''10.0.0.1'', ''80'')"
    by (simp add: demo_request_def) code_simp
  moreover have "ToLower (lu_Email demo_login) = ToLower (ru_Email demo_register)"
    by (simp add: demo_login_def demo_register_def demo_lower)
  moreover have "lu_Password demo_login = ru_Password demo_register"
    by (simp add: demo_login_def demo_register_def)
  ultimately show ?thesis
    using register_then_login [where l = demo_login and r = "demo_request [] []" and c' = empty_ctx,
        OF _ demo_key_lengths demo_register_run]
    by (fastforce simp: demo0_def empty_db_def)
qed

subsection \<open>Refused logins and silent answers\<close>

text \<open>
  C24. Answers do not reveal accounts. When no call fails, a login with an unknown e-mail, to an account
  without password, or with a wrong password gets the same 401 and changes nothing; asking for a
  password reset or a new verification mail gets the same 200 whether or not the account exists
  or is verified (with a fresh row id), and nothing is stored or queued for an unknown e-mail.
\<close>

theorem answers_reveal_nothing:
  assumes "faults w = []" and "\<forall>v \<in> set (verifications (db w)). v_ID v \<noteq> new_uuid w (Suc (drawn w))"
    and "validate_Struct a (login_tags (l\<lparr>lu_Email := ToLower (lu_Email l)\<rparr>)) = []"
    and "validate_Struct a (forgot_tags (f\<lparr>fp_Email := ToLower (fp_Email f)\<rparr>)) = []"
    and "validate_Struct a (resend_tags (v\<lparr>rv_Email := ToLower (rv_Email v)\<rparr>)) = []"
  shows "((case row_at u_Email (users (db w)) (ToLower (lu_Email l)) of
        None \<Rightarrow> True
      | Some u \<Rightarrow> (case u_PasswordHash u of None \<Rightarrow> True
          | Some h \<Rightarrow> VerifyPassword (argon2_IDKey a) (lu_Password l) h = Inr False))
        \<longrightarrow> run_state (loginUser a r (JsonBody l) c) w = (Resp 401 (Errors [''invalid email or password'']), w))
    \<and> fst (run_state (forgotPassword a (JsonBody f) c) w) = Resp 200 (MessageData forgot_message)
    \<and> (row_at u_Email (users (db w)) (ToLower (fp_Email f)) = None
        \<longrightarrow> snd (run_state (forgotPassword a (JsonBody f) c) w) = w)
    \<and> fst (run_state (resendVerificationEmail a (JsonBody v) c) w) = Resp 200 (MessageData resend_message)
    \<and> (row_at u_Email (users (db w)) (ToLower (rv_Email v)) = None
        \<longrightarrow> snd (run_state (resendVerificationEmail a (JsonBody v) c) w) = w)"
proof (intro conjI impI)
  have replaced: "fst (run_state (replace_token i life mail msg) w) = Resp 200 (MessageData msg)" for i life mail msg
    using assms(1,2)
    by (auto simp: replace_token_def allow_send_def quiet issue_token_def Let_def list_ex_iff verification_clash_def
      split: option.splits)
  show "fst (run_state (forgotPassword a (JsonBody f) c) w) = Resp 200 (MessageData forgot_message)"
    using assms(1,4) replaced
    by (auto simp: forgotPassword_def with_payload_def json_Read_def ValidateStruct_def quiet split: option.split)
  show "fst (run_state (resendVerificationEmail a (JsonBody v) c) w) = Resp 200 (MessageData resend_message)"
    using assms(1,5) replaced
    by (auto simp: resendVerificationEmail_def with_payload_def json_Read_def ValidateStruct_def quiet split: option.split)
qed (use assms in \<open>auto simp: loginUser_def forgotPassword_def resendVerificationEmail_def with_payload_def json_Read_def
  ValidateStruct_def quiet bad_login_def split: option.splits\<close>)

definition demo_stranger :: LoginUserPayload where
  "demo_stranger = demo_login\<lparr>lu_Email := ''b@x''\<rparr>"

theorem answers_reveal_nothing_witness:
  "fst (run_state (forgotPassword demo_app (JsonBody \<lparr>fp_Email = ''A@x''\<rparr>) empty_ctx) demo_sold)
     = fst (run_state (forgotPassword demo_app (JsonBody \<lparr>fp_Email = ''b@x''\<rparr>) empty_ctx) demo_sold)
   \<and> fst (run_state (loginUser demo_app (demo_request [] []) (JsonBody demo_stranger) empty_ctx) demo_sold)
     = Resp 401 (Errors [''invalid email or password''])"
proof -
  have 1: "faults demo_sold = []" "\<forall>v \<in> set (verifications (db demo_sold)). v_ID v \<noteq> new_uuid demo_sold (Suc (drawn demo_sold))"
    by (simp_all add: demo_sold_at demo_db_def demo_v_def)
  have "ToLower (lu_Email demo_stranger) = ''b@x''" by (simp add: demo_stranger_def) code_simp
  then have "row_at u_Email (users (db demo_sold)) (ToLower (lu_Email demo_stranger)) = None"
    by (simp add: demo_sold_at demo_u_def demo_user_def)
  with answers_reveal_nothing [OF 1, of demo_app demo_stranger "\<lparr>fp_Email = ''A@x''\<rparr>" "\<lparr>rv_Email = ''A@x''\<rparr>" "demo_request [] []" empty_ctx]
    answers_reveal_nothing [OF 1, of demo_app demo_stranger "\<lparr>fp_Email = ''b@x''\<rparr>" "\<lparr>rv_Email = ''A@x''\<rparr>" "demo_request [] []" empty_ctx]
  show ?thesis by simp
qed


subsection \<open>Tokens that are mailed\<close>

lemma cut_prefix_Some: "cut_prefix s p = Some r \<longleftrightarrow> s = p @ r"
  by (auto simp: cut_prefix_def) (metis append_eq_conv_conj take_all_iff nat_le_linear append_take_drop_id)

text \<open>
  C22. Resetting a password. A reset that answers 200 was asked with the token of an unexpired
  password-reset record for the e-mail of a user; it changes the password of that user only, so
  that the new password verifies, ends all sessions of this user and no others, and uses the
  token up: asking again with it is refused and changes nothing.
\<close>

theorem reset_changes_password:
  assumes "faults w = []" and "key_lengths a" and "keyed v_ID (verifications (db w))" and "keyed v_Value (verifications (db w))"
    and "run_state (resetPassword a (JsonBody p) c) w = (Resp 200 body, w')"
    and "rp_Token p' = rp_Token p" and "validate_Struct a (reset_tags p') = []"
  shows "\<exists>v u h. v \<in> set (verifications (db w)) \<and> v_Value v = HashToken (rp_Token p) \<and> go_now w < v_ExpiresAt v
    \<and> u \<in> set (users (db w)) \<and> v_Identifier v = reset_identifier (u_Email u)
    \<and> VerifyPassword (argon2_IDKey a) (rp_Password p) h = Inr True
    \<and> users (db w') = upd (\<lambda>x. u_Email x = u_Email u)
        (\<lambda>x. x\<lparr>u_PasswordHash := Some h, u_UpdatedAt := db_now w\<rparr>) (users (db w))
    \<and> sessions (db w') = filter (\<lambda>s. s_UserID s \<noteq> u_ID u) (sessions (db w))
    \<and> run_state (resetPassword a (JsonBody p') c) w' = (Resp 400 (Errors [''invalid or expired token'']), w')"
proof -
  let ?salt = "map (rand_bytes w (drawn w)) [0..<16]"
  let ?h = "encode_hash DefaultHashParams ?salt (argon2_IDKey a (to_bytes (rp_Password p)) ?salt 3 65536 4 32)"
  let ?us = "\<lambda>u. upd (\<lambda>x. u_Email x = u_Email u) (\<lambda>x. x\<lparr>u_PasswordHash := Some ?h, u_UpdatedAt := db_now w\<rparr>) (users (db w))"
  obtain v e u where v: "row_at v_Value (verifications (db w)) (HashToken (rp_Token p)) = Some v" "go_now w < v_ExpiresAt v"
    and e: "row_at u_Email (users (db w)) e = Some u" "v_Identifier v = reset_identifier e"
    and w': "w' = w\<lparr>drawn := Suc (drawn w), db := (db w)\<lparr>users := ?us u,
      verifications := filter (\<lambda>x. v_ID x \<noteq> v_ID v) (verifications (db w)),
      sessions := filter (\<lambda>s. s_UserID s \<noteq> u_ID u) (sessions (db w))\<rparr>\<rparr>"
    using assms(1,5)
    by (auto simp: resetPassword_def with_payload_def json_Read_def with_verification_def invalid_token_def quiet Let_def
        reset_identifier_def cut_prefix_Some
      split: prod.splits if_splits option.splits sum.splits simp del: upt_rec_numeral)
  then have u: "u \<in> set (users (db w))" "v_Identifier v = reset_identifier (u_Email u)" by (auto dest: row_at_Some)
  have "v \<in> set (verifications (db w))" using v(1) by (auto dest: row_at_Some)
  then have gone: "x \<noteq> v \<longrightarrow> v_Value x \<noteq> v_Value v" "v_ID x = v_ID v \<longleftrightarrow> x = v" if "x \<in> set (verifications (db w))" for x
    using keyed_unique [OF assms(3) that] keyed_unique [OF assms(4) that] by blast+
  have "row_at v_Value (verifications (db w')) (HashToken (rp_Token p)) = None"
    using gone v(1) by (auto simp: w' row_at_None dest: row_at_Some)
  then have "run_state (resetPassword a (JsonBody p') c) w' = (Resp 400 (Errors [''invalid or expired token'']), w')"
    using assms(1,6,7)
    by (simp add: resetPassword_def with_payload_def json_Read_def ValidateStruct_def with_verification_def
      invalid_token_def quiet w')
  moreover have "VerifyPassword (argon2_IDKey a) (rp_Password p) ?h = Inr True"
    using verify_default [OF assms(2), of ?salt] by simp
  ultimately show ?thesis
    using v u by (intro exI [of _ v] exI [of _ u] exI [of _ ?h]) (auto simp: w' dest: row_at_Some)
qed


text \<open>The world after the sale, with the token of a password reset stored for the user.\<close>

definition demo_reset :: Verifications where
  "demo_reset = \<lparr>v_ID = 101, v_Identifier = reset_identifier ''a@x'', v_Value = HashToken (demo_token 7),
     v_ExpiresAt = 15 * time_Minute, v_CreatedAt = 0, v_UpdatedAt = 0\<rparr>"

definition demo_forgot :: world where
  "demo_forgot = demo_sold\<lparr>db := put_verifications [demo_reset] (db demo_sold)\<rparr>"

definition demo_new_password :: ResetPasswordPayload where
  "demo_new_password = \<lparr>rp_Token = demo_token 7, rp_Password = ''correct horse''\<rparr>"

lemma demo_reset_run:
  "\<exists>w'. run_state (resetPassword demo_app (JsonBody demo_new_password) empty_ctx) demo_forgot
    = (Resp 200 (MessageData ''password reset successfully''), w')"
  by (simp add: resetPassword_def with_payload_def json_Read_def ValidateStruct_def with_verification_def quiet Let_def
    demo_forgot_def demo_sold_at demo_new_password_def demo_reset_def reset_identifier_def time_Minute_def
    cut_prefix_Some demo_u_def demo_user_def del: upt_rec_numeral)

theorem reset_changes_password_witness:
  "\<exists>w' h. run_state (resetPassword demo_app (JsonBody demo_new_password) empty_ctx) demo_forgot
      = (Resp 200 (MessageData ''password reset successfully''), w')
    \<and> sessions (db w') = [] \<and> map u_PasswordHash (users (db w')) = [Some h]
    \<and> VerifyPassword (argon2_IDKey demo_app) ''correct horse'' h = Inr True
    \<and> fst (run_state (resetPassword demo_app (JsonBody demo_new_password) empty_ctx) w') = Resp 400 (Errors [''invalid or expired token''])"
proof -
  obtain w' where run: "run_state (resetPassword demo_app (JsonBody demo_new_password) empty_ctx) demo_forgot
      = (Resp 200 (MessageData ''password reset successfully''), w')" using demo_reset_run by blast
  have "faults demo_forgot = []" "keyed v_ID (verifications (db demo_forgot))" "keyed v_Value (verifications (db demo_forgot))"
    by (simp_all add: demo_forgot_def demo_sold_at keyed_def)
  from reset_changes_password [OF this(1) demo_key_lengths this(2,3) run refl] run show ?thesis
    by (fastforce simp: demo_forgot_def demo_sold_at demo_new_password_def demo_s_def)
qed

text \<open>
  C23. Tokens keep their purpose. Whatever fails, a token that was mailed to verify an e-mail never changes
  a password or ends a session, and a token that was mailed to reset a password never marks an
  e-mail as verified: the request is answered with an error and users and sessions stay.
\<close>

theorem tokens_keep_purpose:
  assumes "row_at v_Value (verifications (db w)) (HashToken tok) = Some v"
  shows "(v_Identifier v = verify_identifier e \<longrightarrow>
      (let (resp, w') = run_state (resetPassword a (JsonBody \<lparr>rp_Token = tok, rp_Password = pw\<rparr>) c) w
       in (\<exists>n msgs. resp = Resp n (Errors msgs) \<and> n \<in> {400, 422, 500}) \<and> users (db w') = users (db w) \<and> sessions (db w') = sessions (db w)))
    \<and> (v_Identifier v = reset_identifier e \<longrightarrow>
      (let (resp, w') = run_state (verifyEmail a (JsonBody \<lparr>ve_Token = tok\<rparr>) c) w
       in (\<exists>n msgs. resp = Resp n (Errors msgs) \<and> n \<in> {400, 422, 500}) \<and> users (db w') = users (db w) \<and> sessions (db w') = sessions (db w)))"
proof (intro conjI impI)
  have prefixes: "cut_prefix (verify_identifier e) ''password-reset:'' = None"
    "cut_prefix (reset_identifier e) ''email-verification:'' = None"
    by (simp_all add: cut_prefix_def verify_identifier_def reset_identifier_def)
  note defs = with_payload_def json_Read_def with_verification_def invalid_token_def Verifications_Get_def run_exec_or
    run_exec select_one_def Verifications_Delete_def delete_verifications_def no_rows_as_def HashPassword_def
    generateRandomBytes_def rand_Read_def Let_def prefixes
  show "let (resp, w') = run_state (resetPassword a (JsonBody \<lparr>rp_Token = tok, rp_Password = pw\<rparr>) c) w
    in (\<exists>n msgs. resp = Resp n (Errors msgs) \<and> n \<in> {400, 422, 500}) \<and> users (db w') = users (db w) \<and> sessions (db w') = sessions (db w)"
    if "v_Identifier v = verify_identifier e"
    using assms that
    by (auto simp: resetPassword_def defs simp del: upt_rec_numeral split: prod.splits sum.splits if_splits)
  show "let (resp, w') = run_state (verifyEmail a (JsonBody \<lparr>ve_Token = tok\<rparr>) c) w
    in (\<exists>n msgs. resp = Resp n (Errors msgs) \<and> n \<in> {400, 422, 500}) \<and> users (db w') = users (db w) \<and> sessions (db w') = sessions (db w)"
    if "v_Identifier v = reset_identifier e"
    using assms that
    by (auto simp: verifyEmail_def defs split: prod.splits sum.splits if_splits)
qed

theorem tokens_keep_purpose_witness:
  "users (db (snd (run_state (verifyEmail demo_app (JsonBody \<lparr>ve_Token = demo_token 7\<rparr>) empty_ctx) demo_forgot))) = [demo_u]"
proof -
  have "row_at v_Value (verifications (db demo_forgot)) (HashToken (demo_token 7)) = Some demo_reset"
    by (simp add: demo_forgot_def demo_reset_def)
  from tokens_keep_purpose [OF this, of "''a@x''" demo_app "[]" empty_ctx] show ?thesis
    by (simp add: demo_reset_def demo_forgot_def demo_sold_at split_beta)
qed


subsection \<open>The limit on mails\<close>

definition tokens_for :: "string \<Rightarrow> database \<Rightarrow> Verifications list" where
  "tokens_for i d = filter (\<lambda>v. v_Identifier v = i) (verifications d)"

text \<open>The rule of the handlers: when a mail may be sent, and the row that is then stored.\<close>

definition may_send :: "string \<Rightarrow> world \<Rightarrow> bool" where
  "may_send i w \<longleftrightarrow> tokens_for i (db w) = []
     \<or> length (filter (\<lambda>v. go_now w - time_Hour < v_CreatedAt v) (tokens_for i (db w))) < 5
       \<and> (\<forall>v \<in> set (tokens_for i (db w)). v_CreatedAt v < go_now w - time_Minute)"

definition issued_token :: "string \<Rightarrow> int \<Rightarrow> world \<Rightarrow> Verifications" where
  "issued_token i life w = \<lparr>v_ID = new_uuid w (Suc (drawn w)), v_Identifier = i, v_Value = HashToken (next_token w),
     v_ExpiresAt = go_now w + life, v_CreatedAt = db_now w, v_UpdatedAt = db_now w\<rparr>"

lemma latest_verification_cases:
  obtains (none) "latest_verification i d = None" "tokens_for i d = []"
    | (latest) v where "latest_verification i d = Some v" "v \<in> set (tokens_for i d)"
        "\<forall>x \<in> set (tokens_for i d). v_CreatedAt x \<le> v_CreatedAt v"
proof (cases "rev (sort_key v_CreatedAt (tokens_for i d))")
  case Nil
  then have "set (sort_key v_CreatedAt (tokens_for i d)) = {}" by simp
  then have "tokens_for i d = []" by (simp only: set_sort set_empty)
  with Nil show thesis by (intro none) (simp_all add: latest_verification_def tokens_for_def)
next
  case (Cons v vs)
  have "sorted (map v_CreatedAt (rev (v # vs)))" unfolding Cons [symmetric] by simp
  then have le: "\<forall>x \<in> set (v # vs). v_CreatedAt x \<le> v_CreatedAt v" by (auto simp: sorted_append)
  have "set (v # vs) = set (tokens_for i d)" unfolding Cons [symmetric] by simp
  with le Cons show thesis by (intro latest [of v]) (auto simp: latest_verification_def tokens_for_def)
qed

lemma allow_send_exact:
  assumes "faults w = []"
  shows "run_state (allow_send i) w = (Inr (may_send i w), w)"
proof -
  have n: "filter (\<lambda>v. v_Identifier v = i \<and> go_now w - time_Hour < v_CreatedAt v) (verifications (db w))
      = filter (\<lambda>v. go_now w - time_Hour < v_CreatedAt v) (tokens_for i (db w))"
    by (simp add: tokens_for_def conj_commute)
  show ?thesis
  proof (cases rule: latest_verification_cases [of i "db w"])
    case none
    with assms show ?thesis by (simp add: allow_send_def quiet may_send_def)
  next
    case (latest v)
    then have "tokens_for i (db w) \<noteq> []" by auto
    with latest assms show ?thesis
      by (auto simp: allow_send_def quiet may_send_def n simp del: filter_filter)
  qed
qed

lemma allow_send_answered:
  assumes "faults w = False # False # fs"
  shows "run_state (allow_send i) w = (Inr (may_send i w), w\<lparr>faults := fs\<rparr>)"
proof -
  have n: "filter (\<lambda>v. v_Identifier v = i \<and> go_now w - time_Hour < v_CreatedAt v) (verifications (db w))
      = filter (\<lambda>v. go_now w - time_Hour < v_CreatedAt v) (tokens_for i (db w))"
    by (simp add: tokens_for_def conj_commute)
  note run = allow_send_def Verifications_GetLatest_def Verifications_CountSince_def run_defs ok_next_def pop_def no_rows_as_def
  show ?thesis
  proof (cases rule: latest_verification_cases [of i "db w"])
    case none
    with assms show ?thesis by (simp add: run may_send_def)
  next
    case (latest v)
    then have "tokens_for i (db w) \<noteq> []" by auto
    with latest assms show ?thesis
      by (auto simp: run may_send_def n simp del: filter_filter)
  qed
qed

lemma issue_token_exact:
  assumes "faults w = []" and "\<forall>v \<in> set (verifications (db w)). v_ID v \<noteq> new_uuid w (Suc (drawn w))"
  shows "run_state (issue_token i life) w = (Inr \<lparr>tok_Plaintext = next_token w, tok_Hash = HashToken (next_token w)\<rparr>,
    w\<lparr>drawn := Suc (Suc (drawn w)), db := put_verifications (verifications (db w) @ [issued_token i life w]) (db w)\<rparr>)"
  using assms
  by (auto simp: issue_token_def quiet Let_def list_ex_iff verification_clash_def issued_token_def)

lemma next_token_same [simp]: "next_token (w\<lparr>faults := fs\<rparr>) = next_token w" "next_token (w\<lparr>db := d\<rparr>) = next_token w"
    "next_token (w\<lparr>db_now := t, go_now := t\<rparr>) = next_token w"
  by (simp_all add: next_token_def del: upt_rec_numeral)

lemma issued_token_same: "issued_token i life (w\<lparr>faults := fs\<rparr>) = issued_token i life w"
    "issued_token i life (w\<lparr>db := d\<rparr>) = issued_token i life w"
  by (simp_all add: issued_token_def)

lemma replace_token_exact:
  assumes "faults w = []" and "\<forall>v \<in> set (verifications (db w)). v_ID v \<noteq> new_uuid w (Suc (drawn w))"
  shows "run_state (replace_token i life mail msg) w = (Resp 200 (MessageData msg),
    if may_send i w then w\<lparr>drawn := Suc (Suc (drawn w)), tasks := tasks w @ [mail (next_token w)],
        db := put_verifications (filter (\<lambda>v. v_Identifier v \<noteq> i) (verifications (db w)) @ [issued_token i life w]) (db w)\<rparr>
    else w)"
  using assms
  by (simp add: replace_token_def allow_send_exact quiet issue_token_exact issued_token_same)

lemma replace_token_undeleted:
  assumes "faults w = [False, False, True]" and "\<forall>v \<in> set (verifications (db w)). v_ID v \<noteq> new_uuid w (Suc (drawn w))"
    and "may_send i w"
  shows "run_state (replace_token i life mail msg) w = (Resp 200 (MessageData msg),
    w\<lparr>faults := [], drawn := Suc (Suc (drawn w)), tasks := tasks w @ [mail (next_token w)],
        db := put_verifications (verifications (db w) @ [issued_token i life w]) (db w)\<rparr>)"
proof -
  let ?w = "w\<lparr>faults := [True]\<rparr>"
  have "run_state (Verifications_DeleteByIdentifier i) ?w = (Inl (ErrPg ConnFailed), w\<lparr>faults := []\<rparr>)"
    by (simp add: Verifications_DeleteByIdentifier_def run_defs ok_next_def pop_def)
  moreover have "run_state (issue_token i life) (w\<lparr>faults := []\<rparr>)
    = (Inr \<lparr>tok_Plaintext = next_token w, tok_Hash = HashToken (next_token w)\<rparr>, w\<lparr>faults := [], drawn := Suc (Suc (drawn w)),
        db := put_verifications (verifications (db w) @ [issued_token i life w]) (db w)\<rparr>)"
    using assms(2) by (simp add: issue_token_exact issued_token_same)
  moreover have "run_state (allow_send i) w = (Inr True, ?w)" using allow_send_answered [OF assms(1)] assms(3) by simp
  ultimately show ?thesis by (simp add: replace_token_def quiet)
qed

text \<open>A request for a password reset at a time, and ids that are new for so many requests.\<close>

definition reset_asked :: "app \<Rightarrow> ForgotPasswordPayload \<Rightarrow> ctx \<Rightarrow> instant \<Rightarrow> world \<Rightarrow> world" where
  "reset_asked a f c t w = snd (run_state (forgotPassword a (JsonBody f) c) (w\<lparr>db_now := t, go_now := t\<rparr>))"

definition fresh_ids :: "nat \<Rightarrow> world \<Rightarrow> bool" where
  "fresh_ids n w \<longleftrightarrow> distinct (map v_ID (verifications (db w)) @ map (new_uuid w) [drawn w..<drawn w + 2 * n])"

lemma fresh_ids_Suc:
  "fresh_ids (Suc n) w \<longleftrightarrow> distinct (map v_ID (verifications (db w)) @ new_uuid w (drawn w) # new_uuid w (Suc (drawn w))
     # map (new_uuid w) [Suc (Suc (drawn w))..<Suc (Suc (drawn w)) + 2 * n])"
proof -
  have "[drawn w..<drawn w + 2 * Suc n] = drawn w # Suc (drawn w) # [Suc (Suc (drawn w))..<Suc (Suc (drawn w)) + 2 * n]"
    by (simp add: upt_conv_Cons)
  then show ?thesis by (simp only: fresh_ids_def list.map)
qed

lemma fresh_ids_next: "fresh_ids (Suc n) w \<Longrightarrow> \<forall>v \<in> set (verifications (db w)). v_ID v \<noteq> new_uuid w (Suc (drawn w))"
proof -
  assume "fresh_ids (Suc n) w"
  then have "new_uuid w (Suc (drawn w)) \<notin> v_ID ` set (verifications (db w))" by (auto simp: fresh_ids_Suc)
  then show ?thesis by (metis image_eqI)
qed

lemma fresh_ids_step:
  assumes "fresh_ids (Suc n) w" and "new_uuid w' = new_uuid w" and "drawn w' = Suc (Suc (drawn w))"
    and "verifications (db w') = filter P (verifications (db w)) @ [v]" and "v_ID v = new_uuid w (Suc (drawn w))"
  shows "fresh_ids n w'"
proof -
  have d: "distinct (map v_ID (verifications (db w)))" "new_uuid w (Suc (drawn w)) \<notin> v_ID ` set (verifications (db w))"
    "distinct (new_uuid w (Suc (drawn w)) # map (new_uuid w) [drawn w'..<drawn w' + 2 * n])"
    "v_ID ` set (verifications (db w)) \<inter> set (map (new_uuid w) [drawn w'..<drawn w' + 2 * n]) = {}"
    using assms(1,3) unfolding fresh_ids_Suc by auto
  have "distinct (map v_ID (filter P (verifications (db w))))" using d(1) by (rule distinct_map_filter)
  moreover have "set (map v_ID (filter P (verifications (db w)))) \<subseteq> v_ID ` set (verifications (db w))" by auto
  ultimately have "distinct (map v_ID (filter P (verifications (db w))) @ new_uuid w (Suc (drawn w))
      # map (new_uuid w) [drawn w'..<drawn w' + 2 * n])"
    using d(2-4) unfolding distinct_append list.set(2) by blast
  then show ?thesis by (simp add: fresh_ids_def assms(2,4,5))
qed

lemma asked_again:
  assumes "faults w = []" and "row_at u_Email (users (db w)) (ToLower (fp_Email f)) = Some user"
    and "validate_Struct a (forgot_tags (f\<lparr>fp_Email := ToLower (fp_Email f)\<rparr>)) = []"
    and "fresh_ids (Suc n) w" and "may_send (reset_identifier (u_Email user)) (w\<lparr>go_now := t\<rparr>)"
    and "w' = reset_asked a f c t w" and "i = reset_identifier (u_Email user)"
  shows "faults w' = [] \<and> users (db w') = users (db w) \<and> fresh_ids n w'
    \<and> tasks w' = tasks w @ [SendPasswordResetEmail [u_Email user] (u_Name user) (next_token w)]
    \<and> map v_CreatedAt (tokens_for i (db w')) = [t] \<and> drawn w' = Suc (Suc (drawn w)) \<and> rand_bytes w' = rand_bytes w"
proof -
  let ?w = "w\<lparr>db_now := t, go_now := t\<rparr>"
  have "may_send i ?w" using assms(5) by (simp add: may_send_def assms(7))
  moreover have "\<forall>v \<in> set (verifications (db ?w)). v_ID v \<noteq> new_uuid ?w (Suc (drawn ?w))"
    using fresh_ids_next [OF assms(4)] by simp
  moreover have "next_token ?w = next_token w" by (simp add: next_token_def del: upt_rec_numeral)
  ultimately have w': "w' = ?w\<lparr>drawn := Suc (Suc (drawn w)),
      tasks := tasks w @ [SendPasswordResetEmail [u_Email user] (u_Name user) (next_token w)],
      db := put_verifications (filter (\<lambda>v. v_Identifier v \<noteq> i) (verifications (db w)) @ [issued_token i (15 * time_Minute) ?w]) (db w)\<rparr>"
    using assms(1-3)
    by (simp add: assms(6) reset_asked_def forgotPassword_def with_payload_def json_Read_def ValidateStruct_def quiet
      replace_token_exact assms(7) [symmetric])
  have "fresh_ids n w'" using assms(4)
    by (rule fresh_ids_step [where P = "\<lambda>v. v_Identifier v \<noteq> i" and v = "issued_token i (15 * time_Minute) ?w"]) (simp_all add: w' issued_token_def)
  then show ?thesis using assms(1) by (simp add: w' tokens_for_def issued_token_def)
qed

lemma asked_in_turn:
  assumes "faults w = []" and "row_at u_Email (users (db w)) (ToLower (fp_Email f)) = Some user"
    and "validate_Struct a (forgot_tags (f\<lparr>fp_Email := ToLower (fp_Email f)\<rparr>)) = []"
    and "fresh_ids (length ts) w" and "i = reset_identifier (u_Email user)"
    and "ts \<noteq> [] \<longrightarrow> may_send i (w\<lparr>go_now := hd ts\<rparr>)" and "successively (\<lambda>s t. s + time_Minute < t) ts"
  shows "tasks (fold (reset_asked a f c) ts w) = tasks w @ map (\<lambda>n. SendPasswordResetEmail [u_Email user] (u_Name user)
      (hex_EncodeToString (map (rand_bytes w (drawn w + 2 * n)) [0..<32]))) [0..<length ts]"
  using assms
proof (induction ts arbitrary: w)
  case (Cons t ts)
  define w' where "w' = reset_asked a f c t w"
  note step = asked_again [OF Cons.prems(1-3) Cons.prems(4) [unfolded list.size add_Suc_right add_0_right] _ w'_def Cons.prems(5)]
  have s: "faults w' = [] \<and> users (db w') = users (db w) \<and> fresh_ids (length ts) w'
    \<and> tasks w' = tasks w @ [SendPasswordResetEmail [u_Email user] (u_Name user) (next_token w)]
    \<and> map v_CreatedAt (tokens_for i (db w')) = [t] \<and> drawn w' = Suc (Suc (drawn w)) \<and> rand_bytes w' = rand_bytes w"
    using Cons.prems by (intro step) simp
  then obtain v where v: "tokens_for i (db w') = [v]" "v_CreatedAt v = t" by auto
  have "may_send i (w'\<lparr>go_now := hd ts\<rparr>)" if "ts \<noteq> []"
    using that Cons.prems(7) v by (cases ts) (auto simp: may_send_def)
  then have IH: "tasks (fold (reset_asked a f c) ts w') = tasks w' @ map (\<lambda>n. SendPasswordResetEmail [u_Email user] (u_Name user)
      (hex_EncodeToString (map (rand_bytes w' (drawn w' + 2 * n)) [0..<32]))) [0..<length ts]"
    using Cons.prems(2,3,5,7) s by (intro Cons.IH) (auto simp: successively_Cons)
  have "[0..<Suc (length ts)] = 0 # map Suc [0..<length ts]" by (simp add: map_Suc_upt upt_conv_Cons del: upt_Suc)
  with IH s show ?case
    by (simp add: w'_def [symmetric] next_token_def comp_def del: upt_rec_numeral upt_Suc)
qed simp


text \<open>
  C25. What the limit on mails does. When no call fails, a mail with a token is queued exactly when no
  token of the same kind and e-mail is stored, or fewer than five were stored in the last hour
  and none in the last minute; the new token then replaces all of them. So the count starts
  again at each mail: a user who asks for a reset any number of times, each more than a minute
  after the one before, gets a mail each time, also more than five within an hour. Only when the
  deletion fails, which the code logs and ignores, do the earlier tokens stay stored (and count)
  beside the new one, which is mailed all the same.
\<close>

theorem hourly_limit_forgets:
  assumes "ts \<noteq> []" and "fresh_ids (length ts) w"
    and "row_at u_Email (users (db w)) (ToLower (fp_Email f)) = Some user"
    and "validate_Struct a (forgot_tags (f\<lparr>fp_Email := ToLower (fp_Email f)\<rparr>)) = []"
  shows "(faults w = [] \<longrightarrow> run_state (replace_token i life mail msg) w = (Resp 200 (MessageData msg),
      if may_send i w then w\<lparr>drawn := Suc (Suc (drawn w)), tasks := tasks w @ [mail (next_token w)],
          db := put_verifications (filter (\<lambda>v. v_Identifier v \<noteq> i) (verifications (db w)) @ [issued_token i life w]) (db w)\<rparr>
      else w))
    \<and> (faults w = [] \<and> may_send (reset_identifier (u_Email user)) (w\<lparr>go_now := hd ts\<rparr>)
          \<and> successively (\<lambda>s t. s + time_Minute < t) ts
        \<longrightarrow> tasks (fold (reset_asked a f c) ts w) = tasks w @ map (\<lambda>n. SendPasswordResetEmail [u_Email user] (u_Name user)
          (hex_EncodeToString (map (rand_bytes w (drawn w + 2 * n)) [0..<32]))) [0..<length ts])
    \<and> (faults w = [False, False, True] \<and> may_send i w
        \<longrightarrow> run_state (replace_token i life mail msg) w = (Resp 200 (MessageData msg),
          w\<lparr>faults := [], drawn := Suc (Suc (drawn w)), tasks := tasks w @ [mail (next_token w)],
            db := put_verifications (verifications (db w) @ [issued_token i life w]) (db w)\<rparr>))"
proof -
  have fresh: "\<forall>v \<in> set (verifications (db w)). v_ID v \<noteq> new_uuid w (Suc (drawn w))"
    using fresh_ids_next [of "length (tl ts)" w] assms(1,2) by (cases ts) auto
  show ?thesis
    using replace_token_exact [OF _ fresh, of i life mail msg] replace_token_undeleted [OF _ fresh, of i life mail msg]
      asked_in_turn [OF _ assms(3,4,2) refl, of c] by blast
qed

text \<open>
  Six requests within twelve minutes queue six mails; with a failing deletion the old token (101)
  stays beside the new one (8).
\<close>

theorem hourly_limit_forgets_witness:
  "length (tasks (fold (reset_asked demo_app \<lparr>fp_Email = ''A@x''\<rparr> empty_ctx)
       (map (\<lambda>k. int k * (2 * time_Minute)) [1..<7]) demo_forgot)) = length (tasks demo_forgot) + 6
   \<and> map v_ID (tokens_for (reset_identifier ''a@x'') (db (snd (run_state (replace_token (reset_identifier ''a@x'') (15 * time_Minute)
       (SendPasswordResetEmail [''a@x''] ''Ada'') forgot_message)
       (demo_forgot\<lparr>go_now := 2 * time_Minute, faults := [False, False, True]\<rparr>))))) = [101, 8]"
proof -
  let ?w = "demo_forgot\<lparr>go_now := 2 * time_Minute, faults := [False, False, True]\<rparr>"
  let ?ts = "map (\<lambda>k. int k * (2 * time_Minute)) [1..<7]" and ?f = "\<lparr>fp_Email = ''A@x''\<rparr>"
  have ts: "?ts = [2 * time_Minute, 4 * time_Minute, 6 * time_Minute, 8 * time_Minute, 10 * time_Minute, 12 * time_Minute]"
    by (simp add: upt_rec)
  have ids: "fresh_ids 6 demo_forgot" "fresh_ids 6 ?w"
    by (simp_all add: fresh_ids_def demo_forgot_def demo_sold_at demo_reset_def demo_world_def demo0_def upt_rec)
  have "ToLower (fp_Email ?f) = ''a@x''" by simp code_simp
  then have user: "row_at u_Email (users (db demo_forgot)) (ToLower (fp_Email ?f)) = Some demo_u"
    by (simp add: demo_forgot_def demo_sold_at demo_u_def demo_user_def)
  have send: "may_send (reset_identifier ''a@x'') (demo_forgot\<lparr>go_now := 2 * time_Minute\<rparr>)" "may_send (reset_identifier ''a@x'') ?w"
    by (simp_all add: may_send_def tokens_for_def demo_forgot_def demo_reset_def time_Minute_def)
  have quiet: "faults demo_forgot = []" "u_Email demo_u = ''a@x''" by (simp_all add: demo_forgot_def demo_sold_at demo_u_def demo_user_def)
  have nonempty: "?ts \<noteq> []" and len: "length ?ts = 6" and first: "hd ?ts = 2 * time_Minute"
    and apart: "successively (\<lambda>s t. s + time_Minute < t) ?ts"
    unfolding ts by (simp_all add: time_Minute_def)
  have valid: "validate_Struct demo_app (forgot_tags (?f\<lparr>fp_Email := ToLower (fp_Email ?f)\<rparr>)) = []" by (simp add: demo_app_def)
  have user': "row_at u_Email (users (db ?w)) (ToLower (fp_Email ?f)) = Some demo_u" using user by simp
  note all = hourly_limit_forgets [OF nonempty, unfolded len]
  from all [OF ids(1) user valid, THEN conjunct2, THEN conjunct1, of empty_ctx] quiet send(1) apart
  have six: "length (tasks (fold (reset_asked demo_app ?f empty_ctx) ?ts demo_forgot)) = length (tasks demo_forgot) + 6"
    unfolding first by (simp only: quiet conj_absorb simp_thms mp length_append length_map length_upt diff_zero)
  from all [OF ids(2) user' valid, THEN conjunct2, THEN conjunct2, of "reset_identifier ''a@x''"] send(2)
  have "run_state (replace_token (reset_identifier ''a@x'') (15 * time_Minute) (SendPasswordResetEmail [''a@x''] ''Ada'') forgot_message) ?w
    = (Resp 200 (MessageData forgot_message), ?w\<lparr>faults := [], drawn := Suc (Suc (drawn ?w)),
        tasks := tasks ?w @ [SendPasswordResetEmail [''a@x''] ''Ada'' (next_token ?w)],
        db := put_verifications (verifications (db ?w) @ [issued_token (reset_identifier ''a@x'') (15 * time_Minute) ?w]) (db ?w)\<rparr>)"
    by simp
  then have "map v_ID (tokens_for (reset_identifier ''a@x'') (db (snd (run_state (replace_token (reset_identifier ''a@x'')
      (15 * time_Minute) (SendPasswordResetEmail [''a@x''] ''Ada'') forgot_message) ?w)))) = [101, 8]"
    by (simp add: tokens_for_def demo_forgot_def demo_sold_at demo_reset_def issued_token_def demo_world_def demo0_def)
  with six show ?thesis by blast
qed

subsection \<open>Google\<close>

lemma oauth_linked:
  assumes "faults w = []" and "run_state (link_account g scope user) w = (Some u, w1)"
    and "find (\<lambda>a. oa_Provider a = ''google'' \<and> oa_ProviderAccountID a = gu_ID g) (oauth_accounts (db w)) = None"
  shows "u = user \<and> faults w1 = [] \<and> users (db w1) = users (db w)
    \<and> (\<exists>oa. find (\<lambda>a. oa_Provider a = ''google'' \<and> oa_ProviderAccountID a = gu_ID g) (oauth_accounts (db w1)) = Some oa
        \<and> oa_UserID oa = u_ID user)"
proof -
  let ?oa = "\<lparr>oa_ID = new_uuid w (drawn w), oa_UserID = u_ID user, oa_Provider = ''google'', oa_ProviderAccountID = gu_ID g,
    oa_Scope = scope, oa_CreatedAt = db_now w, oa_UpdatedAt = db_now w\<rparr>"
  have "find (\<lambda>a. oa_Provider a = ''google'' \<and> oa_ProviderAccountID a = gu_ID g) (oauth_accounts (db w) @ [?oa]) = Some ?oa"
    using assms(3) by (intro find_last) (auto simp: find_None_iff)
  with assms(1,2) show ?thesis
    by (auto simp: link_account_def quiet Let_def split: if_splits)
qed

lemma google_account_links:
  assumes "faults w = []" and "keyed u_ID (users (db w))" and "run_state (google_account g scope) w = (Some u, w1)"
  shows "faults w1 = [] \<and> (\<exists>oa u'. find (\<lambda>a. oa_Provider a = ''google'' \<and> oa_ProviderAccountID a = gu_ID g) (oauth_accounts (db w1)) = Some oa
    \<and> row_at u_ID (users (db w1)) (oa_UserID oa) = Some u' \<and> u_ID u' = u_ID u)"
proof (cases "find (\<lambda>a. oa_Provider a = ''google'' \<and> oa_ProviderAccountID a = gu_ID g) (oauth_accounts (db w))")
  case (Some oa)
  with assms show ?thesis by (auto simp: google_account_def quiet split: option.splits dest: row_at_Some)
next
  case None
  show ?thesis
  proof (cases "row_at u_Email (users (db w)) (gu_Email g)")
    case None2: None
    let ?u = "new_google_user g\<lparr>u_ID := new_uuid w (drawn w), u_Role := RoleAttendee, u_CreatedAt := db_now w, u_UpdatedAt := db_now w\<rparr>"
    let ?w = "w\<lparr>drawn := Suc (drawn w), db := put_users (users (db w) @ [?u]) (db w)\<rparr>"
    from assms None None2 have "run_state (link_account g scope ?u) ?w = (Some u, w1)"
      and "\<forall>x \<in> set (users (db w)). u_ID x \<noteq> u_ID ?u"
      by (auto simp: google_account_def quiet Let_def list_ex_iff user_clash_def split: if_splits)
    then show ?thesis
      using oauth_linked [of ?w g scope ?u u w1] None assms(1)
      by (fastforce simp: row_at_append row_at_None split: option.split dest: row_at_Some)
  next
    case (Some user)
    let ?f = "\<lambda>u. u\<lparr>u_EmailVerified := True, u_UpdatedAt := db_now w\<rparr>"
    let ?w = "if u_EmailVerified user then w
      else w\<lparr>db := put_users (upd (\<lambda>u. u_Email u = u_Email user) ?f (users (db w))) (db w)\<rparr>"
    from assms None Some have "run_state (link_account g scope user) ?w = (Some u, w1)"
      by (auto simp: google_account_def quiet Let_def split: if_splits)
    moreover have "row_at u_ID (users (db w)) (u_ID user) = Some user"
      using Some assms(2) row_at_mem row_at_Some by metis
    then have "row_at u_ID (users (db ?w)) (u_ID user) = Some (if u_EmailVerified user then user else ?f user)"
      by (simp add: row_at_upd)
    ultimately show ?thesis
      using oauth_linked [of ?w g scope user u w1] None assms(1) by (fastforce split: if_splits)
  qed
qed

text \<open>
  C26. A Google identity is one account, and the identity is the field \<open>id\<close>. After a sign-in, every
  later sign-in with the same \<open>id\<close>, whatever its e-mail and name, is the same user. Two replies
  without an \<open>id\<close> count as the same identity: the user-info service that is asked names the
  identity \<open>sub\<close>, so the second person gets the account of the first.
\<close>

theorem google_identity:
  assumes "faults w = []" and "schema_ok (db w)" and "run_state (google_account (google_user j) scope) w = (Some u, w1)"
    and "json_field j' ''id'' = json_field j ''id''"
  shows "\<exists>u'. run_state (google_account (google_user j') scope') w1 = (Some u', w1) \<and> u_ID u' = u_ID u"
  using google_account_links [OF assms(1) schema_keyed(1) [OF assms(2)] assms(3)] assms(4)
  by (auto simp: google_account_def google_user_def quiet)

definition demo_reply :: "string \<Rightarrow> string \<Rightarrow> string option" where
  "demo_reply email k = (if k = ''sub'' then Some (''1'' @ email) else if k = ''email'' then Some email else None)"

lemma demo_google_run:
  "\<exists>u w1. run_state (google_account (google_user (demo_reply ''e@x'')) ''email'') demo_sold = (Some u, w1) \<and> u_Email u = ''e@x''"
proof -
  have "ToLower ''e@x'' = ''e@x''" by code_simp
  then show ?thesis
    by (simp add: google_account_def google_user_def json_field_def demo_reply_def quiet demo_sold_at link_account_def
      new_google_user_def user_clash_def Let_def oauth_fk_def demo_u_def demo_user_def demo_db_def)
qed

theorem google_identity_witness:
  "\<exists>u w1 u'. run_state (google_account (google_user (demo_reply ''e@x'')) ''email'') demo_sold = (Some u, w1)
    \<and> u_Email u = ''e@x''
    \<and> run_state (google_account (google_user (demo_reply ''f@x'')) ''email'') w1 = (Some u', w1) \<and> u_ID u' = u_ID u"
proof -
  obtain u w1 where run: "run_state (google_account (google_user (demo_reply ''e@x'')) ''email'') demo_sold = (Some u, w1)"
    "u_Email u = ''e@x''" using demo_google_run by blast
  have "faults demo_sold = []" by (simp add: demo_sold_at)
  from google_identity [OF this schema.world [OF reachable_demo(4)] run(1), of "demo_reply ''f@x''" "''email''"] run
  show ?thesis by (simp add: json_field_def demo_reply_def)
qed


text \<open>
  C27. Signing in with Google takes over the account with that e-mail. When the identity is new and an
  account with the e-mail exists, the identity is linked to it, and an unverified e-mail counts as
  verified from then on; nobody's password changes, so whoever registered the e-mail before,
  without being able to verify it, still signs in with the old password.
\<close>

theorem google_links_by_email:
  assumes "faults w = []" and "schema_ok (db w)" and "row_at u_Email (users (db w)) (gu_Email g) = Some user"
    and "\<forall>a \<in> set (oauth_accounts (db w)). oa_ProviderAccountID a \<noteq> gu_ID g \<and> oa_ID a \<noteq> new_uuid w (drawn w)"
  shows "\<exists>w'. run_state (google_account g scope) w = (Some user, w')
    \<and> (\<exists>u. row_at u_Email (users (db w')) (gu_Email g) = Some u \<and> u_ID u = u_ID user \<and> u_EmailVerified u)
    \<and> map (\<lambda>u. (u_ID u, u_PasswordHash u, u_Role u)) (users (db w')) = map (\<lambda>u. (u_ID u, u_PasswordHash u, u_Role u)) (users (db w))
    \<and> map (\<lambda>a. (oa_UserID a, oa_Provider a, oa_ProviderAccountID a)) (oauth_accounts (db w'))
      = map (\<lambda>a. (oa_UserID a, oa_Provider a, oa_ProviderAccountID a)) (oauth_accounts (db w)) @ [(u_ID user, ''google'', gu_ID g)]"
proof -
  have none: "find (\<lambda>a. oa_Provider a = ''google'' \<and> oa_ProviderAccountID a = gu_ID g) (oauth_accounts (db w)) = None"
    using assms(4) by (auto simp: find_None_iff)
  have user: "user \<in> set (users (db w))" "u_Email user = gu_Email g" using assms(3) by (auto dest: row_at_Some)
  let ?us = "upd (\<lambda>u. u_Email u = gu_Email g) (\<lambda>u. u\<lparr>u_EmailVerified := True, u_UpdatedAt := db_now w\<rparr>) (users (db w))"
  have "row_at u_Email ?us (gu_Email g) = Some (user\<lparr>u_EmailVerified := True, u_UpdatedAt := db_now w\<rparr>)"
    using assms(3) user by (simp add: row_at_upd)
  moreover have "map (\<lambda>u. (u_ID u, u_PasswordHash u, u_Role u)) ?us = map (\<lambda>u. (u_ID u, u_PasswordHash u, u_Role u)) (users (db w))"
    by (rule map_upd) simp
  moreover have known: "list_ex (\<lambda>u. u_ID u = u_ID user) (users (db w))"
    using user(1) by (auto simp: list_ex_iff)
  moreover have "list_ex (\<lambda>u. u_ID u = u_ID user) ?us"
    by (subst list_ex_upd) (simp_all add: known)
  ultimately show ?thesis
    using assms(1,3,4) user none
    by (auto simp: google_account_def quiet link_account_def Let_def list_ex_iff oauth_clash_def oauth_fk_def)
qed

theorem google_links_by_email_witness:
  "\<exists>w' u. run_state (google_account (google_user (demo_reply ''a@x'')) ''email'') demo_sold = (Some demo_u, w')
    \<and> row_at u_Email (users (db w')) ''a@x'' = Some u \<and> u_EmailVerified u
    \<and> map u_PasswordHash (users (db w')) = [Some demo_hash]"
proof -
  have g: "gu_Email (google_user (demo_reply ''a@x'')) = ''a@x''"
    by (simp add: google_user_def demo_reply_def json_field_def) code_simp
  have "faults demo_sold = []" "row_at u_Email (users (db demo_sold)) (gu_Email (google_user (demo_reply ''a@x''))) = Some demo_u"
    "oauth_accounts (db demo_sold) = []"
    by (simp_all add: g demo_sold_at demo_u_def demo_user_def demo_db_def)
  with google_links_by_email [OF this(1) schema.world [OF reachable_demo(4)] this(2), of "''email''"] g
  show ?thesis by (fastforce simp: demo_sold_at demo_u_def demo_user_def map_eq_Cons_conv)
qed

end
