(* ===== verification/Access_Spec.thy ===== *)
theory Access_Spec
  imports Accounts_Spec
begin

section \<open>Who may do what\<close>

text \<open>
  Access control over the routes as \<open>mount\<close> composes them with their middleware: what needs a
  session, what only the organizer of an event may do, what users see of purchases, drafts and
  cancelled events.
\<close>

subsection \<open>Sessions\<close>

definition signed_in :: "request \<Rightarrow> User \<Rightarrow> world \<Rightarrow> bool" where
  "signed_in r u w \<longleftrightarrow> (\<exists>tok s. bearer_token r = Inr tok \<and> s \<in> set (sessions (db w)) \<and> s_TokenHash s = HashToken tok
     \<and> go_now w < s_ExpiresAt s \<and> u \<in> set (users (db w)) \<and> u_ID u = s_UserID s)"

text \<open>Nothing that outlives the request has changed.\<close>

definition no_effect :: "world \<Rightarrow> world \<Rightarrow> bool" where
  "no_effect w w' \<longleftrightarrow> db w' = db w \<and> tasks w' = tasks w \<and> outbox w' = outbox w
     \<and> go_now w' = go_now w \<and> db_now w' = db_now w"

lemma no_effect_refl [simp]: "no_effect w w" "no_effect w (pop w)"
  by (simp_all add: no_effect_def)

lemma no_effect_trans: "no_effect w w1 \<Longrightarrow> no_effect w1 w2 \<Longrightarrow> no_effect w w2"
  by (simp add: no_effect_def)

lemma select_effects:
  assumes "run_state (exec_or f (select_one q) answer) w = (res, w')"
  shows "no_effect w w'" and "res = Inr x \<Longrightarrow> q (db w) = Some x"
  using assms by (auto simp: run_exec_or run_exec select_one_def split: if_splits option.splits)

lemma read_effects:
  "run_state (Sessions_Get h) w = (rs, w1) \<Longrightarrow> no_effect w w1"
  "run_state (Users_GetByID i) w = (ru, w2) \<Longrightarrow> no_effect w w2"
  "run_state (Events_GetByID i) w = (re, w3) \<Longrightarrow> no_effect w w3"
  by (auto simp: Sessions_Get_def Users_GetByID_def Events_GetByID_def dest: select_effects(1))

lemma read_results:
  "run_state (Sessions_Get h) w = (Inr s, w1) \<Longrightarrow>
    s \<in> set (sessions (db w)) \<and> s_TokenHash s = h \<and> go_now w < s_ExpiresAt s"
  "run_state (Users_GetByID i) w = (Inr u, w2) \<Longrightarrow> u \<in> set (users (db w)) \<and> u_ID u = i"
  "run_state (Events_GetByID i) w = (Inr e, w3) \<Longrightarrow> e \<in> set (events (db w)) \<and> e_ID e = i"
  by (auto simp: Sessions_Get_def Users_GetByID_def Events_GetByID_def find_Some_iff
    dest!: select_effects(2) [OF _ refl] row_at_Some)

lemma authenticate_effects:
  assumes "run_state (authenticate r) w = (res, w')"
  shows "no_effect w w'" and "res = Inr (s, u) \<Longrightarrow> signed_in r u w \<and> u_ID u = s_UserID s"
proof -
  show "no_effect w w'"
    using assms by (auto simp: authenticate_def split: sum.splits if_splits prod.splits dest!: read_effects intro: no_effect_trans)
  assume "res = Inr (s, u)"
  with assms obtain tok w1 where tok: "bearer_token r = Inr tok"
    and s: "run_state (Sessions_Get (HashToken tok)) w = (Inr s, w1)"
    and u: "run_state (Users_GetByID (s_UserID s)) w1 = (Inr u, w')"
    by (auto simp: authenticate_def split: sum.splits if_splits prod.splits)
  from read_effects(1) [OF s] have "db w1 = db w" by (simp add: no_effect_def)
  with tok read_results(1) [OF s] read_results(2) [OF u] show "signed_in r u w \<and> u_ID u = s_UserID s"
    by (auto simp: signed_in_def)
qed

lemma requireAuth_cases:
  assumes "run_state (requireAuth r nxt c) w = (resp, w')"
  obtains (refused) msg where "resp = Resp 401 (Errors [msg])" "no_effect w w'" "\<And>s u. fst (run_state (authenticate r) w) \<noteq> Inr (s, u)"
  | (passed) s u w1 where "signed_in r u w" "u_ID u = s_UserID s" "no_effect w w1"
      "run_state (nxt (c\<lparr>userCtx := Some u, sessionCtx := Some s\<rparr>)) w1 = (resp, w')"
  using assms unfolding requireAuth_def
  by (auto split: prod.splits sum.splits auth_error.splits dest: authenticate_effects)
    (force dest: authenticate_effects)+

fun needs_session :: "call \<Rightarrow> bool" where
  "needs_session c = (case c of
      Health \<Rightarrow> False | Register _ \<Rightarrow> False | Login _ \<Rightarrow> False | VerifyEmail _ \<Rightarrow> False | ResendVerification _ \<Rightarrow> False
    | ForgotPassword _ \<Rightarrow> False | ResetPassword _ \<Rightarrow> False | Google \<Rightarrow> False | GoogleCallback \<Rightarrow> False
    | ListEvents \<Rightarrow> False | GetEvent \<Rightarrow> False | ListTiers \<Rightarrow> False | _ \<Rightarrow> True)"

lemma needs_session_mount: "needs_session c \<Longrightarrow> \<exists>h. mount a r c = requireAuth r h"
  by (cases c) (auto simp: organizer_of_def)

text \<open>
  C17. Without a session nothing happens. A request that presents no token, a malformed header, or a
  token without an unexpired session of an existing user gets 401 on every protected route, and
  database, task queue and mails stay as they are.
\<close>

theorem no_session_no_service:
  assumes "needs_session c" and "\<forall>u. \<not> signed_in r u w" and "run_state (mount a r c empty_ctx) w = (resp, w')"
  shows "(\<exists>msg. resp = Resp 401 (Errors [msg])) \<and> db w' = db w \<and> tasks w' = tasks w \<and> outbox w' = outbox w"
proof -
  obtain h where "mount a r c = requireAuth r h" using needs_session_mount [OF assms(1)] by blast
  with assms(3) have "run_state (requireAuth r h empty_ctx) w = (resp, w')" by simp
  then show ?thesis by (cases rule: requireAuth_cases) (use assms(2) in \<open>auto simp: no_effect_def\<close>)
qed


definition demo_anonymous :: request where
  "demo_anonymous = demo_request ''3'' []\<lparr>rq_Authorization := []\<rparr>"

theorem no_session_no_service_witness:
  "db (snd (run_state (mount demo_app demo_anonymous CancelEvent empty_ctx) demo_sold)) = db demo_sold"
proof -
  have "\<forall>u. \<not> signed_in demo_anonymous u demo_sold"
    by (simp add: signed_in_def bearer_token_def demo_anonymous_def demo_request_def)
  from no_session_no_service [OF _ this, of CancelEvent demo_app] show ?thesis
    by (cases "run_state (mount demo_app demo_anonymous CancelEvent empty_ctx) demo_sold") auto
qed

subsection \<open>What the organizer of one event cannot touch\<close>

text \<open>
  From the database \<open>d\<close> on, users, sessions, the other events, their tiers and the purchases of
  their tiers are as they were.
\<close>

definition confined :: "uuid \<Rightarrow> database \<Rightarrow> database \<Rightarrow> bool" where
  "confined ev d d' \<longleftrightarrow> users d' = users d \<and> sessions d' = sessions d
     \<and> filter (\<lambda>e. e_ID e \<noteq> ev) (events d') = filter (\<lambda>e. e_ID e \<noteq> ev) (events d)
     \<and> filter (\<lambda>t. t_EventID t \<noteq> ev) (ticket_tiers d') = filter (\<lambda>t. t_EventID t \<noteq> ev) (ticket_tiers d)
     \<and> (\<forall>p \<in> set (purchases d). \<forall>t \<in> set (ticket_tiers d). t_ID t = p_TierID p \<and> t_EventID t \<noteq> ev \<longrightarrow> p \<in> set (purchases d'))"

definition within :: "uuid \<Rightarrow> database \<Rightarrow> world \<Rightarrow> bool" where
  "within ev d w \<longleftrightarrow> keyed t_ID (ticket_tiers (db w)) \<and> confined ev d (db w)"

lemma within_start: "schema_ok (db w) \<Longrightarrow> within ev (db w) w"
  by (simp add: within_def confined_def schema_keyed)

lemma within_tier:
  assumes "within ev d w" and "t \<in> set (ticket_tiers d)" and "t_EventID t \<noteq> ev"
    and "t' \<in> set (ticket_tiers (db w))" and "t_ID t' = t_ID t"
  shows "t' = t"
proof -
  have "t \<in> set (filter (\<lambda>t. t_EventID t \<noteq> ev) (ticket_tiers d))" using assms(2,3) by simp
  then have "t \<in> set (filter (\<lambda>t. t_EventID t \<noteq> ev) (ticket_tiers (db w)))"
    using assms(1) by (simp only: within_def confined_def)
  then have "t \<in> set (ticket_tiers (db w))" by simp
  with assms(1,4,5) show ?thesis unfolding within_def by (blast intro: keyed_unique)
qed

lemma within_pop [simp]: "within ev d (pop w) = within ev d w"
  by (simp add: within_def)

lemma keeps_exec: "(\<And>w. within ev d w \<Longrightarrow> within ev d (snd (q w))) \<Longrightarrow> keeps (within ev d) (exec q)"
  by (simp add: keeps_def run_exec)

lemma snd_returning [simp]: "snd (returning_one q w) = snd (q w)"
  by (simp add: returning_one_def split: prod.splits sum.splits list.splits)

lemma keeps_exec_or [keeps_intros]:
  "keeps (within ev d) (exec q) \<Longrightarrow> (\<And>x. keeps (within ev d) (k x)) \<Longrightarrow> keeps (within ev d) (exec_or f q k)"
  unfolding exec_or_def by (intro keeps_intros)

lemma keeps_in_tx [keeps_intros]:
  assumes "keeps (within ev d) m"
  shows "keeps (within ev d) (in_tx m)"
proof (rule keepsI)
  fix w r w'
  assume w: "within ev d w" and run: "run_state (in_tx m) w = (r, w')"
  show "within ev d w'"
  proof (cases r)
    case (Inl e)
    with run have "db w' = db w" by (auto dest: in_tx_Inl)
    with w show ?thesis by (simp add: within_def)
  next
    case (Inr x)
    with run obtain w1 where "run_state m (pop w) = (Inr x, w1)" "w' = pop w1" by (auto elim: in_tx_InrE)
    with keepsD [OF assms, of "pop w"] w show ?thesis by simp
  qed
qed

lemma keeps_same_db: "(\<And>w. db (snd (q w)) = db w) \<Longrightarrow> keeps (within ev d) (exec q)"
  by (rule keeps_exec) (simp add: within_def)

lemma keeps_reads [keeps_intros]:
  "keeps (within ev d) (exec (select_one q1))" "keeps (within ev d) (exec (select_all q2))"
  "keeps (within ev d) (Enqueue t)" "keeps (within ev d) time_Now"
proof -
  show "keeps (within ev d) (exec (select_one q1))" "keeps (within ev d) (exec (select_all q2))" "keeps (within ev d) (Enqueue t)"
    unfolding Enqueue_def by (rule keeps_same_db; simp add: select_one_def select_all_def split: option.split)+
qed (simp add: keeps_def)

lemma filter_upd_out: "(\<And>x. x \<in> set xs \<Longrightarrow> c x \<Longrightarrow> \<not> P x \<and> \<not> P (f x)) \<Longrightarrow> filter P (upd c f xs) = filter P xs"
  by (induction xs) auto

lemma within_update_events:
  assumes "\<And>e. c e \<Longrightarrow> e_ID e = ev" and "\<And>e. e_ID (f e) = e_ID e"
  shows "within ev d w \<Longrightarrow> within ev d (snd (update_events c f w))"
  using assms by (simp add: update_events_def update_stmt_def within_def confined_def filter_upd_out)

lemma keeps_flip [keeps_intros]: "keeps (within ev d) (flip_event ev from to)"
  unfolding flip_event_def
  by (intro keeps_intros keeps_exec) (auto intro!: within_update_events)

lemma within_update_tiers:
  assumes "\<forall>t \<in> set (ticket_tiers (db w)). c t \<longrightarrow> t_EventID t = ev"
    and "\<And>t. t_ID (f t) = t_ID t" and "\<And>t. t_EventID (f t) = t_EventID t"
  shows "within ev d w \<Longrightarrow> within ev d (snd (update_tiers c f w))"
  using assms by (simp add: update_tiers_def update_stmt_def within_def confined_def filter_upd_out keyed_upd)

lemma keeps_event_ops [keeps_intros]:
  "e_ID e = ev \<Longrightarrow> keeps (within ev d) (Events_Update e)"
  "keeps (within ev d) (Events_Publish ev)" "keeps (within ev d) (Events_Cancel ev)"
  "keeps (within ev d) (Events_SetStatus ev from to)"
  unfolding Events_Update_def Events_Publish_def Events_Cancel_def Events_SetStatus_def
  by (intro keeps_intros keeps_exec; auto intro!: within_update_events)+

lemma keeps_queries [keeps_intros]:
  "keeps (within ev d) (Events_GetByID i)" "keeps (within ev d) (Tiers_GetByID i)"
  "keeps (within ev d) (Tiers_CountByEvent i)" "keeps (within ev d) (Tiers_SumQuantityByEvent i)"
  "keeps (within ev d) (Purchases_SumConfirmedQuantityByEvent i)" "keeps (within ev d) (Purchases_ListConfirmedBuyersByEvent i)"
  "keeps (within ev d) (Waitlist_ListByEvent i)"
  unfolding Events_GetByID_def Tiers_GetByID_def Tiers_CountByEvent_def Tiers_SumQuantityByEvent_def
    Purchases_SumConfirmedQuantityByEvent_def Purchases_ListConfirmedBuyersByEvent_def Waitlist_ListByEvent_def
  by (intro keeps_intros)+

text \<open>Deleting tiers of the event, and with them what hangs on them.\<close>

lemma within_drop_tiers:
  assumes "\<And>t. c t \<Longrightarrow> t_EventID t = ev" and "within ev d w" and "w' = w\<lparr>db := drop_tiers c (db w)\<rparr>"
  shows "within ev d w'"
proof -
  have "p \<in> set (purchases (db w'))"
    if p: "p \<in> set (purchases d)" and t: "t \<in> set (ticket_tiers d)" "t_ID t = p_TierID p" "t_EventID t \<noteq> ev" for p t
  proof -
    have "p \<in> set (purchases (db w))" using assms(2) p t unfolding within_def confined_def by blast
    moreover have "p_TierID p \<notin> set (map t_ID (filter c (ticket_tiers (db w))))"
      using within_tier [OF assms(2) t(1,3)] assms(1) t by auto
    ultimately show ?thesis by (simp add: assms(3) drop_tiers_def Let_def)
  qed
  moreover have "filter (\<lambda>t. t_EventID t \<noteq> ev) (filter (\<lambda>t. \<not> c t) (ticket_tiers (db w))) = filter (\<lambda>t. t_EventID t \<noteq> ev) (ticket_tiers (db w))"
    using assms(1) by (auto simp: filter_filter intro!: filter_cong)
  ultimately show ?thesis
    using assms(2) unfolding within_def confined_def
    by (auto simp: assms(3) drop_tiers_def Let_def keyed_filter)
qed

lemma keeps_delete [keeps_intros]:
  "keeps (within ev d) (Events_Delete ev)" "keeps (within ev d) (Tiers_Delete i ev)"
proof -
  have "within ev d (snd (delete_events ev w))" if "within ev d w" for w
  proof -
    have "within ev d (w\<lparr>db := put_events (filter (\<lambda>e. e_ID e \<noteq> ev) (events (db w))) (db w)\<rparr>)"
      using that by (simp add: within_def confined_def)
    from within_drop_tiers [OF _ this refl, of "\<lambda>t. t_EventID t = ev"] show ?thesis
      by (simp add: delete_events_def)
  qed
  then show "keeps (within ev d) (Events_Delete ev)"
    unfolding Events_Delete_def by (intro keeps_intros keeps_exec)
  have "within ev d (snd (delete_tiers i ev w))" if "within ev d w" for w
    using within_drop_tiers [OF _ that refl, of "\<lambda>t. t_ID t = i \<and> t_EventID t = ev"] by (simp add: delete_tiers_def Let_def)
  then show "keeps (within ev d) (Tiers_Delete i ev)"
    unfolding Tiers_Delete_def by (intro keeps_intros keeps_exec)
qed


lemma keeps_create [keeps_intros]: "t_EventID t = ev \<Longrightarrow> keeps (within ev d) (Tiers_Create t)"
  unfolding Tiers_Create_def with_uuid_def
  by (intro keeps_intros keeps_exec)
    (auto simp: insert_stmt_def within_def confined_def keyed_append list_ex_iff tier_clash_def)

lemma keeps_update_tickets [keeps_intros]: "keeps (within ev d) (exec (\<lambda>w. update_tickets (c w) f w))"
  "keeps (within ev d) (exec (\<lambda>w. returning_one (update_tickets (c' w) (f' w)) w))"
  "keeps (within ev d) (exec (delete_waitlist cw))"
  by (intro keeps_exec; simp add: update_tickets_def update_stmt_def delete_waitlist_def within_def confined_def)+

lemma keeps_check_in [keeps_intros]: "keeps (within ev d) (Tickets_CheckIn k e)"
  unfolding Tickets_CheckIn_def by (intro keeps_intros)

lemma within_cancel_purchases:
  assumes "within ev d w"
  shows "within ev d (snd (update_purchases (\<lambda>p. of_event (db w) ev (p_TierID p) \<and> c p) f w))"
proof -
  have "p \<in> set (upd (\<lambda>p. of_event (db w) ev (p_TierID p) \<and> c p) g (purchases (db w)))"
    if p: "p \<in> set (purchases d)" and t: "t \<in> set (ticket_tiers d)" "t_ID t = p_TierID p" "t_EventID t \<noteq> ev" for p t g
  proof -
    have "p \<in> set (purchases (db w))" using assms p t unfolding within_def confined_def by blast
    moreover have "\<not> of_event (db w) ev (p_TierID p)"
      using within_tier [OF assms t(1,3)] t by (auto simp: of_event_def list_ex_iff)
    ultimately show ?thesis by (force simp: set_upd)
  qed
  with assms show ?thesis
    by (auto simp: update_purchases_def update_stmt_def within_def confined_def)
qed

lemma keeps_cancel_event [keeps_intros]:
  "keeps (within ev d) (Purchases_CancelByEvent ev)" "keeps (within ev d) (Waitlist_DeleteByEvent ev)"
  unfolding Purchases_CancelByEvent_def Waitlist_DeleteByEvent_def
  by (intro keeps_intros keeps_exec; erule within_cancel_purchases)+


lemma keeps_shapes [keeps_intros]:
  "(\<And>p. keeps I (f p)) \<Longrightarrow> keeps I (with_payload a tags b f)"
  "(\<And>i. keeps I (g i)) \<Longrightarrow> keeps I (with_uuid_param a s msg g)"
  "keeps I (not_found_or_500 msg e)"
  unfolding with_payload_def with_uuid_param_def not_found_or_500_def by (intro keeps_intros; simp)+

lemma keeps_below_capacity [keeps_intros]: "keeps (within ev d) m \<Longrightarrow> keeps (within ev d) (below_capacity e f m)"
  "keeps (within ev d) m \<Longrightarrow> keeps (within ev d) (check_capacity p e m)"
  unfolding below_capacity_def check_capacity_def by (intro keeps_intros; assumption)+

lemma keeps_case_status [keeps_intros]:
  "keeps I m1 \<Longrightarrow> keeps I m2 \<Longrightarrow> keeps I m3 \<Longrightarrow> keeps I m4 \<Longrightarrow> keeps I m5 \<Longrightarrow>
    keeps I (case s of Draft \<Rightarrow> m1 | Published \<Rightarrow> m2 | EvSoldOut \<Rightarrow> m3 | EvCancelled \<Rightarrow> m4 | Ended \<Rightarrow> m5)"
  by (cases s) simp_all

lemma keeps_case_bool [keeps_intros]:
  "keeps I m1 \<Longrightarrow> keeps I m2 \<Longrightarrow> keeps I (case b of True \<Rightarrow> m1 | False \<Rightarrow> m2)"
  by (cases b) simp_all

lemma keeps_save_event [keeps_intros]: "e_ID e = ev \<Longrightarrow> keeps (within ev d) (save_event p old e)"
  unfolding save_event_def by (intro keeps_intros)

lemma keeps_event_handlers:
  assumes "eventCtx c = Some e" and "e_ID e = ev"
  shows "keeps (within ev d) (updateEvent a b1 c)" "keeps (within ev d) (deleteEvent c)" "keeps (within ev d) (publishEvent c)"
    "keeps (within ev d) (cancelEvent c)" "keeps (within ev d) (getWaitlist c)" "keeps (within ev d) (checkIn a b2 c)"
    "keeps (within ev d) (createTier a b3 c)" "keeps (within ev d) (deleteTier a r c)"
proof -
  note simps = with_event_def assms option.case
  have merged: "e_ID (merge_event p e) = ev" "e_ID (merge_event p e\<lparr>e_MaterialChangedAt := x\<rparr>) = ev" for p x
    using assms(2) by (simp_all add: merge_event_def)
  show "keeps (within ev d) (updateEvent a b1 c)" unfolding updateEvent_def simps Let_def by (intro keeps_intros merged)
  show "keeps (within ev d) (deleteEvent c)" unfolding deleteEvent_def simps by (intro keeps_intros)
  show "keeps (within ev d) (publishEvent c)" unfolding publishEvent_def simps by (intro keeps_intros)
  show "keeps (within ev d) (getWaitlist c)" unfolding getWaitlist_def simps by (intro keeps_intros)
  show "keeps (within ev d) (checkIn a b2 c)" unfolding checkIn_def simps by (intro keeps_intros)
  show "keeps (within ev d) (createTier a b3 c)" unfolding createTier_def simps
    by (intro keeps_intros) (simp add: new_tier_def assms)
  show "keeps (within ev d) (deleteTier a r c)" unfolding deleteTier_def simps by (intro keeps_intros)
  have cancelled: "ends (within ev d) (Events_Cancel ev) (\<lambda>x w. within ev d w \<and> (\<forall>e'. x = Inr e' \<longrightarrow> e_ID e' = ev))"
  proof (rule endsI)
    fix w x w'
    assume w: "within ev d w" and run: "run_state (Events_Cancel ev) w = (x, w')"
    from keepsD [OF keeps_event_ops(3) w run]
    show "within ev d w' \<and> (\<forall>e'. x = Inr e' \<longrightarrow> e_ID e' = ev)"
      using run by (auto simp: Events_Cancel_def flip_event_def update_events_def returning_one_Inr
        map_eq_Cons_conv filter_eq_Cons_iff elim!: exec_or_InrE)
  qed
  have rest: "ends (\<lambda>w. within ev d w \<and> (\<forall>e'. x = Inr e' \<longrightarrow> e_ID e' = ev)) m (\<lambda>_. within ev d)"
    if "\<And>e'. x = Inr e' \<Longrightarrow> e_ID e' = ev \<Longrightarrow> keeps (within ev d) m" "\<And>y. x = Inl y \<Longrightarrow> keeps (within ev d) m" for x and m :: "response io"
    using that by (cases x) (auto simp: ends_def keeps_def split_beta)
  have bind: "keeps (within ev d) (State_Monad.bind (Events_Cancel ev) f)"
    if "\<And>e'. e_ID e' = ev \<Longrightarrow> keeps (within ev d) (f (Inr e'))" "\<And>y. keeps (within ev d) (f (Inl y))" for f :: "_ \<Rightarrow> response io"
    unfolding keeps_ends by (rule ends_bind [OF cancelled]) (use that in \<open>auto simp: keeps_ends [symmetric] intro!: rest\<close>)
  show "keeps (within ev d) (cancelEvent c)" unfolding cancelEvent_def simps
    by (intro keeps_if keeps_return, rule bind) (auto intro!: keeps_intros)
qed

lemma snd_exec_answer: "snd (run_state (exec_or f q answer) w) = snd (run_state (exec q) w)"
  by (simp add: run_exec_or split: prod.split sum.split)

lemma keeps_save_tier:
  "ends (\<lambda>w. within (e_ID e) d w \<and> (\<forall>x \<in> set (ticket_tiers (db w)). t_ID x = t_ID t \<longrightarrow> t_EventID x = e_ID e))
     (save_tier e t) (\<lambda>_. within (e_ID e) d)"
proof (rule endsI)
  fix w r w'
  assume w: "within (e_ID e) d w \<and> (\<forall>x \<in> set (ticket_tiers (db w)). t_ID x = t_ID t \<longrightarrow> t_EventID x = e_ID e)"
  assume run: "run_state (save_tier e t) w = (r, w')"
  obtain x w1 where upd: "run_state (Tiers_Update t) w = (x, w1)" by fastforce
  have "within (e_ID e) d (snd (run_state (Tiers_Update t) w))"
    unfolding Tiers_Update_def snd_exec_answer run_exec
    using w by (auto intro!: within_update_tiers)
  with upd have "within (e_ID e) d w1" by simp
  moreover have "keeps (within (e_ID e) d) (case x of Inl _ \<Rightarrow> something_went_wrong
     | Inr tier' \<Rightarrow>
         if e_Status e = EvSoldOut \<and> t_Remaining tier' > 0 then do {
           s \<leftarrow> Events_SetStatus (e_ID e) EvSoldOut Published;
           case s of
             Inl _ \<Rightarrow> something_went_wrong
           | Inr _ \<Rightarrow> WriteData 200 (TierData ''tier updated successfully'' tier') }
         else WriteData 200 (TierData ''tier updated successfully'' tier'))"
    by (intro keeps_intros)
  ultimately show "within (e_ID e) d w'"
    using run upd by (auto simp: save_tier_def dest: keepsD)
qed


lemma ends_unchanged: "(\<And>w. P w \<Longrightarrow> Q w) \<Longrightarrow> ends P (State_Monad.return x) (\<lambda>_. Q)"
  by (simp add: ends_def)

lemma keeps_updateTier:
  assumes "eventCtx c = Some e"
  shows "keeps (within (e_ID e) d) (updateTier a r b c)"
proof -
  let ?I = "within (e_ID e) d"
  let ?P = "\<lambda>i w. ?I w \<and> (\<forall>x \<in> set (ticket_tiers (db w)). t_ID x = i \<longrightarrow> t_EventID x = e_ID e)"
  have read: "ends ?I (Tiers_GetByID i) (\<lambda>x w. ?I w \<and> (\<forall>t. x = Inr t \<and> t_EventID t = e_ID e \<longrightarrow> ?P (t_ID t) w))" for i
  proof (rule endsI)
    fix w x w'
    assume w: "?I w" and run: "run_state (Tiers_GetByID i) w = (x, w')"
    from run have same: "db w' = db w" by (auto simp: Tiers_GetByID_def no_effect_def dest: select_effects(1))
    have "?P (t_ID t) w'" if "x = Inr t" "t_EventID t = e_ID e" for t
    proof -
      from run that have "t \<in> set (ticket_tiers (db w))"
        by (auto simp: Tiers_GetByID_def dest!: select_effects(2) [OF _ refl] row_at_Some)
      with w same that show ?thesis unfolding within_def by (auto dest: keyed_unique)
    qed
    moreover have "?I w'" using w same by (simp add: within_def)
    ultimately show "?I w' \<and> (\<forall>t. x = Inr t \<and> t_EventID t = e_ID e \<longrightarrow> ?P (t_ID t) w')" by blast
  qed
  have capped: "ends (?P i) (below_capacity e f m) (\<lambda>_. ?I)" if m: "ends (?P i) m (\<lambda>_. ?I)" for i f m
  proof (rule endsI)
    fix w x w'
    assume w: "?P i w" and run: "run_state (below_capacity e f m) w = (x, w')"
    from w have popped: "?P i (pop w)" by simp
    note step = endsD [OF m w] endsD [OF m popped]
    have "?I w" "?I (pop w)" using w by simp_all
    then show "?I w'"
      using run by (auto simp: below_capacity_def Tiers_SumQuantityByEvent_def run_exec_or run_exec select_all_def
        split: option.splits if_splits dest: step)
  qed
  have payload: "ends (?P i) (with_payload a tags b f) (\<lambda>_. ?I)" if "\<And>p. ends (?P i) (f p) (\<lambda>_. ?I)" for i tags f
    unfolding with_payload_def using that
    by (auto split: sum.split prod.split intro: ends_unchanged)
  have body: "ends (?P (t_ID t)) (with_payload a update_tier_tags b (\<lambda>payload.
             let tier' = t\<lparr>t_Name := or_old (ut_Name payload) (t_Name t), t_Price := or_old (ut_Price payload) (t_Price t)\<rparr>
             in case ut_Quantity payload of
                  None \<Rightarrow> save_tier e tier'
                | Some quantity \<Rightarrow>
                    let sold = t_Quantity t - t_Remaining t
                    in if quantity < sold
                       then WriteError 422 (''quantity cannot be reduced below the '' @ show_int sold @ '' tickets already sold'')
                       else below_capacity e (\<lambda>existingTotal. wrap64 (existingTotal - t_Quantity t + quantity))
                              (save_tier e (resized tier' quantity)))) (\<lambda>_. ?I)" for t
    by (rule payload)
      (auto simp: Let_def resized_def split: option.split intro!: ends_unchanged capped ends_weaken [OF keeps_save_tier])
  show ?thesis
    unfolding updateTier_def with_event_def assms option.case with_uuid_param_def
    apply (intro keeps_if keeps_return keeps_case_option)
    unfolding keeps_ends
    apply (rule ends_bind [OF read])
    apply (auto split: sum.split simp: not_found_or_500_def intro!: ends_unchanged ends_weaken [OF body])
    done
qed


fun manages :: "call \<Rightarrow> bool" where
  "manages c = (case c of
      UpdateEvent _ \<Rightarrow> True | DeleteEvent \<Rightarrow> True | PublishEvent \<Rightarrow> True | CancelEvent \<Rightarrow> True | GetWaitlist \<Rightarrow> True
    | CheckIn _ \<Rightarrow> True | CreateTier _ \<Rightarrow> True | UpdateTier _ \<Rightarrow> True | DeleteTier \<Rightarrow> True | _ \<Rightarrow> False)"

lemma manages_mount:
  "manages c \<Longrightarrow> \<exists>h. mount a r c = organizer_of a r h
    \<and> (\<forall>ctx e d. eventCtx ctx = Some e \<longrightarrow> keeps (within (e_ID e) d) (h ctx))"
  by (cases c) (auto intro: keeps_event_handlers keeps_updateTier)

lemma requireEventOrganizer_cases:
  assumes "run_state (requireEventOrganizer a r nxt c) w = (resp, w')"
  obtains (refused) n msgs where "resp = Resp n (Errors msgs)" "no_effect w w'"
  | (passed) u e w1 where "userCtx c = Some u" "uuid_Parse a (rq_id r) = Some (e_ID e)" "e \<in> set (events (db w))"
      "e_OrganizerID e = u_ID u" "no_effect w w1" "run_state (nxt (c\<lparr>eventCtx := Some e\<rparr>)) w1 = (resp, w')"
proof (cases "\<exists>u i. userCtx c = Some u \<and> uuid_Parse a (rq_id r) = Some i")
  case False
  with assms have "\<exists>n msgs. resp = Resp n (Errors msgs)" "no_effect w w'"
    by (auto simp: requireEventOrganizer_def split: option.splits)
  with refused show thesis by blast
next
  case True
  then obtain u i where ui: "userCtx c = Some u" "uuid_Parse a (rq_id r) = Some i" by blast
  obtain x w1 where get: "run_state (Events_GetByID i) w = (x, w1)" by fastforce
  note same = read_effects(3) [OF get]
  show thesis
  proof (cases x)
    case (Inl err)
    with assms ui get same have "\<exists>n msgs. resp = Resp n (Errors msgs)" "no_effect w w'"
      by (auto simp: requireEventOrganizer_def not_found_or_500_def split: if_splits)
    with refused show thesis by blast
  next
    case (Inr e)
    with read_results(3) [of i w e] get have e: "e \<in> set (events (db w))" "e_ID e = i" by auto
    show thesis
    proof (cases "u_ID u = e_OrganizerID e")
      case True
      with assms ui get Inr passed [of u e w1] e same show thesis by (simp add: requireEventOrganizer_def)
    next
      case False
      with assms ui get Inr same have "\<exists>n msgs. resp = Resp n (Errors msgs)" "no_effect w w'"
        by (auto simp: requireEventOrganizer_def)
      with refused show thesis by blast
    qed
  qed
qed

text \<open>
  C16. Organizers manage their own event and nothing else. A request to edit, publish, cancel or delete
  an event, to see its waitlist, to check tickets in, or to manage its tiers is refused with an
  error and without effect, or it comes from a signed-in organizer who owns the event named in
  the path; then users, sessions, all other events, their tiers and the purchases of these tiers
  are untouched, whatever the body says and whatever call fails.
\<close>

theorem organizer_is_confined:
  assumes "schema_ok (db w)" and "manages c" and "run_state (mount a r c empty_ctx) w = (resp, w')"
  shows "(\<exists>n msgs. resp = Resp n (Errors msgs) \<and> no_effect w w')
    \<or> (\<exists>u e. signed_in r u w \<and> u_Role u = RoleOrganizer \<and> uuid_Parse a (rq_id r) = Some (e_ID e)
        \<and> e \<in> set (events (db w)) \<and> e_OrganizerID e = u_ID u \<and> confined (e_ID e) (db w) (db w'))"
proof -
  obtain h where h: "mount a r c = organizer_of a r h"
    and keeps: "\<And>ctx e d. eventCtx ctx = Some e \<Longrightarrow> keeps (within (e_ID e) d) (h ctx)"
    using manages_mount [OF assms(2)] by blast
  have "run_state (requireAuth r (requireOrganizer (requireEventOrganizer a r h)) empty_ctx) w = (resp, w')"
    using assms(3) h by (simp add: organizer_of_def)
  then show ?thesis
  proof (cases rule: requireAuth_cases)
    case (passed s u w1)
    let ?c = "empty_ctx\<lparr>userCtx := Some u, sessionCtx := Some s\<rparr>"
    show ?thesis
    proof (cases "u_Role u = RoleOrganizer")
      case False
      with passed show ?thesis by (auto simp: requireOrganizer_def)
    next
      case True
      with passed(4) have "run_state (requireEventOrganizer a r h ?c) w1 = (resp, w')" by (simp add: requireOrganizer_def)
      then show ?thesis
      proof (cases rule: requireEventOrganizer_cases)
        case refused
        with passed(3) show ?thesis by (blast intro: no_effect_trans)
      next
        case mine: (passed u' e w2)
        have "db w2 = db w" using passed(3) mine(5) by (simp add: no_effect_def)
        then have "within (e_ID e) (db w) w2" using within_start [of w2] assms(1) by simp
        from keepsD [OF keeps this mine(6)] have "confined (e_ID e) (db w) (db w')" by (simp add: within_def)
        with passed mine True \<open>db w2 = db w\<close> show ?thesis by (auto simp: no_effect_def)
      qed
    qed
  qed auto
qed


theorem organizer_is_confined_witness:
  "confined 3 (db demo_draft) (db demo_published)"
proof -
  obtain resp where run: "run_state (mount demo_app (demo_request ''3'' []) PublishEvent empty_ctx) demo_draft = (resp, demo_published)"
    unfolding demo_published_def served_def by (metis prod.collapse)
  have "\<not> no_effect demo_draft demo_published"
    by (simp add: no_effect_def demo_draft_at demo_published_at demo_db_def demo_e_def)
  with organizer_is_confined [OF schema.world [OF reachable_demo(2)] _ run] show ?thesis by auto
qed

subsection \<open>Purchases are private\<close>

lemma run_respond_with_purchase:
  assumes "run_state (respond_with_purchase p) w = (resp, w')"
  shows "db w' = db w" and "(\<exists>msgs. resp = Resp 500 (Errors msgs)) \<or> (\<exists>pr. resp = Resp 200 (PurchaseData pr) \<and> pr_ID pr = p_ID p)"
  using assms
  by (auto simp: respond_with_purchase_def purchase_response_def Purchases_ListTicketsByPurchase_def Tiers_GetByID_def
    Events_GetByID_def run_exec_or run_exec select_all_def select_one_def
    split: prod.splits sum.splits option.splits if_splits)

text \<open>What the two routes do for a signed-in user.\<close>

definition own_answer :: "User \<Rightarrow> uuid \<Rightarrow> world \<Rightarrow> response \<Rightarrow> world \<Rightarrow> bool" where
  "own_answer u i w resp w' \<longleftrightarrow>
     ((\<exists>n msgs. resp = Resp n (Errors msgs))
      \<or> (\<exists>p pr. p \<in> set (purchases (db w)) \<and> p_UserID p = u_ID u \<and> p_ID p = i \<and> resp = Resp 200 (PurchaseData pr) \<and> pr_ID pr = i))
     \<and> (\<forall>p \<in> set (purchases (db w)). p_UserID p \<noteq> u_ID u \<longrightarrow> p \<in> set (purchases (db w')))"

lemma getPurchase_own:
  assumes "userCtx c = Some u" and "uuid_Parse a (rq_id r) = Some i" and "run_state (getPurchase a r c) w = (resp, w')"
  shows "own_answer u i w resp w'"
proof -
  obtain x w1 where get: "run_state (Purchases_GetByID i (u_ID u)) w = (x, w1)" by fastforce
  have same: "db w1 = db w" using get by (auto simp: Purchases_GetByID_def no_effect_def dest: select_effects(1))
  have found: "p \<in> set (purchases (db w)) \<and> p_UserID p = u_ID u \<and> p_ID p = i" if "x = Inr p" for p
    using get that by (auto simp: Purchases_GetByID_def find_Some_iff dest!: select_effects(2) [OF _ refl])
  show ?thesis
  proof (cases x)
    case (Inl err)
    with assms get same show ?thesis
      by (auto simp: getPurchase_def with_user_def with_uuid_param_def own_answer_def not_found_or_500_def split: if_splits)
  next
    case (Inr p)
    with assms get have "run_state (respond_with_purchase p) w1 = (resp, w')"
      by (simp add: getPurchase_def with_user_def with_uuid_param_def)
    from run_respond_with_purchase [OF this] found [OF Inr] same show ?thesis by (auto simp: own_answer_def)
  qed
qed

lemma cancelPurchase_own:
  assumes "schema_ok (db w)" and "userCtx c = Some u" and "uuid_Parse a (rq_id r) = Some i"
    and "run_state (cancelPurchase a r c) w = (resp, w')"
  shows "own_answer u i w resp w'"
proof -
  obtain x w1 where cancel: "run_state (Purchases_Cancel i (u_ID u)) w = (x, w1)" by fastforce
  show ?thesis
  proof (cases x)
    case (Inl err)
    with cancel have "db w1 = db w" unfolding Purchases_Cancel_def by (auto dest: in_tx_Inl)
    with Inl assms cancel show ?thesis
      by (auto simp: cancelPurchase_def with_user_def with_uuid_param_def own_answer_def cancel_purchase_error_def
        split: store_error.splits)
  next
    case (Inr y)
    obtain p' b where y: "y = (p', b)" by fastforce
    with Inr cancel have "run_state (Purchases_Cancel i (u_ID u)) w = (Inr (p', b), w1)" by simp
    then obtain p and t :: Tier where p: "own_purchase i (u_ID u) (db w) = Some p"
      and p': "p' = p\<lparr>p_Status := PuCancelled, p_UpdatedAt := db_now w\<rparr>"
      and w1: "db w1 = take_back p (t_EventID t) (db_now w) (db w)"
      by (elim Purchases_Cancel_InrE)
    from p have own: "p \<in> set (purchases (db w))" "p_UserID p = u_ID u" "p_ID p = i" by (auto simp: find_Some_iff)
    obtain z w2 where enq: "run_state (if b then Enqueue (NotifyWaitlistEntry (p_TierID p')) else State_Monad.return (Inr ())) w1 = (z, w2)"
      by fastforce
    then have same: "db w2 = db w1" by (auto simp: Enqueue_def run_exec split: if_splits)
    have resp: "run_state (respond_with_purchase p') w2 = (resp, w')"
      using assms(2-4) cancel Inr y enq by (simp add: cancelPurchase_def with_user_def with_uuid_param_def)
    have "x \<in> set (purchases (db w1))" if "x \<in> set (purchases (db w))" "p_UserID x \<noteq> u_ID u" for x
    proof -
      have "p_ID x \<noteq> p_ID p" using that own keyed_unique [OF schema_keyed(4) [OF assms(1)]] by blast
      with that(1) show ?thesis by (force simp: w1 take_back_def flip_status_def cancel_purchase_rows_def set_upd)
    qed
    with run_respond_with_purchase [OF resp] own p' same show ?thesis by (auto simp: own_answer_def)
  qed
qed

text \<open>
  C18. Purchases are private. The routes that show and cancel a purchase answer with an error, or with
  the purchase named in the path, and then it belongs to the signed-in user; and whatever the
  answer, no purchase of anybody else changes.
\<close>

theorem purchases_are_private:
  assumes "schema_ok (db w)" and "c = GetPurchase \<or> c = CancelPurchase" and "run_state (mount a r c empty_ctx) w = (resp, w')"
  shows "((\<exists>n msgs. resp = Resp n (Errors msgs))
      \<or> (\<exists>u p pr. signed_in r u w \<and> p \<in> set (purchases (db w)) \<and> p_UserID p = u_ID u
          \<and> uuid_Parse a (rq_id r) = Some (p_ID p) \<and> resp = Resp 200 (PurchaseData pr) \<and> pr_ID pr = p_ID p))
    \<and> (\<forall>p \<in> set (purchases (db w)). (\<forall>u. signed_in r u w \<longrightarrow> p_UserID p \<noteq> u_ID u) \<longrightarrow> p \<in> set (purchases (db w')))"
proof -
  let ?h = "if c = GetPurchase then getPurchase a r else cancelPurchase a r"
  have "run_state (requireAuth r ?h empty_ctx) w = (resp, w')" using assms(2,3) by (auto split: if_splits)
  then show ?thesis
  proof (cases rule: requireAuth_cases)
    case (passed s u w1)
    let ?c = "empty_ctx\<lparr>userCtx := Some u, sessionCtx := Some s\<rparr>"
    have same: "db w1 = db w" using passed(3) by (simp add: no_effect_def)
    show ?thesis
    proof (cases "uuid_Parse a (rq_id r)")
      case None
      with passed(4) same show ?thesis
        by (auto simp: getPurchase_def cancelPurchase_def with_user_def with_uuid_param_def split: if_splits)
    next
      case (Some i)
      have "own_answer u i w1 resp w'"
        using passed(4) getPurchase_own [of ?c u a r i w1 resp w'] cancelPurchase_own [of w1 ?c u a r i resp w'] Some assms(1) same
        by (simp split: if_splits)
      with Some same passed(1) show ?thesis unfolding own_answer_def by (auto; blast)
    qed
  qed (auto simp: no_effect_def)
qed

theorem purchases_are_private_witness:
  "\<exists>pr. fst (run_state (mount demo_app (demo_request ''5'' []) GetPurchase empty_ctx) demo_sold) = Resp 200 (PurchaseData pr) \<and> pr_ID pr = 5"
proof -
  let ?m = "mount demo_app (demo_request ''5'' []) GetPurchase empty_ctx"
  obtain resp w' where run: "run_state ?m demo_sold = (resp, w')" by fastforce
  have five: "uuid_Parse demo_app ''5'' = Some 5" by (simp add: demo_app_def Atoi_def digit_of_def int64_def)
  have "\<nexists>n msgs. fst (run_state ?m demo_sold) = Resp n (Errors msgs)"
    by (simp add: requireAuth_def demo_sold_at demo_signed_in getPurchase_def with_user_def with_uuid_param_def five
      Purchases_GetByID_def run_defs respond_with_purchase_def Purchases_ListTicketsByPurchase_def Tiers_GetByID_def Events_GetByID_def
      purchase_response_def)
  with purchases_are_private [OF schema.world [OF reachable_demo(4)] _ run] run five show ?thesis by auto
qed


subsection \<open>Hidden events\<close>

definition hidden :: "uuid \<Rightarrow> request \<Rightarrow> world \<Rightarrow> bool" where
  "hidden i r w \<longleftrightarrow> (\<forall>e \<in> set (events (db w)). e_ID e = i \<longrightarrow> e_Status e \<in> {Draft, EvCancelled}
     \<and> (\<forall>u. signed_in r u w \<longrightarrow> u_ID u \<noteq> e_OrganizerID e))"

definition refusal :: "world \<Rightarrow> response \<Rightarrow> world \<Rightarrow> bool" where
  "refusal w resp w' \<longleftrightarrow> no_effect w w' \<and> (\<exists>n msgs. resp = Resp n (Errors msgs) \<and> n \<in> {401, 404, 500})"

lemma public_refusal:
  assumes "uuid_Parse a (rq_id r) = Some i" and "\<And>e. e \<in> set (events (db w)) \<Longrightarrow> e_ID e = i \<Longrightarrow> \<not> visible_to (userCtx c) e"
    and "run_state (getPublicEvent a r k c) w = (resp, w')"
  shows "refusal w resp w'"
proof -
  obtain x w1 where get: "run_state (Events_GetByID i) w = (x, w1)" by fastforce
  note same = read_effects(3) [OF get]
  show ?thesis
  proof (cases x)
    case (Inl err)
    with assms get same show ?thesis
      by (auto simp: getPublicEvent_def with_uuid_param_def refusal_def not_found_or_500_def split: if_splits)
  next
    case (Inr e)
    with read_results(3) [of i w e] get have "e \<in> set (events (db w))" "e_ID e = i" by auto
    with assms get same Inr show ?thesis by (auto simp: getPublicEvent_def with_uuid_param_def refusal_def)
  qed
qed

lemma invisible:
  assumes "hidden i r w" and "db w1 = db w" and "\<And>u. userCtx c = Some u \<Longrightarrow> signed_in r u w"
  shows "e \<in> set (events (db w1)) \<Longrightarrow> e_ID e = i \<Longrightarrow> \<not> visible_to (userCtx c) e"
  using assms by (auto simp: hidden_def visible_to_def split: option.splits)

lemma maybeAuth_cases:
  assumes "run_state (maybeAuth r nxt empty_ctx) w = (resp, w')"
  obtains c w1 where "run_state (nxt c) w1 = (resp, w')" "no_effect w w1" "\<And>u. userCtx c = Some u \<Longrightarrow> signed_in r u w"
proof -
  obtain x w1 where auth: "run_state (authenticate r) w = (x, w1)" by fastforce
  show thesis
  proof (cases x)
    case (Inl e)
    with assms auth that [of empty_ctx w1] authenticate_effects(1) [OF auth] show thesis
      by (simp add: maybeAuth_def empty_ctx_def)
  next
    case (Inr y)
    obtain s u where y: "y = (s, u)" by fastforce
    with assms auth Inr that [of "empty_ctx\<lparr>userCtx := Some u, sessionCtx := Some s\<rparr>" w1] authenticate_effects [OF auth]
    show thesis by (simp add: maybeAuth_def)
  qed
qed

lemma listed_events:
  assumes "run_state (getPublishedEvents a r c) w = (Resp 200 (EventsData m es nxt), w')" and "e \<in> set es"
  shows "e \<in> set (events (db w)) \<and> e_Status e = Published"
proof -
  let ?limit = "page_limit (rq_limit r)"
  let ?from = "\<lambda>cur. do {
     es \<leftarrow> Events_GetAllPublished cur (?limit + 1);
     case es of
       Inl _ \<Rightarrow> something_went_wrong
     | Inr evs \<Rightarrow>
         (case page_of ?limit evs of
            (page, nxt) \<Rightarrow> WriteData 200 (EventsData ''published events retrieved successfully'' page
               (case nxt of None \<Rightarrow> [] | Some k \<Rightarrow> Cursor_Encode (uuid_String a) k))) }"
  have page: "page_of n evs = (p, k) \<Longrightarrow> set p \<subseteq> set evs" for n evs p k
    by (auto simp: page_of_def Let_def split: if_splits dest: in_set_takeD)
  obtain cur where "run_state (?from cur) w = (Resp 200 (EventsData m es nxt), w')"
    using assms(1) by (auto simp: getPublishedEvents_def Let_def split: if_splits option.splits)
  with assms(2) have "e \<in> set (published_after cur (db w))"
    by (auto simp: Events_GetAllPublished_def run_exec_or run_exec select_all_def
      split: if_splits prod.splits sum.splits dest!: page dest: in_set_takeD)
  then show ?thesis by (auto simp: published_after_def)
qed

text \<open>
  C19. Drafts and cancelled events are hidden. To everybody but its organizer a draft or a cancelled event
  is not found, exactly like an event that does not exist, when it is looked up, its tiers are
  listed, or its waitlist is joined; and the public list holds published events only.
\<close>

theorem hidden_events_stay_hidden:
  assumes "run_state (mount a r c empty_ctx) w = (resp, w')"
  shows "((c = GetEvent \<or> c = ListTiers \<or> c = JoinWaitlist) \<and> uuid_Parse a (rq_id r) = Some i \<and> hidden i r w
      \<longrightarrow> no_effect w w' \<and> (\<exists>n msgs. resp = Resp n (Errors msgs) \<and> n \<in> {401, 404, 500}))
    \<and> (c = ListEvents \<and> resp = Resp 200 (EventsData m es nxt)
      \<longrightarrow> (\<forall>e \<in> set es. e \<in> set (events (db w)) \<and> e_Status e = Published))"
proof (rule conjI; rule impI)
  assume h: "(c = GetEvent \<or> c = ListTiers \<or> c = JoinWaitlist) \<and> uuid_Parse a (rq_id r) = Some i \<and> hidden i r w"
  have public: "refusal w resp w'"
    if "run_state (getPublicEvent a r k c1) w1 = (resp, w')" "no_effect w w1" "\<And>u. userCtx c1 = Some u \<Longrightarrow> signed_in r u w" for k c1 w1
  proof -
    have "db w1 = db w" using that(2) by (simp add: no_effect_def)
    from public_refusal [OF _ invisible [OF _ this that(3)] that(1)] h have "refusal w1 resp w'" by blast
    with that(2) show ?thesis unfolding refusal_def by (blast intro: no_effect_trans)
  qed
  consider (maybe) k where "run_state (maybeAuth r (getPublicEvent a r k) empty_ctx) w = (resp, w')"
    | (join) "run_state (requireAuth r (joinWaitlist a r) empty_ctx) w = (resp, w')"
    using h assms by (auto simp: getEvent_def listTiers_def)
  then have "refusal w resp w'"
  proof cases
    case maybe
    then show ?thesis by (cases rule: maybeAuth_cases) (rule public)
  next
    case join
    then show ?thesis
    proof (cases rule: requireAuth_cases)
      case (passed s u w1)
      let ?c = "empty_ctx\<lparr>userCtx := Some u, sessionCtx := Some s\<rparr>"
      from passed(4) obtain k where "run_state (getPublicEvent a r k ?c) w1 = (resp, w')"
        by (auto simp: joinWaitlist_def with_user_def)
      with passed show ?thesis by (intro public [of _ ?c]) auto
    qed (simp add: refusal_def)
  qed
  then show "no_effect w w' \<and> (\<exists>n msgs. resp = Resp n (Errors msgs) \<and> n \<in> {401, 404, 500})"
    by (simp add: refusal_def)
next
  assume l: "c = ListEvents \<and> resp = Resp 200 (EventsData m es nxt)"
  with assms listed_events show "\<forall>e \<in> set es. e \<in> set (events (db w)) \<and> e_Status e = Published" by auto
qed

theorem hidden_events_stay_hidden_witness:
  "fst (run_state (mount demo_app demo_anonymous GetEvent empty_ctx) demo_draft) = Resp 404 (Errors [''event not found''])
   \<and> db (snd (run_state (mount demo_app demo_anonymous GetEvent empty_ctx) demo_draft)) = db demo_draft"
proof -
  have anon: "\<forall>u w. \<not> signed_in demo_anonymous u w" "rq_id demo_anonymous = ''3''"
    by (simp_all add: signed_in_def bearer_token_def demo_anonymous_def demo_request_def)
  then have "hidden 3 demo_anonymous demo_draft" by (simp add: hidden_def demo_draft_at)
  with hidden_events_stay_hidden [where a = demo_app and r = demo_anonymous and c = GetEvent and w = demo_draft and i = 3,
      OF prod.collapse [symmetric]] anon
  have "db (snd (run_state (mount demo_app demo_anonymous GetEvent empty_ctx) demo_draft)) = db demo_draft"
    by (simp add: no_effect_def)
  moreover have "bearer_token demo_anonymous = Inl errMissingToken"
    by (simp add: bearer_token_def demo_anonymous_def demo_request_def)
  then have "fst (run_state (mount demo_app demo_anonymous GetEvent empty_ctx) demo_draft) = Resp 404 (Errors [''event not found''])"
    using anon(2) by (simp add: maybeAuth_def authenticate_def getEvent_def getPublicEvent_def with_uuid_param_def
      Events_GetByID_def run_defs demo_draft_at visible_to_def empty_ctx_def)
  ultimately show ?thesis by simp
qed

end
