(* ===== verification/Safety.thy ===== *)
theory Safety
  imports Scenario
begin

section \<open>Safety of every reachable world\<close>

text \<open>
  The claims about all worlds the system can reach, whatever requests, tasks, faults and clock
  readings led there. Each is a few lines over the invariants and lifecycles; each witness is the
  claim at the end of the concrete run.
\<close>

lemmas core_world = core.world [THEN iffD1 [OF core_ok_def]]

text \<open>
  C2. Conservation of stock. In every reachable world, every tier of an event that is not cancelled
  has a quantity equal to what remains plus what confirmed purchases hold, and its status is
  sold out exactly when nothing remains.
\<close>

theorem stock_conserved:
  assumes "reachable a w" and "t \<in> set (ticket_tiers (db w))" and "event_live (t_EventID t) (db w)"
  shows "t_Quantity t = t_Remaining t + sold_of (t_ID t) (db w)
    \<and> (t_Status t = SoldOut \<longleftrightarrow> t_Remaining t = 0)"
  using core_world [OF assms(1)] assms(2,3) by (auto simp: stock_ok_def tier_balanced_def)

theorem stock_conserved_witness:
  "t_Quantity (demo_t 1) = t_Remaining (demo_t 1) + sold_of (t_ID (demo_t 1)) (db demo_sold)"
  by (rule stock_conserved [OF reachable_demo(4), THEN conjunct1]) (simp_all add: demo_sold_at event_live_def)

text \<open>
  C3. Purchases and tickets agree. In every reachable world a purchase has exactly as many tickets
  as its quantity, it is never refunded, and its tickets are cancelled exactly when it is.
\<close>

theorem tickets_match_purchases:
  assumes "reachable a w" and "p \<in> set (purchases (db w))"
  shows "int (length (filter (\<lambda>k. k_PurchaseID k = p_ID p) (tickets (db w)))) = p_Quantity p
    \<and> p_Status p \<noteq> Refunded
    \<and> (\<forall>k \<in> set (tickets (db w)). k_PurchaseID k = p_ID p \<longrightarrow> (k_Status k = TkCancelled \<longleftrightarrow> p_Status p = PuCancelled))"
  using core_world [OF assms(1)] assms(2) by (auto simp: tickets_ok_def purchase_matched_def tickets_of_def)

theorem tickets_match_purchases_witness:
  "int (length (filter (\<lambda>k. k_PurchaseID k = 5) (tickets (db demo_sold)))) = 1"
  using tickets_match_purchases [OF reachable_demo(4), of demo_p] by (simp add: demo_sold_at)

text \<open>
  C4. Integrity of the data. In every reachable world the keys of all tables are unique (emails,
  token hashes and QR tokens too), the value constraints hold, every foreign key refers to a row,
  and the tier of a ticket is the tier of its purchase.
\<close>

theorem schema_integrity:
  assumes "reachable a w"
  shows "keys_ok (db w) \<and> checks_ok (db w) \<and> refs_ok (db w)"
  using schema.world [OF assms] by (simp add: schema_ok_def)

theorem schema_integrity_witness: "keys_ok (db demo_sold) \<and> refs_ok (db demo_sold)"
  using schema_integrity [OF reachable_demo(4)] by blast

subsection \<open>Refinement\<close>

text \<open>
  C5. The program refines its specification. Whatever request is served or task runs, with
  whatever faults, the database moves along the abstract transitions: sales within the stock,
  cancellations that give back, status changes along the lifecycle, and nothing else.
\<close>

theorem steps_refine_spec:
  assumes "reachable a w" and "world_step a w w'"
  shows "db_run (db w) (db w')"
  using world_step_refines [OF assms(2) schema.world [OF assms(1)]] .

theorem steps_refine_spec_witness: "db_run (db demo_draft) (db demo_published)"
  unfolding demo_published_def using steps_refine_spec [OF reachable_demo(2) served_step] .

subsection \<open>Lifecycles\<close>

lemma core_run:
  "reachable a w \<Longrightarrow> (world_step a)\<^sup>*\<^sup>* w w' \<Longrightarrow> core_ok (db w) \<and> db_run (db w) (db w')"
  using core.world world_steps_refine core_schema by blast

lemma demo_later: "(world_step demo_app)\<^sup>*\<^sup>* demo_published demo_sold" "(world_step demo_app)\<^sup>*\<^sup>* demo_draft demo_published"
  unfolding demo_sold_def demo_published_def by (rule r_into_rtranclp, rule served_step)+

text \<open>
  C10. The lifecycle of an event. Along any run an event goes from draft to published or cancelled,
  alternates between published and sold out, and ends in cancelled or ended; it never becomes a
  draft again, and only a draft can disappear.
\<close>

theorem event_lifecycle:
  assumes "reachable a w" and "(world_step a)\<^sup>*\<^sup>* w w'" and "e \<in> set (events (db w))"
  shows "(e_Status e \<noteq> Draft \<longrightarrow> (\<exists>e' \<in> set (events (db w')). e_ID e' = e_ID e))
    \<and> (\<forall>e' \<in> set (events (db w')). e_ID e' = e_ID e \<longrightarrow> event_moves\<^sup>*\<^sup>* (e_Status e) (e_Status e'))"
  using event_life.run core_run [OF assms(1,2)] assms(3) by blast

theorem event_lifecycle_witness: "event_moves\<^sup>*\<^sup>* Draft Published"
  using event_lifecycle [OF reachable_demo(2) demo_later(2), of "demo_e Draft"]
  by (simp add: demo_draft_at demo_published_at)

text \<open>What a step may change of a purchase.\<close>

definition kept_purchase :: "Purchase \<Rightarrow> Purchase \<Rightarrow> bool" where
  "kept_purchase p p' \<longleftrightarrow> p_ID p' = p_ID p \<and> p_UserID p' = p_UserID p \<and> p_TierID p' = p_TierID p
     \<and> p_Quantity p' = p_Quantity p \<and> p_Total p' = p_Total p \<and> p_CreatedAt p' = p_CreatedAt p
     \<and> (p_Status p' = p_Status p \<or> p_Status p' = PuCancelled)"

lemma kept_refl [simp]: "kept_purchase p p"
  by (simp add: kept_purchase_def)

lemma kept_trans: "kept_purchase p q \<Longrightarrow> kept_purchase q r \<Longrightarrow> kept_purchase p r"
  by (auto simp: kept_purchase_def)

lemma kept_cancelled: "p \<in> set ps \<Longrightarrow> \<exists>p' \<in> set (cancel_purchase_rows c now ps). kept_purchase p p'"
  by (intro bexI [of _ "if c p then p\<lparr>p_Status := PuCancelled, p_UpdatedAt := now\<rparr> else p"])
    (auto simp: cancel_purchase_rows_def set_upd kept_purchase_def)

lemma purchases_kept_step:
  "db_step d d' \<Longrightarrow> core_ok d \<Longrightarrow> p \<in> set (purchases d) \<Longrightarrow> \<exists>p' \<in> set (purchases d'). kept_purchase p p'"
proof (induction rule: db_step.induct)
  case (sold t d q ev e now u ks)
  then show ?case by (auto simp: sell_rows intro: bexI [of _ p])
next
  case (taken_back q d t ev now)
  then show ?case by (simp add: take_back_def flip_status_def kept_cancelled)
next
  case (all_cancelled d ev now)
  then show ?case by (simp add: cancel_all_def kept_cancelled)
next
  case (event_dropped d i)
  then show ?case by (auto simp: drop_draft_event intro: bexI [of _ p])
next
  case (tier_dropped d ev i)
  then have "purchases (drop_tiers (\<lambda>t. t_ID t = i \<and> t_EventID t = ev) d) = purchases d"
    by (intro drop_draft_tiers(1)) auto
  with tier_dropped.prems show ?case by (auto intro: bexI [of _ p])
qed (auto simp: flip_status_def end_expired_def admit_def notify_entry_def expire_entries_def intro: bexI [of _ p])

lemma purchases_kept_run:
  "db_run d d' \<Longrightarrow> core_ok d \<Longrightarrow> p \<in> set (purchases d) \<Longrightarrow> \<exists>p' \<in> set (purchases d'). kept_purchase p p'"
  unfolding db_run_def
proof (induction rule: rtranclp_induct)
  case (step d1 d2)
  then obtain p1 where p1: "p1 \<in> set (purchases d1)" "kept_purchase p p1" by blast
  have "core_ok d1" using step core.run unfolding db_run_def by blast
  from purchases_kept_step [OF step.hyps(2) this p1(1)] p1(2) show ?case by (blast intro: kept_trans)
qed (auto intro: bexI [of _ p])

text \<open>
  C11. Purchases are permanent records. No run removes a purchase, changes its user, tier, quantity,
  total or date, or revives a cancelled one; deleting drafts and tiers never touches one.
\<close>

theorem purchases_are_kept:
  assumes "reachable a w" and "(world_step a)\<^sup>*\<^sup>* w w'" and "p \<in> set (purchases (db w))"
  shows "\<exists>p' \<in> set (purchases (db w')). p_ID p' = p_ID p \<and> p_UserID p' = p_UserID p \<and> p_TierID p' = p_TierID p
    \<and> p_Quantity p' = p_Quantity p \<and> p_Total p' = p_Total p \<and> p_CreatedAt p' = p_CreatedAt p
    \<and> (p_Status p = PuCancelled \<longrightarrow> p_Status p' = PuCancelled)"
  using purchases_kept_run core_run [OF assms(1,2)] assms(3) unfolding kept_purchase_def by fastforce

theorem purchases_are_kept_witness:
  "\<exists>p' \<in> set (purchases (db demo_sold)). p_ID p' = 5 \<and> p_UserID p' = 1 \<and> p_Total p' = p_Total demo_p"
  using purchases_are_kept [OF reachable_demo(4) rtranclp.rtrancl_refl, of demo_p] by (simp add: demo_sold_at)

text \<open>
  C9. A ticket admits at most once. Once a ticket has been used or cancelled, then along every run
  it stays so, and no check-in with it succeeds, at any event, at any later time.
\<close>

theorem ticket_admits_once:
  assumes "reachable a w" and "(world_step a)\<^sup>*\<^sup>* w w'" and "k \<in> set (tickets (db w))" and "k_Status k \<noteq> Unused"
    and "run_state (Tickets_CheckIn (k_ID k) ev) w' = (r, w'')"
  shows "r \<noteq> Inr tc"
proof
  assume "r = Inr tc"
  with assms(5) obtain k' t u where row: "ticket_row (k_ID k) (db w') = Some (k', t, u)"
    and ok: "check_in_refuses k' t ev = None"
    by (auto elim: Tickets_CheckIn_InrE)
  from row have "k' \<in> set (tickets (db w'))" "k_ID k' = k_ID k" by (auto dest: ticket_row_Some)
  with ticket_life.run core_run [OF assms(1,2)] assms(3) have "ticket_moves\<^sup>*\<^sup>* (k_Status k) (k_Status k')" by blast
  moreover have "k_Status k' = Unused" using ok by (cases "k_Status k'") (auto simp: check_in_refuses_def)
  ultimately show False using assms(4) ticket_life.first_back by metis
qed

definition demo_admitted :: world where
  "demo_admitted = served ''3'' [] (CheckIn (JsonBody \<lparr>ci_Token = k_QRToken demo_k\<rparr>)) demo_sold"

lemma demo_text_ok: "uuid_text_ok (uuid_String demo_app) (uuid_Parse demo_app) 4"
  "uuid_text_ok (uuid_String demo_app) (uuid_Parse demo_app) 5" "uuid_text_ok (uuid_String demo_app) (uuid_Parse demo_app) 6"
proof -
  have "show_nat 4 = ''4''" "show_nat 5 = ''5''" "show_nat 6 = ''6''" by code_simp+
  then show "uuid_text_ok (uuid_String demo_app) (uuid_Parse demo_app) 4"
    "uuid_text_ok (uuid_String demo_app) (uuid_Parse demo_app) 5" "uuid_text_ok (uuid_String demo_app) (uuid_Parse demo_app) 6"
    by (simp_all add: uuid_text_ok_def demo_app_def Atoi_def digit_of_def int64_def)
qed

lemma demo_scan: "VerifyToken (uuid_Parse demo_app) (k_QRToken demo_k) ''secret'' = Inr 6"
proof -
  have "k_QRToken demo_k = GenerateToken (uuid_String demo_app) 6 5 4 ''secret''"
    by (simp add: demo_k_def del: demo_rows)
  with verify_generate [of "uuid_String demo_app" "uuid_Parse demo_app" 6 5 4 "''secret''"] demo_text_ok
  show ?thesis by simp
qed

lemma demo_admitted_at:
  "demo_admitted = world_at (demo_db [demo_e Published] [demo_t 1] [demo_p]
     [demo_k\<lparr>k_Status := Used, k_CheckedInAt := Some 0, k_UpdatedAt := 0\<rparr>]) 10"
  by (simp add: demo_admitted_def demo_sold_at served_def demo_organizer_of checkIn_def with_event_def with_payload_def
    json_Read_def ValidateStruct_def demo_scan Tickets_CheckIn_def run_defs ticket_row_def update_tickets_def)

theorem ticket_admits_once_witness:
  "\<exists>w'. run_state (Tickets_CheckIn 6 3) demo_admitted = (Inl ErrAlreadyCheckedIn, w')"
proof -
  let ?k = "demo_k\<lparr>k_Status := Used, k_CheckedInAt := Some 0, k_UpdatedAt := 0\<rparr>"
  have "reachable demo_app demo_admitted"
    unfolding demo_admitted_def by (rule reachable_step [OF reachable_demo(4) served_step])
  from ticket_admits_once [OF this rtranclp.rtrancl_refl, of ?k 3]
  have "fst (run_state (Tickets_CheckIn 6 3) demo_admitted) \<noteq> Inr tc" for tc
    by (simp add: demo_admitted_at prod_eq_iff)
  moreover have "run_state (Tickets_CheckIn 6 3) demo_admitted = (Inl ErrAlreadyCheckedIn, demo_admitted)"
    by (simp add: demo_admitted_at Tickets_CheckIn_def run_defs ticket_row_def)
  ultimately show ?thesis by blast
qed

text \<open>
  The waitlist keeps its deadlines. In every reachable world a notified entry carries the time
  of the notification and a deadline exactly 24 hours later, and no entry ever has the status
  purchased that the schema foresees.
\<close>

lemma waitlist_deadlines:
  assumes "reachable a w" and "e \<in> set (waitlist_entries (db w))"
  shows "w_Status e \<noteq> Purchased
    \<and> (w_Status e = Notified \<longrightarrow> (\<exists>t. w_NotifiedAt e = Some t \<and> w_ExpiresAt e = Some (t + 24 * time_Hour)))"
  using core_world [OF assms(1)] assms(2) by (simp add: waitlist_ok_def entry_ok_def)

end
