(* ===== verification/Store_Spec.thy ===== *)
theory Store_Spec
  imports Scenario
begin

section \<open>What the store promises\<close>

text \<open>
  The outcome of the transactions, error by error, when the database answers: each is a
  function of the rows. And what holds whatever fails: a transaction that answers with an
  error has changed nothing.
\<close>

lemmas quiet_run = run_exec_or run_exec in_tx_def exec_or_def select_one_def select_all_def

lemma row_key: "row_at key rs k = Some r \<Longrightarrow> key r = k"
  by (auto dest: row_at_Some)

lemma filter_key: "keyed key rs \<Longrightarrow> r \<in> set rs \<Longrightarrow> filter (\<lambda>x. key x = key r) rs = [r]"
proof (induction rs)
  case (Cons x xs)
  from Cons.prems(1) have "keyed key xs" "\<forall>y \<in> set xs. key y \<noteq> key x"
    by (simp add: keyed_def) (use Cons.prems(1) in \<open>simp add: keyed_def image_iff; metis\<close>)
  with Cons show ?case by (cases "x = r") (auto simp: filter_empty_conv)
qed simp

subsection \<open>Buying\<close>

text \<open>The conditions of the schema for the rows that a sale writes.\<close>

definition sale_fits :: "Purchase \<Rightarrow> Ticket list \<Rightarrow> Tier \<Rightarrow> database \<Rightarrow> bool" where
  "sale_fits p ts t d \<longleftrightarrow> 0 < p_Quantity p \<and> purchase_check (purchase_row p (t_Price t) 0)
     \<and> (\<forall>x \<in> set (purchases d). p_ID x \<noteq> p_ID p) \<and> (\<exists>u \<in> set (users d). u_ID u = p_UserID p) \<and> batch_ok ts d"

lemma sold_tier_check:
  "tier_check t \<Longrightarrow> 0 < q \<Longrightarrow> q \<le> t_Remaining t \<Longrightarrow> tier_check (sold_row q now t)"
  by (auto simp: tier_check_def sold_row_def)

lemma purchase_row_fields [simp]:
  "p_ID (purchase_row p pr now) = p_ID p" "p_UserID (purchase_row p pr now) = p_UserID p"
  "p_TierID (purchase_row p pr now) = p_TierID p" "p_Quantity (purchase_row p pr now) = p_Quantity p"
  "p_Status (purchase_row p pr now) = Confirmed" "p_Total (purchase_row p pr now) = wrap64 (pr * p_Quantity p)"
  by (simp_all add: purchase_row_def)

lemma purchase_check_row: "purchase_check (purchase_row p price now) = purchase_check (purchase_row p price 0)"
  by (simp add: purchase_check_def purchase_row_def)

lemma update_tiers_checked:
  assumes "schema_ok d" and "row_at t_ID (ticket_tiers d) i = Some t" and "tier_check (f t)"
  shows "list_all (\<lambda>x. t_ID x = i \<longrightarrow> tier_check (f x)) (ticket_tiers d)"
proof -
  have "x = t" if "x \<in> set (ticket_tiers d)" "t_ID x = i" for x
    using that assms(1,2) keyed_unique [OF schema_keyed(3)] row_at_Some by metis
  with assms(3) show ?thesis by (auto simp: list_all_iff)
qed

lemma sale_statements:
  assumes "schema_ok (db w)" and "row_at t_ID (ticket_tiers (db w)) (p_TierID p) = Some t"
    and "create_refuses p t e = None" and "sale_fits p ts t (db w)"
  shows "list_all (\<lambda>x. t_ID x = p_TierID p \<longrightarrow> tier_check (sold_row (p_Quantity p) now x)) (ticket_tiers (db w))"
proof (rule update_tiers_checked [OF assms(1,2)])
  have "tier_check t" using schema_checks(2) [OF assms(1)] assms(2) by (auto dest: row_at_Some)
  then show "tier_check (sold_row (p_Quantity p) now t)"
    using assms(3,4) by (intro sold_tier_check) (auto simp: create_refuses_def sale_fits_def split: if_splits)
qed

text \<open>
  C6. What \<open>Purchases.Create\<close> does. When no call fails, buying from an existing tier ends with the
  first refusal that applies (not published, above the maximum per purchase, not enough left) and
  an unchanged world, or else it sells: the tier loses the quantity, the purchase is recorded
  with price times quantity, one unused ticket per given ticket is added, and the event becomes
  sold out when nothing is left.
\<close>

theorem create_outcome:
  assumes "faults w = []" and "schema_ok (db w)"
    and "row_at t_ID (ticket_tiers (db w)) (p_TierID p) = Some t"
    and "row_at e_ID (events (db w)) (t_EventID t) = Some e" and "sale_fits p ts t (db w)"
  shows "run_state (Purchases_Create p ts) w =
    (let p' = purchase_row p (t_Price t) (db_now w)
     in case create_refuses p t e of
          Some err \<Rightarrow> (Inl err, w)
        | None \<Rightarrow> (Inr (p', map (minted (db_now w)) ts), w\<lparr>db := sell p' ts (t_EventID t) (db_now w) (db w)\<rparr>))"
proof (cases "create_refuses p t e")
  case (Some err)
  with assms show ?thesis
    by (auto simp: Purchases_Create_def quiet_run create_refuses_def split: if_splits)
next
  case None
  let ?now = "db_now w" and ?p = "purchase_row p (t_Price t) (db_now w)"
  let ?ts = "upd (\<lambda>x. t_ID x = p_TierID p) (sold_row (p_Quantity p) ?now) (ticket_tiers (db w))"
  note chk = sale_statements [OF assms(2,3) None assms(5), of ?now]
  have tiers: "update_tiers (\<lambda>x. t_ID x = p_TierID p) (\<lambda>t. t\<lparr>t_Remaining := t_Remaining t - p_Quantity p,
       t_Status := (if t_Remaining t = p_Quantity p then SoldOut else Available)\<rparr>) w
     = (Inr (map (sold_row (p_Quantity p) ?now) (filter (\<lambda>x. t_ID x = p_TierID p) (ticket_tiers (db w)))),
        w\<lparr>db := put_tiers ?ts (db w)\<rparr>)"
    using chk by (simp add: update_tiers_sold update_stmt_def)
  have tier: "list_ex (\<lambda>x. t_ID x = p_TierID p) ?ts"
    using assms(3) by (subst list_ex_upd) (auto simp: list_ex_iff dest!: row_at_Some)
  have purchase: "insert_purchase (p\<lparr>p_Total := wrap64 (t_Price t * p_Quantity p)\<rparr>) (w\<lparr>db := put_tiers ?ts (db w)\<rparr>)
      = (Inr ?p, w\<lparr>db := put_purchases (purchases (db w) @ [?p]) (put_tiers ?ts (db w))\<rparr>)"
    using assms(5) tier
    by (simp add: insert_purchase_def insert_stmt_def purchase_row_def sale_fits_def purchase_check_def
        purchase_clash_def purchase_fk_def list_ex_iff)
  have batch: "insert_batch ?p ts (w\<lparr>db := put_purchases (purchases (db w) @ [?p]) (put_tiers ?ts (db w))\<rparr>)
      = (Inr (map (minted ?now) ts), w\<lparr>db := put_tickets (tickets (db w) @ map (ticket_of ?p ?now) ts)
          (put_purchases (purchases (db w) @ [?p]) (put_tiers ?ts (db w)))\<rparr>)"
    using insert_batch_ok [of ts "w\<lparr>db := put_purchases (purchases (db w) @ [?p]) (put_tiers ?ts (db w))\<rparr>" ?p] assms(5) tier
    by (simp add: sale_fits_def batch_ok_def list_ex_iff purchase_row_def)
  show ?thesis
    using assms(1,3,4) None schema_checks(1) [OF assms(2)]
    by (simp add: Purchases_Create_def quiet_run create_refuses_def tiers purchase batch sell_alt Let_def
        update_events_def update_stmt_def list_all_iff split: if_splits)
qed

theorem create_outcome_witness:
  "fst (run_state (Purchases_Create demo_p [demo_k]) demo_published) = Inr (demo_p, [demo_k])"
proof -
  have "purchase_row demo_p 500 0 = demo_p" by (simp add: purchase_row_def demo_p_def wrap64_def)
  then have "sale_fits demo_p [demo_k] (demo_t 2) (db demo_published)"
    by (simp add: demo_published_at sale_fits_def batch_ok_def)
  with create_outcome [of demo_published demo_p "demo_t 2" "demo_e Published" "[demo_k]"] schema.world [OF reachable_demo(3)]
    \<open>purchase_row demo_p 500 0 = demo_p\<close>
  show ?thesis by (simp add: demo_published_at create_refuses_def minted_def)
qed

subsection \<open>Giving back\<close>

lemma returned_tier_check:
  assumes "core_ok d" and "p \<in> set (purchases d)" and "p_Status p = Confirmed"
    and "row_at t_ID (ticket_tiers d) (p_TierID p) = Some t"
  shows "tier_check (returned_row (p_Quantity p) now t)"
proof -
  from assms(1) have S: "schema_ok d" and K: "stock_ok d" by (simp_all add: core_ok_def)
  from assms(4) have t: "t \<in> set (ticket_tiers d)" "t_ID t = p_TierID p" by (auto dest: row_at_Some)
  have pos: "0 < p_Quantity x" if "x \<in> set (purchases d)" for x
    using schema_checks(3) [OF S that] by (simp add: purchase_check_def)
  have "p_Quantity p \<le> sold_of (t_ID t) d"
    unfolding sold_of_def using assms(2,3) t(2) pos by (intro sum_where_member) (auto intro: less_imp_le)
  with K t(1) schema_checks(2) [OF S t(1)] pos [OF assms(2)] show ?thesis
    by (auto simp: stock_ok_def tier_balanced_def tier_check_def returned_row_def split: if_splits)
qed

text \<open>
  C7. What \<open>Purchases.Cancel\<close> does. When no call fails, a purchase of another user is not found, a
  purchase that is not confirmed is refused, then the policy of the event decides (started, not
  allowed, window closed and no grace); otherwise the purchase and its tickets are cancelled, its
  quantity returns to the tier, a sold-out event opens again, and the answer says whether the
  tier was sold out.
\<close>

theorem cancel_outcome:
  assumes "faults w = []" and "core_ok (db w)"
    and "\<forall>p. own_purchase i user (db w) = Some p \<longrightarrow>
      row_at t_ID (ticket_tiers (db w)) (p_TierID p) = Some t \<and> row_at e_ID (events (db w)) (t_EventID t) = Some e"
  shows "run_state (Purchases_Cancel i user) w =
    (case own_purchase i user (db w) of
       None \<Rightarrow> (Inl ErrNotFound, w)
     | Some p \<Rightarrow>
         if p_Status p \<noteq> Confirmed then (Inl ErrAlreadyCancelled, w)
         else (case cancel_refuses (go_now w) e of
                 Some err \<Rightarrow> (Inl err, w)
               | None \<Rightarrow> (Inr (p\<lparr>p_Status := PuCancelled, p_UpdatedAt := db_now w\<rparr>, t_Status t = SoldOut),
                   w\<lparr>db := take_back p (t_EventID t) (db_now w) (db w)\<rparr>)))"
proof (cases "own_purchase i user (db w)")
  case None
  with assms(1) show ?thesis by (simp add: Purchases_Cancel_def quiet_run no_rows_as_def)
next
  case (Some p)
  with assms(3) have t: "row_at t_ID (ticket_tiers (db w)) (p_TierID p) = Some t"
    and e: "row_at e_ID (events (db w)) (t_EventID t) = Some e" by blast+
  have p: "p \<in> set (purchases (db w))" "p_ID p = i" "p_UserID p = user"
    using Some by (auto simp: find_Some_iff)
  consider "p_Status p \<noteq> Confirmed" | err where "p_Status p = Confirmed" "cancel_refuses (go_now w) e = Some err"
    | "p_Status p = Confirmed" "cancel_refuses (go_now w) e = None" by fastforce
  then show ?thesis
  proof cases
    case 1
    with Some assms(1) show ?thesis by (simp add: Purchases_Cancel_def quiet_run)
  next
    case (2 err)
    with Some t e assms(1) show ?thesis
      by (auto simp: Purchases_Cancel_def quiet_run cancel_refuses_def split: if_splits)
  next
    case 3
    from assms(2) have S: "schema_ok (db w)" by (rule core_schema)
    have chk: "list_all (\<lambda>x. t_ID x = p_TierID p \<longrightarrow> tier_check (returned_row (p_Quantity p) (db_now w) x))
        (ticket_tiers (db w))"
      by (rule update_tiers_checked [OF S t]) (rule returned_tier_check [OF assms(2) p(1) 3(1) t])
    have only: "filter (\<lambda>x. p_ID x = p_ID p) (purchases (db w)) = [p]"
      using filter_key [OF schema_keyed(4) [OF S] p(1)] by simp
    have row: "returning_one (update_purchases (\<lambda>x. p_ID x = p_ID p) (\<lambda>p. p\<lparr>p_Status := PuCancelled\<rparr>)) w
      = (Inr (p\<lparr>p_Status := PuCancelled, p_UpdatedAt := db_now w\<rparr>), w\<lparr>db := put_purchases
          (cancel_purchase_rows (\<lambda>x. p_ID x = p_ID p) (db_now w) (purchases (db w))) (db w)\<rparr>)"
      using schema_checks(3) [OF S] only
      by (simp add: returning_one_def update_purchases_def update_stmt_def list_all_iff cancel_purchase_rows_def)
    show ?thesis
      using Some t e assms(1) 3 chk schema_checks(1) [OF S]
      by (simp add: Purchases_Cancel_def quiet_run cancel_refuses_def row update_tickets_def update_tiers_returned
          update_events_def update_stmt_def list_all_iff take_back_def flip_status_def cancel_ticket_rows_def
          split: if_splits)
  qed
qed

lemma demo_find [simp]: "own_purchase 5 1 (demo_db es ts [demo_p] ks) = Some demo_p"
  by simp

theorem cancel_outcome_witness:
  "fst (run_state (Purchases_Cancel 5 1) demo_sold) = Inr (demo_p\<lparr>p_Status := PuCancelled, p_UpdatedAt := 0\<rparr>, False)"
proof -
  have "cancel_refuses 0 (demo_e Published) = None"
    by (simp add: cancel_refuses_def demo_e_def windowClosed_def wrap64_def)
  with cancel_outcome [OF _ core.world [OF reachable_demo(4)], of 5 1 "demo_t 1" "demo_e Published"]
  show ?thesis by (simp add: demo_sold_at)
qed

text \<open>
  C12. Buying and cancelling is neutral. When a sale is followed by the cancellation of the same
  purchase, every tier has the remaining quantity and the status it had before, and every event
  has its old status, also when the sale had sold the event out.
\<close>

theorem cancel_undoes_sale:
  assumes "schema_ok (db w)" and "run_state (Purchases_Create p ts) w = (Inr (p', ts'), w1)"
    and "run_state (Purchases_Cancel (p_ID p') user) w1 = (Inr (p'', was_sold_out), w2)"
  shows "map (\<lambda>t. (t_ID t, t_Quantity t, t_Remaining t, t_Status t)) (ticket_tiers (db w2))
      = map (\<lambda>t. (t_ID t, t_Quantity t, t_Remaining t, t_Status t)) (ticket_tiers (db w))
    \<and> map (\<lambda>e. (e_ID e, e_Status e)) (events (db w2)) = map (\<lambda>e. (e_ID e, e_Status e)) (events (db w))"
proof -
  from assms(2) obtain t e where t: "row_at t_ID (ticket_tiers (db w)) (p_TierID p) = Some t"
    and e: "row_at e_ID (events (db w)) (t_EventID t) = Some e" and ok: "create_refuses p t e = None"
    and p': "p' = purchase_row p (t_Price t) (db_now w)" and fresh: "\<forall>x \<in> set (purchases (db w)). \<not> purchase_clash p x"
    and w1: "db w1 = sell p' ts (t_EventID t) (db_now w) (db w)"
    by (elim Purchases_Create_InrE)
  from assms(3) obtain q t1 e1 where q: "own_purchase (p_ID p') user (db w1) = Some q"
    and t1: "row_at t_ID (ticket_tiers (db w1)) (p_TierID q) = Some t1"
    and w2: "db w2 = take_back q (t_EventID t1) (db_now w1) (db w1)"
    by (elim Purchases_Cancel_InrE)
  from q have "q \<in> set (purchases (db w1))" "p_ID q = p_ID p'" by (auto simp: find_Some_iff)
  with fresh have q: "q = p'" by (auto simp: w1 sell_rows p' purchase_clash_def)
  from t have tier: "t \<in> set (ticket_tiers (db w))" "t_ID t = p_TierID p" by (auto dest: row_at_Some)
  have one: "x = t" if "x \<in> set (ticket_tiers (db w))" "t_ID x = p_TierID p" for x
    using keyed_unique [OF schema_keyed(3) [OF assms(1)] that(1) tier(1)] that(2) tier(2) by simp
  have "t_EventID t1 = t_EventID t"
    using t1 t one by (auto simp: q p' w1 sell_rows row_at_upd)
  have st: "t_Status t = Available" "e_Status e = Published" using ok by (auto simp: create_refuses_def split: if_splits)
  have one_event: "x = e" if "x \<in> set (events (db w))" "e_ID x = t_EventID t" for x
    using keyed_unique [OF schema_keyed(2) [OF assms(1)] that(1)] e that(2) by (auto dest: row_at_Some)
  obtain c where ev: "events (db w1) = upd (\<lambda>e. c \<and> e_ID e = t_EventID t \<and> e_Status e = Published)
      (\<lambda>e. e\<lparr>e_Status := EvSoldOut, e_UpdatedAt := db_now w\<rparr>) (events (db w))"
    unfolding w1 using sell_events by blast
  have "ticket_tiers (db w2) = map (\<lambda>x. if t_ID x = p_TierID p
      then returned_row (p_Quantity p) (db_now w1) (sold_row (p_Quantity p) (db_now w) x) else x) (ticket_tiers (db w))"
    by (simp add: w2 w1 q p' take_back_def flip_status_def sell_rows upd_def comp_def cong: map_cong if_cong)
  moreover have "events (db w2) = upd (\<lambda>e. e_ID e = t_EventID t \<and> e_Status e = EvSoldOut)
      (\<lambda>e. e\<lparr>e_Status := Published, e_UpdatedAt := db_now w1\<rparr>) (events (db w1))"
    using \<open>t_EventID t1 = t_EventID t\<close> by (simp add: w2 take_back_def flip_status_def)
  ultimately show ?thesis
    using one one_event st by (auto simp: ev upd_def sold_row_def returned_row_def)
qed

lemma demo_create:
  "run_state (Purchases_Create demo_p [demo_k]) (world_at (demo_db [demo_e Published] [demo_t 2] [] []) n)
    = (Inr (demo_p, [demo_k]), world_at (demo_db [demo_e Published] [demo_t 1] [demo_p] [demo_k]) n)"
proof -
  have "demo_p\<lparr>p_Total := wrap64 500, p_Status := Confirmed, p_CreatedAt := 0, p_UpdatedAt := 0\<rparr> = demo_p"
    by (simp add: demo_p_def wrap64_def)
  then show ?thesis
    by (simp add: Purchases_Create_def update_tiers_def insert_purchase_def run_defs insert_ticket_def ticket_fk_def)
qed

lemma demo_policy [simp]:
  "e_StartsAt (demo_e st) = 500" "e_CancellationAllowed (demo_e st)" "e_CancellationHoursBefore (demo_e st) = 0"
  by (simp_all add: demo_e_def)

lemma demo_cancel:
  "run_state (Purchases_Cancel 5 1) (world_at (demo_db [demo_e Published] [demo_t 1] [demo_p] [demo_k]) n)
    = (Inr (demo_p\<lparr>p_Status := PuCancelled, p_UpdatedAt := 0\<rparr>, False), world_at (demo_db [demo_e Published]
        [(demo_t 1)\<lparr>t_Remaining := 2, t_Status := Available, t_UpdatedAt := 0\<rparr>]
        [demo_p\<lparr>p_Status := PuCancelled, p_UpdatedAt := 0\<rparr>] [demo_k\<lparr>k_Status := TkCancelled, k_UpdatedAt := 0\<rparr>]) n)"
proof -
  have "purchase_check (demo_p\<lparr>p_Status := PuCancelled, p_UpdatedAt := 0\<rparr>)" by simp
  moreover have "tier_check ((demo_t 1)\<lparr>t_Remaining := 2, t_Status := Available, t_UpdatedAt := 0\<rparr>)"
    by (simp add: tier_check_def int32_def)
  ultimately show ?thesis
    by (simp add: Purchases_Cancel_def run_defs update_purchases_def update_tickets_def update_tiers_def update_events_def
      windowClosed_def wrap64_def)
qed

theorem cancel_undoes_sale_witness:
  "map (\<lambda>t. (t_ID t, t_Quantity t, t_Remaining t, t_Status t))
     (ticket_tiers (db (snd (run_state (Purchases_Cancel 5 1) (snd (run_state (Purchases_Create demo_p [demo_k]) demo_published))))))
   = [(4, 2, 2, Available)]"
proof -
  have "schema_ok (db (world_at (demo_db [demo_e Published] [demo_t 2] [] []) 8))"
    using schema.world [OF reachable_demo(3)] by (simp only: demo_published_at)
  from cancel_undoes_sale [OF this demo_create, of 1] show ?thesis
    by (simp add: demo_published_at demo_create demo_cancel)
qed

subsection \<open>All or nothing\<close>

text \<open>
  An error of a transaction is technical (a lost connection, a violated constraint) or the
  refusal that the rows it read call for.
\<close>

definition technical :: "store_error \<Rightarrow> bool" where
  "technical e = (case e of ErrPg _ \<Rightarrow> True | _ \<Rightarrow> False)"

lemma technical_ErrPg [simp]: "technical (ErrPg x)"
  by (simp add: technical_def)

definition sale_refusal :: "Purchase \<Rightarrow> database \<Rightarrow> store_error option" where
  "sale_refusal p d =
     (case row_at t_ID (ticket_tiers d) (p_TierID p) of
        None \<Rightarrow> Some ErrNotFound
      | Some t \<Rightarrow> (case row_at e_ID (events d) (t_EventID t) of None \<Rightarrow> None | Some e \<Rightarrow> create_refuses p t e))"

lemma Purchases_Create_Inl:
  assumes "run_state (Purchases_Create p ts) w = (Inl err, w')"
  shows "technical err \<or> sale_refusal p (db w) = Some err"
  using assms unfolding Purchases_Create_def
  apply (elim in_tx_InlE)
   apply simp
  apply (auto elim!: exec_or_InlE simp: no_rows_as_def sale_refusal_def create_refuses_def select_one_def split: option.splits if_splits)
  done

definition cancel_refusal :: "uuid \<Rightarrow> uuid \<Rightarrow> instant \<Rightarrow> database \<Rightarrow> store_error option" where
  "cancel_refusal i user now d =
     (case own_purchase i user d of
        None \<Rightarrow> Some ErrNotFound
      | Some p \<Rightarrow>
          if p_Status p \<noteq> Confirmed then Some ErrAlreadyCancelled
          else (case row_at t_ID (ticket_tiers d) (p_TierID p) of
                  None \<Rightarrow> None
                | Some t \<Rightarrow> (case row_at e_ID (events d) (t_EventID t) of None \<Rightarrow> None | Some e \<Rightarrow> cancel_refuses now e)))"

definition admission_refusal :: "uuid \<Rightarrow> uuid \<Rightarrow> database \<Rightarrow> store_error option" where
  "admission_refusal k ev d =
     (case ticket_row k d of None \<Rightarrow> Some ErrNotFound | Some (x, t, u) \<Rightarrow> check_in_refuses x t ev)"

lemma Purchases_Cancel_Inl:
  assumes "run_state (Purchases_Cancel i user) w = (Inl err, w')"
  shows "technical err \<or> cancel_refusal i user (go_now w) (db w) = Some err"
  using assms unfolding Purchases_Cancel_def
  apply (elim in_tx_InlE)
   apply simp
  apply (auto elim!: exec_or_InlE simp: Let_def no_rows_as_def cancel_refusal_def cancel_refuses_def select_one_def split: option.splits if_splits)
  done

lemma Purchases_CancelByEvent_Inl:
  assumes "run_state (Purchases_CancelByEvent ev) w = (Inl err, w')"
  shows "technical err"
  using assms unfolding Purchases_CancelByEvent_def
  by (elim in_tx_InlE) (auto elim!: exec_or_InlE)

lemma Tickets_CheckIn_Inl:
  assumes "run_state (Tickets_CheckIn k ev) w = (Inl err, w')"
  shows "technical err \<or> admission_refusal k ev (db w) = Some err"
  using assms unfolding Tickets_CheckIn_def
  apply (elim in_tx_InlE)
   apply simp
  apply (auto elim!: exec_or_InlE simp: no_rows_as_def admission_refusal_def check_in_refuses_def select_one_def split: option.splits if_splits)
  done

lemma next_waiting_mem: "next_waiting tier d = Some (e, u, tn, en) \<Longrightarrow> e \<in> set (waitlist_entries d) \<and> w_Status e = Waiting"
proof -
  assume "next_waiting tier d = Some (e, u, tn, en)"
  then have "(e, u, tn, en) \<in> set (List.map_filter (waiting_row d) (waiting_for tier d))"
    by (auto simp: next_waiting_def split: list.splits)
  then obtain x where "x \<in> set (waiting_for tier d)" "waiting_row d x = Some (e, u, tn, en)"
    by (auto simp: List.map_filter_def)
  then show ?thesis by (auto simp: waiting_row_def waiting_for_def split: option.splits)
qed

lemma Waitlist_NotifyNextWaiting_Inl:
  assumes "run_state (Waitlist_NotifyNextWaiting tier) w = (Inl err, w')"
  shows "technical err \<or> err = ErrNotFound \<and> next_waiting tier (db w) = None"
  using assms unfolding Waitlist_NotifyNextWaiting_def
  apply (elim in_tx_InlE)
   apply simp
  apply (auto elim!: exec_or_InlE simp: Let_def no_rows_as_def select_one_def returning_one_def update_waitlist_def update_stmt_def list_all_iff
    filter_empty_conv dest!: next_waiting_mem split: option.splits if_splits prod.splits sum.splits list.splits)
  done

lemma stores_unchanged:
  "run_state (Purchases_Create p ts) w = (Inl err, w') \<Longrightarrow> db w' = db w"
  "run_state (Purchases_Cancel i user) w = (Inl err, w') \<Longrightarrow> db w' = db w"
  "run_state (Purchases_CancelByEvent ev) w = (Inl err, w') \<Longrightarrow> db w' = db w"
  "run_state (Tickets_CheckIn k ev) w = (Inl err, w') \<Longrightarrow> db w' = db w"
  "run_state (Waitlist_NotifyNextWaiting tier) w = (Inl err, w') \<Longrightarrow> db w' = db w"
  unfolding Purchases_Create_def Purchases_Cancel_def Purchases_CancelByEvent_def Tickets_CheckIn_def
    Waitlist_NotifyNextWaiting_def by (elim in_tx_Inl)+

text \<open>
  C8. Every transaction does all of its work or none of it, and a refusal has its reason in the
  rows. Whatever calls fail, in any world: \<open>Create\<close>, \<open>Cancel\<close>, \<open>CancelByEvent\<close>, \<open>CheckIn\<close> and
  \<open>NotifyNextWaiting\<close> answer with an error only if it is a technical one or exactly the refusal
  that the rows call for, and then the database is as it was; when they answer with a result, no
  refusal applied, the result is the one the rows determine, and the database is the old one with
  the whole sale, the whole cancellation, the whole clearing of the event, the one admission or
  the one promotion applied. No failure leaves tickets without a purchase, lost inventory or a
  half-cancelled event, and no guard is passed by a failing call.
\<close>

theorem all_or_nothing:
  "(case run_state (Purchases_Create p ts) w of
      (Inl err, w') \<Rightarrow> db w' = db w \<and> (technical err \<or> sale_refusal p (db w) = Some err)
    | (Inr (p', ts'), w') \<Rightarrow> (\<exists>t e. row_at t_ID (ticket_tiers (db w)) (p_TierID p) = Some t
        \<and> row_at e_ID (events (db w)) (t_EventID t) = Some e \<and> create_refuses p t e = None
        \<and> p' = purchase_row p (t_Price t) (db_now w) \<and> ts' = map (minted (db_now w)) ts
        \<and> db w' = sell p' ts (t_EventID t) (db_now w) (db w)))
   \<and> (case run_state (Purchases_Cancel i user) w of
      (Inl err, w') \<Rightarrow> db w' = db w \<and> (technical err \<or> cancel_refusal i user (go_now w) (db w) = Some err)
    | (Inr (p', sold_out), w') \<Rightarrow> (\<exists>q t e. own_purchase i user (db w) = Some q \<and> p_Status q = Confirmed
        \<and> row_at t_ID (ticket_tiers (db w)) (p_TierID q) = Some t
        \<and> row_at e_ID (events (db w)) (t_EventID t) = Some e \<and> cancel_refuses (go_now w) e = None
        \<and> p' = q\<lparr>p_Status := PuCancelled, p_UpdatedAt := db_now w\<rparr> \<and> sold_out = (t_Status t = SoldOut)
        \<and> db w' = take_back q (t_EventID t) (db_now w) (db w)))
   \<and> (case run_state (Purchases_CancelByEvent ev) w of
      (Inl err, w') \<Rightarrow> db w' = db w \<and> technical err
    | (Inr _, w') \<Rightarrow> db w' = cancel_all ev (db_now w) (db w))
   \<and> (case run_state (Tickets_CheckIn k ev) w of
      (Inl err, w') \<Rightarrow> db w' = db w \<and> (technical err \<or> admission_refusal k ev (db w) = Some err)
    | (Inr tc, w') \<Rightarrow> (\<exists>x t u. ticket_row k (db w) = Some (x, t, u) \<and> check_in_refuses x t ev = None
        \<and> tc_TierName tc = t_Name t \<and> tc_AttendeeName tc = u_Name u \<and> tc_AttendeeEmail tc = u_Email u
        \<and> db w' = admit k (db_now w) (db w)))
   \<and> (case run_state (Waitlist_NotifyNextWaiting tier) w of
      (Inl err, w') \<Rightarrow> db w' = db w \<and> (technical err \<or> err = ErrNotFound \<and> next_waiting tier (db w) = None)
    | (Inr (e', u, tn, en), w') \<Rightarrow> (\<exists>e. next_waiting tier (db w) = Some (e, u, tn, en) \<and> w_ID e' = w_ID e
        \<and> w_ExpiresAt e' = Some (go_now w + 24 * time_Hour)
        \<and> db w' = notify_entry (w_ID e) (go_now w) (db_now w) (db w)))"
proof (intro conjI, goal_cases)
  case 1
  show ?case by (auto split: prod.split sum.split dest: Purchases_Create_Inl stores_unchanged(1) elim: Purchases_Create_InrE)
next
  case 2
  show ?case by (auto split: prod.split sum.split dest: Purchases_Cancel_Inl stores_unchanged(2) elim: Purchases_Cancel_InrE)
next
  case 3
  show ?case by (auto split: prod.split sum.split dest: Purchases_CancelByEvent_Inl Purchases_CancelByEvent_Inr stores_unchanged(3))
next
  case 4
  show ?case by (auto split: prod.split sum.split dest: Tickets_CheckIn_Inl ticket_row_Some stores_unchanged(4) elim!: Tickets_CheckIn_InrE)
next
  case 5
  show ?case
    by (auto split: prod.split sum.split dest: Waitlist_NotifyNextWaiting_Inl stores_unchanged(5) elim: Waitlist_NotifyNextWaiting_InrE)
qed

text \<open>The fourth call of a sale fails: the tier had been decremented, and is rolled back.\<close>

theorem all_or_nothing_witness:
  "\<exists>w'. run_state (Purchases_Create demo_p [demo_k]) (demo_published\<lparr>faults := [False, False, False, False, True]\<rparr>)
     = (Inl (ErrPg ConnFailed), w') \<and> ticket_tiers (db w') = [demo_t 2]"
proof -
  let ?w = "demo_published\<lparr>faults := [False, False, False, False, True]\<rparr>"
  have "fst (run_state (Purchases_Create demo_p [demo_k]) ?w) = Inl (ErrPg ConnFailed)"
    by (simp add: demo_published_at Purchases_Create_def update_tiers_def run_defs)
  then obtain w' where w': "run_state (Purchases_Create demo_p [demo_k]) ?w = (Inl (ErrPg ConnFailed), w')"
    by (metis prod.collapse)
  from all_or_nothing [where p = demo_p and ts = "[demo_k]" and w = ?w, THEN conjunct1] w' show ?thesis by (simp add: demo_published_at)
qed

subsection \<open>Admission\<close>

text \<open>
  C13. What a check-in does. When no call fails, an unknown ticket is not found, a used one is
  already checked in, a cancelled one is refused, a ticket of another event is refused, in this
  order and without any change; otherwise exactly this ticket becomes used, with the time of
  the database, and the answer names its tier and attendee.
\<close>

theorem check_in_outcome:
  assumes "faults w = []" and "schema_ok (db w)"
  shows "run_state (Tickets_CheckIn i ev) w =
    (case ticket_row i (db w) of
       None \<Rightarrow> (Inl ErrNotFound, w)
     | Some (k, t, u) \<Rightarrow>
         (case check_in_refuses k t ev of
            Some err \<Rightarrow> (Inl err, w)
          | None \<Rightarrow> (Inr \<lparr>tc_Ticket = k\<lparr>k_Status := Used, k_CheckedInAt := Some (db_now w), k_UpdatedAt := db_now w\<rparr>,
                tc_TierName = t_Name t, tc_AttendeeName = u_Name u, tc_AttendeeEmail = u_Email u\<rparr>,
              w\<lparr>db := admit i (db_now w) (db w)\<rparr>)))"
proof (cases "ticket_row i (db w)")
  case None
  with assms(1) show ?thesis by (simp add: Tickets_CheckIn_def quiet_run no_rows_as_def)
next
  case (Some x)
  obtain k t u where x: "x = (k, t, u)" by (cases x)
  with Some have k: "k \<in> set (tickets (db w))" "k_ID k = i" by (auto dest: ticket_row_Some)
  have "filter (\<lambda>x. k_ID x = k_ID k) (tickets (db w)) = [k]"
    using filter_key [OF schema_keyed(5) [OF assms(2)] k(1)] by simp
  then have row: "returning_one (update_tickets (\<lambda>x. k_ID x = i)
        (\<lambda>x. x\<lparr>k_Status := Used, k_CheckedInAt := Some (db_now w)\<rparr>)) w
      = (Inr (k\<lparr>k_Status := Used, k_CheckedInAt := Some (db_now w), k_UpdatedAt := db_now w\<rparr>),
         w\<lparr>db := admit i (db_now w) (db w)\<rparr>)"
    using k(2) by (simp add: returning_one_def update_tickets_def update_stmt_def admit_def list_all_iff)
  show ?thesis
    using Some x k assms(1)
    by (auto simp: Tickets_CheckIn_def quiet_run check_in_refuses_def row split: if_splits)
qed

theorem check_in_outcome_witness:
  "\<exists>tc w'. run_state (Tickets_CheckIn 6 3) demo_sold = (Inr tc, w') \<and> tc_AttendeeName tc = ''Ada''
    \<and> map k_Status (tickets (db w')) = [Used]"
proof -
  have "ticket_row 6 (db demo_sold) = Some (demo_k, demo_t 1, demo_u)"
    by (simp add: ticket_row_def demo_sold_at)
  with check_in_outcome [OF _ schema.world [OF reachable_demo(4)], of 6 3] show ?thesis
    by (simp add: check_in_refuses_def demo_sold_at admit_def demo_u_def demo_user_def)
qed

subsection \<open>The waitlist\<close>

lemma schema_row_at:
  "schema_ok d \<Longrightarrow> e \<in> set (waitlist_entries d) \<Longrightarrow> \<exists>u. row_at u_ID (users d) (w_UserID e) = Some u \<and> u_ID u = w_UserID e"
  "schema_ok d \<Longrightarrow> e \<in> set (waitlist_entries d) \<Longrightarrow> \<exists>t. row_at t_ID (ticket_tiers d) (w_TierID e) = Some t"
  "schema_ok d \<Longrightarrow> t \<in> set (ticket_tiers d) \<Longrightarrow> \<exists>ev. row_at e_ID (events d) (t_EventID t) = Some ev"
proof -
  assume S: "schema_ok d"
  have "\<exists>u \<in> set (users d). u_ID u = w_UserID e" "\<exists>t \<in> set (ticket_tiers d). t_ID t = w_TierID e"
    if "e \<in> set (waitlist_entries d)"
    using S that unfolding schema_ok_def refs_ok_def by (blast dest: image_refD)+
  then show "e \<in> set (waitlist_entries d) \<Longrightarrow> \<exists>u. row_at u_ID (users d) (w_UserID e) = Some u \<and> u_ID u = w_UserID e"
    and "e \<in> set (waitlist_entries d) \<Longrightarrow> \<exists>t. row_at t_ID (ticket_tiers d) (w_TierID e) = Some t"
    using schema_keyed [OF S] row_at_mem by metis+
  show "t \<in> set (ticket_tiers d) \<Longrightarrow> \<exists>ev. row_at e_ID (events d) (t_EventID t) = Some ev"
    using schema_refs(1) [OF S] schema_keyed(2) [OF S] row_at_mem by metis
qed

lemma waiting_row_total:
  assumes "schema_ok d" and "e \<in> set (waitlist_entries d)"
  shows "\<exists>u tn en. waiting_row d e = Some (e, u, tn, en) \<and> u_ID u = w_UserID e"
proof -
  obtain u t where u: "row_at u_ID (users d) (w_UserID e) = Some u" "u_ID u = w_UserID e"
    and t: "row_at t_ID (ticket_tiers d) (w_TierID e) = Some t"
    using schema_row_at(1,2) [OF assms] by blast
  obtain ev where "row_at e_ID (events d) (t_EventID t) = Some ev"
    using schema_row_at(3) [OF assms(1)] t by (blast dest: row_at_Some)
  with u t show ?thesis by (simp add: waiting_row_def)
qed

lemma next_waiting_first:
  assumes "schema_ok d"
  shows "next_waiting tier d = (case waiting_for tier d of [] \<Rightarrow> None | e # _ \<Rightarrow> waiting_row d e)"
proof (cases "waiting_for tier d")
  case Nil
  then show ?thesis by (simp add: next_waiting_def)
next
  case (Cons e es)
  then have "e \<in> set (waiting_for tier d)" by simp
  then have "e \<in> set (waitlist_entries d)" by (simp add: waiting_for_def)
  from waiting_row_total [OF assms this] Cons show ?thesis by (auto simp: next_waiting_def map_filter_simps)
qed

text \<open>
  C14. Promotion is first come, first served. A promotion picks, among the waiting entries of the
  tier, one that joined no later than any other, changes that entry only, to notified now with a
  deadline 24 hours later, and answers its user.
\<close>

theorem promotion_is_fifo:
  assumes "schema_ok (db w)" and "run_state (Waitlist_NotifyNextWaiting tier) w = (Inr (e, u, tn, en), w')"
  shows "\<exists>e0 \<in> set (waitlist_entries (db w)). w_ID e0 = w_ID e \<and> w_TierID e0 = tier \<and> w_Status e0 = Waiting
    \<and> w_UserID e0 = u_ID u
    \<and> (\<forall>x \<in> set (waitlist_entries (db w)). w_TierID x = tier \<and> w_Status x = Waiting \<longrightarrow> w_CreatedAt e0 \<le> w_CreatedAt x)
    \<and> w_ExpiresAt e = Some (go_now w + 24 * time_Hour)
    \<and> db w' = notify_entry (w_ID e0) (go_now w) (db_now w) (db w)"
proof -
  from assms(2) obtain e0 where n: "next_waiting tier (db w) = Some (e0, u, tn, en)" and id: "w_ID e = w_ID e0"
    and x: "w_ExpiresAt e = Some (go_now w + 24 * time_Hour)"
    and w': "db w' = notify_entry (w_ID e0) (go_now w) (db_now w) (db w)"
    by (elim Waitlist_NotifyNextWaiting_InrE)
  from n obtain e1 es where ws: "waiting_for tier (db w) = e1 # es" and r: "waiting_row (db w) e1 = Some (e0, u, tn, en)"
    by (auto simp: next_waiting_first [OF assms(1)] split: list.splits)
  have "e1 \<in> set (waiting_for tier (db w))" using ws by simp
  then have e1: "e1 \<in> set (waitlist_entries (db w))" "w_TierID e1 = tier" "w_Status e1 = Waiting"
    by (simp_all add: waiting_for_def)
  with waiting_row_total [OF assms(1) e1(1)] r have e0: "e0 = e1" "u_ID u = w_UserID e1" by auto
  have "sorted (map w_CreatedAt (e1 # es))" unfolding ws [symmetric] by (simp add: waiting_for_def)
  then have "w_CreatedAt e1 \<le> w_CreatedAt x" if "x \<in> set (e1 # es)" for x
    using that by auto
  then have "w_CreatedAt e1 \<le> w_CreatedAt x"
    if "x \<in> set (waitlist_entries (db w))" "w_TierID x = tier" "w_Status x = Waiting" for x
    using that ws [symmetric] by (simp add: waiting_for_def)
  with e0 e1 id x w' show ?thesis by (intro bexI [of _ e1]) auto
qed

text \<open>A database with two users waiting, the one who joined later inserted first.\<close>

definition demo_entry :: "uuid \<Rightarrow> uuid \<Rightarrow> instant \<Rightarrow> WaitlistEntry" where
  "demo_entry i user at = \<lparr>w_ID = i, w_UserID = user, w_TierID = 4, w_Status = Waiting, w_NotifiedAt = None,
     w_ExpiresAt = None, w_CreatedAt = at, w_UpdatedAt = at\<rparr>"

definition demo_bob :: User where
  "demo_bob = demo_u\<lparr>u_ID := 8, u_Email := ''b@x''\<rparr>"

definition demo_queue :: world where
  "demo_queue = demo_sold\<lparr>db := (db demo_sold)\<lparr>users := [demo_u, demo_bob],
     waitlist_entries := [demo_entry 21 1 9, demo_entry 22 8 5]\<rparr>\<rparr>"

lemma demo_db_more [simp]:
  "verifications (demo_db es ts ps ks) = [demo_v]" "oauth_accounts (demo_db es ts ps ks) = []"
  by (simp_all add: demo_db_def)

lemma demo_queue_ok: "schema_ok (db demo_queue)"
proof -
  have "schema_ok (db demo_sold)" by (rule schema.world [OF reachable_demo(4)])
  then show ?thesis
    by (simp add: schema_ok_def keys_ok_def checks_ok_def refs_ok_def keyed_def demo_queue_def demo_sold_at
      demo_bob_def demo_u_def demo_user_def demo_entry_def)
qed

theorem promotion_is_fifo_witness:
  "\<exists>e u tn en w'. run_state (Waitlist_NotifyNextWaiting 4) demo_queue = (Inr (e, u, tn, en), w')
     \<and> w_ID e = 22 \<and> u_ID u = 8"
proof -
  let ?r = "run_state (Waitlist_NotifyNextWaiting 4) demo_queue"
  have "fst ?r \<noteq> Inl e" for e
    by (simp add: demo_queue_def demo_sold_at Waitlist_NotifyNextWaiting_def run_defs next_waiting_def waiting_for_def
      waiting_row_def demo_entry_def demo_bob_def update_waitlist_def Let_def map_filter_simps)
  then obtain e u tn en w' where r: "?r = (Inr (e, u, tn, en), w')"
    by (metis prod.collapse prod_cases4 sum.exhaust)
  from promotion_is_fifo [OF demo_queue_ok this] r show ?thesis
    by (auto simp: demo_queue_def demo_entry_def)
qed

subsection \<open>The cancellation window\<close>

text \<open>
  How often the product of hours and nanoseconds wraps around: multiples of \<open>2 ^ 64\<close> nanoseconds,
  about 584 years.
\<close>

definition window_laps :: "int \<Rightarrow> int" where
  "window_laps h = (h * time_Hour + 2 ^ 63 - 1) div 2 ^ 64"

lemma wrap64_uminus: "wrap64 (- x) = ((x + 2 ^ 63 - 1) div 2 ^ 64) * 2 ^ 64 - x"
proof -
  have "(2 ^ 63 - x) div 2 ^ 64 = - ((x + 2 ^ 63 - 1) div 2 ^ 64)" by simp
  moreover have "(2 ^ 63 - x) mod 2 ^ 64 = 2 ^ 63 - x - (2 ^ 63 - x) div 2 ^ 64 * 2 ^ 64"
    by (simp add: minus_div_mult_eq_mod)
  ultimately show ?thesis by (simp add: wrap64_def)
qed

text \<open>
  C15. The window and its overflow. For every number of hours that the schema allows, the window
  closes that long before the start, later by as many multiples of \<open>2 ^ 64\<close> nanoseconds as bring
  the offset into 64 bits. There are none exactly up to 2562047 hours, where the window is the
  configured one. Beyond, the window closes at a time that is not the configured one: 2562048
  hours close it some 292 years after the start, 5124096 hours 25 minutes before it.
\<close>

theorem window_bounds:
  assumes "0 \<le> h" and "h \<le> 2147483647"
  shows "(windowClosed now start h \<longleftrightarrow> start - h * time_Hour + window_laps h * 2 ^ 64 < now)
    \<and> (window_laps h = 0 \<longleftrightarrow> h \<le> 2562047)
    \<and> int64 (window_laps h * 2 ^ 64 - h * time_Hour)"
proof -
  have "wrap64 (- h) = - h" using assms by (intro wrap64_id) (simp add: int64_def)
  moreover have w: "wrap64 (- (h * time_Hour)) = window_laps h * 2 ^ 64 - h * time_Hour"
    by (simp add: wrap64_uminus window_laps_def)
  ultimately have "windowClosed now start h \<longleftrightarrow> start - h * time_Hour + window_laps h * 2 ^ 64 < now"
    unfolding windowClosed_def by (simp only: mult_minus_left) (simp add: algebra_simps)
  moreover have "window_laps h = 0 \<longleftrightarrow> h \<le> 2562047"
    using assms by (auto simp: window_laps_def time_Hour_def zdiv_eq_0_iff)
  moreover have "int64 (window_laps h * 2 ^ 64 - h * time_Hour)" using wrap64_range w by metis
  ultimately show ?thesis by blast
qed

theorem window_bounds_witness:
  "windowClosed 1 3600000000000 1 \<and> \<not> windowClosed 0 3600000000000 1
    \<and> \<not> windowClosed 9223371273709551616 0 2562048 \<and> windowClosed 9223371273709551617 0 2562048
    \<and> window_laps 5124096 = 1 \<and> \<not> windowClosed (- 1526290448384) 0 5124096 \<and> windowClosed (- 1526290448383) 0 5124096"
  using window_bounds [of 1 1 3600000000000] window_bounds [of 1 0 3600000000000]
    window_bounds [of 2562048 9223371273709551616 0] window_bounds [of 2562048 9223371273709551617 0]
    window_bounds [of 5124096 "- 1526290448384" 0] window_bounds [of 5124096 "- 1526290448383" 0]
  by (simp add: time_Hour_def window_laps_def)

end
