(* ===== verification/Handlers_Spec.thy ===== *)
theory Handlers_Spec
  imports Access_Spec Safety Store_Spec
begin

section \<open>What the handlers promise\<close>

text \<open>
  From the request to the rows: buying and admission end to end, the management of tiers, and the
  publication and cancellation of an event.
\<close>

subsection \<open>Buying a ticket and being admitted with it\<close>

lemma run_mint_tickets:
  "run_state (mint_tickets a pid tid n) w = (ts, w') \<Longrightarrow> length ts = n
    \<and> (\<forall>k \<in> set ts. k_QRToken k = GenerateToken (uuid_String a) (k_ID k) pid tid (TicketSecret (config a)))
    \<and> db w' = db w \<and> db_now w' = db_now w"
proof (induction n arbitrary: w ts)
  case (Suc n)
  then obtain k ts' where run: "run_state (mint_tickets a pid tid n) (w\<lparr>drawn := Suc (drawn w)\<rparr>) = (ts', w')"
    and ts: "ts = k # ts'" "k_QRToken k = GenerateToken (uuid_String a) (k_ID k) pid tid (TicketSecret (config a))"
    by (auto split: prod.splits)
  from Suc.IH [OF run] ts show ?case by simp
qed simp

lemma row_of_sold:
  assumes "batch_ok ks d" and "k \<in> set ks"
  shows "row_at k_ID (tickets d @ map (ticket_of p now) ks) (k_ID k) = Some (ticket_of p now k)"
proof -
  have "row_at k_ID (tickets d) (k_ID k) = None"
    using assms by (auto simp: row_at_None batch_ok_def list_all_iff list_ex_iff ticket_clash_def)
  moreover have "keyed k_ID (map (ticket_of p now) ks)"
    using assms(1) by (simp add: keyed_def batch_ok_def ticket_of_def comp_def)
  from row_at_mem [OF this, of "ticket_of p now k"] assms(2)
  have "row_at k_ID (map (ticket_of p now) ks) (k_ID k) = Some (ticket_of p now k)" by (simp add: ticket_of_def)
  ultimately show ?thesis by (simp add: row_at_append)
qed


text \<open>What a purchase that answered 201 has stored.\<close>

lemma createPurchase_stored:
  assumes "userCtx c = Some u" and "run_state (createPurchase a (JsonBody p) c) w = (Resp 201 (PurchaseData pr), w')"
  obtains t e ts q where "pr_Tier pr = t" "pr_Event pr = e" "row_at t_ID (ticket_tiers (db w)) (t_ID t) = Some t"
    "row_at e_ID (events (db w)) (t_EventID t) = Some e" "e_Status e = Published"
    "batch_ok ts (db w)" "int (length ts) = p_Quantity q" "p_Quantity q = cp_Quantity p" "pr_Quantity pr = cp_Quantity p"
    "p_ID q = pr_ID pr" "p_UserID q = u_ID u" "p_TierID q = t_ID t" "p_Total q = wrap64 (t_Price t * cp_Quantity p)" "pr_Total pr = p_Total q"
    "\<forall>k \<in> set ts. k_QRToken k = GenerateToken (uuid_String a) (k_ID k) (pr_ID pr) (t_ID t) (TicketSecret (config a))"
    "pr_Tickets pr = map (minted (db_now w)) ts" "\<forall>x \<in> set (purchases (db w)). \<not> purchase_clash q x"
    "db w' = sell q ts (t_EventID t) (db_now w) (db w)" "p_Quantity q \<le> e_MaxTicketsPerPurchase e" "p_Quantity q \<le> t_Remaining t"
proof -
  obtain tid where valid: "snd (ValidateStruct a (create_purchase_tags p))" and tid: "uuid_Parse a (cp_TierID p) = Some tid"
    using assms by (auto simp: createPurchase_def with_user_def with_payload_def with_uuid_param_def json_Read_def
      split: prod.splits if_splits option.splits)
  obtain xt w1 where t: "run_state (Tiers_GetByID tid) w = (xt, w1)" by fastforce
  have w1: "no_effect w w1" using t by (auto simp: Tiers_GetByID_def dest: select_effects(1))
  obtain t where xt: "xt = Inr t"
    using assms valid tid t by (auto simp: createPurchase_def with_user_def with_payload_def with_uuid_param_def json_Read_def
      not_found_or_500_def split: prod.splits if_splits sum.splits)
  then have tier: "row_at t_ID (ticket_tiers (db w)) tid = Some t"
    using t by (auto simp: Tiers_GetByID_def dest: select_effects(2))
  then have tid': "t_ID t = tid" by (auto dest: row_at_Some)
  obtain xe w2 where e: "run_state (Events_GetByID (t_EventID t)) w1 = (xe, w2)" by fastforce
  note w2 = read_effects(3) [OF e]
  obtain e where xe: "xe = Inr e" and pub: "e_Status e = Published"
    using assms valid tid t xt e by (auto simp: createPurchase_def with_user_def with_payload_def with_uuid_param_def json_Read_def
      not_found_or_500_def not_published_message_def split: prod.splits if_splits sum.splits)
  then have event: "row_at e_ID (events (db w)) (t_EventID t) = Some e"
    using e w1 by (auto simp: Events_GetByID_def no_effect_def dest: select_effects(2))
  let ?pid = "new_uuid w2 (drawn w2)" and ?w2 = "w2\<lparr>drawn := Suc (drawn w2)\<rparr>"
  obtain ts w3 where mint: "run_state (mint_tickets a ?pid (t_ID t) (nat (cp_Quantity p))) ?w2 = (ts, w3)" by fastforce
  note minted = run_mint_tickets [OF mint]
  let ?new = "new_purchase u t ?pid (cp_Quantity p)"
  obtain z w4 where create: "run_state (Purchases_Create ?new ts) w3 = (z, w4)" by fastforce
  have "\<exists>q ts'. z = Inr (q, ts') \<and> w' = w4 \<and> PurchaseData pr = purchase_response q e t ts'"
    using assms valid tid t xt e xe pub mint create
    by (cases z) (auto simp: createPurchase_def with_user_def with_payload_def with_uuid_param_def json_Read_def
      create_purchase_error_def purchase_response_def split: prod.splits store_error.splits)
  then obtain q ts' where z: "z = Inr (q, ts')" and w4: "w' = w4" and pr: "PurchaseData pr = purchase_response q e t ts'" by blast
  have db3: "db w3 = db w" "db_now w3 = db_now w" using minted w1 w2 by (simp_all add: no_effect_def)
  from create z obtain t' where "row_at t_ID (ticket_tiers (db w3)) (p_TierID ?new) = Some t'"
    and sold: "create_refuses ?new t' e = None" "q = purchase_row ?new (t_Price t') (db_now w3)" "purchase_check q"
      "\<forall>x \<in> set (purchases (db w3)). \<not> purchase_clash ?new x" "batch_ok ts (db w3)" "ts' = map (minted (db_now w3)) ts"
      "db w4 = sell q ts (t_EventID t') (db_now w3) (db w3)"
    using event tier by (auto elim!: Purchases_Create_InrE simp: db3 new_purchase_def tid')
  then have t': "t' = t" using tier by (simp add: db3 new_purchase_def tid')
  show thesis
    by (rule that [of t e ts q]) (use pr sold minted pub tier event in
      \<open>auto simp: w4 db3 t' tid' purchase_response_def purchase_row_def new_purchase_def purchase_check_def purchase_clash_def
        create_refuses_def split: if_splits\<close>)
qed


text \<open>
  C28. A bought ticket admits. A purchase that answers 201 returns as many tickets as were bought, at price
  times quantity, and from then on, once calls succeed, scanning the token of any of them at the
  event of the purchase answers that it is valid, with the name and the e-mail of the buyer and
  the tier. The identifiers must survive printing and parsing, as those of the UUID package do.
\<close>

theorem bought_ticket_admits:
  assumes "schema_ok (db w)" and "userCtx c = Some u" and "u \<in> set (users (db w))"
    and "run_state (createPurchase a (JsonBody p) c) w = (Resp 201 (PurchaseData pr), w')"
    and "k \<in> set (pr_Tickets pr)" and "\<forall>i \<in> {k_ID k, pr_ID pr, t_ID (pr_Tier pr)}. uuid_text_ok (uuid_String a) (uuid_Parse a) i"
    and "eventCtx co = Some (pr_Event pr)" and "validate_Struct a (check_in_tags \<lparr>ci_Token = k_QRToken k\<rparr>) = []"
  shows "int (length (pr_Tickets pr)) = cp_Quantity p \<and> pr_Quantity pr = cp_Quantity p
    \<and> pr_Total pr = wrap64 (t_Price (pr_Tier pr) * cp_Quantity p)
    \<and> fst (run_state (checkIn a (JsonBody \<lparr>ci_Token = k_QRToken k\<rparr>) co) (w'\<lparr>faults := [], db_now := now\<rparr>))
      = Resp 200 (ValidScan (u_Name u, u_Email u) (k_ID k, t_Name (pr_Tier pr), Some now))"
proof -
  from assms(2,4) obtain t e ts q where pr: "pr_Tier pr = t" "pr_Event pr = e"
    and t: "row_at t_ID (ticket_tiers (db w)) (t_ID t) = Some t" and e: "row_at e_ID (events (db w)) (t_EventID t) = Some e"
    and ts: "batch_ok ts (db w)" "int (length ts) = p_Quantity q" "p_Quantity q = cp_Quantity p" "pr_Quantity pr = cp_Quantity p"
    and q: "p_ID q = pr_ID pr" "p_UserID q = u_ID u" "p_TierID q = t_ID t" "p_Total q = wrap64 (t_Price t * cp_Quantity p)"
      "pr_Total pr = p_Total q" "\<forall>x \<in> set (purchases (db w)). \<not> purchase_clash q x"
    and tok: "\<forall>k \<in> set ts. k_QRToken k = GenerateToken (uuid_String a) (k_ID k) (pr_ID pr) (t_ID t) (TicketSecret (config a))"
    and tickets: "pr_Tickets pr = map (minted (db_now w)) ts"
    and w': "db w' = sell q ts (t_EventID t) (db_now w) (db w)"
    by (rule createPurchase_stored)
  from assms(5) tickets obtain k0 where k0: "k0 \<in> set ts" "k = minted (db_now w) k0" by auto
  have same: "k_ID k = k_ID k0" "k_QRToken k = k_QRToken k0" using k0(2) by (simp_all add: minted_def)
  have scan: "VerifyToken (uuid_Parse a) (k_QRToken k) (TicketSecret (config a)) = Inr (k_ID k)"
    using tok k0(1) same pr assms(6) verify_generate by simp
  let ?k = "ticket_of q (db_now w) k0"
  have rows: "row_at k_ID (tickets (db w')) (k_ID k) = Some ?k"
    "row_at t_ID (ticket_tiers (db w')) (t_ID t) = Some (sold_row (p_Quantity q) (db_now w) t)"
    "row_at p_ID (purchases (db w')) (p_ID q) = Some q" "row_at u_ID (users (db w')) (u_ID u) = Some u"
  proof -
    show "row_at k_ID (tickets (db w')) (k_ID k) = Some ?k" using row_of_sold [OF ts(1) k0(1)] by (simp add: w' sell_rows same)
    show "row_at t_ID (ticket_tiers (db w')) (t_ID t) = Some (sold_row (p_Quantity q) (db_now w) t)"
      using t q(3) by (simp add: w' sell_rows row_at_upd)
    have "row_at p_ID (purchases (db w)) (p_ID q) = None" using q(6) by (auto simp: row_at_None purchase_clash_def)
    then show "row_at p_ID (purchases (db w')) (p_ID q) = Some q" by (simp add: w' sell_rows row_at_append)
    show "row_at u_ID (users (db w')) (u_ID u) = Some u"
      using row_at_mem [OF schema_keyed(1) [OF assms(1)] assms(3)] by (simp add: w' sell_rows)
  qed
  then have "ticket_row (k_ID k) (db w') = Some (?k, sold_row (p_Quantity q) (db_now w) t, u)"
    using q by (simp add: ticket_row_def ticket_of_def)
  moreover have "\<exists>x \<in> set (tickets (db w')). k_ID x = k_ID k" using rows(1) by (auto dest: row_at_Some)
  then have "\<exists>x xs. filter (\<lambda>x. k_ID x = k_ID k0) (tickets (db w')) = x # xs"
    using same by (metis (mono_tags) filter_empty_conv neq_Nil_conv)
  moreover have "e_ID e = t_EventID t" using e by (auto dest: row_at_Some)
  ultimately have "fst (run_state (checkIn a (JsonBody \<lparr>ci_Token = k_QRToken k\<rparr>) co) (w'\<lparr>faults := [], db_now := now\<rparr>))
      = Resp 200 (ValidScan (u_Name u, u_Email u) (k_ID k, t_Name t, Some now))"
    using assms(7,8) scan pr same
    by (auto simp: checkIn_def with_event_def with_payload_def json_Read_def ValidateStruct_def Tickets_CheckIn_def
      run_defs ticket_of_def update_tickets_def sold_row_def list_all_iff)
  with ts q tickets pr show ?thesis by simp
qed


theorem bought_ticket_admits_witness:
  "fst (run_state (checkIn demo_app (JsonBody \<lparr>ci_Token = k_QRToken demo_k\<rparr>)
      \<lparr>userCtx = Some demo_u, sessionCtx = Some demo_s, eventCtx = Some (demo_e Published)\<rparr>) (demo_sold\<lparr>faults := [], db_now := 77\<rparr>))
    = Resp 200 (ValidScan (''Ada'', ''a@x'') (6, ''GA'', Some 77))"
proof -
  let ?pr = "\<lparr>pr_ID = 5, pr_Quantity = 1, pr_Total = p_Total demo_p, pr_Status = Confirmed, pr_Event = demo_e Published,
    pr_Tier = demo_t 2, pr_Tickets = [demo_k], pr_CreatedAt = p_CreatedAt demo_p, pr_UpdatedAt = p_UpdatedAt demo_p\<rparr>"
  have run: "run_state (createPurchase demo_app (JsonBody demo_buy) \<lparr>userCtx = Some demo_u, sessionCtx = Some demo_s, eventCtx = None\<rparr>)
      (world_at (demo_db [demo_e Published] [demo_t 2] [] []) 8) = (Resp 201 (PurchaseData ?pr), demo_sold)"
    by (simp add: demo_purchase demo_sold_at purchase_response_def)
  have "schema_ok (db (world_at (demo_db [demo_e Published] [demo_t 2] [] []) 8))"
    using schema.world [OF reachable_demo(3)] by (simp only: demo_published_at)
  moreover have "u_Name demo_u = ''Ada''" "u_Email demo_u = ''a@x''" "t_Name (demo_t 2) = ''GA''"
    by (simp_all add: demo_u_def demo_user_def demo_t_def)
  ultimately show ?thesis
    using bought_ticket_admits [OF _ _ _ run, of demo_u demo_k "\<lparr>userCtx = Some demo_u, sessionCtx = Some demo_s, eventCtx = Some (demo_e Published)\<rparr>" 77]
      demo_text_ok by simp
qed


subsection \<open>Resizing a tier\<close>

definition written_tier :: "Tier \<Rightarrow> instant \<Rightarrow> Tier \<Rightarrow> Tier" where
  "written_tier tx now r = r\<lparr>t_Name := t_Name tx, t_Price := t_Price tx, t_Quantity := t_Quantity tx,
     t_Remaining := t_Remaining tx, t_Status := t_Status tx, t_UpdatedAt := now\<rparr>"

lemma Tiers_Update_stored:
  assumes "run_state (Tiers_Update tx) w = (Inr t', w')"
  shows "\<exists>r \<in> set (ticket_tiers (db w)). t_ID r = t_ID tx \<and> t' = written_tier tx (db_now w) r \<and> tier_check t'
    \<and> db w' = put_tiers (upd (\<lambda>t. t_ID t = t_ID tx) (written_tier tx (db_now w)) (ticket_tiers (db w))) (db w)"
proof -
  have "returning_one (update_tiers (\<lambda>t. t_ID t = t_ID tx)
      (\<lambda>t. t\<lparr>t_Name := t_Name tx, t_Price := t_Price tx, t_Quantity := t_Quantity tx, t_Remaining := t_Remaining tx,
        t_Status := t_Status tx\<rparr>)) v
    = returning_one (update_stmt ticket_tiers put_tiers tier_check (\<lambda>t. t_ID t = t_ID tx) (written_tier tx (db_now v))) v" for v
    by (simp add: returning_one_def update_tiers_def written_tier_def [abs_def])
  with assms show ?thesis
    unfolding Tiers_Update_def by (elim exec_or_InrE) (auto elim!: returning_update_InrE)
qed

lemma save_tier_stored:
  assumes "run_state (save_tier e tx) w = (Resp 200 (TierData m t'), w')"
  shows "\<exists>r \<in> set (ticket_tiers (db w)). t_ID r = t_ID tx \<and> t' = written_tier tx (db_now w) r \<and> tier_check t'
    \<and> ticket_tiers (db w') = upd (\<lambda>t. t_ID t = t_ID tx) (written_tier tx (db_now w)) (ticket_tiers (db w))"
proof -
  obtain x w1 where upd: "run_state (Tiers_Update tx) w = (x, w1)" by fastforce
  with assms obtain t1 where x: "x = Inr t1" by (cases x) (auto simp: save_tier_def)
  have tiers: "ticket_tiers (db w2) = ticket_tiers (db w1)" if "run_state (Events_SetStatus i st st') w1 = (s, w2)" for i st st' s w2
    using that by (auto simp: Events_SetStatus_def run_exec_or run_exec update_events_def update_stmt_def split: if_splits)
  from assms upd x have "t' = t1" "ticket_tiers (db w') = ticket_tiers (db w1)"
    by (auto simp: save_tier_def split: if_splits prod.splits sum.splits dest: tiers)
  with Tiers_Update_stored [OF upd [unfolded x]] show ?thesis by auto
qed

text \<open>What a resize that answered 200 has read and checked before it wrote.\<close>

lemma updateTier_checked:
  assumes "eventCtx c = Some e" and "run_state (updateTier a r (JsonBody p) c) w = (Resp 200 (TierData m t'), w')"
  obtains t tx w1 where "t \<in> set (ticket_tiers (db w))" "t_EventID t = e_ID e" "no_effect w w1"
    "run_state (save_tier e tx) w1 = (Resp 200 (TierData m t'), w')" "t_ID tx = t_ID t"
    "t_Quantity tx - t_Remaining tx = t_Quantity t - t_Remaining t" "t_Quantity tx = or_old (ut_Quantity p) (t_Quantity t)"
    "\<forall>q cap. ut_Quantity p = Some q \<and> e_Capacity e = Some cap \<longrightarrow>
      wrap64 (sum_where (\<lambda>x. t_EventID x = e_ID e) t_Quantity (ticket_tiers (db w)) - t_Quantity t + q) \<le> cap"
proof -
  from assms obtain tid where tid: "uuid_Parse a (rq_tierId r) = Some tid"
    by (auto simp: updateTier_def with_event_def with_uuid_param_def split: if_splits option.splits)
  obtain xt w1 where get: "run_state (Tiers_GetByID tid) w = (xt, w1)" by fastforce
  then have w1: "no_effect w w1" by (auto simp: Tiers_GetByID_def dest: select_effects(1))
  then have "db w1 = db w" by (simp add: no_effect_def)
  from assms tid get obtain t where xt: "xt = Inr t" and ev: "t_EventID t = e_ID e"
    by (cases xt) (auto simp: updateTier_def with_event_def with_uuid_param_def not_found_or_500_def split: if_splits)
  from get xt have mem: "t \<in> set (ticket_tiers (db w))"
    by (auto simp: Tiers_GetByID_def dest!: select_effects(2) [OF _ refl] row_at_Some)
  let ?t = "t\<lparr>t_Name := or_old (ut_Name p) (t_Name t), t_Price := or_old (ut_Price p) (t_Price t)\<rparr>"
  show thesis
  proof (cases "ut_Quantity p")
    case None
    with assms tid get xt ev have "run_state (save_tier e ?t) w1 = (Resp 200 (TierData m t'), w')"
      by (auto simp: updateTier_def with_event_def with_uuid_param_def with_payload_def json_Read_def Let_def
        split: if_splits prod.splits)
    with mem ev w1 None show thesis by (intro that [of t w1 ?t]) (simp_all add: or_old_def)
  next
    case (Some q)
    let ?sum = "sum_where (\<lambda>x. t_EventID x = e_ID e) t_Quantity (ticket_tiers (db w))"
    from assms tid get xt ev Some have "run_state (below_capacity e (\<lambda>n. wrap64 (n - t_Quantity t + q)) (save_tier e (resized ?t q))) w1
        = (Resp 200 (TierData m t'), w')"
      by (auto simp: updateTier_def with_event_def with_uuid_param_def with_payload_def json_Read_def Let_def
        split: if_splits prod.splits)
    then obtain w2 where w2: "no_effect w1 w2" "run_state (save_tier e (resized ?t q)) w2 = (Resp 200 (TierData m t'), w')"
      and cap: "\<And>cap. e_Capacity e = Some cap \<Longrightarrow> wrap64 (?sum - t_Quantity t + q) \<le> cap"
      using \<open>db w1 = db w\<close> by (auto simp: below_capacity_def Tiers_SumQuantityByEvent_def run_exec_or run_exec select_all_def
        split: option.splits if_splits intro: that [OF no_effect_refl(1)] that [OF no_effect_refl(2)])
    with mem ev w1 Some show thesis
      by (intro that [of t w2 "resized ?t q"]) (auto simp: or_old_def resized_def Let_def intro: no_effect_trans)
  qed
qed


text \<open>
  C29. Resizing a tier keeps its sales. When an edit of a tier answers 200, the tier belongs to the event,
  as many tickets count as sold as before, the new quantity is the requested one and is at least
  that number, and if the event has a capacity and the quantity was given, the quantities of all
  tiers of the event fit it afterwards (as long as their sum is far from 64 bits).
\<close>

theorem resize_keeps_sales:
  assumes "schema_ok (db w)" and "eventCtx c = Some e"
    and "run_state (updateTier a r (JsonBody p) c) w = (Resp 200 (TierData m t'), w')"
  shows "\<exists>t \<in> set (ticket_tiers (db w)). t_ID t' = t_ID t \<and> t_EventID t = e_ID e \<and> t_EventID t' = e_ID e
    \<and> t' \<in> set (ticket_tiers (db w')) \<and> t_Quantity t' = or_old (ut_Quantity p) (t_Quantity t)
    \<and> t_Quantity t' - t_Remaining t' = t_Quantity t - t_Remaining t \<and> t_Quantity t - t_Remaining t \<le> t_Quantity t'
    \<and> (\<forall>q cap. ut_Quantity p = Some q \<and> e_Capacity e = Some cap
        \<and> sum_where (\<lambda>x. t_EventID x = e_ID e) t_Quantity (ticket_tiers (db w)) < 2 ^ 62
        \<longrightarrow> sum_where (\<lambda>x. t_EventID x = e_ID e) t_Quantity (ticket_tiers (db w')) \<le> cap)"
proof -
  from assms(2,3) obtain t tx w1
    where t: "t \<in> set (ticket_tiers (db w))" "t_EventID t = e_ID e" and w1: "no_effect w w1"
    and save: "run_state (save_tier e tx) w1 = (Resp 200 (TierData m t'), w')" and tx: "t_ID tx = t_ID t"
    "t_Quantity tx - t_Remaining tx = t_Quantity t - t_Remaining t" "t_Quantity tx = or_old (ut_Quantity p) (t_Quantity t)"
    and cap: "\<forall>q cap. ut_Quantity p = Some q \<and> e_Capacity e = Some cap \<longrightarrow>
      wrap64 (sum_where (\<lambda>x. t_EventID x = e_ID e) t_Quantity (ticket_tiers (db w)) - t_Quantity t + q) \<le> cap"
    by (rule updateTier_checked)
  have same: "ticket_tiers (db w1) = ticket_tiers (db w)" using w1 by (simp add: no_effect_def)
  from save_tier_stored [OF save] obtain x where x: "x \<in> set (ticket_tiers (db w))" "t_ID x = t_ID tx"
    and t': "t' = written_tier tx (db_now w1) x" "tier_check t'"
    and w': "ticket_tiers (db w') = upd (\<lambda>y. t_ID y = t_ID tx) (written_tier tx (db_now w1)) (ticket_tiers (db w))"
    by (auto simp: same)
  have key: "keyed t_ID (ticket_tiers (db w))" using assms(1) by (rule schema_keyed)
  have "x = t" using keyed_unique [OF key x(1) t(1)] x(2) tx(1) by simp
  then have fields: "t_ID t' = t_ID t" "t_EventID t' = e_ID e" "t_Quantity t' = t_Quantity tx" "t_Remaining t' = t_Remaining tx"
    using t(2) by (simp_all add: t'(1) written_tier_def)
  have "t' \<in> set (ticket_tiers (db w'))" using x by (auto simp: w' t'(1) set_upd)
  moreover have "sum_where (\<lambda>x. t_EventID x = e_ID e) t_Quantity (ticket_tiers (db w')) \<le> c"
    if q: "ut_Quantity p = Some q" "e_Capacity e = Some c"
      "sum_where (\<lambda>x. t_EventID x = e_ID e) t_Quantity (ticket_tiers (db w)) < 2 ^ 62" for q c
  proof -
    let ?s = "sum_where (\<lambda>x. t_EventID x = e_ID e) t_Quantity (ticket_tiers (db w))"
    have "t_Quantity tx = q" using q(1) tx(3) by (simp add: or_old_def)
    then have new: "sum_where (\<lambda>x. t_EventID x = e_ID e) t_Quantity (ticket_tiers (db w')) = ?s - t_Quantity t + q"
      using sum_where_upd_key [OF key t(1) tx(1) [symmetric], of "\<lambda>x. t_EventID x = e_ID e" t_Quantity "written_tier tx (db_now w1)"] t(2)
      by (simp add: w' written_tier_def)
    have "0 \<le> t_Quantity x" if "x \<in> set (ticket_tiers (db w))" for x
      using schema_checks(2) [OF assms(1) that] by (simp add: tier_check_def)
    with t have "t_Quantity t \<le> ?s" by (intro sum_where_member) auto
    moreover have "0 < q \<and> q < 2 ^ 31" using t'(2) fields(3) \<open>t_Quantity tx = q\<close> by (simp add: tier_check_def int32_def)
    moreover have "0 < t_Quantity t" using schema_checks(2) [OF assms(1) t(1)] by (simp add: tier_check_def)
    ultimately have "wrap64 (?s - t_Quantity t + q) = ?s - t_Quantity t + q" using q(3) by (intro wrap64_nonneg) auto
    with cap q(1,2) new show ?thesis by simp
  qed
  ultimately show ?thesis
    using t tx fields t'(2) by (intro bexI [of _ t]) (auto simp: tier_check_def)
qed

definition demo_resize :: UpdateTierPayload where
  "demo_resize = \<lparr>ut_Name = None, ut_Price = None, ut_Quantity = Some 5\<rparr>"

theorem resize_keeps_sales_witness:
  "\<exists>t' w'. run_state (updateTier demo_app (demo_request ''3'' ''4'') (JsonBody demo_resize)
      \<lparr>userCtx = Some demo_u, sessionCtx = Some demo_s, eventCtx = Some (demo_e Published)\<rparr>) demo_sold
      = (Resp 200 (TierData ''tier updated successfully'' t'), w') \<and> t_Quantity t' = 5 \<and> t_Remaining t' = 4"
proof -
  let ?c = "\<lparr>userCtx = Some demo_u, sessionCtx = Some demo_s, eventCtx = Some (demo_e Published)\<rparr>"
  let ?run = "run_state (updateTier demo_app (demo_request ''3'' ''4'') (JsonBody demo_resize) ?c) demo_sold"
  have "\<exists>t' w'. ?run = (Resp 200 (TierData ''tier updated successfully'' t'), w')"
    by (simp add: demo_sold_at updateTier_def with_event_def with_uuid_param_def Tiers_GetByID_def run_defs with_payload_def
      json_Read_def ValidateStruct_def demo_resize_def or_old_def below_capacity_def save_tier_def Tiers_Update_def update_tiers_def
      resized_def tier_check_def int32_def)
  then obtain t' w' where run: "?run = (Resp 200 (TierData ''tier updated successfully'' t'), w')" by blast
  from resize_keeps_sales [OF schema.world [OF reachable_demo(4)] _ run] run show ?thesis
    by (auto simp: demo_sold_at demo_resize_def or_old_def)
qed


subsection \<open>Publishing and cancelling an event\<close>

lemma event_check_status [simp]: "event_check (e\<lparr>e_Status := s, e_UpdatedAt := now\<rparr>) = event_check e"
  by (simp add: event_check_def)

text \<open>A status change of an event that exists in one of the statuses.\<close>

lemma quiet_flip:
  assumes "schema_ok (db w)" and "e \<in> set (events (db w))" and "e_Status e \<in> set st" and "ok_next w"
  shows "run_state (flip_event (e_ID e) st to) w =
    (Inr (e\<lparr>e_Status := to, e_UpdatedAt := db_now w\<rparr>), (pop w)\<lparr>db := flip_status st to (e_ID e) (db_now w) (db w)\<rparr>)"
proof -
  have key: "keyed e_ID (events (db w))" using assms(1) by (rule schema_keyed)
  have "filter (\<lambda>x. e_ID x = e_ID e \<and> e_Status x \<in> set st) (events (db w)) = filter (\<lambda>x. e_ID x = e_ID e) (events (db w))"
    using keyed_unique [OF key _ assms(2)] assms(3) by (auto intro!: filter_cong)
  then have "filter (\<lambda>x. e_ID x = e_ID e \<and> e_Status x \<in> set st) (events (db w)) = [e]"
    using filter_key [OF key assms(2)] by simp
  moreover have "list_all (\<lambda>x. e_ID x = e_ID e \<and> e_Status x \<in> set st \<longrightarrow> event_check x) (events (db w))"
    using schema_checks(1) [OF assms(1)] by (auto simp: list_all_iff)
  ultimately show ?thesis
    using assms(4)
    by (simp add: flip_event_def run_exec_or run_exec returning_one_def update_events_def update_stmt_def flip_status_def)
qed

text \<open>
  C30. Publishing. When no call fails, an event that is not a draft and a draft without tiers are
  refused unchanged, and otherwise exactly this event becomes published. When the status update
  itself fails, the handler dereferences the nil pointer it has just received.
\<close>

theorem publish_outcome:
  assumes "schema_ok (db w)" and "eventCtx c = Some e" and "e \<in> set (events (db w))"
  shows "(faults w = [] \<longrightarrow> run_state (publishEvent c) w =
      (if e_Status e \<noteq> Draft then (Resp 409 (Errors [''event can only be published while in draft'']), w)
       else if filter (\<lambda>t. t_EventID t = e_ID e) (ticket_tiers (db w)) = []
       then (Resp 409 (Errors [''event must have at least one ticket tier before publishing'']), w)
       else (Resp 200 (EventData ''event published successfully'' (e\<lparr>e_Status := Published, e_UpdatedAt := db_now w\<rparr>)),
             w\<lparr>db := flip_status [Draft] Published (e_ID e) (db_now w) (db w)\<rparr>)))
    \<and> (faults w = [False, True] \<and> e_Status e = Draft \<and> (\<exists>t \<in> set (ticket_tiers (db w)). t_EventID t = e_ID e)
        \<longrightarrow> fst (run_state (publishEvent c) w) = Panic)"
proof (intro conjI impI)
  note defs = publishEvent_def with_event_def Tiers_CountByEvent_def Events_Publish_def run_exec_or run_exec select_all_def
  show "run_state (publishEvent c) w =
      (if e_Status e \<noteq> Draft then (Resp 409 (Errors [''event can only be published while in draft'']), w)
       else if filter (\<lambda>t. t_EventID t = e_ID e) (ticket_tiers (db w)) = []
       then (Resp 409 (Errors [''event must have at least one ticket tier before publishing'']), w)
       else (Resp 200 (EventData ''event published successfully'' (e\<lparr>e_Status := Published, e_UpdatedAt := db_now w\<rparr>)),
             w\<lparr>db := flip_status [Draft] Published (e_ID e) (db_now w) (db w)\<rparr>))" if "faults w = []"
    using that assms quiet_flip [OF assms(1,3), of "[Draft]" Published] by (simp add: defs)
  show "fst (run_state (publishEvent c) w) = Panic"
    if "faults w = [False, True] \<and> e_Status e = Draft \<and> (\<exists>t \<in> set (ticket_tiers (db w)). t_EventID t = e_ID e)"
    using that assms by (auto simp: defs ok_next_def flip_event_def filter_empty_conv)
qed

lemma schema_demo_draft: "schema_ok (db demo_draft)"
  by (rule schema.world [OF reachable_demo(2)])

theorem publish_outcome_witness:
  "let c = \<lparr>userCtx = None, sessionCtx = None, eventCtx = Some (demo_e Draft)\<rparr>
   in map e_Status (events (db (snd (run_state (publishEvent c) demo_draft)))) = [Published]
    \<and> fst (run_state (publishEvent c) (demo_draft\<lparr>faults := [False, True]\<rparr>)) = Panic"
proof -
  let ?c = "\<lparr>userCtx = None, sessionCtx = None, eventCtx = Some (demo_e Draft)\<rparr>"
  have "schema_ok (db (demo_draft\<lparr>faults := [False, True]\<rparr>))" using schema_demo_draft by simp
  with publish_outcome [OF schema_demo_draft, of ?c "demo_e Draft"] publish_outcome [of "demo_draft\<lparr>faults := [False, True]\<rparr>" ?c "demo_e Draft"]
  show ?thesis by (simp add: demo_draft_at flip_status_def)
qed






end
