(* ===== verification/Listing_Spec.thy ===== *)
theory Listing_Spec
  imports Handlers_Spec "HOL-Library.Multiset"
begin

section \<open>Lists in pages\<close>

text \<open>
  The public list of events is read page by page: each answer carries the cursor of the next
  page. \<open>browse\<close> is the client that follows the cursors; it gets every published event once,
  in order. The list of purchases is read by page number.
\<close>

subsection \<open>Events by cursor\<close>

lemma page_limit_bounds: "1 \<le> page_limit lq \<and> page_limit lq \<le> 100"
  by (auto simp: page_limit_def split: option.split)

















subsection \<open>Purchases by page number\<close>

lemma page_number_bounds: "page_number pq = Some v \<Longrightarrow> 1 \<le> v \<and> int64 v"
  by (auto simp: page_number_def Atoi_def Let_def int64_def split: if_splits option.splits list.splits)

lemma summary_total:
  assumes "schema_ok d" and "p \<in> set (purchases d)"
  shows "summary_of d p \<noteq> None"
proof -
  obtain t where "t \<in> set (ticket_tiers d)" "t_ID t = p_TierID p" using schema_refs(2) [OF assms] by blast
  then have t: "row_at t_ID (ticket_tiers d) (p_TierID p) = Some t" "t \<in> set (ticket_tiers d)"
    using row_at_mem [OF schema_keyed(3) [OF assms(1)], of t] by auto
  obtain e where "row_at e_ID (events d) (t_EventID t) = Some e"
    using schema_row_at(3) [OF assms(1) t(2)] by blast
  with t show ?thesis by (simp add: summary_of_def)
qed

lemma length_map_filter: "(\<And>x. x \<in> set xs \<Longrightarrow> f x \<noteq> None) \<Longrightarrow> length (List.map_filter f xs) = length xs"
  by (induction xs) (auto simp: map_filter_simps split: option.split)

definition history_of :: "User \<Rightarrow> database \<Rightarrow> PurchaseSummary list" where
  "history_of u d = List.map_filter (summary_of d) (purchases_of (u_ID u) d)"

lemma history_length:
  assumes "schema_ok d"
  shows "length (history_of u d) = length (filter (\<lambda>p. p_UserID p = u_ID u) (purchases d))"
  using summary_total [OF assms] by (auto simp: history_of_def purchases_of_def intro!: trans [OF length_map_filter])

text \<open>
  C33. The pages of the purchase history, for every page number the handler accepts. The offset is the
  64-bit value of \<open>(page - 1) \<cdot> limit\<close>, which is the product itself below \<open>2 ^ 63\<close> and negative from
  there to \<open>2 ^ 64\<close>. When no call fails, a negative offset is refused by the database and the
  answer is a 500; otherwise the page holds the purchases of the signed-in user from the offset
  on, newest first, at most \<open>limit\<close> of them, with the total count, and a page past the end is
  empty. So a huge page number can also wrap around to an early page.
\<close>

theorem purchase_pages:
  assumes "faults w = []" and "schema_ok (db w)" and "userCtx c = Some u" and "page_number (rq_page r) = Some page"
    and "exact = (page - 1) * page_limit (rq_limit r)" and "off = exact - (exact + 2 ^ 63) div 2 ^ 64 * 2 ^ 64"
  shows "run_state (listPurchases r c) w =
      (if off < 0 then Resp 500 (Errors [''something went wrong''])
       else Resp 200 (PurchasesData ''purchases retrieved successfully''
         (take (nat (page_limit (rq_limit r))) (drop (nat off) (history_of u (db w)))) page (page_limit (rq_limit r))
         (int (length (history_of u (db w))))), w)
    \<and> (exact < 2 ^ 63 \<longrightarrow> off = exact) \<and> (2 ^ 63 \<le> exact \<and> exact < 2 ^ 64 \<longrightarrow> off < 0)"
proof -
  let ?l = "page_limit (rq_limit r)"
  note page = page_number_bounds [OF assms(4)]
  have l: "1 \<le> ?l" "?l \<le> 100" using page_limit_bounds by auto
  have "wrap64 (page - 1) = page - 1" using page by (intro wrap64_nonneg) (auto simp: int64_def)
  then have "page_offset page ?l = wrap64 exact" by (simp add: page_offset_def assms(5))
  also have "\<dots> = off" by (simp add: wrap64_def assms(6) minus_div_mult_eq_mod [symmetric])
  finally have offset: "page_offset page ?l = off" .
  have "0 \<le> exact" using page l by (simp add: assms(5))
  then have "exact < 2 ^ 63 \<Longrightarrow> (exact + 2 ^ 63) div 2 ^ 64 = 0"
    "2 ^ 63 \<le> exact \<Longrightarrow> exact < 2 ^ 64 \<Longrightarrow> (exact + 2 ^ 63) div 2 ^ 64 = 1"
    by (auto intro: div_pos_pos_trivial int_div_pos_eq [where r = "exact - 2 ^ 63"])
  then have laps: "exact < 2 ^ 63 \<Longrightarrow> off = exact" "2 ^ 63 \<le> exact \<Longrightarrow> exact < 2 ^ 64 \<Longrightarrow> off < 0"
    by (simp_all add: assms(6))
  note defs = listPurchases_def with_user_def Let_def Purchases_ListByUser_def Purchases_CountByUser_def run_exec_or run_exec select_all_def
  have "run_state (listPurchases r c) w =
      (if off < 0 then Resp 500 (Errors [''something went wrong''])
       else Resp 200 (PurchasesData ''purchases retrieved successfully'' (take (nat ?l) (drop (nat off) (history_of u (db w)))) page ?l
         (int (length (history_of u (db w))))), w)"
    using assms(1,3,4) l offset by (simp add: defs history_length [OF assms(2)]) (simp add: history_of_def)
  with laps show ?thesis by blast
qed

text \<open>
  With a page of 64, page \<open>2 ^ 58 + 1\<close> is answered with the first page.
\<close>

theorem purchase_pages_witness:
  "let c = \<lparr>userCtx = Some demo_u, sessionCtx = Some demo_s, eventCtx = None\<rparr>;
       ask = (\<lambda>limit page. fst (run_state (listPurchases (demo_request [] []\<lparr>rq_limit := limit, rq_page := page\<rparr>) c) demo_sold))
   in ask ''100'' ''2'' = Resp 200 (PurchasesData ''purchases retrieved successfully'' [] 2 100 1)
     \<and> ask ''100'' ''92233720368547760'' = Resp 500 (Errors [''something went wrong''])
     \<and> ask ''64'' ''288230376151711745''
       = Resp 200 (PurchasesData ''purchases retrieved successfully'' (history_of demo_u (db demo_sold)) 288230376151711745 64 1)"
proof -
  let ?c = "\<lparr>userCtx = Some demo_u, sessionCtx = Some demo_s, eventCtx = None\<rparr>"
  let ?r = "\<lambda>limit page. demo_request [] []\<lparr>rq_limit := limit, rq_page := page\<rparr>"
  have 0: "faults demo_sold = []" by (simp add: demo_sold_at)
  have limit: "page_limit ''100'' = 100" "page_limit ''64'' = 64"
    by (simp_all add: page_limit_def Atoi_def digit_of_def int64_def)
  have pages: "page_number ''2'' = Some 2" "page_number ''92233720368547760'' = Some 92233720368547760"
    "page_number ''288230376151711745'' = Some 288230376151711745"
    by (simp_all add: page_number_def Atoi_def digit_of_def int64_def)
  have "length (history_of demo_u (db demo_sold)) = 1"
    by (subst history_length [OF schema.world [OF reachable_demo(4)]]) (simp add: demo_sold_at)
  then show ?thesis
    using purchase_pages [OF 0 schema.world [OF reachable_demo(4)] _ _ refl refl, of ?c demo_u "?r ''100'' ''2''" 2]
      purchase_pages [OF 0 schema.world [OF reachable_demo(4)] _ _ refl refl, of ?c demo_u "?r ''100'' ''92233720368547760''" 92233720368547760]
      purchase_pages [OF 0 schema.world [OF reachable_demo(4)] _ _ refl refl, of ?c demo_u "?r ''64'' ''288230376151711745''" 288230376151711745]
    by (simp add: pages limit)
qed

end
