(* ===== verification/Codec_Spec.thy ===== *)
theory Codec_Spec
  imports Handlers_Spec
begin

section \<open>Tokens, cursors, password hashes and settings\<close>

text \<open>
  What is written is read back, and what is accepted was written with the key: the text formats
  of \<^verbatim>\<open>internal/qr\<close>, \<^verbatim>\<open>internal/cursor\<close>, \<^verbatim>\<open>internal/auth\<close> and the settings of
  \<^verbatim>\<open>internal/config\<close>.
\<close>

subsection \<open>Ticket tokens\<close>

lemma verify_generated:
  assumes "uuid_text_ok S P i" and "uuid_text_ok S P j" and "uuid_text_ok S P k"
  shows "VerifyToken P (GenerateToken S i j k s) s' =
    (if createHMAC (to_bytes (qr_payload S i j k)) s' = createHMAC (to_bytes (qr_payload S i j k)) s then Inr i else Inl ErrInvalidToken)"
proof -
  let ?p = "qr_payload S i j k" and ?h = "hex_EncodeToString (createHMAC (to_bytes (qr_payload S i j k)) s)"
  have "split_on CHR ''.'' (?p @ CHR ''.'' # ?h) = [?p, ?h]"
    using assms by (subst split_on_append) (simp_all add: qr_payload_no_dot uuid_text_ok_def split_on_plain hex_no_dot)
  with assms show ?thesis
    by (auto simp: VerifyToken_def GenerateToken_def Let_def b64_decode_encode hex_decode_encode qr_payload_split uuid_text_ok_def)
qed

text \<open>
  C34. Ticket tokens. A generated token verifies to its ticket under the same secret, and under another
  secret exactly if that has the same HMAC of the payload; conversely every accepted token is the
  base64url text of a payload and its HMAC under the secret, and the answer is the first of the
  three identifiers of that signed payload.
\<close>

theorem ticket_tokens:
  assumes "uuid_text_ok S P i" and "uuid_text_ok S P j" and "uuid_text_ok S P k"
  shows "VerifyToken P (GenerateToken S i j k s) s = Inr i
    \<and> (VerifyToken P (GenerateToken S i j k s) s' = Inr i
        \<longleftrightarrow> createHMAC (to_bytes (qr_payload S i j k)) s' = createHMAC (to_bytes (qr_payload S i j k)) s)
    \<and> (VerifyToken P token s = Inr t \<longrightarrow> (\<exists>x y z sig.
        b64_DecodeString token = Some (to_bytes (x @ CHR '':'' # y @ CHR '':'' # z @ CHR ''.'' # sig))
        \<and> hex_DecodeString sig = Some (createHMAC (to_bytes (x @ CHR '':'' # y @ CHR '':'' # z)) s) \<and> P x = Some t))"
proof (intro conjI impI)
  assume "VerifyToken P token s = Inr t"
  then show "\<exists>x y z sig. b64_DecodeString token = Some (to_bytes (x @ CHR '':'' # y @ CHR '':'' # z @ CHR ''.'' # sig))
      \<and> hex_DecodeString sig = Some (createHMAC (to_bytes (x @ CHR '':'' # y @ CHR '':'' # z)) s) \<and> P x = Some t"
  proof (rule verify_sound)
    fix payload sig x y z
    assume "b64_DecodeString token = Some (to_bytes (payload @ CHR ''.'' # sig))"
      and "hex_DecodeString sig = Some (createHMAC (to_bytes payload) s)" and "payload = x @ CHR '':'' # y @ CHR '':'' # z" and "P x = Some t"
    then show ?thesis by (intro exI [of _ x] exI [of _ y] exI [of _ z] exI [of _ sig]) simp
  qed
qed (simp_all add: verify_generated [OF assms])

theorem ticket_tokens_witness:
  "VerifyToken (uuid_Parse demo_app) (GenerateToken (uuid_String demo_app) 6 5 4 ''secret'') ''secret'' = Inr 6"
  using ticket_tokens [OF demo_text_ok(3,2,1)] by blast

subsection \<open>Cursors\<close>

lemma split_once_join:
  assumes "split_once c s = Some (a, b)"
  shows "s = a @ c # b"
proof -
  have "c \<in> set s" and a: "a = takeWhile (\<lambda>x. x \<noteq> c) s" and b: "b = tl (dropWhile (\<lambda>x. x \<noteq> c) s)"
    using assms by (auto simp: split_once_def split: if_splits)
  then have "dropWhile (\<lambda>x. x \<noteq> c) s \<noteq> []" by auto
  then have "dropWhile (\<lambda>x. x \<noteq> c) s = c # b" using hd_dropWhile [of "\<lambda>x. x \<noteq> c" s] by (metis b list.collapse)
  then show ?thesis using takeWhile_dropWhile_id [of "\<lambda>x. x \<noteq> c" s] by (simp add: a)
qed

text \<open>
  The cursor of an event with a four-digit year is read back as the same instant, to the
  nanosecond, and the same identifier, so different events have different cursors; an empty
  cursor, and any text that is not base64url of an instant, a comma and an identifier, is refused.
\<close>

lemma cursor_roundtrip:
  assumes "four_digit_year t" and "P (S u) = Some u" and "four_digit_year t'" and "P (S u') = Some u'"
  shows "Cursor_Decode P (Cursor_Encode S (t, u)) = Some (t, u)
    \<and> (Cursor_Encode S (t, u) = Cursor_Encode S (t', u') \<longleftrightarrow> t = t' \<and> u = u')
    \<and> Cursor_Decode P [] = None
    \<and> (Cursor_Decode P enc = Some (t, u) \<longrightarrow> (\<exists>ts i. b64_DecodeString enc = Some (to_bytes (ts @ CHR '','' # i))
        \<and> time_Parse ts = Some t \<and> P i = Some u))"
proof -
  have dec: "Cursor_Decode P (Cursor_Encode S (t, u)) = Some (t, u)" "Cursor_Decode P (Cursor_Encode S (t', u')) = Some (t', u')"
    using assms by (simp_all add: cursor_decode_encode)
  have "Cursor_Decode P [] = None" by (simp add: Cursor_Decode_def) code_simp
  moreover have "\<exists>ts i. b64_DecodeString enc = Some (to_bytes (ts @ CHR '','' # i)) \<and> time_Parse ts = Some t \<and> P i = Some u"
    if "Cursor_Decode P enc = Some (t, u)"
  proof -
    from that obtain raw ts i where "b64_DecodeString enc = Some raw" and s: "split_once CHR '','' (to_string raw) = Some (ts, i)"
      and "time_Parse ts = Some t" "P i = Some u"
      by (auto simp: Cursor_Decode_def split: option.splits)
    moreover have "raw = to_bytes (ts @ CHR '','' # i)"
      using split_once_join [OF s] by (metis to_bytes_to_string)
    ultimately show ?thesis by blast
  qed
  ultimately show ?thesis using dec by (metis Pair_inject option.inject)
qed

subsection \<open>Password hashes\<close>

text \<open>
  C35. Password hashes. The text that \<open>HashPassword\<close> stores contains parameters, salt and key, so that
  \<open>VerifyPassword\<close> accepts a password exactly if Argon2id gives the same key for it with the
  stored salt and parameters, in particular the password itself; with any parameters in range,
  under the law that the key has the requested length.
\<close>

theorem password_roundtrip:
  assumes "\<And>pw salt t m p n. length (IDKey pw salt t m p n) = n" and "hp_Memory p < 2 ^ 32" and "hp_Iterations p < 2 ^ 32"
    and "hp_Threads p < 2 ^ 8" and "run_state (HashPassword IDKey pw (Some p)) w = (Inr h, w')"
  shows "\<exists>salt. length salt = hp_SaltLength p
    \<and> (\<forall>pw'. VerifyPassword IDKey pw' h = Inr
        (IDKey (to_bytes pw) salt (hp_Iterations p) (hp_Memory p) (hp_Threads p) (hp_KeyLength p)
          = IDKey (to_bytes pw') salt (hp_Iterations p) (hp_Memory p) (hp_Threads p) (hp_KeyLength p)))
    \<and> VerifyPassword IDKey pw h = Inr True"
proof -
  define salt where "salt = map (rand_bytes w (drawn w)) [0..<hp_SaltLength p]"
  have salt: "length salt = hp_SaltLength p" by (simp add: salt_def)
  have h: "h = encode_hash p salt (IDKey (to_bytes pw) salt (hp_Iterations p) (hp_Memory p) (hp_Threads p) (hp_KeyLength p))"
    using assms(5) by (auto simp: HashPassword_def generateRandomBytes_def run_exec rand_Read_def Let_def salt_def split: if_splits)
  from salt have "params_ok p salt (IDKey (to_bytes pw) salt (hp_Iterations p) (hp_Memory p) (hp_Threads p) (hp_KeyLength p))"
    using assms(1-4) by (simp add: params_ok_def)
  from verify_encoded [OF this] salt h show ?thesis by (intro exI [of _ salt]) simp
qed

theorem password_roundtrip_witness:
  "\<exists>h w'. run_state (HashPassword demo_key ''password'' (Some DefaultHashParams)) demo0 = (Inr h, w')
    \<and> VerifyPassword demo_key ''password'' h = Inr True"
proof -
  obtain h w' where run: "run_state (HashPassword demo_key ''password'' (Some DefaultHashParams)) demo0 = (Inr h, w')"
    by (simp add: HashPassword_def generateRandomBytes_def run_exec rand_Read_def Let_def demo0_def)
  have "length (demo_key pw salt t m p n) = n" for pw salt t m p n by (simp add: demo_key_def)
  from password_roundtrip [OF this _ _ _ run] run show ?thesis by (auto simp: DefaultHashParams_def)
qed

end
