(* ===== verification/Worker_Spec.thy ===== *)
theory Worker_Spec
  imports Handlers_Spec
begin

section \<open>What the background tasks promise\<close>

text \<open>
  The periodic tasks of \<^verbatim>\<open>internal/worker/periodic.go\<close>: each changes exactly the rows that are
  due, and running it again at once changes nothing more.
\<close>

subsection \<open>Expired reservations\<close>











subsection \<open>Events that are over\<close>







end
