(* ===== verification/Races.thy ===== *)
theory Races
  imports Handlers_Spec
begin

section \<open>Interleaved requests\<close>

text \<open>
  \<open>updateTier\<close> reads the tier, computes the new row, and writes it back in separate statements
  without a transaction or a lock. Here a sale commits between the read and the write: the
  handler's read is at one world, the rest of the handler (\<open>save_tier\<close>) runs in the world after
  the sale.
\<close>

subsection \<open>An edit of a tier loses a sale\<close>

lemma sold_after_sale:
  assumes "p_TierID p' = i" and "p_Status p' = Confirmed"
  shows "sold_of i (sell p' ks ev now d) = sold_of i d + p_Quantity p'"
  using assms by (simp add: sold_of_def sell_rows)

lemma save_tier_purchases:
  assumes "run_state (save_tier e tx) w = (r, w')"
  shows "purchases (db w') = purchases (db w)"
proof -
  have "purchases (db w2) = purchases (db w1)" if "run_state (Tiers_Update tx) w1 = (x, w2)" for x w1 w2
    using that by (auto simp: Tiers_Update_def run_exec_or run_exec returning_one_def update_tiers_def update_stmt_def
      split: if_splits prod.splits sum.splits list.splits)
  moreover have "purchases (db w2) = purchases (db w1)" if "run_state (Events_SetStatus i st st') w1 = (x, w2)" for i st st' x w1 w2
    using that by (auto simp: Events_SetStatus_def run_exec_or run_exec update_events_def update_stmt_def split: if_splits)
  ultimately show ?thesis
    using assms by (fastforce simp: save_tier_def split: prod.splits sum.splits if_splits)
qed

text \<open>
  C38. A lost update. Let a tier be read by an edit that gives no quantity, or that computes the new
  remaining count from it, and let a sale of the tier commit before the edit writes. Then both
  answer successfully, and afterwards remaining and sold tickets together exceed the quantity by
  what was sold: the same places are on sale again, although each request alone, run atomically,
  keeps quantity = remaining + sold.
\<close>

theorem interleaved_edit_loses_sale:
  assumes "t \<in> set (ticket_tiers (db w))" and "sold_of (t_ID t) (db w) + t_Remaining t = t_Quantity t"
    and "run_state (Purchases_Create p ts) w = (Inr (p', ts'), w1)" and "p_TierID p = t_ID t"
    and "tx = t\<lparr>t_Name := name, t_Price := price\<rparr> \<or> tx = resized (t\<lparr>t_Name := name, t_Price := price\<rparr>) q"
    and "run_state (save_tier e tx) w1 = (Resp 200 (TierData m t'), w2)"
  shows "t' \<in> set (ticket_tiers (db w2)) \<and> t_ID t' = t_ID t
    \<and> sold_of (t_ID t) (db w2) + t_Remaining t' = t_Quantity t' + p_Quantity p \<and> 0 < p_Quantity p"
proof -
  from assms(3) obtain t0 :: Tier and e0 :: Event where p': "p' = purchase_row p (t_Price t0) (db_now w)" "purchase_check p'"
    and w1: "db w1 = sell p' ts (t_EventID t0) (db_now w) (db w)"
    by (elim Purchases_Create_InrE)
  have "sold_of (t_ID t) (db w2) = sold_of (t_ID t) (db w1)"
    using save_tier_purchases [OF assms(6)] by (rule sold_of_same)
  also have "\<dots> = sold_of (t_ID t) (db w) + p_Quantity p"
    unfolding w1 by (subst sold_after_sale) (simp_all add: p'(1) purchase_row_def assms(4))
  finally have sold: "sold_of (t_ID t) (db w2) = sold_of (t_ID t) (db w) + p_Quantity p" .
  have tx: "t_ID tx = t_ID t" "t_Quantity tx - t_Remaining tx = t_Quantity t - t_Remaining t"
    using assms(5) by (auto simp: resized_def Let_def)
  from save_tier_stored [OF assms(6)] obtain r where r: "r \<in> set (ticket_tiers (db w1))" "t_ID r = t_ID tx"
    and t': "t' = written_tier tx (db_now w1) r"
    and w2: "ticket_tiers (db w2) = upd (\<lambda>y. t_ID y = t_ID tx) (written_tier tx (db_now w1)) (ticket_tiers (db w1))" by blast
  have "t' \<in> set (ticket_tiers (db w2))" using r by (auto simp: w2 t' set_upd)
  moreover have "0 < p_Quantity p" using p' by (simp add: purchase_check_def purchase_row_def)
  ultimately show ?thesis using tx r(2) sold assms(2) by (simp add: t' written_tier_def)
qed


theorem interleaved_edit_loses_sale_witness:
  "\<exists>w1 w2 t'. run_state (Purchases_Create demo_p [demo_k]) demo_published = (Inr (demo_p, [demo_k]), w1)
    \<and> run_state (save_tier (demo_e Published) (demo_t 2)) w1 = (Resp 200 (TierData ''tier updated successfully'' t'), w2)
    \<and> sold_of 4 (db w2) + t_Remaining t' = t_Quantity t' + 1"
proof -
  let ?w1 = "world_at (demo_db [demo_e Published] [demo_t 1] [demo_p] [demo_k]) 8"
  have sale: "run_state (Purchases_Create demo_p [demo_k]) demo_published = (Inr (demo_p, [demo_k]), ?w1)"
    by (simp add: demo_published_at demo_create)
  obtain t' w2 where edit: "run_state (save_tier (demo_e Published) (demo_t 2)) ?w1
      = (Resp 200 (TierData ''tier updated successfully'' t'), w2)"
    by (simp add: save_tier_def Tiers_Update_def update_tiers_def run_defs tier_check_def int32_def)
  have "sold_of (t_ID (demo_t 2)) (db demo_published) + t_Remaining (demo_t 2) = t_Quantity (demo_t 2)"
    by (simp add: demo_published_at sold_of_def)
  moreover have "demo_t 2 = demo_t 2\<lparr>t_Name := t_Name (demo_t 2), t_Price := t_Price (demo_t 2)\<rparr>" by simp
  moreover have "demo_t 2 \<in> set (ticket_tiers (db demo_published))" by (simp add: demo_published_at)
  ultimately have "sold_of 4 (db w2) + t_Remaining t' = t_Quantity t' + 1"
    using interleaved_edit_loses_sale [where t = "demo_t 2" and name = "t_Name (demo_t 2)" and price = "t_Price (demo_t 2)", OF _ _ sale _ _ edit] by simp
  with sale edit show ?thesis by blast
qed

end
