(* ===== verification/Mailer.thy ===== *)
theory Mailer
  imports Config Go_Time Schema
begin

section \<open>Mails: \<^verbatim>\<open>internal/mailer\<close>\<close>

text \<open>
  How the Resend client turns a call of the \<open>Mailer\<close> interface into the request it posts: the
  templates of \<^verbatim>\<open>internal/mailer/templates\<close> line by line, executed with the escaping that
  \<^verbatim>\<open>html/template\<close> chooses for the place of each action (element content and title, or a quoted
  \<open>href\<close>). The request itself is an external call; whether it succeeds is the outcome of
  \<open>send_mail\<close> in the world of the model.
\<close>

subsection \<open>Escaping of \<^verbatim>\<open>html/template\<close>\<close>

text \<open>The replacement table of the package; a NUL becomes U+FFFD. Characters are bytes in UTF-8.\<close>

definition html_entities :: "(char \<times> string) list" where
  "html_entities = [(CHR ''&'', ''&amp;''), (CHR ''<'', ''&lt;''), (CHR ''>'', ''&gt;''), (CHR 0x22, ''&#34;''),
     (CHR 0x27, ''&#39;''), (CHR ''+'', ''&#43;'')]"

definition html_escape_char :: "char \<Rightarrow> string" where
  "html_escape_char c =
     (if c = CHR 0x00 then [CHR 0xEF, CHR 0xBF, CHR 0xBD]
      else case map_of html_entities c of Some e \<Rightarrow> e | None \<Rightarrow> [c])"

definition html_escape :: "string \<Rightarrow> string" where
  "html_escape s = concat (map html_escape_char s)"

text \<open>A URL is safe if it has no scheme or one of \<open>http\<close>, \<open>https\<close>, \<open>mailto\<close>.\<close>

definition isSafeURL :: "string \<Rightarrow> bool" where
  "isSafeURL s =
     (case split_once CHR '':'' s of
        None \<Rightarrow> True
      | Some (protocol, _) \<Rightarrow> CHR ''/'' \<in> set protocol \<or> ToLower protocol \<in> set [''http'', ''https'', ''mailto''])"

definition urlFilter :: "string \<Rightarrow> string" where
  "urlFilter s = (if isSafeURL s then s else ''#ZgotmplZ'')"

text \<open>Bytes that a URL may contain stay, an escape stays, every other byte is percent-encoded.\<close>

definition url_chars :: string where
  "url_chars = ''!#$&*+,/:;=?@[]-._~ABCDEFGHIJKLMNOPQRSTUVWXYZabcdefghijklmnopqrstuvwxyz0123456789''"

fun urlNormalize :: "string \<Rightarrow> string" where
  "urlNormalize [] = []"
| "urlNormalize (c # s) =
     (if c \<in> set url_chars then [c]
      else if c = CHR ''%'' \<and> 2 \<le> length s \<and> hex_value (s ! 0) \<noteq> None \<and> hex_value (s ! 1) \<noteq> None then [c]
      else CHR ''%'' # hex_EncodeToString (to_bytes [c]))
     @ urlNormalize s"

definition escape_href :: "string \<Rightarrow> string" where
  "escape_href s = html_escape (urlNormalize (urlFilter s))"

subsection \<open>Templates\<close>

text \<open>A piece of a template: literal text, or an action in element content or in a quoted \<open>href\<close>.\<close>

datatype piece = Lit string | Escaped string | Href string

type_synonym template_data = "string \<Rightarrow> string option"

definition field :: "template_data \<Rightarrow> string \<Rightarrow> string" where
  "field m k = (case m k of None \<Rightarrow> [] | Some s \<Rightarrow> s)"

fun execute_piece :: "template_data \<Rightarrow> piece \<Rightarrow> string" where
  "execute_piece m (Lit s) = s"
| "execute_piece m (Escaped k) = html_escape (field m k)"
| "execute_piece m (Href k) = escape_href (field m k)"

definition template_Execute :: "piece list \<Rightarrow> template_data \<Rightarrow> string" where
  "template_Execute ps m = concat (map (execute_piece m) ps)"

definition newline :: piece where "newline = Lit [CHR 0x0A]"
definition em_dash :: string where "em_dash = [CHR 0xE2, CHR 0x80, CHR 0x94]"
definition en_dash :: string where "en_dash = [CHR 0xE2, CHR 0x80, CHR 0x93]"

definition verification_template :: "piece list" where
  \<open>verification_template =
    [Lit ''<!doctype html>'', newline,
     Lit ''<html lang="en">'', newline,
     Lit ''  <head>'', newline,
     Lit ''    <meta charset="UTF-8" />'', newline,
     Lit ''    <meta name="viewport" content="width=device-width, initial-scale=1.0" />'', newline,
     Lit ''    <title>Verify your email</title>'', newline,
     Lit ''  </head>'', newline,
     Lit ''  <body>'', newline,
     Lit ''    <h1>Welcome to Gater!</h1>'', newline,
     Lit ''    <p>Hi <strong>'', Escaped ''Name'', Lit ''</strong>,</p>'', newline,
     Lit ''    <p>'', newline,
     Lit ''      Thanks for signing up. Please verify your email address by clicking the'', newline,
     Lit ''      button below:'', newline,
     Lit ''    </p>'', newline,
     Lit ''    <a href="'', Href ''VerifyURL'', Lit ''" class="button">Verify Email</a>'', newline,
     Lit ''    <p>Or copy and paste this link into your browser:</p>'', newline,
     Lit ''    <a href="'', Href ''VerifyURL'', Lit ''">'', Escaped ''VerifyURL'', Lit ''</a>'', newline,
     Lit ''    <p>This link expires in 1 hour.</p>'', newline,
     Lit ''    <div class="footer">'', newline,
     Lit ''      <p>If you didn't create an account, you can safely ignore this email.</p>'', newline,
     Lit ''    </div>'', newline,
     Lit ''  </body>'', newline,
     Lit ''</html>'', newline]\<close>

definition password_reset_template :: "piece list" where
  \<open>password_reset_template =
    [Lit ''<!doctype html>'', newline,
     Lit ''<html lang="en">'', newline,
     Lit ''  <head>'', newline,
     Lit ''    <meta charset="UTF-8" />'', newline,
     Lit ''    <meta name="viewport" content="width=device-width, initial-scale=1.0" />'', newline,
     Lit ''    <title>Reset your password</title>'', newline,
     Lit ''  </head>'', newline,
     Lit ''  <body>'', newline,
     Lit ''    <h1>Reset your password</h1>'', newline,
     Lit ''    <p>Hi <strong>'', Escaped ''Name'', Lit ''</strong>,</p>'', newline,
     Lit ''    <p>'', newline,
     Lit ''      You have requested to reset your password. Please click the button below'', newline,
     Lit ''      to proceed:'', newline,
     Lit ''    </p>'', newline,
     Lit ''    <a href="'', Href ''ResetURL'', Lit ''" class="button">Reset Password</a>'', newline,
     Lit ''    <p>Or copy and paste this link into your browser:</p>'', newline,
     Lit ''    <a href="'', Href ''ResetURL'', Lit ''">'', Escaped ''ResetURL'', Lit ''</a>'', newline,
     Lit ''    <p>This link expires in 15 minutes.</p>'', newline,
     Lit ''    <div class="footer">'', newline,
     Lit ''      <p>'', newline,
     Lit ''        If you didn't request a password reset, you can safely ignore this'', newline,
     Lit ''        email.'', newline,
     Lit ''      </p>'', newline,
     Lit ''    </div>'', newline,
     Lit ''  </body>'', newline,
     Lit ''</html>'', newline]\<close>

definition waitlist_template :: "piece list" where
  \<open>waitlist_template =
    [Lit ''<!doctype html>'', newline,
     Lit ''<html lang="en">'', newline,
     Lit ''  <head>'', newline,
     Lit ''    <meta charset="UTF-8" />'', newline,
     Lit ''    <meta name="viewport" content="width=device-width, initial-scale=1.0" />'', newline,
     Lit ''    <title>Ticket available '', Lit em_dash, Lit '' '', Escaped ''EventName'', Lit ''</title>'', newline,
     Lit ''  </head>'', newline,
     Lit ''  <body>'', newline,
     Lit ''    <h1>Good news, '', Escaped ''Name'', Lit ''!</h1>'', newline,
     Lit ''    <p>Hi <strong>'', Escaped ''Name'', Lit ''</strong>,</p>'', newline,
     Lit ''    <p>'', newline,
     Lit ''      A ticket for <strong>'', Escaped ''TierName'', Lit ''</strong> at'', newline,
     Lit ''      <strong>'', Escaped ''EventName'', Lit ''</strong> just became available. You are next'', newline,
     Lit ''      on the waitlist.'', newline,
     Lit ''    </p>'', newline,
     Lit ''    <p>'', newline,
     Lit ''      Please complete your purchase before <strong>'', Escaped ''ExpiresAt'', Lit ''</strong>.'', newline,
     Lit ''      After that, your reservation will expire and the ticket will be offered'', newline,
     Lit ''      to the next person in line.'', newline,
     Lit ''    </p>'', newline,
     Lit ''    <div class="footer">'', newline,
     Lit ''      <p>If you no longer want this ticket, you can safely ignore this email.</p>'', newline,
     Lit ''    </div>'', newline,
     Lit ''  </body>'', newline,
     Lit ''</html>'', newline]\<close>

definition event_updated_template :: "piece list" where
  \<open>event_updated_template =
    [Lit ''<!doctype html>'', newline,
     Lit ''<html lang="en">'', newline,
     Lit ''  <head>'', newline,
     Lit ''    <meta charset="UTF-8" />'', newline,
     Lit ''    <meta name="viewport" content="width=device-width, initial-scale=1.0" />'', newline,
     Lit ''    <title>Event updated '', Lit em_dash, Lit '' '', Escaped ''EventName'', Lit ''</title>'', newline,
     Lit ''  </head>'', newline,
     Lit ''  <body>'', newline,
     Lit ''    <h1>Event Update</h1>'', newline,
     Lit ''    <p>Hi <strong>'', Escaped ''Name'', Lit ''</strong>,</p>'', newline,
     Lit ''    <p>'', newline,
     Lit ''      The event <strong>'', Escaped ''EventName'', Lit ''</strong> you have tickets for has'', newline,
     Lit ''      been updated by the organizer. Changed fields:'', newline,
     Lit ''    </p>'', newline,
     Lit ''    <pre>'', Escaped ''ChangedFields'', Lit ''</pre>'', newline,
     Lit ''    <p>This change was made on <strong>'', Escaped ''MaterialChanged'', Lit ''</strong>.</p>'', newline,
     Lit ''    <p>'', newline,
     Lit ''      Because your deal changed, you have an extended right to cancel your'', newline,
     Lit ''      purchase until <strong>'', Escaped ''GraceUntil'', Lit ''</strong> '', Lit em_dash, Lit '' even if the normal'', newline,
     Lit ''      cancellation window has closed. This right is capped at the event's'', newline,
     Lit ''      start time.'', newline,
     Lit ''    </p>'', newline,
     Lit ''    <div class="footer">'', newline,
     Lit ''      <p>If this change works for you, no action is needed.</p>'', newline,
     Lit ''    </div>'', newline,
     Lit ''  </body>'', newline,
     Lit ''</html>'', newline]\<close>

definition event_cancelled_template :: "piece list" where
  \<open>event_cancelled_template =
    [Lit ''<!doctype html>'', newline,
     Lit ''<html lang="en">'', newline,
     Lit ''  <head>'', newline,
     Lit ''    <meta charset="UTF-8" />'', newline,
     Lit ''    <meta name="viewport" content="width=device-width, initial-scale=1.0" />'', newline,
     Lit ''    <title>Event cancelled '', Lit em_dash, Lit '' '', Escaped ''EventName'', Lit ''</title>'', newline,
     Lit ''  </head>'', newline,
     Lit ''  <body>'', newline,
     Lit ''    <h1>Event Cancellation</h1>'', newline,
     Lit ''    <p>Hi <strong>'', Escaped ''Name'', Lit ''</strong>,</p>'', newline,
     Lit ''    <p>'', newline,
     Lit ''      The event <strong>'', Escaped ''EventName'', Lit ''</strong> you have tickets for has'', newline,
     Lit ''      been cancelled by the organizer on'', newline,
     Lit ''      <strong>'', Escaped ''CancelledAt'', Lit ''</strong>.'', newline,
     Lit ''    </p>'', newline,
     Lit ''    <p>'', newline,
     Lit ''      You will receive a full refund for your purchase. Refunds are processed'', newline,
     Lit ''      automatically and should arrive within 5'', Lit en_dash, Lit ''10 business days, depending on'', newline,
     Lit ''      your bank.'', newline,
     Lit ''    </p>'', newline,
     Lit ''    <div class="footer">'', newline,
     Lit ''      <p>We're sorry for the inconvenience.</p>'', newline,
     Lit ''    </div>'', newline,
     Lit ''  </body>'', newline,
     Lit ''</html>'', newline]\<close>

subsection \<open>The client\<close>

record resendClient =
  rc_domain :: string
  rc_frontendURL :: string

definition NewResendClient :: "Config \<Rightarrow> resendClient" where
  "NewResendClient cfg = \<lparr>rc_domain = ResendDomain cfg, rc_frontendURL = FrontendURL cfg\<rparr>"

record SendEmailRequest =
  m_To :: "string list"
  m_From :: string
  m_Html :: string
  m_Subject :: string

definition getFrom :: "string \<Rightarrow> string" where
  "getFrom domain = ''Gater <gater@'' @ domain @ ''>''"

definition SendEmail :: "resendClient \<Rightarrow> string list \<Rightarrow> string \<Rightarrow> string \<Rightarrow> SendEmailRequest" where
  "SendEmail r to subject html = \<lparr>m_To = to, m_From = getFrom (rc_domain r), m_Html = html, m_Subject = subject\<rparr>"

text \<open>
  The layout \<open>Mon, 02 Jan 2006 15:04 UTC\<close> for the years 0 to 9999; the first day of the year 0 was
  a Saturday.
\<close>

definition day_names :: "string list" where
  "day_names = [''Sat'', ''Sun'', ''Mon'', ''Tue'', ''Wed'', ''Thu'', ''Fri'']"

definition month_names :: "string list" where
  "month_names = [''Jan'', ''Feb'', ''Mar'', ''Apr'', ''May'', ''Jun'', ''Jul'', ''Aug'', ''Sep'', ''Oct'', ''Nov'', ''Dec'']"

definition mail_time :: "instant \<Rightarrow> string" where
  "mail_time t =
     (let secs = nat (t div 1000000000 + int unix_days * 86400);
          sod = secs mod 86400
      in case date_of (secs div 86400) of
           (y, m, d) \<Rightarrow> day_names ! (secs div 86400 mod 7) @ '', '' @ pad_nat 2 d @ '' '' @ month_names ! (m - 1) @ '' ''
             @ pad_nat 4 y @ '' '' @ pad_nat 2 (sod div 3600) @ '':'' @ pad_nat 2 (sod div 60 mod 60) @ '' UTC'')"

definition SendVerificationEmail_mail :: "resendClient \<Rightarrow> string list \<Rightarrow> string \<Rightarrow> string \<Rightarrow> SendEmailRequest" where
  "SendVerificationEmail_mail r to name token = SendEmail r to ''Verify your email''
     (template_Execute verification_template
       (map_of [(''Name'', name), (''VerifyURL'', rc_frontendURL r @ ''/verify?token='' @ token)]))"

definition SendPasswordResetEmail_mail :: "resendClient \<Rightarrow> string list \<Rightarrow> string \<Rightarrow> string \<Rightarrow> SendEmailRequest" where
  "SendPasswordResetEmail_mail r to name token = SendEmail r to ''Reset your password''
     (template_Execute password_reset_template
       (map_of [(''Name'', name), (''ResetURL'', rc_frontendURL r @ ''/password-reset?token='' @ token)]))"

definition SendWaitlistNotification ::
  "resendClient \<Rightarrow> string list \<Rightarrow> string \<Rightarrow> string \<Rightarrow> string \<Rightarrow> instant \<Rightarrow> SendEmailRequest" where
  "SendWaitlistNotification r to name tierName eventName expiresAt =
     SendEmail r to (''A ticket is now available '' @ em_dash @ '' '' @ eventName)
     (template_Execute waitlist_template
       (map_of [(''Name'', name), (''TierName'', tierName), (''EventName'', eventName),
          (''ExpiresAt'', mail_time expiresAt)]))"

text \<open>The list of changed fields: one line for each, in the order in which the map is walked.\<close>

definition changed_list :: "(string \<times> string) list \<Rightarrow> string" where
  "changed_list cs = concat (map (\<lambda>(k, v). k @ '': '' @ v @ [CHR 0x0A]) cs)"

definition SendEventUpdatedNotification ::
  "resendClient \<Rightarrow> string list \<Rightarrow> string \<Rightarrow> string \<Rightarrow> (string \<times> string) list \<Rightarrow> instant \<Rightarrow> SendEmailRequest" where
  "SendEventUpdatedNotification r to name eventName changes materialChangedAt =
     SendEmail r to (''Event updated '' @ em_dash @ '' '' @ eventName)
     (template_Execute event_updated_template
       (map_of [(''Name'', name), (''EventName'', eventName), (''ChangedFields'', changed_list changes),
          (''MaterialChanged'', mail_time materialChangedAt),
          (''GraceUntil'', mail_time (materialChangedAt + 72 * time_Hour))]))"

definition SendEventCancelledNotification ::
  "resendClient \<Rightarrow> string list \<Rightarrow> string \<Rightarrow> string \<Rightarrow> instant \<Rightarrow> SendEmailRequest" where
  "SendEventCancelledNotification r to name eventName cancelledAt =
     SendEmail r to (''Event cancelled '' @ em_dash @ '' '' @ eventName)
     (template_Execute event_cancelled_template
       (map_of [(''Name'', name), (''EventName'', eventName), (''CancelledAt'', mail_time cancelledAt)]))"

text \<open>The request for a mail of the outbox: the implementation of the interface by this client.\<close>

fun request_of :: "resendClient \<Rightarrow> email \<Rightarrow> SendEmailRequest" where
  "request_of r (VerificationEmail to name token) = SendVerificationEmail_mail r to name token"
| "request_of r (PasswordResetEmail to name token) = SendPasswordResetEmail_mail r to name token"
| "request_of r (WaitlistNotification to name tierName eventName expiresAt) =
     SendWaitlistNotification r to name tierName eventName expiresAt"
| "request_of r (EventUpdatedNotification to name eventName changes changedAt) =
     SendEventUpdatedNotification r to name eventName changes changedAt"
| "request_of r (EventCancelledNotification to name eventName cancelledAt) =
     SendEventCancelledNotification r to name eventName cancelledAt"

fun template_of :: "email \<Rightarrow> piece list" where
  "template_of (VerificationEmail _ _ _) = verification_template"
| "template_of (PasswordResetEmail _ _ _) = password_reset_template"
| "template_of (WaitlistNotification _ _ _ _ _) = waitlist_template"
| "template_of (EventUpdatedNotification _ _ _ _ _) = event_updated_template"
| "template_of (EventCancelledNotification _ _ _ _) = event_cancelled_template"

end
