(* ===== verification/Task_Queue.thy ===== *)
theory Task_Queue
  imports Worker Go_Time
begin

section \<open>Tasks on the queue: the constructors and the mux of \<^verbatim>\<open>internal/worker\<close>\<close>

text \<open>
  A queued task is a type name and a JSON payload. The constructors marshal, the registered
  handlers unmarshal and run what \<open>run_task\<close> runs for the value. JSON is modelled as a tree (a number
  as its literal), not as text; struct fields are found by their exact names, and a missing or null field is Go's zero value.
  \<open>uuid_String\<close> and \<open>uuid_Parse\<close> stand for \<^verbatim>\<open>github.com/google/uuid\<close>.
\<close>

datatype json = JNull | JBool bool | JNumber string | JString string | JArray "json list" | JObject "(string \<times> json) list"

type_synonym asynq_Task = "string \<times> json"

definition TypeSendVerificationEmail :: string where "TypeSendVerificationEmail = ''auth:send_verification''"
definition TypeSendPasswordResetEmail :: string where "TypeSendPasswordResetEmail = ''auth:send_password_reset''"
definition TypeNotifyWaitlistEntry :: string where "TypeNotifyWaitlistEntry = ''waitlist:notify''"
definition TypeNotifyBuyersUpdated :: string where "TypeNotifyBuyersUpdated = ''event:notify_buyers_updated''"
definition TypeNotifyBuyersCancelled :: string where "TypeNotifyBuyersCancelled = ''event:notify_buyers_cancelled''"
definition TypeEndExpiredEvents :: string where "TypeEndExpiredEvents = ''events:end_expired''"
definition TypeExpireWaitlistReservations :: string where "TypeExpireWaitlistReservations = ''waitlist:expire''"

lemmas type_names = TypeSendVerificationEmail_def TypeSendPasswordResetEmail_def TypeNotifyWaitlistEntry_def
  TypeNotifyBuyersUpdated_def TypeNotifyBuyersCancelled_def TypeEndExpiredEvents_def TypeExpireWaitlistReservations_def

subsection \<open>Marshalling\<close>

text \<open>\<open>time.Time.MarshalJSON\<close> fails for years outside 0 to 9999.\<close>

definition marshal_time :: "instant \<Rightarrow> json option" where
  "marshal_time t = (if four_digit_year t then Some (JString (time_Format t)) else None)"

definition marshal_map :: "(string \<times> string) list \<Rightarrow> json" where
  "marshal_map m = JObject (map (\<lambda>(k, v). (k, JString v)) m)"

definition NewSendVerificationTask :: "string list \<Rightarrow> string \<Rightarrow> string \<Rightarrow> asynq_Task" where
  "NewSendVerificationTask to name token = (TypeSendVerificationEmail,
     JObject [(''To'', JArray (map JString to)), (''Name'', JString name), (''Token'', JString token)])"

definition NewSendPwdResetTask :: "string list \<Rightarrow> string \<Rightarrow> string \<Rightarrow> asynq_Task" where
  "NewSendPwdResetTask to name token = (TypeSendPasswordResetEmail,
     JObject [(''To'', JArray (map JString to)), (''Name'', JString name), (''Token'', JString token)])"

definition NewNotifyWaitlistEntryTask :: "(uuid \<Rightarrow> string) \<Rightarrow> uuid \<Rightarrow> asynq_Task" where
  "NewNotifyWaitlistEntryTask uuid_String tierID =
     (TypeNotifyWaitlistEntry, JObject [(''TierID'', JString (uuid_String tierID))])"

definition NewNotifyBuyersUpdatedTask ::
  "(uuid \<Rightarrow> string) \<Rightarrow> uuid \<Rightarrow> string \<Rightarrow> (string \<times> string) list \<Rightarrow> instant \<Rightarrow> asynq_Task option" where
  "NewNotifyBuyersUpdatedTask uuid_String eventID eventName changedFields materialChangedAt =
     map_option (\<lambda>at. (TypeNotifyBuyersUpdated,
       JObject [(''event_id'', JString (uuid_String eventID)), (''event_name'', JString eventName),
         (''changed_fields'', marshal_map changedFields), (''material_changed_at'', at)]))
     (marshal_time materialChangedAt)"

text \<open>The buyers are e-mail, name and identifier, copied from the rows.\<close>

definition marshal_buyer :: "(uuid \<Rightarrow> string) \<Rightarrow> string \<times> string \<times> uuid \<Rightarrow> json" where
  "marshal_buyer uuid_String b = (case b of (email, name, i) \<Rightarrow>
     JObject [(''email'', JString email), (''name'', JString name), (''id'', JString (uuid_String i))])"

definition buyers_cancelled ::
  "(uuid \<Rightarrow> string) \<Rightarrow> uuid \<Rightarrow> string \<Rightarrow> instant \<Rightarrow> (string \<times> string \<times> uuid) list \<Rightarrow> asynq_Task option" where
  "buyers_cancelled uuid_String eventID eventName cancelledAt buyers =
     map_option (\<lambda>at. (TypeNotifyBuyersCancelled,
       JObject [(''event_id'', JString (uuid_String eventID)), (''event_name'', JString eventName),
         (''cancelled_at'', at), (''buyers'', JArray (map (marshal_buyer uuid_String) buyers))]))
     (marshal_time cancelledAt)"

definition NewNotifyBuyersCancelledTask ::
  "(uuid \<Rightarrow> string) \<Rightarrow> uuid \<Rightarrow> string \<Rightarrow> instant \<Rightarrow> User list \<Rightarrow> asynq_Task option" where
  "NewNotifyBuyersCancelledTask uuid_String eventID eventName cancelledAt buyers =
     buyers_cancelled uuid_String eventID eventName cancelledAt (map (\<lambda>b. (u_Email b, u_Name b, u_ID b)) buyers)"

text \<open>The queued form of a task value; the periodic tasks have no payload.\<close>

fun queued :: "(uuid \<Rightarrow> string) \<Rightarrow> task \<Rightarrow> asynq_Task option" where
  "queued us (SendVerificationEmail to name token) = Some (NewSendVerificationTask to name token)"
| "queued us (SendPasswordResetEmail to name token) = Some (NewSendPwdResetTask to name token)"
| "queued us EndExpiredEvents = Some (TypeEndExpiredEvents, JNull)"
| "queued us ExpireWaitlistReservations = Some (TypeExpireWaitlistReservations, JNull)"
| "queued us (NotifyWaitlistEntry tierID) = Some (NewNotifyWaitlistEntryTask us tierID)"
| "queued us (NotifyBuyersUpdated i name changes at) = NewNotifyBuyersUpdatedTask us i name changes at"
| "queued us (NotifyBuyersCancelled i name at buyers) = buyers_cancelled us i name at buyers"

text \<open>What \<open>startWorkers\<close> registers with the scheduler.\<close>

definition periodic_tasks :: "(string \<times> asynq_Task) list" where
  "periodic_tasks =
     [(''@every 5m'', (TypeEndExpiredEvents, JNull)), (''@every 5m'', (TypeExpireWaitlistReservations, JNull))]"

subsection \<open>Unmarshalling\<close>

text \<open>\<open>None\<close> is an error of \<open>json.Unmarshal\<close>. The zero time is the start of the year 1.\<close>

fun fields :: "json \<Rightarrow> (string \<Rightarrow> json) option" where
  "fields JNull = Some (\<lambda>_. JNull)"
| "fields (JObject fs) = Some (\<lambda>k. case map_of fs k of None \<Rightarrow> JNull | Some v \<Rightarrow> v)"
| "fields _ = None"

fun un_string :: "json \<Rightarrow> string option" where
  "un_string JNull = Some []"
| "un_string (JString s) = Some s"
| "un_string _ = None"

fun un_all :: "(json \<Rightarrow> 'a option) \<Rightarrow> json list \<Rightarrow> 'a list option" where
  "un_all f [] = Some []"
| "un_all f (j # js) = (case (f j, un_all f js) of (Some x, Some xs) \<Rightarrow> Some (x # xs) | _ \<Rightarrow> None)"

fun un_array :: "(json \<Rightarrow> 'a option) \<Rightarrow> json \<Rightarrow> 'a list option" where
  "un_array f JNull = Some []"
| "un_array f (JArray js) = un_all f js"
| "un_array f _ = None"

fun un_map :: "json \<Rightarrow> (string \<times> string) list option" where
  "un_map JNull = Some []"
| "un_map (JObject fs) = map_option (zip (map fst fs)) (un_all un_string (map snd fs))"
| "un_map _ = None"

fun un_uuid :: "(string \<Rightarrow> uuid option) \<Rightarrow> json \<Rightarrow> uuid option" where
  "un_uuid up JNull = Some 0"
| "un_uuid up (JString s) = up s"
| "un_uuid up _ = None"

definition zero_time :: instant where "zero_time = - 62135596800 * 1000000000"

fun un_time :: "json \<Rightarrow> instant option" where
  "un_time JNull = Some zero_time"
| "un_time (JString s) = time_Parse s"
| "un_time _ = None"

definition un_mail :: "json \<Rightarrow> (string list \<times> string \<times> string) option" where
  "un_mail p =
     (case fields p of
        None \<Rightarrow> None
      | Some f \<Rightarrow>
          (case (un_array un_string (f ''To''), un_string (f ''Name''), un_string (f ''Token'')) of
             (Some to, Some name, Some token) \<Rightarrow> Some (to, name, token)
           | _ \<Rightarrow> None))"

text \<open>A buyer's identifier is parsed only for the log; an error of that is ignored.\<close>

definition un_buyer :: "(string \<Rightarrow> uuid option) \<Rightarrow> json \<Rightarrow> (string \<times> string \<times> uuid) option" where
  "un_buyer up j =
     (case fields j of
        None \<Rightarrow> None
      | Some f \<Rightarrow>
          (case (un_string (f ''email''), un_string (f ''name''), un_string (f ''id'')) of
             (Some email, Some name, Some i) \<Rightarrow> Some (email, name, case up i of None \<Rightarrow> 0 | Some u \<Rightarrow> u)
           | _ \<Rightarrow> None))"

subsection \<open>The handlers and the mux\<close>

definition with_decoded :: "'a option \<Rightarrow> ('a \<Rightarrow> task_result io) \<Rightarrow> task_result io" where
  "with_decoded d h = (case d of None \<Rightarrow> State_Monad.return TaskRetry | Some x \<Rightarrow> h x)"

definition process_verification :: "json \<Rightarrow> task_result io" where
  "process_verification p = with_decoded (un_mail p) (\<lambda>(to, name, token). HandleSendVerificationTask to name token)"

definition process_pwd_reset :: "json \<Rightarrow> task_result io" where
  "process_pwd_reset p = with_decoded (un_mail p) (\<lambda>(to, name, token). HandleSendPwdResetTask to name token)"

definition process_next_waiting :: "(string \<Rightarrow> uuid option) \<Rightarrow> json \<Rightarrow> task_result io" where
  "process_next_waiting up p =
     with_decoded (case fields p of None \<Rightarrow> None | Some f \<Rightarrow> un_uuid up (f ''TierID'')) HandleNotifyNextWaiting"

definition process_buyers_updated :: "(string \<Rightarrow> uuid option) \<Rightarrow> json \<Rightarrow> task_result io" where
  "process_buyers_updated up p = with_decoded
     (case fields p of
        None \<Rightarrow> None
      | Some f \<Rightarrow>
          (case (un_uuid up (f ''event_id''), un_string (f ''event_name''), un_map (f ''changed_fields''),
                 un_time (f ''material_changed_at'')) of
             (Some i, Some name, Some changes, Some at) \<Rightarrow> Some (i, name, changes, at)
           | _ \<Rightarrow> None))
     (\<lambda>(i, name, changes, at). HandleNotifyBuyersUpdated i name changes at)"

definition process_buyers_cancelled :: "(string \<Rightarrow> uuid option) \<Rightarrow> json \<Rightarrow> task_result io" where
  "process_buyers_cancelled up p = with_decoded
     (case fields p of
        None \<Rightarrow> None
      | Some f \<Rightarrow>
          (case (un_uuid up (f ''event_id''), un_string (f ''event_name''), un_time (f ''cancelled_at''),
                 un_array (un_buyer up) (f ''buyers'')) of
             (Some i, Some name, Some at, Some buyers) \<Rightarrow> Some (name, at, buyers)
           | _ \<Rightarrow> None))
     (\<lambda>(name, at, buyers). HandleNotifyBuyersCancelled name at buyers)"

definition NewServeMux :: "(string \<Rightarrow> uuid option) \<Rightarrow> (string \<times> (json \<Rightarrow> task_result io)) list" where
  "NewServeMux up =
     [(TypeSendVerificationEmail, process_verification),
      (TypeSendPasswordResetEmail, process_pwd_reset),
      (TypeEndExpiredEvents, \<lambda>_. HandleEndExpiredEvents),
      (TypeExpireWaitlistReservations, \<lambda>_. HandleExpireWaitlistReservations),
      (TypeNotifyWaitlistEntry, process_next_waiting up),
      (TypeNotifyBuyersUpdated, process_buyers_updated up),
      (TypeNotifyBuyersCancelled, process_buyers_cancelled up)]"

subsection \<open>Decoding what was encoded\<close>

text \<open>
  The interface of a marshalled value: what was marshalled is read back. Times, texts and maps
  provide it; lists of such values, and handlers that decode one, inherit it.
\<close>

locale wire =
  fixes marshal :: "'a \<Rightarrow> json option" and unmarshal :: "json \<Rightarrow> 'a option"
  assumes read_back: "marshal x = Some j \<Longrightarrow> unmarshal j = Some x"
begin

lemma marshal_inject: "marshal x = Some j \<Longrightarrow> marshal y = Some j \<Longrightarrow> x = y"
  by (metis option.inject read_back)

lemma list_read_back: "map marshal xs = map Some js \<Longrightarrow> un_all unmarshal js = Some xs"
  by (induction xs arbitrary: js) (auto simp: read_back)

end

interpretation wire_time: wire marshal_time un_time
  by unfold_locales (auto simp: marshal_time_def time_parse_format split: if_splits)

interpretation wire_text: wire "\<lambda>s. Some (JString s)" un_string
  by unfold_locales auto

lemma un_texts: "un_all un_string (map JString xs) = Some xs"
  by (rule wire_text.list_read_back) simp

interpretation wire_map: wire "\<lambda>m. Some (marshal_map m)" un_map
proof unfold_locales
  fix m j
  assume "Some (marshal_map m) = Some j"
  moreover have "un_all un_string (map (\<lambda>x. JString (snd x)) m) = Some (map snd m)"
    using un_texts [of "map snd m"] by (simp add: comp_def)
  ultimately show "un_map j = Some m"
    by (auto simp: marshal_map_def comp_def case_prod_beta zip_map_fst_snd)
qed

lemma un_buyer_marshal: "up (us i) = Some i \<Longrightarrow> un_buyer up (marshal_buyer us (email, name, i)) = Some (email, name, i)"
  by (simp add: un_buyer_def marshal_buyer_def)

lemma un_buyers_marshal:
  "(\<And>u. up (us u) = Some u) \<Longrightarrow> un_all (un_buyer up) (map (marshal_buyer us) bs) = Some bs"
  by (induction bs) (auto simp: un_buyer_marshal)

lemma mux_at:
  "map_of (NewServeMux up) TypeSendVerificationEmail = Some process_verification"
  "map_of (NewServeMux up) TypeSendPasswordResetEmail = Some process_pwd_reset"
  "map_of (NewServeMux up) TypeEndExpiredEvents = Some (\<lambda>_. HandleEndExpiredEvents)"
  "map_of (NewServeMux up) TypeExpireWaitlistReservations = Some (\<lambda>_. HandleExpireWaitlistReservations)"
  "map_of (NewServeMux up) TypeNotifyWaitlistEntry = Some (process_next_waiting up)"
  "map_of (NewServeMux up) TypeNotifyBuyersUpdated = Some (process_buyers_updated up)"
  "map_of (NewServeMux up) TypeNotifyBuyersCancelled = Some (process_buyers_cancelled up)"
  by (simp_all add: NewServeMux_def type_names)

lemmas new_task_defs = NewSendVerificationTask_def NewSendPwdResetTask_def NewNotifyWaitlistEntryTask_def
  NewNotifyBuyersUpdatedTask_def buyers_cancelled_def
lemmas payload_read_back = un_texts un_buyers_marshal wire_map.read_back [OF refl]
lemmas process_defs = process_verification_def process_pwd_reset_def process_next_waiting_def
  process_buyers_updated_def process_buyers_cancelled_def un_mail_def with_decoded_def

end
