(* ===== verification/Delivery_Spec.thy ===== *)
theory Delivery_Spec
  imports Mailer Task_Queue Handlers_Spec
begin

section \<open>What the queue and the mailer promise\<close>

text \<open>
  A task survives the queue: the registered handler does for the queued form what \<open>run_task\<close> does
  for the value. A mail is inert: nothing a user typed becomes markup, it is shown as typed, and
  the link with a token leads to the configured front end.
\<close>

subsection \<open>The queue\<close>

text \<open>
  What a readable payload is, field by field and without the decoder: every field that the
  handler's struct has is absent, null or of its type, an identifier parses and a time parses.
  The identifier of a buyer only has to be a text. The periodic handlers do not read a payload.
\<close>

datatype field_kind = KText | KTexts | KUuid | KTime | KTextMap | KBuyers

definition payload_fields :: "string \<Rightarrow> (string \<times> field_kind) list option" where
  "payload_fields ty = map_of
     [(TypeSendVerificationEmail, [(''To'', KTexts), (''Name'', KText), (''Token'', KText)]),
      (TypeSendPasswordResetEmail, [(''To'', KTexts), (''Name'', KText), (''Token'', KText)]),
      (TypeNotifyWaitlistEntry, [(''TierID'', KUuid)]),
      (TypeNotifyBuyersUpdated, [(''event_id'', KUuid), (''event_name'', KText), (''changed_fields'', KTextMap),
         (''material_changed_at'', KTime)]),
      (TypeNotifyBuyersCancelled, [(''event_id'', KUuid), (''event_name'', KText), (''cancelled_at'', KTime),
         (''buyers'', KBuyers)])] ty"

fun is_text :: "json \<Rightarrow> bool" where
  "is_text JNull = True"
| "is_text (JString _) = True"
| "is_text _ = False"

definition member :: "(string \<times> json) list \<Rightarrow> string \<Rightarrow> json" where
  "member fs k = (case map_of fs k of None \<Rightarrow> JNull | Some v \<Rightarrow> v)"

fun is_buyer :: "json \<Rightarrow> bool" where
  "is_buyer JNull = True"
| "is_buyer (JObject fs) = list_all (\<lambda>k. is_text (member fs k)) [''email'', ''name'', ''id'']"
| "is_buyer _ = False"

fun well_typed :: "(string \<Rightarrow> uuid option) \<Rightarrow> field_kind \<Rightarrow> json \<Rightarrow> bool" where
  "well_typed up k JNull = True"
| "well_typed up KText (JString _) = True"
| "well_typed up KUuid (JString s) = (up s \<noteq> None)"
| "well_typed up KTime (JString s) = (time_Parse s \<noteq> None)"
| "well_typed up KTexts (JArray js) = list_all is_text js"
| "well_typed up KBuyers (JArray js) = list_all is_buyer js"
| "well_typed up KTextMap (JObject fs) = list_all (\<lambda>(_, j). is_text j) fs"
| "well_typed _ _ _ = False"

definition readable :: "(string \<Rightarrow> uuid option) \<Rightarrow> string \<Rightarrow> json \<Rightarrow> bool" where
  "readable up ty p =
     (case payload_fields ty of
        None \<Rightarrow> True
      | Some ks \<Rightarrow>
          (case p of
             JNull \<Rightarrow> True
           | JObject fs \<Rightarrow> list_all (\<lambda>(k, kind). well_typed up kind (member fs k)) ks
           | _ \<Rightarrow> False))"

fun task_type :: "task \<Rightarrow> string" where
  "task_type (SendVerificationEmail _ _ _) = TypeSendVerificationEmail"
| "task_type (SendPasswordResetEmail _ _ _) = TypeSendPasswordResetEmail"
| "task_type EndExpiredEvents = TypeEndExpiredEvents"
| "task_type ExpireWaitlistReservations = TypeExpireWaitlistReservations"
| "task_type (NotifyWaitlistEntry _) = TypeNotifyWaitlistEntry"
| "task_type (NotifyBuyersUpdated _ _ _ _) = TypeNotifyBuyersUpdated"
| "task_type (NotifyBuyersCancelled _ _ _ _) = TypeNotifyBuyersCancelled"

lemma un_all_readable: "un_all f js = None \<longleftrightarrow> \<not> list_all (\<lambda>j. f j \<noteq> None) js"
  by (induction js) (auto split: option.splits)

lemma un_string_readable: "is_text j \<longleftrightarrow> un_string j \<noteq> None"
  by (cases j) auto

lemma fields_member: "Task_Queue.fields (JObject fs) = Some (member fs)"
  by (auto simp: member_def)

lemma un_buyer_readable: "is_buyer j \<longleftrightarrow> un_buyer up j \<noteq> None"
proof (cases j)
  case (JObject fs)
  then show ?thesis
    by (auto simp: un_buyer_def fields_member un_string_readable simp del: Task_Queue.fields.simps split: option.splits)
qed (simp_all add: un_buyer_def)

lemma field_readable:
  "well_typed up KText j \<longleftrightarrow> un_string j \<noteq> None"
  "well_typed up KTexts j \<longleftrightarrow> un_array un_string j \<noteq> None"
  "well_typed up KUuid j \<longleftrightarrow> un_uuid up j \<noteq> None"
  "well_typed up KTime j \<longleftrightarrow> un_time j \<noteq> None"
  "well_typed up KTextMap j \<longleftrightarrow> un_map j \<noteq> None"
  "well_typed up KBuyers j \<longleftrightarrow> un_array (un_buyer up) j \<noteq> None"
  by (cases j; simp add: un_all_readable un_string_readable un_buyer_readable [of _ up] list_all_iff case_prod_beta)+

lemma readable_fields:
  "payload_fields ty = Some ks \<Longrightarrow>
     readable up ty p \<longleftrightarrow> (case Task_Queue.fields p of None \<Rightarrow> False | Some f \<Rightarrow> list_all (\<lambda>(k, kind). well_typed up kind (f k)) ks)"
  by (cases p) (auto simp: readable_def fields_member list_all_iff simp del: Task_Queue.fields.simps(2))

lemma payload_fields_at:
  "payload_fields TypeSendVerificationEmail = Some [(''To'', KTexts), (''Name'', KText), (''Token'', KText)]"
  "payload_fields TypeSendPasswordResetEmail = Some [(''To'', KTexts), (''Name'', KText), (''Token'', KText)]"
  "payload_fields TypeNotifyWaitlistEntry = Some [(''TierID'', KUuid)]"
  "payload_fields TypeNotifyBuyersUpdated = Some [(''event_id'', KUuid), (''event_name'', KText),
     (''changed_fields'', KTextMap), (''material_changed_at'', KTime)]"
  "payload_fields TypeNotifyBuyersCancelled = Some [(''event_id'', KUuid), (''event_name'', KText), (''cancelled_at'', KTime),
     (''buyers'', KBuyers)]"
  "payload_fields TypeEndExpiredEvents = None" "payload_fields TypeExpireWaitlistReservations = None"
  by (simp_all add: payload_fields_def type_names)

text \<open>A handler reads its payload when it runs a task of its type, or fails without an effect.\<close>

definition decides :: "(string \<Rightarrow> uuid option) \<Rightarrow> string \<Rightarrow> (json \<Rightarrow> task_result io) \<Rightarrow> json \<Rightarrow> world \<Rightarrow> bool" where
  "decides up ty h p w \<longleftrightarrow>
     (if readable up ty p then \<exists>t. task_type t = ty \<and> h p = run_task t else run_state (h p) w = (TaskRetry, w))"

lemma decides_decoded:
  assumes "h p = with_decoded d f" and "readable up ty p \<longleftrightarrow> d \<noteq> None"
    and "\<And>x. \<exists>t. task_type t = ty \<and> f x = run_task t"
  shows "decides up ty h p w"
  using assms by (cases d) (auto simp: decides_def with_decoded_def)

lemma decoded_readable:
  "readable up TypeSendVerificationEmail p \<longleftrightarrow> un_mail p \<noteq> None"
  "readable up TypeSendPasswordResetEmail p \<longleftrightarrow> un_mail p \<noteq> None"
  by (auto simp: readable_fields [OF payload_fields_at(1)] readable_fields [OF payload_fields_at(2)] un_mail_def
    field_readable split: option.splits)

lemma handlers_decide:
  "decides up TypeSendVerificationEmail process_verification p w"
  "decides up TypeSendPasswordResetEmail process_pwd_reset p w"
  "decides up TypeNotifyWaitlistEntry (process_next_waiting up) p w"
  "decides up TypeNotifyBuyersUpdated (process_buyers_updated up) p w"
  "decides up TypeNotifyBuyersCancelled (process_buyers_cancelled up) p w"
  "decides up TypeEndExpiredEvents (\<lambda>_. HandleEndExpiredEvents) p w"
  "decides up TypeExpireWaitlistReservations (\<lambda>_. HandleExpireWaitlistReservations) p w"
proof -
  show "decides up TypeSendVerificationEmail process_verification p w"
    by (rule decides_decoded [OF process_verification_def decoded_readable(1)])
      (auto intro!: exI [of _ "SendVerificationEmail _ _ _"] split: prod.split)
  show "decides up TypeSendPasswordResetEmail process_pwd_reset p w"
    by (rule decides_decoded [OF process_pwd_reset_def decoded_readable(2)])
      (auto intro!: exI [of _ "SendPasswordResetEmail _ _ _"] split: prod.split)
  show "decides up TypeNotifyWaitlistEntry (process_next_waiting up) p w"
  proof (rule decides_decoded [OF process_next_waiting_def])
    show "\<exists>t. task_type t = TypeNotifyWaitlistEntry \<and> HandleNotifyNextWaiting x = run_task t" for x
      by (rule exI [of _ "NotifyWaitlistEntry x"]) simp
  qed (auto simp: readable_fields [OF payload_fields_at(3)] field_readable split: option.splits)
  show "decides up TypeNotifyBuyersUpdated (process_buyers_updated up) p w"
  proof (rule decides_decoded [OF process_buyers_updated_def])
    show "\<exists>t. task_type t = TypeNotifyBuyersUpdated
        \<and> (case x of (i, name, changes, at) \<Rightarrow> HandleNotifyBuyersUpdated i name changes at) = run_task t" for x
      by (cases x) (auto intro!: exI [of _ "NotifyBuyersUpdated _ _ _ _"])
  qed (auto simp: readable_fields [OF payload_fields_at(4)] field_readable split: option.splits)
  show "decides up TypeNotifyBuyersCancelled (process_buyers_cancelled up) p w"
  proof (rule decides_decoded [OF process_buyers_cancelled_def])
    show "\<exists>t. task_type t = TypeNotifyBuyersCancelled
        \<and> (case x of (name, at, buyers) \<Rightarrow> HandleNotifyBuyersCancelled name at buyers) = run_task t" for x
      by (cases x) (auto intro!: exI [of _ "NotifyBuyersCancelled 0 _ _ _"])
  qed (auto simp: readable_fields [OF payload_fields_at(5)] field_readable split: option.splits)
  show "decides up TypeEndExpiredEvents (\<lambda>_. HandleEndExpiredEvents) p w"
    by (auto simp: decides_def readable_def payload_fields_at intro: exI [of _ EndExpiredEvents])
  show "decides up TypeExpireWaitlistReservations (\<lambda>_. HandleExpireWaitlistReservations) p w"
    by (auto simp: decides_def readable_def payload_fields_at intro: exI [of _ ExpireWaitlistReservations])
qed

text \<open>
  C39. Tasks survive the queue. If identifiers are read back, the payload that a constructor marshals
  is unmarshalled by the handler registered for its type, which then does exactly what \<open>run_task\<close>
  does for the task; this covers the buyers of a cancelled event and the periodic tasks. Marshalling fails only for
  a time outside the years 0 to 9999 in the two notifications that carry one. On any payload
  whatever, a registered handler runs a task of its type when the payload is readable, and
  otherwise (not an object, a field of the wrong type, an identifier or a time that does not parse,
  also inside a list) fails for a retry without touching anything.
\<close>

theorem tasks_survive_queue:
  assumes "\<And>u. up (us u) = Some u"
  shows "(queued us t = Some (ty, p) \<longrightarrow> (\<exists>h. map_of (NewServeMux up) ty = Some h \<and> h p = run_task t))
    \<and> (queued us t = None \<longleftrightarrow> (case t of NotifyBuyersUpdated _ _ _ at \<Rightarrow> \<not> four_digit_year at
         | NotifyBuyersCancelled _ _ at _ \<Rightarrow> \<not> four_digit_year at | _ \<Rightarrow> False))
    \<and> NewNotifyBuyersCancelledTask us i name at buyers = queued us (NotifyBuyersCancelled i name at (buyer_snapshot buyers))
    \<and> map (\<lambda>(_, q). Some q) periodic_tasks = map (queued us) [EndExpiredEvents, ExpireWaitlistReservations]
    \<and> (\<forall>(ty, h) \<in> set (NewServeMux up).
         if readable up ty q then \<exists>t'. task_type t' = ty \<and> h q = run_task t' else run_state (h q) w = (TaskRetry, w))"
proof (intro conjI)
  show "queued us t = Some (ty, p) \<longrightarrow> (\<exists>h. map_of (NewServeMux up) ty = Some h \<and> h p = run_task t)"
    using assms
    by (cases t) (auto simp: new_task_defs process_defs mux_at payload_read_back dest!: wire_time.read_back)
  show "queued us t = None \<longleftrightarrow> (case t of NotifyBuyersUpdated _ _ _ at \<Rightarrow> \<not> four_digit_year at
         | NotifyBuyersCancelled _ _ at _ \<Rightarrow> \<not> four_digit_year at | _ \<Rightarrow> False)"
    by (cases t) (auto simp: new_task_defs marshal_time_def)
  show "NewNotifyBuyersCancelledTask us i name at buyers = queued us (NotifyBuyersCancelled i name at (buyer_snapshot buyers))"
    by (simp add: NewNotifyBuyersCancelledTask_def buyer_snapshot_def)
  show "map (\<lambda>(_, q). Some q) periodic_tasks = map (queued us) [EndExpiredEvents, ExpireWaitlistReservations]"
    by (simp add: periodic_tasks_def)
  show "\<forall>(ty, h) \<in> set (NewServeMux up).
      if readable up ty q then \<exists>t'. task_type t' = ty \<and> h q = run_task t' else run_state (h q) w = (TaskRetry, w)"
    using handlers_decide [of up q w] unfolding decides_def by (simp add: NewServeMux_def)
qed

text \<open>A promotion runs with its identifier; with a number, or a text that is no identifier, it fails.\<close>

theorem tasks_survive_queue_witness:
  "let up = (\<lambda>s. map_option word_of_nat (digits_value 0 s)) in
    \<exists>h. map_of (NewServeMux up) TypeNotifyWaitlistEntry = Some h
    \<and> h (JObject [(''TierID'', JString ''4'')]) = run_task (NotifyWaitlistEntry 4)
    \<and> run_state (h (JObject [(''TierID'', JNumber ''4'')])) demo_sold = (TaskRetry, demo_sold)
    \<and> run_state (h (JObject [(''TierID'', JString ''x'')])) demo_sold = (TaskRetry, demo_sold)"
proof -
  let ?up = "\<lambda>s. map_option word_of_nat (digits_value 0 s) :: uuid option"
  have read: "?up (show_nat (unat u)) = Some u" for u :: uuid
    by (simp add: digits_value_show)
  have "show_nat 4 = ''4''" by code_simp
  then have q: "queued (\<lambda>u. show_nat (unat u)) (NotifyWaitlistEntry 4)
      = Some (TypeNotifyWaitlistEntry, JObject [(''TierID'', JString ''4'')])"
    by (simp add: NewNotifyWaitlistEntryTask_def)
  note survive = tasks_survive_queue [of ?up "\<lambda>u. show_nat (unat u)", OF read]
  from survive q obtain h where h: "map_of (NewServeMux ?up) TypeNotifyWaitlistEntry = Some h"
    "h (JObject [(''TierID'', JString ''4'')]) = run_task (NotifyWaitlistEntry 4)" by blast
  then have mem: "(TypeNotifyWaitlistEntry, h) \<in> set (NewServeMux ?up)" by (rule_tac map_of_SomeD)
  have "digits_value 0 ''x'' = None" by code_simp
  then have bad: "\<not> readable ?up TypeNotifyWaitlistEntry (JObject [(''TierID'', JNumber ''4'')])"
    "\<not> readable ?up TypeNotifyWaitlistEntry (JObject [(''TierID'', JString ''x'')])"
    by (simp_all add: readable_def payload_fields_at member_def)
  have "run_state (h q) demo_sold = (TaskRetry, demo_sold)" if "\<not> readable ?up TypeNotifyWaitlistEntry q" for q
    using bspec [OF survive [THEN conjunct2, THEN conjunct2, THEN conjunct2, THEN conjunct2] mem] that by simp
  with bad h show ?thesis unfolding Let_def by blast
qed

subsection \<open>Mails\<close>

definition is_markup :: "char \<Rightarrow> bool" where
  "is_markup c \<longleftrightarrow> c = CHR ''<'' \<or> c = CHR ''>'' \<or> c = CHR 0x22"

text \<open>The literal part of a template.\<close>

fun literal :: "piece \<Rightarrow> string" where
  "literal (Lit s) = s"
| "literal _ = []"

text \<open>How a mail reader shows text with the character references of the table.\<close>

function show_text :: "string \<Rightarrow> string" where
  "show_text [] = []"
| "show_text (c # s) =
     (case find (\<lambda>(_, e). take (length e) (c # s) = e) html_entities of
        Some (d, e) \<Rightarrow> d # show_text (drop (length e - 1) s)
      | None \<Rightarrow> c # show_text s)"
  by pat_completeness auto
termination by (relation "measure length") auto

lemma inert_char: "filter is_markup (html_escape_char c) = []"
  by (auto simp: html_escape_char_def html_entities_def is_markup_def)

lemma inert: "filter is_markup (html_escape s) = []"
  by (induction s) (simp_all add: html_escape_def inert_char)

lemma inert_template: "filter is_markup (template_Execute ps m) = filter is_markup (concat (map literal ps))"
proof (induction ps)
  case (Cons x ps)
  then show ?case by (cases x) (simp_all add: template_Execute_def inert escape_href_def)
qed (simp add: template_Execute_def)

lemma show_escaped_char: "c \<noteq> CHR 0x00 \<Longrightarrow> show_text (html_escape_char c @ s) = c # show_text s"
  by (cases "map_of html_entities c") (auto simp: html_escape_char_def html_entities_def split: if_splits)

lemma show_escaped: "CHR 0x00 \<notin> set s \<Longrightarrow> show_text (html_escape s) = s"
  by (induction s) (auto simp: html_escape_def show_escaped_char)

lemmas request_defs = SendVerificationEmail_mail_def SendPasswordResetEmail_mail_def SendWaitlistNotification_def
  SendEventUpdatedNotification_def SendEventCancelledNotification_def SendEmail_def

text \<open>Plain URLs pass the filter and the normaliser unchanged.\<close>

lemma normalize_plain: "set s \<subseteq> set url_chars \<Longrightarrow> urlNormalize s = s"
  by (induction s) auto

lemma safe_append: "isSafeURL s \<Longrightarrow> CHR '':'' \<notin> set t \<Longrightarrow> isSafeURL (s @ t)"
  by (cases "CHR '':'' \<in> set s") (auto simp: isSafeURL_def split_once_def takeWhile_append1)

lemma url_no_nul: "CHR 0x00 \<notin> set url_chars"
  by code_simp

lemma hex_url: "set hex_chars \<subseteq> set url_chars" and hex_no_colon: "CHR '':'' \<notin> set hex_chars"
  by code_simp+

lemma shown_link:
  assumes "set f \<subseteq> set url_chars" and "isSafeURL f" and "set path \<subseteq> set url_chars" and "CHR '':'' \<notin> set path"
  shows "show_text (escape_href (f @ path @ hex_EncodeToString bs)) = f @ path @ hex_EncodeToString bs"
proof -
  have chars: "set (f @ path @ hex_EncodeToString bs) \<subseteq> set url_chars"
    using assms(1,3) set_hex [of bs] hex_url by auto
  have "CHR '':'' \<notin> set (path @ hex_EncodeToString bs)"
    using assms(4) set_hex [of bs] hex_no_colon by auto
  then have "isSafeURL (f @ path @ hex_EncodeToString bs)" by (rule safe_append [OF assms(2)])
  moreover have "CHR 0x00 \<notin> set (f @ path @ hex_EncodeToString bs)" using chars url_no_nul by blast
  ultimately show ?thesis
    using normalize_plain [OF chars] by (simp add: escape_href_def urlFilter_def show_escaped)
qed

lemma linked_template:
  assumes "i + 2 < length ps" and "ps ! i = Lit (s @ ''<a href=\"'')" and "ps ! (i + 1) = Href k" and "ps ! (i + 2) = Lit (CHR 0x22 # s')"
  shows "\<exists>a b. template_Execute ps m = a @ ''<a href=\"'' @ escape_href (field m k) @ ''\"'' @ b"
proof -
  have "ps = take i ps @ ps ! i # ps ! (i + 1) # ps ! (i + 2) # drop (i + 3) ps"
    using assms(1) by (simp add: Cons_nth_drop_Suc eval_nat_numeral)
  then have "template_Execute ps m
      = concat (map (execute_piece m) (take i ps @ ps ! i # ps ! (i + 1) # ps ! (i + 2) # drop (i + 3) ps))"
    unfolding template_Execute_def by simp
  then have "template_Execute ps m = (concat (map (execute_piece m) (take i ps)) @ s) @ ''<a href=\"''
      @ escape_href (field m k) @ ''\"'' @ s' @ concat (map (execute_piece m) (drop (i + 3) ps))"
    unfolding assms(2-4) by simp
  then show ?thesis by blast
qed

lemma reset_link:
  "\<exists>a b. template_Execute password_reset_template m = a @ ''<a href=\"'' @ escape_href (field m ''ResetURL'') @ ''\"'' @ b"
  by (rule linked_template [where i = 30 and s = "''    ''"])
    (simp_all add: password_reset_template_def newline_def)

lemma verification_link:
  "\<exists>a b. template_Execute verification_template m = a @ ''<a href=\"'' @ escape_href (field m ''VerifyURL'') @ ''\"'' @ b"
  by (rule linked_template [where i = 30 and s = "''    ''"])
    (simp_all add: verification_template_def newline_def)

text \<open>
  C40. Mails are inert and their links arrive. The angle brackets and double quotes of every mail are
  those of its template, whatever names, event names and changes it carries; escaped text without
  NUL is shown exactly as it was typed. When the configured front end is a plain \<open>http\<close> or
  \<open>https\<close> address, the first link of a verification or a reset mail is that address with the
  token of the mail, character for character.
\<close>

theorem mails_are_inert:
  assumes "set (rc_frontendURL r) \<subseteq> set url_chars" and "isSafeURL (rc_frontendURL r)"
  shows "filter is_markup (m_Html (request_of r m)) = filter is_markup (concat (map literal (template_of m)))
    \<and> (CHR 0x00 \<notin> set s \<longrightarrow> show_text (html_escape s) = s)
    \<and> (\<exists>a l b. m_Html (request_of r (VerificationEmail to name (hex_EncodeToString bs))) = a @ ''<a href=\"'' @ l @ ''\"'' @ b
        \<and> show_text l = rc_frontendURL r @ ''/verify?token='' @ hex_EncodeToString bs)
    \<and> (\<exists>a l b. m_Html (request_of r (PasswordResetEmail to name (hex_EncodeToString bs))) = a @ ''<a href=\"'' @ l @ ''\"'' @ b
        \<and> show_text l = rc_frontendURL r @ ''/password-reset?token='' @ hex_EncodeToString bs)"
proof -
  have plain: "set ''/verify?token='' \<subseteq> set url_chars" "CHR '':'' \<notin> set ''/verify?token=''"
    "set ''/password-reset?token='' \<subseteq> set url_chars" "CHR '':'' \<notin> set ''/password-reset?token=''"
    by (simp_all add: url_chars_def)
  note shown = shown_link [OF assms plain(1,2)] shown_link [OF assms plain(3,4)]
  have "filter is_markup (m_Html (request_of r m)) = filter is_markup (concat (map literal (template_of m)))"
    by (cases m) (simp_all add: request_defs inert_template)
  moreover obtain a b where "m_Html (request_of r (VerificationEmail to name (hex_EncodeToString bs)))
      = a @ ''<a href=\"'' @ escape_href (rc_frontendURL r @ ''/verify?token='' @ hex_EncodeToString bs) @ ''\"'' @ b"
    using verification_link [of "map_of [(''Name'', name), (''VerifyURL'', rc_frontendURL r @ ''/verify?token='' @ hex_EncodeToString bs)]"]
    by (auto simp: request_defs field_def)
  moreover obtain a' b' where "m_Html (request_of r (PasswordResetEmail to name (hex_EncodeToString bs)))
      = a' @ ''<a href=\"'' @ escape_href (rc_frontendURL r @ ''/password-reset?token='' @ hex_EncodeToString bs) @ ''\"'' @ b'"
    using reset_link [of "map_of [(''Name'', name), (''ResetURL'', rc_frontendURL r @ ''/password-reset?token='' @ hex_EncodeToString bs)]"]
    by (auto simp: request_defs field_def)
  ultimately show ?thesis using shown show_escaped by blast
qed

theorem mails_are_inert_witness:
  "filter is_markup (m_Html (request_of \<lparr>rc_domain = ''g.io'', rc_frontendURL = ''https://g.io''\<rparr>
       (EventCancelledNotification [''a@x''] ''<b>'' ''\"'' 0)))
     = filter is_markup (concat (map literal event_cancelled_template))
   \<and> show_text (html_escape ''<b>'') = ''<b>''"
proof -
  let ?r = "\<lparr>rc_domain = ''g.io'', rc_frontendURL = ''https://g.io''\<rparr>"
  have "set (rc_frontendURL ?r) \<subseteq> set url_chars" "isSafeURL (rc_frontendURL ?r)"
    by (simp_all add: url_chars_def isSafeURL_def split_once_def ToLower_def lower_char_def)
  from mails_are_inert [OF this, of "EventCancelledNotification [''a@x''] ''<b>'' ''\"'' 0" "''<b>''"] show ?thesis by simp
qed

end
