(* ===== verification/Observations.thy ===== *)
theory Observations
  imports Worker_Spec Delivery_Spec
begin

section \<open>Concrete runs that show what the program does not promise\<close>

text \<open>
  Runs of the model on the worlds of the scenario: behaviours that follow from the code as written and
  that a reader may not expect. They bound the theorems of the development, none of which claims more.
\<close>

text \<open>
  A promotion is committed before its mail is sent. When the mail fails, the task is retried, and the
  retry promotes the next entry: the first user holds a reservation nobody told them about.
\<close>

lemma outbox_world_at: "outbox (world_at d n) = []"
  by (simp add: demo_world_def demo0_def)

lemma failed_mail_skips_first:
  "\<exists>w1 w2. run_state (run_task (NotifyWaitlistEntry 4)) (demo_queue\<lparr>faults := [False, False, False, False, True]\<rparr>) = (TaskRetry, w1)
     \<and> run_state (run_task (NotifyWaitlistEntry 4)) w1 = (TaskDone, w2)
     \<and> outbox w1 = outbox demo_queue
     \<and> map (\<lambda>e. (w_UserID e, w_Status e)) (waitlist_entries (db w2)) = [(1, Notified), (8, Notified)]
     \<and> (\<exists>n tn en t. outbox w2 = outbox demo_queue @ [WaitlistNotification [''a@x''] n tn en t])"
  by (simp add: HandleNotifyNextWaiting_def demo_queue_def demo_sold_at Waitlist_NotifyNextWaiting_def run_defs next_waiting_def
      waiting_for_def waiting_row_def demo_entry_def demo_bob_def update_waitlist_def Let_def map_filter_simps send_mail_def
      outbox_world_at demo_u_def demo_user_def)

text \<open>The capacity of an event can be set below the quantity of its tiers.\<close>

definition demo_shrink :: UpdateEventPayload where
  "demo_shrink = \<lparr>ue_Name = None, ue_Description = None, ue_Location = None, ue_StartsAt = None, ue_EndsAt = None,
     ue_Capacity = Some 1, ue_CancellationAllowed = None, ue_CancellationHoursBefore = None,
     ue_MaxTicketsPerPurchase = None, ue_ConfirmMaterialChange = None\<rparr>"

lemma capacity_below_quantity:
  "\<exists>e w'. run_state (updateEvent demo_app (JsonBody demo_shrink)
       \<lparr>userCtx = Some demo_u, sessionCtx = Some demo_s, eventCtx = Some (demo_e Published)\<rparr>) demo_sold
     = (Resp 200 (EventData ''event updated successfully'' e), w')
     \<and> e_Capacity e = Some 1 \<and> (\<forall>t \<in> set (ticket_tiers (db w')). t_Quantity t = 2)"
  by (simp add: demo_sold_at updateEvent_def with_event_def with_payload_def json_Read_def ValidateStruct_def check_capacity_def
      Purchases_SumConfirmedQuantityByEvent_def confirmed_quantity_def of_event_def merge_event_def or_old_def changedMaterial_def
      save_event_def Events_Update_def update_events_def run_defs demo_shrink_def demo_e_def event_check_def int32_def)

text \<open>A ticket that was used is cancelled with its purchase, and its place is for sale again.\<close>

lemma used_ticket_is_resold:
  "\<exists>p w'. run_state (Purchases_Cancel 5 1) demo_admitted = (Inr (p, False), w')
     \<and> map k_Status (tickets (db demo_admitted)) = [Used] \<and> map k_Status (tickets (db w')) = [TkCancelled]
     \<and> map t_Remaining (ticket_tiers (db w')) = [2]"
proof -
  have "tier_check ((demo_t 1)\<lparr>t_Remaining := 2, t_Status := Available, t_UpdatedAt := 0\<rparr>)"
    by (simp add: tier_check_def int32_def)
  then show ?thesis
    by (simp add: demo_admitted_at Purchases_Cancel_def run_defs update_purchases_def update_tickets_def update_tiers_def
      update_events_def windowClosed_def wrap64_def)
qed

text \<open>Shrinking the only tier to what is sold leaves a published event without stock.\<close>

definition demo_shrink_tier :: UpdateTierPayload where
  "demo_shrink_tier = \<lparr>ut_Name = None, ut_Price = None, ut_Quantity = Some 1\<rparr>"

lemma published_without_stock:
  "\<exists>t' w'. run_state (updateTier demo_app (demo_request ''3'' ''4'') (JsonBody demo_shrink_tier)
      \<lparr>userCtx = Some demo_u, sessionCtx = Some demo_s, eventCtx = Some (demo_e Published)\<rparr>) demo_sold
      = (Resp 200 (TierData ''tier updated successfully'' t'), w')
     \<and> t_Status t' = SoldOut \<and> map e_Status (events (db w')) = [Published]"
  by (simp add: demo_sold_at updateTier_def with_event_def with_uuid_param_def Tiers_GetByID_def run_defs with_payload_def
      json_Read_def ValidateStruct_def demo_shrink_tier_def or_old_def below_capacity_def save_tier_def Tiers_Update_def update_tiers_def
      resized_def tier_check_def int32_def)

end
