(* ===== verification/Routing.thy ===== *)
theory Routing
  imports System
begin

section \<open>Methods, paths and CORS: the rest of \<^verbatim>\<open>mount\<close> in \<^verbatim>\<open>cmd/server/api.go\<close>\<close>

text \<open>
  \<open>mount\<close> of the running system says what runs for a call; here is under which method and pattern
  the router registers it, the answers for everything else, and the settings handed to the CORS
  middleware. How chi matches a path and how the middleware answers a preflight are not modelled.
\<close>

fun route_of :: "call \<Rightarrow> string \<times> string" where
  "route_of Health = (''GET'', ''/api/health'')"
| "route_of (Register _) = (''POST'', ''/api/auth/register'')"
| "route_of (Login _) = (''POST'', ''/api/auth/login'')"
| "route_of (VerifyEmail _) = (''POST'', ''/api/auth/verify-email'')"
| "route_of (ResendVerification _) = (''POST'', ''/api/auth/resend-verification'')"
| "route_of (ForgotPassword _) = (''POST'', ''/api/auth/forgot-password'')"
| "route_of (ResetPassword _) = (''POST'', ''/api/auth/reset-password'')"
| "route_of Google = (''GET'', ''/api/auth/google'')"
| "route_of GoogleCallback = (''GET'', ''/api/auth/google/callback'')"
| "route_of Me = (''GET'', ''/api/auth/me'')"
| "route_of BecomeOrganizer = (''POST'', ''/api/auth/become-organizer'')"
| "route_of Logout = (''POST'', ''/api/auth/logout'')"
| "route_of ListEvents = (''GET'', ''/api/events/'')"
| "route_of GetEvent = (''GET'', ''/api/events/{id}'')"
| "route_of ListTiers = (''GET'', ''/api/events/{id}/tiers'')"
| "route_of JoinWaitlist = (''POST'', ''/api/events/{id}/tiers/{tierId}/waitlist'')"
| "route_of LeaveWaitlist = (''DELETE'', ''/api/events/{id}/tiers/{tierId}/waitlist'')"
| "route_of (CreateEvent _) = (''POST'', ''/api/events/'')"
| "route_of (UpdateEvent _) = (''PATCH'', ''/api/events/{id}'')"
| "route_of DeleteEvent = (''DELETE'', ''/api/events/{id}'')"
| "route_of PublishEvent = (''POST'', ''/api/events/{id}/publish'')"
| "route_of CancelEvent = (''POST'', ''/api/events/{id}/cancel'')"
| "route_of GetWaitlist = (''GET'', ''/api/events/{id}/waitlist'')"
| "route_of (CheckIn _) = (''POST'', ''/api/events/{id}/checkin'')"
| "route_of (CreateTier _) = (''POST'', ''/api/events/{id}/tiers'')"
| "route_of (UpdateTier _) = (''PATCH'', ''/api/events/{id}/tiers/{tierId}'')"
| "route_of DeleteTier = (''DELETE'', ''/api/events/{id}/tiers/{tierId}'')"
| "route_of ListPurchases = (''GET'', ''/api/purchases/'')"
| "route_of (CreatePurchase _) = (''POST'', ''/api/purchases/'')"
| "route_of GetPurchase = (''GET'', ''/api/purchases/{id}'')"
| "route_of CancelPurchase = (''POST'', ''/api/purchases/{id}/cancel'')"

definition route_not_found :: "response io" where
  "route_not_found = WriteError 404 ''route not found''"

definition method_not_allowed :: "response io" where
  "method_not_allowed = WriteError 405 ''method not allowed''"

record cors_Options =
  AllowedOrigins :: "string list"
  AllowedMethods :: "string list"
  AllowedHeaders :: "string list"
  ExposedHeaders :: "string list"
  AllowCredentials :: bool
  MaxAge :: int

definition cors_options :: "Config \<Rightarrow> cors_Options" where
  "cors_options cfg = \<lparr>AllowedOrigins = [CORSAllowedOrigin cfg],
     AllowedMethods = [''GET'', ''POST'', ''PUT'', ''DELETE'', ''OPTIONS''],
     AllowedHeaders = [''Accept'', ''Authorization'', ''Content-Type''], ExposedHeaders = [''Link''],
     AllowCredentials = True, MaxAge = 300\<rparr>"

text \<open>Every registered method may be used across origins, except that of the two edits.\<close>

lemma cors_methods:
  "fst (route_of c) \<in> set (AllowedMethods (cors_options cfg)) \<longleftrightarrow> (\<forall>b. c \<noteq> UpdateEvent b) \<and> (\<forall>b. c \<noteq> UpdateTier b)"
  by (cases c) (simp_all add: cors_options_def)

text \<open>With a validated configuration the one allowed origin is a text, never the empty list.\<close>

lemma cors_origin:
  "Config_validate c = Inr cfg \<Longrightarrow> \<exists>o1. AllowedOrigins (cors_options cfg) = [o1] \<and> o1 \<noteq> []"
  using validated_settings(1) [of c cfg] by (simp add: cors_options_def required_settings_def)

end
