(* ===== verification/Spec2Isabelle.thy ===== *)
theory Spec2Isabelle
  imports Listing_Spec Codec_Spec Worker_Spec Races Observations Routing
begin

text \<open>
  Gater is a ticketing back end in Go: organizers publish events with ticket tiers, users buy and
  cancel tickets, join waitlists and are checked in with signed QR tokens; background tasks send
  mails, end events and promote the waitlist. This development models the program from the SQL
  statements up to the HTTP routes, runs it on concrete worlds, and proves what it promises.

  \<^bold>\<open>The world.\<close> \<open>Schema\<close> has the rows of \<^verbatim>\<open>internal/store\<close> as records, the tables of
  \<^verbatim>\<open>cmd/migrate/migrations\<close> as lists of rows with their checks, unique keys and foreign keys, and the
  record \<open>world\<close>: the database, the clocks of the database and of the process, the supply of
  identifiers and random bytes, the task queue, the mails sent, and \<open>faults\<close>, the outcomes of the
  coming external calls (a call fails when the next one is \<open>True\<close>, none fails when the list is
  empty). A program is a value of \<open>'a io\<close>, the state monad over \<open>world\<close>; an error is the left
  value of a sum. \<open>exec\<close> is one round trip, \<open>in_tx\<close> a transaction with its rollback.

  \<^bold>\<open>From the code to the theories.\<close>
  \<^item> \<open>Prelude\<close>, \<open>Go_Text\<close>, \<open>Go_Time\<close>, \<open>Sha256\<close>: integers of 64 bits, tables, and what the program uses
    of Go's standard library (strings, strconv, hex, base64, RFC 3339, SHA-256, HMAC), executable.
  \<^item> \<open>Events_Store\<close>, \<open>Tiers_Store\<close>, \<open>Purchases_Store\<close>, \<open>Tickets_Store\<close>, \<open>Waitlist_Store\<close>, \<open>Accounts_Store\<close>:
    every method of \<^verbatim>\<open>internal/store\<close>, statement by statement.
  \<^item> \<open>Qr\<close>, \<open>Cursor\<close>, \<open>Password\<close>, \<open>Config\<close>: \<^verbatim>\<open>internal/qr\<close>, \<^verbatim>\<open>internal/cursor\<close>, \<^verbatim>\<open>internal/auth\<close>,
    \<^verbatim>\<open>internal/config\<close>.
  \<^item> \<open>Api\<close>, \<open>Events_Api\<close>, \<open>Tiers_Api\<close>, \<open>Purchases_Api\<close>, \<open>Waitlist_Api\<close>, \<open>Accounts_Api\<close>: requests,
    responses, validation, middleware and every handler of \<^verbatim>\<open>cmd/server\<close>, one definition for each.
  \<^item> \<open>Worker\<close>, \<open>Task_Queue\<close>, \<open>Mailer\<close>: \<^verbatim>\<open>internal/worker\<close> (handlers on task values; constructors, JSON
    payloads and mux) and \<^verbatim>\<open>internal/mailer\<close> (templates and the escaping of \<^verbatim>\<open>html/template\<close>).
  \<^item> \<open>System\<close>, \<open>Routing\<close>: \<open>mount\<close> of \<^verbatim>\<open>cmd/server/api.go\<close> with the middleware of each route, methods,
    patterns and CORS settings. \<open>world_step\<close> is a transition of the whole system (a request is
    served; a task runs, perhaps again; a task leaves the queue; time passes and the environment
    chooses faults, identifiers and random bytes), \<open>reachable\<close> the worlds that arise.

  \<^bold>\<open>The specification and the refinement.\<close> \<open>Abstract\<close> states, without statements, transactions or faults,
  the changes the back end may make to the database: the relation \<open>db_step\<close> with one rule for each
  and its condition. \<open>Effects\<close> and \<open>Sales\<close> invert runs of statements and of the transactions,
  \<open>Refinement\<close> shows for every store method that writes, and \<open>Simulation\<close> for every handler and task,
  that its runs are sequences of these steps whatever call fails; hence every reachable database is a
  run of the specification (C5).

  \<^bold>\<open>Invariants.\<close> The interface \<open>db_invariant\<close> (\<open>Invariants\<close>) turns a property of the empty database kept by
  every step into one of all reachable worlds; it is interpreted for the schema, the stock of tiers
  (\<open>Stock\<close>), tickets, drafts and waitlist (\<open>Ticketing\<close>). The interface \<open>lifecycle\<close> (\<open>Lifecycle\<close>) does the
  same for rows that move along a relation of statuses; it is interpreted for events, purchases
  and tickets. \<open>codec\<close>, \<open>alphabet64\<close> and \<open>wire\<close> are the interfaces of encodings.

  \<^bold>\<open>The claims.\<close>
  \<^item> \<open>Safety\<close> and this theory: what holds in all reachable worlds and along all runs (C1 to C5, C9 to C11).
  \<^item> \<open>Store_Spec\<close>: the outcome of the transactions, refusal by refusal; that under any fault they do all or
    nothing, and refuse only for a reason in the rows; and the overflow of the cancellation window (C6 to C8, C12 to C15).
  \<^item> \<open>Access_Spec\<close>: who may do and see what, over the mounted routes (C16 to C19).
  \<^item> \<open>Accounts_Spec\<close>: sign-up, sign-in, mailed tokens and their limit, Google (C20 to C27).
  \<^item> \<open>Handlers_Spec\<close>, \<open>Listing_Spec\<close>: purchase to admission, resizing, publication, cancellation; paging (C28 to C33).
  \<^item> \<open>Codec_Spec\<close>, \<open>Worker_Spec\<close>, \<open>Delivery_Spec\<close>: round trips of tokens and password hashes, the periodic tasks,
    the queue (what was marshalled is run, what cannot be read is not) and the mails (C34 to C37, C39, C40).
  \<^item> \<open>Races\<close>: an interleaving that the sequential model excludes (C38). \<open>Observations\<close>: concrete runs that
    show what is not promised.
  \<^item> \<open>Scenario\<close>: a run of the system from an empty database to a sold ticket, on which the witnesses rest.

  \<^bold>\<open>Bounds and fuel.\<close> All loops of the program are recursions over lists or numbers. \<open>create_session\<close> has
  the three attempts of the code. \<open>browse\<close>, the client of the paged list, has fuel; one request per
  event and one more are shown to suffice. Go's \<open>int\<close> is wrapped to 64 bits where a product or sum may
  leave the range, columns are checked against 32 bits, and \<open>total\<close> is the wrapped product.

  \<^bold>\<open>Assumptions.\<close> A request or a task runs without interleaving (row locks serialise the store's
  transactions; \<open>Races\<close> shows where the handlers need more). Clocks stand still during a request, and are
  not rounded to microseconds. A failed commit has rolled back. Path parameters are compared as parsed
  identifiers. \<open>strings.ToLower\<close> and blanks are ASCII, e-mails are ordered by bytes. The lenient cases of
  \<open>time.Parse\<close> and duplicate or differently cased JSON keys are left out; JSON is a tree and texts are
  valid UTF-8; a payload is unmarshalled from the task as queued, and \<open>Enqueue\<close> in the handlers takes the
  task value, so the one failure of marshalling (C39) is not part of \<open>world\<close>. Maps are lists in
  the order they are filled. The constant attributes of cookies, logs and log-only values are omitted.
  The UUID package, the validator's rules, Argon2id, the OAuth client and Google's reply are parameters
  (the record \<open>app\<close>); where a claim needs a law of them it is a hypothesis, e.g. that a printed
  identifier is parsed back or that a key has the requested length.

  \<^bold>\<open>Not modelled.\<close> \<^verbatim>\<open>cmd/server/main.go\<close> beyond the periodic tasks, \<^verbatim>\<open>internal/db\<close>, \<^verbatim>\<open>internal/cache\<close>,
  \<^verbatim>\<open>internal/worker/client.go\<close> and \<^verbatim>\<open>cmd/migrate/main.go\<close> open connections and wire objects;
  \<^verbatim>\<open>internal/testdb\<close> serves the tests; \<^verbatim>\<open>cmd/server/analytics.go\<close> is empty. The path matching of chi, the
  CORS middleware, the HTTP server with its timeouts and shutdown, request logging and the delivery by
  Redis and Resend are third-party code whose behaviour is not in the repository; indexes and the
  down migrations have no effect on the statements.
\<close>

section \<open>Claims that span the components\<close>

text \<open>
  C1. Tickets are never oversold. In every reachable world the confirmed purchases of a tier hold at
  most its quantity, and what remains is between zero and the quantity.
\<close>

theorem never_oversold:
  assumes "reachable a w" and "t \<in> set (ticket_tiers (db w))"
  shows "sold_of (t_ID t) (db w) \<le> t_Quantity t \<and> 0 \<le> t_Remaining t \<and> t_Remaining t \<le> t_Quantity t"
  using core_world [OF assms(1)] assms(2) schema_checks(2)
  by (fastforce simp: stock_ok_def tier_balanced_def tier_check_def)

theorem never_oversold_witness:
  "sold_of 4 (db demo_sold) \<le> 2 \<and> sold_of 4 (db demo_sold) = 1"
  using never_oversold [OF reachable_demo(4), of "demo_t 1"] by (simp add: demo_sold_at sold_of_def)

end
